(* ===== verification/Go_Prelude.thy ===== *)
theory Go_Prelude
  imports Main "HOL-Library.Word" "HOL-Library.AList" "HOL-Library.Sublist"
begin

text \<open>
  Shared prelude: the part of Go and of its standard library that the services use on text,
  integers, headers and error returns.

  \<^item> Go strings are byte strings, modelled as \<^typ>\<open>string\<close> (a list of 8-bit characters).
  \<^item> Case mapping, case folding and letter classification are written out for ASCII text.
    Text that holds a byte above 0x7F goes through the tables of package \<open>unicode\<close>, which
    are a parameter of the model (the record \<open>unicode\<close> below).
  \<^item> \<open>int\<close> and \<open>int64\<close> values are \<^typ>\<open>int\<close>; where the code computes with values it has not
    bounded, the wrap-around is written out with \<open>wrap64\<close>.
  \<^item> A function that returns \<open>(T, error)\<close> returns a sum, the error on the left.
  \<^item> A call that may panic returns an \<open>outcome\<close>.
\<close>

named_theorems go_eval \<open>equations that evaluate the modelled library functions on closed text\<close>
named_theorems go_text \<open>facts about the modelled text functions\<close>

section \<open>Results, panics\<close>

datatype 'a outcome = Panic | Ret 'a

text \<open>A loop that calls a fallible function on each element and stops at the first error.\<close>

fun traverse :: "('a \<Rightarrow> 'e + 'b) \<Rightarrow> 'a list \<Rightarrow> 'e + 'b list" where
  "traverse f [] = Inr []"
| "traverse f (x # xs) =
     (case f x of Inl e \<Rightarrow> Inl e
      | Inr y \<Rightarrow> (case traverse f xs of Inl e \<Rightarrow> Inl e | Inr ys \<Rightarrow> Inr (y # ys)))"

lemma traverse_Inr_iff:
  "traverse f xs = Inr ys \<longleftrightarrow> list_all2 (\<lambda>x y. f x = Inr y) xs ys"
proof (induction xs arbitrary: ys)
  case (Cons x xs)
  then show ?case
    by (cases "f x"; cases "traverse f xs") (auto simp: list_all2_Cons1)
qed auto

lemma traverse_Inr_length: "traverse f xs = Inr ys \<Longrightarrow> length ys = length xs"
  by (auto simp: traverse_Inr_iff dest: list_all2_lengthD)

lemma traverse_Inr_set:
  "traverse f xs = Inr ys \<Longrightarrow> y \<in> set ys \<Longrightarrow> \<exists>x \<in> set xs. f x = Inr y"
  by (fastforce simp: traverse_Inr_iff list_all2_conv_all_nth in_set_conv_nth)

lemma traverse_total:
  "(\<And>x. x \<in> set xs \<Longrightarrow> \<exists>y. f x = Inr y) \<Longrightarrow> \<exists>ys. traverse f xs = Inr ys"
  by (induction xs) fastforce+

lemma traverse_Inl: "traverse f xs = Inl e \<Longrightarrow> \<exists>x \<in> set xs. f x = Inl e"
  by (induction xs) (auto split: sum.splits)

text \<open>The error branch of a sum, rewritten by the caller (\<open>fmt.Errorf("...: %w", err)\<close>).\<close>

definition wrap_err :: "('e \<Rightarrow> 'f) \<Rightarrow> 'e + 'a \<Rightarrow> 'f + 'a" where
  "wrap_err g r = (case r of Inl e \<Rightarrow> Inl (g e) | Inr x \<Rightarrow> Inr x)"

lemma wrap_err_simps [simp]:
  "wrap_err g (Inl e) = Inl (g e)" "wrap_err g (Inr x) = Inr x"
  by (simp_all add: wrap_err_def)

lemma wrap_err_eq_Inr [simp]: "wrap_err g r = Inr x \<longleftrightarrow> r = Inr x"
  by (cases r) auto

section \<open>Machine integers\<close>

definition wrap64 :: "int \<Rightarrow> int" where
  "wrap64 x = (x + 2 ^ 63) mod 2 ^ 64 - 2 ^ 63"

lemma wrap64_id: "- (2 ^ 63) \<le> x \<Longrightarrow> x < 2 ^ 63 \<Longrightarrow> wrap64 x = x"
  by (simp add: wrap64_def)

lemma wrap64_range: "- (2 ^ 63) \<le> wrap64 x \<and> wrap64 x < 2 ^ 63"
  by (auto simp: wrap64_def)

text \<open>Go's integer division truncates towards zero.\<close>

definition go_div :: "int \<Rightarrow> int \<Rightarrow> int" where
  "go_div a b = sgn a * sgn b * (\<bar>a\<bar> div \<bar>b\<bar>)"

lemma go_div_nonneg: "0 \<le> a \<Longrightarrow> 0 < b \<Longrightarrow> go_div a b = a div b"
  by (cases "a = 0") (auto simp: go_div_def)

section \<open>Bytes\<close>

abbreviation byte :: "char \<Rightarrow> nat" where
  "byte c \<equiv> of_char c"

definition is_ascii :: "char \<Rightarrow> bool" where
  "is_ascii c \<longleftrightarrow> byte c < 128"

definition is_upper :: "char \<Rightarrow> bool" where
  "is_upper c \<longleftrightarrow> 65 \<le> byte c \<and> byte c \<le> 90"

definition is_lower :: "char \<Rightarrow> bool" where
  "is_lower c \<longleftrightarrow> 97 \<le> byte c \<and> byte c \<le> 122"

definition is_digit :: "char \<Rightarrow> bool" where
  "is_digit c \<longleftrightarrow> 48 \<le> byte c \<and> byte c \<le> 57"

definition ascii_lower :: "char \<Rightarrow> char" where
  "ascii_lower c = (if is_upper c then char_of (byte c + 32) else c)"

definition ascii_upper :: "char \<Rightarrow> char" where
  "ascii_upper c = (if is_lower c then char_of (byte c - 32) else c)"

definition ascii_text :: "string \<Rightarrow> bool" where
  "ascii_text s \<longleftrightarrow> list_all is_ascii s"

lemmas [go_eval] = is_ascii_def is_upper_def is_lower_def is_digit_def
  ascii_lower_def ascii_upper_def ascii_text_def

lemma byte_less [simp]: "byte c < 256"
  using of_char_mod_256 [of c, where ?'a = nat] by (metis mod_less_divisor zero_less_numeral)

lemma byte_char_of: "n < 256 \<Longrightarrow> byte (char_of n) = n"
  by simp

lemma byte_ascii_lower:
  "byte (ascii_lower c) = (if is_upper c then byte c + 32 else byte c)"
  by (auto simp: ascii_lower_def is_upper_def)

lemma byte_ascii_upper:
  "byte (ascii_upper c) = (if is_lower c then byte c - 32 else byte c)"
  by (auto simp: ascii_upper_def is_lower_def)

lemma ascii_lower_idem [simp]: "ascii_lower (ascii_lower c) = ascii_lower c"
  by (auto simp: ascii_lower_def is_upper_def)

lemma ascii_lower_not_upper [simp]: "\<not> is_upper (ascii_lower c)"
  by (auto simp: is_upper_def byte_ascii_lower)

lemma is_ascii_lower [simp]: "is_ascii (ascii_lower c) = is_ascii c"
  by (auto simp: is_ascii_def byte_ascii_lower is_upper_def)

lemma ascii_text_simps [simp]:
  "ascii_text []" "ascii_text (c # s) \<longleftrightarrow> is_ascii c \<and> ascii_text s"
  "ascii_text (s @ t) \<longleftrightarrow> ascii_text s \<and> ascii_text t"
  by (simp_all add: ascii_text_def)

lemma ascii_text_lower [simp]: "ascii_text (map ascii_lower s) = ascii_text s"
  by (induction s) auto

lemma ascii_text_sublist: "sublist s t \<Longrightarrow> ascii_text t \<Longrightarrow> ascii_text s"
  by (auto simp: sublist_def)

section \<open>Package strings\<close>

text \<open>
  The tables of package \<open>unicode\<close>: what \<open>strings.ToLower\<close>, \<open>strings.EqualFold\<close> and a loop
  that accepts letters, digits and hyphens do on text with a byte above 0x7F.
\<close>

record unicode =
  uni_ToLower :: "string \<Rightarrow> string"
  uni_EqualFold :: "string \<Rightarrow> string \<Rightarrow> bool"
  uni_LetterDigitHyphen :: "string \<Rightarrow> bool"

text \<open>Tables for text that is ASCII throughout; used to evaluate closed examples.\<close>

definition ascii_tables :: unicode where
  "ascii_tables = \<lparr>uni_ToLower = id, uni_EqualFold = (=), uni_LetterDigitHyphen = (\<lambda>_. False)\<rparr>"

definition go_ToLower :: "unicode \<Rightarrow> string \<Rightarrow> string" where
  "go_ToLower u s = (if ascii_text s then map ascii_lower s else uni_ToLower u s)"

definition go_EqualFold :: "unicode \<Rightarrow> string \<Rightarrow> string \<Rightarrow> bool" where
  "go_EqualFold u s t =
     (if ascii_text s \<and> ascii_text t then map ascii_lower s = map ascii_lower t
      else uni_EqualFold u s t)"

definition go_HasPrefix :: "string \<Rightarrow> string \<Rightarrow> bool" where
  "go_HasPrefix s p \<longleftrightarrow> prefix p s"

definition go_HasSuffix :: "string \<Rightarrow> string \<Rightarrow> bool" where
  "go_HasSuffix s p \<longleftrightarrow> prefix (rev p) (rev s)"

definition go_TrimPrefix :: "string \<Rightarrow> string \<Rightarrow> string" where
  "go_TrimPrefix s p = (if go_HasPrefix s p then drop (length p) s else s)"

definition go_TrimSuffix :: "string \<Rightarrow> string \<Rightarrow> string" where
  "go_TrimSuffix s p = (if go_HasSuffix s p then take (length s - length p) s else s)"

definition go_Contains :: "string \<Rightarrow> string \<Rightarrow> bool" where
  "go_Contains s t \<longleftrightarrow> sublist t s"

definition go_ContainsAny :: "string \<Rightarrow> string \<Rightarrow> bool" where
  "go_ContainsAny s cs \<longleftrightarrow> list_ex (\<lambda>c. c \<in> set cs) s"

definition go_TrimLeft :: "string \<Rightarrow> string \<Rightarrow> string" where
  "go_TrimLeft s cs = dropWhile (\<lambda>c. c \<in> set cs) s"

definition go_TrimRight :: "string \<Rightarrow> string \<Rightarrow> string" where
  "go_TrimRight s cs = rev (dropWhile (\<lambda>c. c \<in> set cs) (rev s))"

definition go_Trim :: "string \<Rightarrow> string \<Rightarrow> string" where
  "go_Trim s cs = go_TrimRight (go_TrimLeft s cs) cs"

lemmas [go_eval] = go_ToLower_def go_EqualFold_def go_HasPrefix_def go_HasSuffix_def
  go_TrimPrefix_def go_TrimSuffix_def go_Contains_def go_ContainsAny_def
  go_TrimLeft_def go_TrimRight_def go_Trim_def

fun split_on :: "char \<Rightarrow> string \<Rightarrow> string list" where
  "split_on sep [] = [[]]"
| "split_on sep (c # s) =
     (if c = sep then [] # split_on sep s
      else (case split_on sep s of [] \<Rightarrow> [[c]] | w # ws \<Rightarrow> (c # w) # ws))"

fun go_Join :: "string list \<Rightarrow> string \<Rightarrow> string" where
  "go_Join [] sep = []"
| "go_Join [w] sep = w"
| "go_Join (w # v # ws) sep = w @ sep @ go_Join (v # ws) sep"

lemma split_on_not_Nil [simp]: "split_on c s \<noteq> []"
  by (induction s) (auto split: list.splits)

lemma split_on_no_sep: "w \<in> set (split_on c s) \<Longrightarrow> c \<notin> set w"
proof (induction s arbitrary: w)
  case (Cons a s)
  then show ?case by (cases "split_on c s") (auto split: if_splits)
qed simp

lemma Join_split_on: "go_Join (split_on c s) [c] = s"
proof (induction s)
  case (Cons a s)
  obtain w ws where ws: "split_on c s = w # ws" by (meson list.exhaust split_on_not_Nil)
  show ?case
  proof (cases ws)
    case Nil
    then show ?thesis using Cons ws by auto
  next
    case (Cons v vs)
    then show ?thesis using Cons.IH ws by auto
  qed
qed simp

lemma split_on_single: "c \<notin> set s \<Longrightarrow> split_on c s = [s]"
  by (induction s) auto

lemma split_on_append_sep: "c \<notin> set s \<Longrightarrow> split_on c (s @ c # t) = s # split_on c t"
  by (induction s) auto


subsection \<open>TrimSpace\<close>

text \<open>
  \<open>strings.TrimSpace\<close> removes the runes of \<open>unicode.IsSpace\<close> from both ends. The UTF-8
  encodings of these runes are listed here: the six ASCII spaces, U+0085, U+00A0, U+1680,
  U+2000 to U+200A, U+2028, U+2029, U+202F, U+205F and U+3000. UTF-8 is self-synchronising,
  so the first (last) rune of a text is one of them exactly when the text starts (ends) with
  its encoding.
\<close>

definition ascii_spaces :: string where
  "ascii_spaces = [CHR 0x09, CHR 0x0A, CHR 0x0B, CHR 0x0C, CHR 0x0D, CHR 0x20]"

definition wide_spaces :: "string list" where
  "wide_spaces =
     [[CHR 0xC2, CHR 0x85], [CHR 0xC2, CHR 0xA0], [CHR 0xE1, CHR 0x9A, CHR 0x80],
      [CHR 0xE2, CHR 0x80, CHR 0x80], [CHR 0xE2, CHR 0x80, CHR 0x81],
      [CHR 0xE2, CHR 0x80, CHR 0x82], [CHR 0xE2, CHR 0x80, CHR 0x83],
      [CHR 0xE2, CHR 0x80, CHR 0x84], [CHR 0xE2, CHR 0x80, CHR 0x85],
      [CHR 0xE2, CHR 0x80, CHR 0x86], [CHR 0xE2, CHR 0x80, CHR 0x87],
      [CHR 0xE2, CHR 0x80, CHR 0x88], [CHR 0xE2, CHR 0x80, CHR 0x89],
      [CHR 0xE2, CHR 0x80, CHR 0x8A], [CHR 0xE2, CHR 0x80, CHR 0xA8],
      [CHR 0xE2, CHR 0x80, CHR 0xA9], [CHR 0xE2, CHR 0x80, CHR 0xAF],
      [CHR 0xE2, CHR 0x81, CHR 0x9F], [CHR 0xE3, CHR 0x80, CHR 0x80]]"

definition space_runes :: "string list" where
  "space_runes = map (\<lambda>c. [c]) ascii_spaces @ wide_spaces"

text \<open>Removing members of a list of non-empty words from the front of a text.\<close>

function strip :: "string list \<Rightarrow> string \<Rightarrow> string" where
  "strip ps s =
     (case find (\<lambda>p. p \<noteq> [] \<and> prefix p s) ps of
        None \<Rightarrow> s
      | Some p \<Rightarrow> strip ps (drop (length p) s))"
  by pat_completeness auto
termination
proof (relation "measure (\<lambda>(ps, s). length s)", simp)
  fix ps :: "string list" and s p
  assume "find (\<lambda>p. p \<noteq> [] \<and> prefix p s) ps = Some p"
  then have "p \<noteq> [] \<and> prefix p s" by (auto simp: find_Some_iff)
  then show "((ps, drop (length p) s), ps, s) \<in> measure (\<lambda>(ps, s). length s)"
    using prefix_length_le [of p s] by (cases p) auto
qed

declare strip.simps [simp del]

definition go_TrimSpace :: "string \<Rightarrow> string" where
  "go_TrimSpace s = rev (strip (map rev space_runes) (rev (strip space_runes s)))"

text \<open>A text is trimmed when no listed word starts (ends) it.\<close>

definition starts_with_any :: "string list \<Rightarrow> string \<Rightarrow> bool" where
  "starts_with_any ps s \<longleftrightarrow> list_ex (\<lambda>p. p \<noteq> [] \<and> prefix p s) ps"

lemma starts_with_any_find:
  "starts_with_any ps s \<longleftrightarrow> find (\<lambda>p. p \<noteq> [] \<and> prefix p s) ps \<noteq> None"
  by (auto simp: starts_with_any_def find_None_iff list_ex_iff)

lemma strip_none: "\<not> starts_with_any ps s \<Longrightarrow> strip ps s = s"
  by (simp add: strip.simps [of ps s] starts_with_any_find)

lemma strip_trimmed: "\<not> starts_with_any ps (strip ps s)"
proof (induction ps s rule: strip.induct)
  case (1 ps s)
  show ?case
  proof (cases "find (\<lambda>p. p \<noteq> [] \<and> prefix p s) ps")
    case None
    then show ?thesis by (simp add: strip.simps [of ps s] starts_with_any_find)
  next
    case (Some p)
    then show ?thesis using 1 by (simp add: strip.simps [of ps s])
  qed
qed

lemma strip_suffix: "suffix (strip ps s) s"
proof (induction ps s rule: strip.induct)
  case (1 ps s)
  show ?case
  proof (cases "find (\<lambda>p. p \<noteq> [] \<and> prefix p s) ps")
    case (Some p)
    then show ?thesis using 1
      by (simp add: strip.simps [of ps s]) (meson suffix_drop suffix_order.trans)
  qed (simp add: strip.simps [of ps s])
qed

lemma starts_with_any_prefix:
  "starts_with_any ps t \<Longrightarrow> prefix t s \<Longrightarrow> starts_with_any ps s"
  by (auto simp: starts_with_any_def list_ex_iff intro: prefix_order.trans)

lemma TrimSpace_start: "\<not> starts_with_any space_runes (go_TrimSpace s)"
proof
  let ?l = "strip space_runes s"
  assume a: "starts_with_any space_runes (go_TrimSpace s)"
  have "prefix (go_TrimSpace s) ?l"
    using strip_suffix [of "map rev space_runes" "rev ?l"]
    by (simp add: go_TrimSpace_def suffix_to_prefix)
  with a have "starts_with_any space_runes ?l" by (rule starts_with_any_prefix)
  then show False using strip_trimmed by blast
qed

lemma TrimSpace_end: "\<not> starts_with_any (map rev space_runes) (rev (go_TrimSpace s))"
  using strip_trimmed by (simp add: go_TrimSpace_def)

lemma TrimSpace_id:
  "\<not> starts_with_any space_runes s \<Longrightarrow> \<not> starts_with_any (map rev space_runes) (rev s)
   \<Longrightarrow> go_TrimSpace s = s"
  by (simp add: go_TrimSpace_def strip_none)

lemma TrimSpace_idem [simp]: "go_TrimSpace (go_TrimSpace s) = go_TrimSpace s"
  by (rule TrimSpace_id [OF TrimSpace_start TrimSpace_end])

lemma TrimSpace_sublist: "sublist (go_TrimSpace s) s"
proof -
  have "prefix (go_TrimSpace s) (strip space_runes s)"
    using strip_suffix [of "map rev space_runes" "rev (strip space_runes s)"]
    by (simp add: go_TrimSpace_def suffix_to_prefix)
  then show ?thesis
    by (meson prefix_imp_sublist strip_suffix sublist_order.order.trans suffix_imp_sublist)
qed

lemma TrimSpace_Nil [simp]: "go_TrimSpace [] = []"
  using TrimSpace_sublist [of "[]"] by simp

text \<open>ASCII text whose end bytes are not spaces is unchanged.\<close>

lemma wide_spaces_not_ascii:
  "list_all (\<lambda>p. p \<noteq> [] \<and> \<not> is_ascii (hd p) \<and> \<not> is_ascii (hd (rev p))) wide_spaces"
  by (simp add: wide_spaces_def is_ascii_def)

lemma prefix_hd: "prefix p s \<Longrightarrow> p \<noteq> [] \<Longrightarrow> s \<noteq> [] \<and> hd s = hd p"
  by (auto simp: prefix_def)

lemma starts_with_any_ascii_aux:
  assumes "ascii_text s" and "\<And>p. p \<in> set ws \<Longrightarrow> p \<noteq> [] \<and> \<not> is_ascii (hd p)"
  shows "starts_with_any (map (\<lambda>c. [c]) cs @ ws) s \<longleftrightarrow> s \<noteq> [] \<and> hd s \<in> set cs"
proof -
  have "\<not> prefix p s" if "p \<in> set ws" for p
    using assms(1) assms(2) [OF that] prefix_hd [of p s] by (cases s) auto
  then show ?thesis
    by (cases s) (auto simp: starts_with_any_def list_ex_iff intro!: bexI [of _ "[hd s]"])
qed

lemma starts_with_any_ascii:
  assumes "ascii_text s"
  shows "starts_with_any space_runes s \<longleftrightarrow> s \<noteq> [] \<and> hd s \<in> set ascii_spaces"
    and "starts_with_any (map rev space_runes) s \<longleftrightarrow> s \<noteq> [] \<and> hd s \<in> set ascii_spaces"
proof -
  note wide = wide_spaces_not_ascii [unfolded list_all_iff]
  show "starts_with_any space_runes s \<longleftrightarrow> s \<noteq> [] \<and> hd s \<in> set ascii_spaces"
    unfolding space_runes_def using assms wide by (intro starts_with_any_ascii_aux) auto
  have "map rev space_runes = map (\<lambda>c. [c]) ascii_spaces @ map rev wide_spaces"
    by (simp add: space_runes_def)
  then show "starts_with_any (map rev space_runes) s \<longleftrightarrow> s \<noteq> [] \<and> hd s \<in> set ascii_spaces"
    using assms wide by (simp only:) (intro starts_with_any_ascii_aux, auto)
qed

lemma TrimSpace_ascii_id:
  assumes "ascii_text s" and "s \<noteq> [] \<Longrightarrow> hd s \<notin> set ascii_spaces \<and> last s \<notin> set ascii_spaces"
  shows "go_TrimSpace s = s"
proof (rule TrimSpace_id)
  show "\<not> starts_with_any space_runes s"
    using assms by (auto simp: starts_with_any_ascii)
  have "ascii_text (rev s)" using assms(1) by (simp add: ascii_text_def)
  then show "\<not> starts_with_any (map rev space_runes) (rev s)"
    using assms(2) by (auto simp: starts_with_any_ascii hd_rev)
qed

lemma TrimSpace_ascii: "ascii_text s \<Longrightarrow> ascii_text (go_TrimSpace s)"
  by (rule ascii_text_sublist [OF TrimSpace_sublist])

lemma TrimSpace_no_spaces:
  "ascii_text s \<Longrightarrow> set s \<inter> set ascii_spaces = {} \<Longrightarrow> go_TrimSpace s = s"
  by (rule TrimSpace_ascii_id) (auto dest: hd_in_set last_in_set)

lemma ToLower_ascii [simp]: "ascii_text s \<Longrightarrow> go_ToLower u s = map ascii_lower s"
  by (simp add: go_ToLower_def)

lemma ToLower_Nil [simp]: "go_ToLower u [] = []"
  by simp

lemma EqualFold_refl_ascii: "ascii_text s \<Longrightarrow> go_EqualFold u s s"
  by (simp add: go_EqualFold_def)

end
