(* ===== verification/Go_Numbers.thy ===== *)
theory Go_Numbers
  imports Go_Prelude
begin

text \<open>
  Numbers as text: \<open>strconv.Itoa\<close>, \<open>strconv.Atoi\<close> and \<open>strconv.ParseInt\<close> (base 10, 64 bits)
  and \<open>encoding/hex\<close>, with the round trip from an integer to its text and back.
\<close>

section \<open>Decimal digits\<close>

definition digit_char :: "nat \<Rightarrow> char" where
  "digit_char d = char_of (48 + d)"

definition digit_val :: "char \<Rightarrow> nat" where
  "digit_val c = byte c - 48"

lemma digit_val_digit_char [simp]: "d < 10 \<Longrightarrow> digit_val (digit_char d) = d"
  by (simp add: digit_val_def digit_char_def)

lemma is_digit_digit_char [simp]: "d < 10 \<Longrightarrow> is_digit (digit_char d)"
  by (simp add: is_digit_def digit_char_def)

fun decimal :: "nat \<Rightarrow> string" where
  "decimal n = (if n < 10 then [digit_char n] else decimal (n div 10) @ [digit_char (n mod 10)])"

declare decimal.simps [simp del]

lemma decimal_not_Nil [simp]: "decimal n \<noteq> []"
  by (subst decimal.simps) simp

lemma decimal_digits: "list_all is_digit (decimal n)"
proof (induction n rule: decimal.induct)
  case (1 n)
  then show ?case by (cases "n < 10") (simp_all add: decimal.simps [of n])
qed

text \<open>The value of a text of digits, most significant first.\<close>

definition digits_val :: "string \<Rightarrow> nat" where
  "digits_val s = foldl (\<lambda>v c. v * 10 + digit_val c) 0 s"

lemma digits_val_snoc: "digits_val (s @ [c]) = digits_val s * 10 + digit_val c"
  by (simp add: digits_val_def)

lemma digits_val_decimal [simp]: "digits_val (decimal n) = n"
proof (induction n rule: decimal.induct)
  case (1 n)
  then show ?case
    by (cases "n < 10")
      (simp_all add: decimal.simps [of n] digits_val_snoc, simp add: digits_val_def)
qed

lemma decimal_inject: "decimal m = decimal n \<Longrightarrow> m = n"
  by (metis digits_val_decimal)

lemma decimal_no_leading_zero: "n \<noteq> 0 \<Longrightarrow> hd (decimal n) \<noteq> digit_char 0"
proof (induction n rule: decimal.induct)
  case (1 n)
  show ?case
  proof (cases "n < 10")
    case True
    then show ?thesis
      using "1.prems"
      by (auto simp: decimal.simps [of n] dest!: arg_cong [where f = digit_val])
  next
    case False
    then show ?thesis using 1 by (simp add: decimal.simps [of n])
  qed
qed

section \<open>strconv\<close>

definition go_Itoa :: "int \<Rightarrow> string" where
  "go_Itoa i = (if i < 0 then ''-'' @ decimal (nat (- i)) else decimal (nat i))"

text \<open>
  \<open>strconv.ParseInt(s, 10, 64)\<close> and, on a 64-bit platform, \<open>strconv.Atoi\<close>: an optional sign,
  at least one digit, nothing else, and a value that fits in 64 bits; every error is \<open>None\<close>.
\<close>

definition parse_digits :: "string \<Rightarrow> nat option" where
  "parse_digits s = (if s \<noteq> [] \<and> list_all is_digit s then Some (digits_val s) else None)"

definition go_ParseInt64 :: "string \<Rightarrow> int option" where
  "go_ParseInt64 s =
     (case s of
        [] \<Rightarrow> None
      | c # t \<Rightarrow>
          if c = CHR ''-'' then
            (case parse_digits t of
               None \<Rightarrow> None
             | Some n \<Rightarrow> if int n \<le> 2 ^ 63 then Some (- int n) else None)
          else
            (case parse_digits (if c = CHR ''+'' then t else s) of
               None \<Rightarrow> None
             | Some n \<Rightarrow> if int n < 2 ^ 63 then Some (int n) else None))"

lemma parse_digits_decimal [simp]: "parse_digits (decimal n) = Some n"
  by (simp add: parse_digits_def decimal_digits)

lemma digit_hd: "list_all is_digit s \<Longrightarrow> s = c # t \<Longrightarrow> c \<noteq> CHR ''-'' \<and> c \<noteq> CHR ''+''"
  by (auto simp: is_digit_def)

lemma ParseInt64_Itoa:
  assumes "- (2 ^ 63) \<le> i" and "i < 2 ^ 63"
  shows "go_ParseInt64 (go_Itoa i) = Some i"
proof (cases "i < 0")
  case True
  then show ?thesis
    using assms by (simp add: go_Itoa_def go_ParseInt64_def)
next
  case False
  obtain c t where d: "decimal (nat i) = c # t" by (meson decimal_not_Nil list.exhaust)
  have "c \<noteq> CHR ''-'' \<and> c \<noteq> CHR ''+''"
    using decimal_digits d by (rule digit_hd)
  moreover have "parse_digits (c # t) = Some (nat i)"
    using parse_digits_decimal [of "nat i"] d by simp
  ultimately show ?thesis
    using False assms d by (simp add: go_Itoa_def go_ParseInt64_def)
qed

lemma ParseInt64_range:
  "go_ParseInt64 s = Some i \<Longrightarrow> - (2 ^ 63) \<le> i \<and> i < 2 ^ 63"
  by (auto simp: go_ParseInt64_def split: list.splits if_splits option.splits)

lemma Itoa_inject: "go_Itoa i = go_Itoa j \<Longrightarrow> i = j"
proof -
  assume eq: "go_Itoa i = go_Itoa j"
  have neg: "decimal m \<noteq> CHR ''-'' # t" for m t
    using decimal_digits [of m] digit_hd by metis
  show ?thesis
    using eq neg neg [symmetric]
    by (auto simp: go_Itoa_def split: if_splits dest!: decimal_inject)
qed

lemma Itoa_not_Nil [simp]: "go_Itoa i \<noteq> []"
  by (simp add: go_Itoa_def)

lemma Itoa_chars: "c \<in> set (go_Itoa i) \<Longrightarrow> c = CHR ''-'' \<or> is_digit c"
  using decimal_digits by (auto simp: go_Itoa_def list_all_iff split: if_splits)

section \<open>Hexadecimal\<close>

definition hex_digit :: "nat \<Rightarrow> char" where
  "hex_digit d = (if d < 10 then char_of (48 + d) else char_of (87 + d))"

text \<open>\<open>hex.EncodeToString\<close>: two lower-case digits for each byte.\<close>

definition go_HexEncode :: "string \<Rightarrow> string" where
  "go_HexEncode bs = concat (map (\<lambda>b. [hex_digit (byte b div 16), hex_digit (byte b mod 16)]) bs)"

text \<open>The digits \<open>net/url\<close> uses for percent-escapes.\<close>

definition upper_hex :: "nat \<Rightarrow> char" where
  "upper_hex d = (if d < 10 then char_of (48 + d) else char_of (55 + d))"

definition hex_val :: "char \<Rightarrow> nat option" where
  "hex_val c =
     (if is_digit c then Some (byte c - 48)
      else if 97 \<le> byte c \<and> byte c \<le> 102 then Some (byte c - 87)
      else if 65 \<le> byte c \<and> byte c \<le> 70 then Some (byte c - 55)
      else None)"

lemma byte_hex_digit: "d < 16 \<Longrightarrow> byte (hex_digit d) = (if d < 10 then 48 + d else 87 + d)"
  by (auto simp: hex_digit_def)

lemma hex_val_hex_digit [simp]: "d < 16 \<Longrightarrow> hex_val (hex_digit d) = Some d"
  by (auto simp: hex_val_def is_digit_def byte_hex_digit)

lemma hex_digit_inject: "a < 16 \<Longrightarrow> b < 16 \<Longrightarrow> hex_digit a = hex_digit b \<Longrightarrow> a = b"
  by (metis hex_val_hex_digit option.inject)

lemma HexEncode_length: "length (go_HexEncode bs) = 2 * length bs"
  by (induction bs) (auto simp: go_HexEncode_def)

lemma hex_digit_alphabet: "d < 16 \<Longrightarrow> is_digit (hex_digit d) \<or> 97 \<le> byte (hex_digit d) \<and> byte (hex_digit d) \<le> 102"
  by (auto simp: is_digit_def byte_hex_digit)

lemma HexEncode_inject: "go_HexEncode a = go_HexEncode b \<Longrightarrow> a = b"
proof (induction a arbitrary: b)
  case Nil
  then show ?case by (cases b) (auto simp: go_HexEncode_def)
next
  case (Cons x a)
  then obtain y b' where b: "b = y # b'"
    by (cases b) (auto simp: go_HexEncode_def)
  from Cons.prems b have "hex_digit (byte x div 16) = hex_digit (byte y div 16)"
    and "hex_digit (byte x mod 16) = hex_digit (byte y mod 16)"
    and rest: "go_HexEncode a = go_HexEncode b'"
    by (auto simp: go_HexEncode_def)
  then have "byte x div 16 = byte y div 16" and "byte x mod 16 = byte y mod 16"
    using byte_less [of x] byte_less [of y]
    by (auto intro!: hex_digit_inject [THEN sym, THEN sym] simp: less_mult_imp_div_less)
  then have "byte x = byte y" by (metis div_mod_decomp)
  with rest Cons.IH b show ?case by simp
qed

text \<open>The zero \<open>time.Time\<close> is the first instant of year 1; times are nanoseconds since 1970.\<close>

definition zero_time :: int where
  "zero_time = - 62135596800 * 1000000000"

lemmas [go_eval] = go_Itoa_def go_ParseInt64_def parse_digits_def digits_val_def digit_val_def
  decimal.simps digit_char_def hex_digit_def upper_hex_def go_HexEncode_def hex_val_def

end
