(* ===== verification/Go_Http.thy ===== *)
theory Go_Http
  imports Go_Numbers
begin

text \<open>
  The part of \<open>net\<close> and \<open>net/http\<close> the services use: \<open>net.SplitHostPort\<close>, header maps with
  canonical keys, query values, and the response writer of the HTTP server with its rules on
  status codes.
\<close>

section \<open>net.SplitHostPort\<close>

fun index_of :: "char \<Rightarrow> string \<Rightarrow> nat option" where
  "index_of c [] = None"
| "index_of c (d # s) = (if d = c then Some 0 else map_option Suc (index_of c s))"

definition last_index_of :: "char \<Rightarrow> string \<Rightarrow> nat option" where
  "last_index_of c s = map_option (\<lambda>i. length s - 1 - i) (index_of c (rev s))"

text \<open>
  The port starts after the last colon; a bracketed host ends just before it; an unbracketed
  host has no colon; no other bracket is left. Every error of the library is \<open>None\<close>.
\<close>

definition go_SplitHostPort :: "string \<Rightarrow> (string \<times> string) option" where
  "go_SplitHostPort hp =
     (case last_index_of (CHR '':'') hp of
        None \<Rightarrow> None
      | Some i \<Rightarrow>
          let port = drop (Suc i) hp in
          if hd hp = CHR ''['' then
            (case index_of (CHR '']'') hp of
               None \<Rightarrow> None
             | Some e \<Rightarrow>
                 if Suc e = i then
                   (if CHR ''['' \<in> set (drop 1 hp) \<or> CHR '']'' \<in> set (drop (Suc e) hp) then None
                    else Some (take (e - 1) (drop 1 hp), port))
                 else None)
          else
            let host = take i hp in
            if CHR '':'' \<in> set host then None
            else if CHR ''['' \<in> set hp \<or> CHR '']'' \<in> set hp then None
            else Some (host, port))"

lemma index_of_None: "index_of c s = None \<longleftrightarrow> c \<notin> set s"
  by (induction s) auto

lemma index_of_Some: "index_of c s = Some i \<Longrightarrow> i < length s \<and> s ! i = c \<and> c \<notin> set (take i s)"
  by (induction s arbitrary: i) (auto split: if_splits)

lemma index_of_append: "c \<notin> set s \<Longrightarrow> index_of c (s @ c # t) = Some (length s)"
  by (induction s) auto

lemma last_index_of_None: "last_index_of c s = None \<longleftrightarrow> c \<notin> set s"
  by (simp add: last_index_of_def index_of_None)

lemma last_index_of_append: "c \<notin> set t \<Longrightarrow> last_index_of c (s @ c # t) = Some (length s)"
  by (simp add: last_index_of_def index_of_append)

lemma last_index_of_Some:
  assumes "last_index_of c s = Some i"
  shows "i < length s" and "s = take i s @ c # drop (Suc i) s" and "c \<notin> set (drop (Suc i) s)"
proof -
  from assms obtain j where j: "index_of c (rev s) = Some j" and i: "i = length s - 1 - j"
    by (auto simp: last_index_of_def)
  note J = index_of_Some [OF j]
  from J i show lt: "i < length s" by auto
  from J i lt have "s ! i = c" by (auto simp: rev_nth)
  with lt show "s = take i s @ c # drop (Suc i) s" by (metis id_take_nth_drop)
  have "j = length s - Suc i" using J i by auto
  then have "take j (rev s) = rev (drop (Suc i) s)" by (simp add: rev_drop)
  with J show "c \<notin> set (drop (Suc i) s)" by (metis set_rev)
qed

lemma SplitHostPort_None: "CHR '':'' \<notin> set hp \<Longrightarrow> go_SplitHostPort hp = None"
  using last_index_of_None [of "CHR '':''" hp] by (simp add: go_SplitHostPort_def)

text \<open>A host without colons or brackets, joined with a port, splits into the same parts.\<close>

lemma SplitHostPort_plain:
  assumes "set host \<inter> set '':[]'' = {}" and "set port \<inter> set '':[]'' = {}"
  shows "go_SplitHostPort (host @ '':'' @ port) = Some (host, port)"
proof -
  have i: "last_index_of (CHR '':'') (host @ CHR '':'' # port) = Some (length host)"
    using assms(2) by (intro last_index_of_append) auto
  have "hd (host @ CHR '':'' # port) \<noteq> CHR ''[''"
    using assms(1) by (cases host) auto
  with i assms show ?thesis by (auto simp: go_SplitHostPort_def)
qed

text \<open>The host of a successful split of an unbracketed text has no colon and no bracket.\<close>

lemma SplitHostPort_host:
  assumes "go_SplitHostPort hp = Some (host, port)" and "hd hp \<noteq> CHR ''[''"
  shows "set host \<inter> set '':[]'' = {} \<and> hp = host @ '':'' @ port"
proof -
  obtain i where i: "last_index_of (CHR '':'') hp = Some i"
    using assms by (auto simp: go_SplitHostPort_def split: option.splits)
  with assms have h: "host = take i hp" "port = drop (Suc i) hp"
    and n: "CHR '':'' \<notin> set (take i hp)" "CHR ''['' \<notin> set hp" "CHR '']'' \<notin> set hp"
    by (auto simp: go_SplitHostPort_def Let_def split: if_splits)
  then show ?thesis
    using last_index_of_Some [OF i] by (auto dest: in_set_takeD)
qed

section \<open>Headers\<close>

text \<open>
  \<open>http.Header\<close> and \<open>url.Values\<close> are maps from a name to a list of values. They are
  modelled as association lists with distinct keys, in the order a Go \<open>range\<close> visits them.
\<close>

type_synonym values_map = "(string \<times> string list) list"

text \<open>The token characters of RFC 7230, \<open>textproto.validHeaderFieldByte\<close>.\<close>

definition header_field_byte :: "char \<Rightarrow> bool" where
  "header_field_byte c \<longleftrightarrow>
     is_digit c \<or> is_lower c \<or> is_upper c \<or> c \<in> set ''!#$%&'' \<or> byte c = 39 \<or>
     c \<in> set ''*+-.^_'' \<or> byte c = 96 \<or> c \<in> set ''|~''"

fun canon_mime :: "bool \<Rightarrow> string \<Rightarrow> string" where
  "canon_mime upper [] = []"
| "canon_mime upper (c # s) =
     (let d = (if upper then ascii_upper c else ascii_lower c)
      in d # canon_mime (d = CHR ''-'') s)"

text \<open>\<open>http.CanonicalHeaderKey\<close>: names with a byte that is no token character are kept.\<close>

definition go_CanonicalHeaderKey :: "string \<Rightarrow> string" where
  "go_CanonicalHeaderKey s =
     (if list_all header_field_byte s then canon_mime True s else s)"

definition values_of :: "values_map \<Rightarrow> string \<Rightarrow> string list" where
  "values_of h k = (case map_of h k of None \<Rightarrow> [] | Some vs \<Rightarrow> vs)"

definition header_Get :: "values_map \<Rightarrow> string \<Rightarrow> string" where
  "header_Get h k = (case values_of h (go_CanonicalHeaderKey k) of [] \<Rightarrow> [] | v # _ \<Rightarrow> v)"

definition header_Set :: "values_map \<Rightarrow> string \<Rightarrow> string \<Rightarrow> values_map" where
  "header_Set h k v = AList.update (go_CanonicalHeaderKey k) [v] h"

definition query_Get :: "values_map \<Rightarrow> string \<Rightarrow> string" where
  "query_Get q k = (case values_of q k of [] \<Rightarrow> [] | v # _ \<Rightarrow> v)"

lemmas [go_eval] = header_field_byte_def go_CanonicalHeaderKey_def values_of_def header_Get_def
  header_Set_def query_Get_def

lemma ascii_upper_lower [simp]: "ascii_upper (ascii_upper c) = ascii_upper c"
  by (auto simp: ascii_upper_def is_lower_def)

lemma header_field_byte_case [simp]:
  "header_field_byte (ascii_upper c) = header_field_byte c"
  "header_field_byte (ascii_lower c) = header_field_byte c"
proof -
  have "is_lower c \<Longrightarrow> is_upper (ascii_upper c)"
    by (auto simp: is_lower_def is_upper_def byte_ascii_upper)
  then show "header_field_byte (ascii_upper c) = header_field_byte c"
    by (cases "is_lower c") (auto simp: header_field_byte_def ascii_upper_def)
  have "is_upper c \<Longrightarrow> is_lower (ascii_lower c)"
    by (auto simp: is_lower_def is_upper_def byte_ascii_lower)
  then show "header_field_byte (ascii_lower c) = header_field_byte c"
    by (cases "is_upper c") (auto simp: header_field_byte_def ascii_lower_def)
qed

lemma canon_mime_valid: "list_all header_field_byte (canon_mime b s) = list_all header_field_byte s"
  by (induction s arbitrary: b) (auto simp: Let_def)

lemma canon_mime_idem: "canon_mime b (canon_mime b s) = canon_mime b s"
  by (induction s arbitrary: b) (auto simp: Let_def)

lemma CanonicalHeaderKey_idem [simp]:
  "go_CanonicalHeaderKey (go_CanonicalHeaderKey s) = go_CanonicalHeaderKey s"
  by (simp add: go_CanonicalHeaderKey_def canon_mime_valid canon_mime_idem)

lemma header_Get_Set: "header_Get (header_Set h k v) k = v"
  by (simp add: header_Get_def header_Set_def values_of_def update_conv)

lemma header_Get_Set_other:
  "go_CanonicalHeaderKey k \<noteq> go_CanonicalHeaderKey k' \<Longrightarrow>
   header_Get (header_Set h k v) k' = header_Get h k'"
  by (simp add: header_Get_def header_Set_def values_of_def update_conv)

section \<open>The response writer\<close>

text \<open>
  The server's \<open>http.ResponseWriter\<close>: the first final status is the one sent. A code below
  100 or above 999 panics; a 1xx code other than 101 is sent as an informational response and
  does not fix the status; writing the body first fixes the status to 200. A valid
  \<open>Content-Length\<close> present when the header is written bounds the body: a write that would
  exceed it is refused as a whole.
\<close>

record response =
  wrote_header :: bool
  resp_status :: int
  resp_header :: values_map
  resp_length :: "int option"
  resp_written :: int
  resp_body :: string

definition new_response :: response where
  "new_response = \<lparr>wrote_header = False, resp_status = 0, resp_header = [], resp_length = None,
     resp_written = 0, resp_body = []\<rparr>"

definition declared_length :: "values_map \<Rightarrow> int option" where
  "declared_length h =
     (case go_ParseInt64 (header_Get h ''Content-Length'') of
        None \<Rightarrow> None
      | Some n \<Rightarrow> if 0 \<le> n then Some n else None)"

definition fix_status :: "int \<Rightarrow> response \<Rightarrow> response" where
  "fix_status code w = w\<lparr>wrote_header := True, resp_status := code,
     resp_length := declared_length (resp_header w)\<rparr>"

definition resp_WriteHeader :: "int \<Rightarrow> response \<Rightarrow> response outcome" where
  "resp_WriteHeader code w =
     (if wrote_header w then Ret w
      else if code < 100 \<or> 999 < code then Panic
      else if code \<le> 199 \<and> code \<noteq> 101 then Ret w
      else Ret (fix_status code w))"

definition body_allowed :: "int \<Rightarrow> bool" where
  "body_allowed status \<longleftrightarrow> \<not> (100 \<le> status \<and> status \<le> 199) \<and> status \<noteq> 204 \<and> status \<noteq> 304"

definition resp_Write :: "string \<Rightarrow> response \<Rightarrow> response" where
  "resp_Write b w0 =
     (let w = (if wrote_header w0 then w0 else fix_status 200 w0);
          n = resp_written w + int (length b)
      in if b = [] \<or> \<not> body_allowed (resp_status w) then w
         else if (case resp_length w of None \<Rightarrow> False | Some l \<Rightarrow> l < n) then w\<lparr>resp_written := n\<rparr>
         else w\<lparr>resp_written := n, resp_body := resp_body w @ b\<rparr>)"

definition resp_SetHeader :: "string \<Rightarrow> string \<Rightarrow> response \<Rightarrow> response" where
  "resp_SetHeader k v w = w\<lparr>resp_header := header_Set (resp_header w) k v\<rparr>"

text \<open>What the client receives when the handler has returned.\<close>

definition final_status :: "response \<Rightarrow> int" where
  "final_status w = (if wrote_header w then resp_status w else 200)"

lemma fix_status_simps [simp]:
  "wrote_header (fix_status c w)" "resp_status (fix_status c w) = c"
  "resp_header (fix_status c w) = resp_header w" "resp_body (fix_status c w) = resp_body w"
  by (simp_all add: fix_status_def)

lemma WriteHeader_final:
  "\<not> wrote_header w \<Longrightarrow> 200 \<le> code \<Longrightarrow> code \<le> 999 \<Longrightarrow> resp_WriteHeader code w = Ret (fix_status code w)"
  by (simp add: resp_WriteHeader_def)

lemma resp_Write_status [simp]:
  "wrote_header w \<Longrightarrow> resp_status (resp_Write b w) = resp_status w"
  "wrote_header (resp_Write b w)"
  "resp_header (resp_Write b w) = resp_header w"
  by (auto simp: resp_Write_def Let_def)

lemma resp_SetHeader_simps [simp]:
  "wrote_header (resp_SetHeader k v w) = wrote_header w" "resp_status (resp_SetHeader k v w) = resp_status w"
  "resp_body (resp_SetHeader k v w) = resp_body w"
  by (simp_all add: resp_SetHeader_def)

section \<open>Requests\<close>

text \<open>
  A request body: the bytes it yields, whether reading ends in an error instead of the end of
  input, and whether closing it fails. \<open>None\<close> is a nil body or \<open>http.NoBody\<close>.
\<close>

record body =
  body_data :: string
  body_err :: bool
  body_close_err :: bool

text \<open>
  The fields of \<open>*http.Request\<close> that the services read; \<open>rq_Query\<close> and \<open>rq_RequestURI\<close> are
  the results of \<open>URL.Query()\<close> and \<open>URL.RequestURI()\<close>.
\<close>

record http_request =
  rq_Method :: string
  rq_Path :: string
  rq_RawQuery :: string
  rq_Query :: values_map
  rq_RequestURI :: string
  rq_Proto :: string
  rq_Host :: string
  rq_Header :: values_map
  rq_RemoteAddr :: string
  rq_TLS :: bool
  rq_Body :: "body option"

definition rq_UserAgent :: "http_request \<Rightarrow> string" where
  "rq_UserAgent r = header_Get (rq_Header r) ''User-Agent''"

end
