(* ===== verification/Netip.thy ===== *)
theory Netip
  imports Go_Http
begin

unbundle bit_operations_syntax

text \<open>
  Package \<open>net/netip\<close> as the services use it: addresses, \<open>ParseAddr\<close>, \<open>Addr.String\<close>,
  prefixes, \<open>ParsePrefix\<close>, \<open>Prefix.Masked\<close>, \<open>Prefix.Contains\<close> and \<open>Prefix.String\<close>. The lemmas
  show that \<open>Contains\<close> is membership in the CIDR block and that an IPv4 address survives
  printing and parsing; a text that parses as a prefix has no spaces around it.
\<close>

section \<open>Addresses and prefixes\<close>

text \<open>An IPv6 address may carry a zone; the empty text is no zone.\<close>

datatype addr = IPv4 "32 word" | IPv6 "128 word" string

datatype prefix_t = Prefix (prefix_addr: addr) (prefix_bits: nat)

fun bit_len :: "addr \<Rightarrow> nat" where
  "bit_len (IPv4 a) = 32"
| "bit_len (IPv6 a z) = 128"

definition IPv4Unspecified :: addr where
  "IPv4Unspecified = IPv4 0"

text \<open>\<open>Prefix.Contains\<close>: same family, no zone on the address, equal leading bits.\<close>

fun prefix_Contains :: "prefix_t \<Rightarrow> addr \<Rightarrow> bool" where
  "prefix_Contains (Prefix (IPv4 p) n) (IPv4 a) \<longleftrightarrow> drop_bit (32 - n) (a XOR p) = 0"
| "prefix_Contains (Prefix (IPv6 p pz) n) (IPv6 a z) \<longleftrightarrow>
     z = [] \<and> (a XOR p) AND NOT (mask (128 - n)) = 0"
| "prefix_Contains _ _ \<longleftrightarrow> False"

text \<open>\<open>Prefix.Masked\<close> clears the host bits.\<close>

fun prefix_Masked :: "prefix_t \<Rightarrow> prefix_t" where
  "prefix_Masked (Prefix (IPv4 p) n) = Prefix (IPv4 (p AND NOT (mask (32 - n)))) n"
| "prefix_Masked (Prefix (IPv6 p z) n) = Prefix (IPv6 (p AND NOT (mask (128 - n))) []) n"

section \<open>ParseAddr\<close>

text \<open>
  \<open>parseIPv4Fields\<close>: four decimal octets without leading zeros. The state of the loop is the
  value of the current octet, the number of its digits and the octets stored so far.
\<close>

fun ipv4_fields :: "string \<Rightarrow> nat \<Rightarrow> nat \<Rightarrow> nat list \<Rightarrow> nat list option" where
  "ipv4_fields [] val dig fs =
     (if length fs < 3 then None else Some (fs @ [val]))"
| "ipv4_fields (c # s) val dig fs =
     (if is_digit c then
        (if dig = 1 \<and> val = 0 then None
         else
           (let v = val * 10 + digit_val c
            in if 255 < v then None else ipv4_fields s v (Suc dig) fs))
      else if c = CHR ''.'' then
        (if dig = 0 \<or> s = [] then None
         else if length fs = 3 then None
         else ipv4_fields s 0 0 (fs @ [val]))
      else None)"

definition of_bytes :: "nat list \<Rightarrow> nat" where
  "of_bytes bs = foldl (\<lambda>v b. v * 256 + b) 0 bs"

definition parse_ipv4 :: "string \<Rightarrow> addr option" where
  "parse_ipv4 s = map_option (\<lambda>bs. IPv4 (of_nat (of_bytes bs))) (ipv4_fields s 0 0 [])"

text \<open>One group of \<open>parseIPv6\<close>: the leading hex digits, their number and the rest.\<close>

fun hex_group :: "string \<Rightarrow> nat \<Rightarrow> nat \<Rightarrow> (nat \<times> nat \<times> string) option" where
  "hex_group [] acc off = Some (acc, off, [])"
| "hex_group (c # s) acc off =
     (case hex_val c of
        None \<Rightarrow> Some (acc, off, c # s)
      | Some d \<Rightarrow>
          let acc' = acc * 16 + d in
          if 3 < off \<or> 65535 < acc' then None else hex_group s acc' (Suc off))"

text \<open>
  The main loop of \<open>parseIPv6\<close>. \<open>room\<close> is the number of 16-bit groups still free (the source
  counts bytes up to 16), \<open>ell\<close> the group index of the ellipsis, \<open>gs\<close> the groups parsed.
  The result is the groups, the ellipsis and the text left over.
\<close>

fun ipv6_groups ::
  "nat \<Rightarrow> string \<Rightarrow> nat option \<Rightarrow> nat list \<Rightarrow> (nat list \<times> nat option \<times> string) option" where
  "ipv6_groups 0 s ell gs = Some (gs, ell, s)"
| "ipv6_groups (Suc room) s ell gs =
     (case hex_group s 0 0 of
        None \<Rightarrow> None
      | Some (acc, off, rest) \<Rightarrow>
          if off = 0 then None
          else if rest \<noteq> [] \<and> hd rest = CHR ''.'' then
            (if ell = None \<and> length gs \<noteq> 6 then None
             else if room = 0 then None
             else (case ipv4_fields s 0 0 [] of
                     Some [a, b, c, d] \<Rightarrow> Some (gs @ [a * 256 + b, c * 256 + d], ell, [])
                   | _ \<Rightarrow> None))
          else
            (let gs' = gs @ [acc] in
             case rest of
               [] \<Rightarrow> Some (gs', ell, [])
             | [c] \<Rightarrow> None
             | c # d # tail \<Rightarrow>
                 if c \<noteq> CHR '':'' then None
                 else if d = CHR '':'' then
                   (if ell \<noteq> None then None
                    else if tail = [] then Some (gs', Some (length gs'), [])
                    else ipv6_groups room tail (Some (length gs')) gs')
                 else ipv6_groups room (d # tail) ell gs'))"

definition of_groups :: "nat list \<Rightarrow> nat" where
  "of_groups gs = foldl (\<lambda>v g. v * 65536 + g) 0 gs"

definition parse_ipv6_groups :: "string \<Rightarrow> nat list option" where
  "parse_ipv6_groups s =
     (let lead = prefix ''::'' s; body = (if lead then drop 2 s else s) in
      if lead \<and> body = [] then Some (replicate 8 0)
      else
        (case ipv6_groups 8 body (if lead then Some 0 else None) [] of
           None \<Rightarrow> None
         | Some (gs, ell, rest) \<Rightarrow>
             if rest \<noteq> [] then None
             else if length gs < 8 then
               (case ell of
                  None \<Rightarrow> None
                | Some e \<Rightarrow> Some (take e gs @ replicate (8 - length gs) 0 @ drop e gs))
             else if ell \<noteq> None then None
             else Some gs))"

definition parse_ipv6 :: "string \<Rightarrow> addr option" where
  "parse_ipv6 s =
     (case index_of (CHR ''%'') s of
        None \<Rightarrow> map_option (\<lambda>gs. IPv6 (of_nat (of_groups gs)) []) (parse_ipv6_groups s)
      | Some i \<Rightarrow>
          let zone = drop (Suc i) s in
          if zone = [] then None
          else map_option (\<lambda>gs. IPv6 (of_nat (of_groups gs)) zone) (parse_ipv6_groups (take i s)))"

text \<open>The first dot, colon or percent sign decides the family.\<close>

definition ParseAddr :: "string \<Rightarrow> addr option" where
  "ParseAddr s =
     (case find (\<lambda>c. c \<in> set ''.:%'') s of
        None \<Rightarrow> None
      | Some c \<Rightarrow>
          if c = CHR ''.'' then parse_ipv4 s
          else if c = CHR '':'' then parse_ipv6 s
          else None)"

section \<open>Addr.String\<close>

definition octets :: "32 word \<Rightarrow> nat list" where
  "octets a = (let n = unat a in
     [n div 16777216, n div 65536 mod 256, n div 256 mod 256, n mod 256])"

definition string4 :: "32 word \<Rightarrow> string" where
  "string4 a = go_Join (map decimal (octets a)) ''.''"

definition groups :: "128 word \<Rightarrow> nat list" where
  "groups a = map (\<lambda>i. unat a div 65536 ^ (7 - i) mod 65536) [0..<8]"

fun hex_nat :: "nat \<Rightarrow> string" where
  "hex_nat n = (if n < 16 then [hex_digit n] else hex_nat (n div 16) @ [hex_digit (n mod 16)])"

declare hex_nat.simps [simp del]

text \<open>The longest run of at least two zero groups, the first of several equally long ones.\<close>

definition zero_run :: "nat list \<Rightarrow> (nat \<times> nat) option" where
  "zero_run gs =
     foldl (\<lambda>best i.
       let l = length (takeWhile (\<lambda>g. g = 0) (drop i gs))
       in if 2 \<le> l \<and> (case best of None \<Rightarrow> True | Some (s, e) \<Rightarrow> e - s < l) then Some (i, i + l)
          else best) None [0..<length gs]"

definition string6 :: "128 word \<Rightarrow> string" where
  "string6 a =
     (let gs = groups a; hex = (\<lambda>xs. go_Join (map hex_nat xs) '':'') in
      case zero_run gs of
        None \<Rightarrow> hex gs
      | Some (s, e) \<Rightarrow> hex (take s gs) @ ''::'' @ hex (drop e gs))"

definition zone_suffix :: "string \<Rightarrow> string" where
  "zone_suffix z = (if z = [] then [] else ''%'' @ z)"

definition is_4in6 :: "128 word \<Rightarrow> bool" where
  "is_4in6 a \<longleftrightarrow> unat a div 4294967296 = 65535"

fun addr_String :: "addr \<Rightarrow> string" where
  "addr_String (IPv4 a) = string4 a"
| "addr_String (IPv6 a z) =
     (if is_4in6 a then ''::ffff:'' @ string4 (ucast a) @ zone_suffix z
      else string6 a @ zone_suffix z)"

fun prefix_String :: "prefix_t \<Rightarrow> string" where
  "prefix_String (Prefix a n) = addr_String a @ ''/'' @ decimal n"

section \<open>ParsePrefix\<close>

text \<open>
  The text after the last slash is the length: decimal digits without a leading zero (and
  without a sign), at most the address length; a zone is not allowed.
\<close>

definition ParsePrefix :: "string \<Rightarrow> prefix_t option" where
  "ParsePrefix s =
     (case last_index_of (CHR ''/'') s of
        None \<Rightarrow> None
      | Some i \<Rightarrow>
          (case ParseAddr (take i s) of
             None \<Rightarrow> None
           | Some a \<Rightarrow>
               let bs = drop (Suc i) s in
               if (case a of IPv6 w z \<Rightarrow> z \<noteq> [] | IPv4 w \<Rightarrow> False) then None
               else if 1 < length bs \<and> (hd bs = CHR ''0'' \<or> \<not> is_digit (hd bs)) then None
               else
                 (case parse_digits bs of
                    None \<Rightarrow> None
                  | Some n \<Rightarrow> if bit_len a < n then None else Some (Prefix a n))))"

section \<open>Contains is CIDR membership\<close>

lemma xor_zero_iff:
  fixes a p :: "'a::len word"
  shows "a XOR p = 0 \<longleftrightarrow> a = p"
  by (auto simp: bit_eq_iff bit_simps)

lemma drop_bit_xor_zero:
  fixes a p :: "'a::len word"
  shows "drop_bit k (a XOR p) = 0 \<longleftrightarrow> drop_bit k a = drop_bit k p"
  by (simp add: drop_bit_xor xor_zero_iff)

lemma drop_bit_and_not_mask:
  fixes p :: "'a::len word"
  shows "drop_bit k (p AND NOT (mask k)) = drop_bit k p"
  by (auto simp: bit_eq_iff bit_simps dest: bit_imp_le_length)

lemma and_not_mask_zero:
  fixes a :: "'a::len word"
  shows "a AND NOT (mask k) = 0 \<longleftrightarrow> drop_bit k a = 0"
proof
  assume "a AND NOT (mask k) = 0"
  then show "drop_bit k a = 0" by (metis drop_bit_and_not_mask drop_bit_of_0)
next
  assume "drop_bit k a = 0"
  then have "\<not> bit a (k + n)" for n by (metis bit_0_eq bit_drop_bit_eq bot_apply bot_bool_def comp_apply)
  then show "a AND NOT (mask k) = 0"
    by (auto simp: bit_eq_iff bit_simps) (metis le_iff_add not_less)
qed

lemma drop_bit_eq_unat:
  fixes a p :: "'a::len word"
  shows "drop_bit k a = drop_bit k p \<longleftrightarrow> unat a div 2 ^ k = unat p div 2 ^ k"
proof -
  have "drop_bit k a = drop_bit k p \<longleftrightarrow> drop_bit k (unat a) = drop_bit k (unat p)"
    by (metis unat_drop_bit_eq unsigned_word_eqI)
  then show ?thesis by (simp add: drop_bit_eq_div)
qed

text \<open>The address and the prefix agree after division by the size of the block.\<close>

lemma Contains_IPv4:
  "prefix_Contains (Prefix (IPv4 p) n) (IPv4 a) \<longleftrightarrow>
     unat a div 2 ^ (32 - n) = unat p div 2 ^ (32 - n)"
  by (simp only: prefix_Contains.simps drop_bit_xor_zero drop_bit_eq_unat)

lemma Contains_IPv6:
  "prefix_Contains (Prefix (IPv6 p pz) n) (IPv6 a z) \<longleftrightarrow>
     z = [] \<and> unat a div 2 ^ (128 - n) = unat p div 2 ^ (128 - n)"
  by (simp only: prefix_Contains.simps and_not_mask_zero drop_bit_xor_zero drop_bit_eq_unat)

lemma Contains_Masked: "prefix_Contains (prefix_Masked p) a \<longleftrightarrow> prefix_Contains p a"
proof (cases p)
  case (Prefix b n)
  then show ?thesis
    by (cases b; cases a)
      (simp_all only: prefix_Contains.simps prefix_Masked.simps and_not_mask_zero
        drop_bit_xor_zero drop_bit_and_not_mask)
qed

lemma bits_Masked [simp]: "prefix_bits (prefix_Masked p) = prefix_bits p"
  by (cases p; cases "prefix_addr p") auto

lemma Contains_family: "prefix_Contains p a \<Longrightarrow> bit_len a = bit_len (prefix_addr p)"
  by (cases p; cases "prefix_addr p"; cases a) auto

lemma ParsePrefix_bits: "ParsePrefix s = Some p \<Longrightarrow> prefix_bits p \<le> bit_len (prefix_addr p)"
  by (auto simp: ParsePrefix_def Let_def split: option.splits if_splits)

section \<open>Printing and parsing an IPv4 address\<close>

lemma ipv4_fields_digits:
  "list_all is_digit s \<Longrightarrow> foldl (\<lambda>v c. v * 10 + digit_val c) v s \<le> 255 \<Longrightarrow> v \<noteq> 0 \<Longrightarrow>
   ipv4_fields (s @ t) v d fs
     = ipv4_fields t (foldl (\<lambda>v c. v * 10 + digit_val c) v s) (d + length s) fs"
proof (induction s arbitrary: v d)
  case (Cons c s)
  have mono: "w \<le> foldl (\<lambda>v c. v * 10 + digit_val c) w s" for w
  proof (induction s arbitrary: w)
    case (Cons a s)
    have "w \<le> w * 10 + digit_val a" by simp
    then show ?case using Cons.IH [of "w * 10 + digit_val a"] by simp
  qed simp
  have le: "v * 10 + digit_val c \<le> 255"
    using Cons.prems(2) mono [of "v * 10 + digit_val c"] by simp
  show ?case
    using Cons.prems le Cons.IH [of "v * 10 + digit_val c" "Suc d"]
    by (simp add: Let_def)
qed simp

lemma decimal_split:
  "\<exists>c s. decimal n = c # s \<and> is_digit c \<and> list_all is_digit s \<and> (n < 10 \<longrightarrow> s = []) \<and>
         (n \<noteq> 0 \<longrightarrow> digit_val c \<noteq> 0)
         \<and> foldl (\<lambda>v c. v * 10 + digit_val c) (digit_val c) s = n"
proof -
  obtain c s where cs: "decimal n = c # s" by (meson decimal_not_Nil list.exhaust)
  have dig: "is_digit c" "list_all is_digit s"
    using decimal_digits [of n] cs by auto
  have val: "foldl (\<lambda>v c. v * 10 + digit_val c) (digit_val c) s = n"
    using digits_val_decimal [of n] cs by (simp add: digits_val_def)
  have "n \<noteq> 0 \<Longrightarrow> digit_val c \<noteq> 0"
  proof
    assume "n \<noteq> 0" and "digit_val c = 0"
    with dig(1) have "c = digit_char 0"
      by (auto simp: digit_val_def is_digit_def digit_char_def) (metis char_of_char le_antisym)
    with \<open>n \<noteq> 0\<close> cs decimal_no_leading_zero [of n] show False by simp
  qed
  moreover have "n < 10 \<Longrightarrow> s = []"
    using cs by (simp add: decimal.simps [of n])
  ultimately show ?thesis using cs dig val by blast
qed

lemma ipv4_fields_decimal:
  assumes "n \<le> 255"
  shows "\<exists>d. d \<noteq> 0 \<and> ipv4_fields (decimal n @ t) 0 0 fs = ipv4_fields t n d fs"
proof -
  obtain c s where cs: "decimal n = c # s" "is_digit c" "list_all is_digit s"
    "n < 10 \<longrightarrow> s = []" "n \<noteq> 0 \<longrightarrow> digit_val c \<noteq> 0"
    "foldl (\<lambda>v c. v * 10 + digit_val c) (digit_val c) s = n"
    using decimal_split by blast
  have le: "digit_val c \<le> 255" using cs(2) by (auto simp: digit_val_def is_digit_def)
  then have "ipv4_fields (decimal n @ t) 0 0 fs = ipv4_fields (s @ t) (digit_val c) 1 fs"
    using cs by (simp add: Let_def)
  also have "\<dots> = ipv4_fields t n (1 + length s) fs"
    using cs assms ipv4_fields_digits [of s "digit_val c" t 1 fs] by (cases "n = 0") auto
  finally show ?thesis by (intro exI [of _ "1 + length s"]) simp
qed

lemma ipv4_fields_quad:
  assumes "a \<le> 255" "b \<le> 255" "c \<le> 255" "d \<le> 255"
  shows "ipv4_fields (go_Join (map decimal [a, b, c, d]) ''.'') 0 0 [] = Some [a, b, c, d]"
proof -
  have dot: "ipv4_fields (decimal n @ CHR ''.'' # t) 0 0 fs
       = (if t = [] \<or> length fs = 3 then None else ipv4_fields t 0 0 (fs @ [n]))"
    if "n \<le> 255" for n t fs
    using ipv4_fields_decimal [OF that, of "CHR ''.'' # t" fs]
    by (auto simp: is_digit_def)
  obtain k where "ipv4_fields (decimal d @ []) 0 0 [a, b, c] = ipv4_fields [] d k [a, b, c]"
    using ipv4_fields_decimal [OF assms(4), of "[]" "[a, b, c]"] by blast
  then have last: "ipv4_fields (decimal d) 0 0 [a, b, c] = Some [a, b, c, d]" by simp
  show ?thesis
    using dot [OF assms(1), of "decimal b @ ''.'' @ decimal c @ ''.'' @ decimal d" "[]"]
      dot [OF assms(2), of "decimal c @ ''.'' @ decimal d" "[a]"]
      dot [OF assms(3), of "decimal d" "[a, b]"] last
    by simp
qed

lemma octets_bounds: "list_all (\<lambda>b. b \<le> 255) (octets a)"
proof -
  have "unat a < 4294967296" using unsigned_less [of a] by simp
  then have "unat a div 16777216 < 256" by (simp add: less_mult_imp_div_less)
  moreover have "m mod 256 \<le> 255" for m :: nat
    using mod_less_divisor [of 256 m] by linarith
  ultimately show ?thesis by (simp add: octets_def Let_def)
qed

lemma of_bytes_octets: "of_bytes (octets a) = unat a"
proof -
  have rec: "q3 * 256 * 256 * 256 + r2 * 256 * 256 + r1 * 256 + r0 = n"
    if "q1 * 256 + r0 = n" "q2 * 256 + r1 = q1" "q3 * 256 + r2 = q2" for n q1 q2 q3 r0 r1 r2 :: nat
    using that by (auto simp: algebra_simps)
  have "n div 65536 = n div 256 div 256" "n div 16777216 = n div 256 div 256 div 256" for n :: nat
    by (simp_all add: div_mult2_eq [symmetric])
  then show ?thesis
    using rec [OF div_mult_mod_eq div_mult_mod_eq div_mult_mod_eq, of "unat a"]
    by (simp only: of_bytes_def octets_def Let_def foldl.simps mult_0 add_0) (simp add: algebra_simps)
qed

lemma find_dot_string4: "find (\<lambda>c. c \<in> set ''.:%'') (string4 a) = Some (CHR ''.'')"
proof -
  have "list_all (\<lambda>c. c \<notin> set ''.:%'') (decimal n)" for n
    using decimal_digits [of n] by (auto simp: list_all_iff is_digit_def)
  moreover have "find P (xs @ c # ys) = Some c"
    if "list_all (\<lambda>c. \<not> P c) xs" "P c" for P and xs ys :: string and c
    using that by (induction xs) auto
  ultimately show ?thesis
    by (simp add: string4_def octets_def Let_def)
qed

lemma ParseAddr_IPv4_String: "ParseAddr (addr_String (IPv4 a)) = Some (IPv4 a)"
proof -
  obtain b c d e where o: "octets a = [b, c, d, e]" by (simp add: octets_def Let_def)
  with octets_bounds [of a] have "ipv4_fields (string4 a) 0 0 [] = Some (octets a)"
    using ipv4_fields_quad [of b c d e] by (simp add: string4_def)
  then show ?thesis
    using find_dot_string4 [of a] of_bytes_octets [of a]
    by (simp add: ParseAddr_def parse_ipv4_def)
qed

lemmas netip_eval = ParseAddr_def parse_ipv4_def parse_ipv6_def parse_ipv6_groups_def
  of_bytes_def of_groups_def ParsePrefix_def last_index_of_def

section \<open>A text that parses as a prefix has no spaces\<close>

definition ip_char :: "char \<Rightarrow> bool" where
  "ip_char c \<longleftrightarrow> hex_val c \<noteq> None \<or> c \<in> set ''.:/''"

lemma ip_char_simps [simp]: "ip_char (CHR '':'')" "ip_char (CHR ''/'')" "hex_val c = Some d \<Longrightarrow> ip_char c"
  by (simp_all add: ip_char_def)

lemma ipv4_fields_chars: "ipv4_fields s v d fs = Some bs \<Longrightarrow> list_all ip_char s"
  by (induction s v d fs rule: ipv4_fields.induct)
    (auto simp: ip_char_def hex_val_def Let_def split: if_splits)

lemma hex_group_chars: "hex_group s acc off = Some (v, n, rest) \<Longrightarrow> \<exists>p. s = p @ rest \<and> list_all ip_char p"
proof (induction s acc off rule: hex_group.induct)
  case (2 c s acc off)
  then show ?case
  proof (cases "hex_val c")
    case (Some d)
    with 2 obtain p where "s = p @ rest \<and> list_all ip_char p" by (auto simp: Let_def split: if_splits)
    then show ?thesis using Some by (intro exI [of _ "c # p"]) simp
  qed simp
qed simp

lemma ipv6_groups_chars: "ipv6_groups n s ell gs = Some (gs', ell', []) \<Longrightarrow> list_all ip_char s"
proof (induction n s ell gs rule: ipv6_groups.induct)
  case (2 room s ell gs)
  from "2.prems" obtain acc off rest where g: "hex_group s 0 0 = Some (acc, off, rest)" and off: "off \<noteq> 0"
    by (auto split: option.splits prod.splits if_splits)
  obtain p where p: "s = p @ rest" "list_all ip_char p" using hex_group_chars [OF g] by blast
  show ?case
  proof (cases "rest \<noteq> [] \<and> hd rest = CHR ''.''")
    case True
    with "2.prems" g off obtain bs where "ipv4_fields s 0 0 [] = Some bs"
      by (auto split: if_splits option.splits)
    then show ?thesis by (rule ipv4_fields_chars)
  next
    case nodot: False
    show ?thesis
    proof (cases rest)
      case (Cons c tl1)
      with "2.prems" g off nodot obtain d tail where rest: "rest = c # d # tail" and c: "c = CHR '':''"
        by (auto simp: Let_def split: if_splits list.splits)
      have "list_all ip_char (d # tail)"
      proof (cases "d = CHR '':''")
        case True
        show ?thesis
        proof (cases "tail = []")
          case False
          have "ipv6_groups room tail (Some (length (gs @ [acc]))) (gs @ [acc]) = Some (gs', ell', [])"
            using "2.prems" g off nodot rest c True False by (auto simp: Let_def split: if_splits)
          moreover have "ell = None" using "2.prems" g off nodot rest c True by (auto simp: Let_def split: if_splits)
          ultimately have "list_all ip_char tail"
            using "2.IH"(1) [OF g refl refl off nodot refl rest] c True False by auto
          then show ?thesis using True by simp
        qed (use True in simp)
      next
        case False
        then have "ipv6_groups room (d # tail) ell (gs @ [acc]) = Some (gs', ell', [])"
          using "2.prems" g off nodot rest c by (auto simp: Let_def split: if_splits)
        then show ?thesis using "2.IH"(2) [OF g refl refl off nodot refl rest] c False by auto
      qed
      then show ?thesis using p rest c by simp
    qed (use p in simp)
  qed
qed simp

lemma parse_ipv6_groups_chars: "parse_ipv6_groups s = Some gs \<Longrightarrow> list_all ip_char s"
proof -
  assume a: "parse_ipv6_groups s = Some gs"
  show ?thesis
  proof (cases "prefix ''::'' s")
    case True
    then obtain t where s: "s = ''::'' @ t" by (auto simp: prefix_def)
    have "t = [] \<or> (\<exists>gs' ell'. ipv6_groups 8 t (Some 0) [] = Some (gs', ell', []))"
      using a True s by (auto simp: parse_ipv6_groups_def Let_def split: if_splits option.splits)
    then show ?thesis using s ipv6_groups_chars by auto
  next
    case False
    then have "\<exists>gs' ell'. ipv6_groups 8 s None [] = Some (gs', ell', [])"
      using a by (auto simp: parse_ipv6_groups_def Let_def split: if_splits option.splits)
    then show ?thesis using ipv6_groups_chars by blast
  qed
qed

lemma ParsePrefix_chars:
  assumes "ParsePrefix s = Some p"
  shows "list_all ip_char s"
proof -
  obtain i a where i: "last_index_of (CHR ''/'') s = Some i" and a: "ParseAddr (take i s) = Some a"
    and z: "\<not> (case a of IPv6 w z \<Rightarrow> z \<noteq> [] | IPv4 w \<Rightarrow> False)" and n: "parse_digits (drop (Suc i) s) \<noteq> None"
    using assms by (auto simp: ParsePrefix_def Let_def split: option.splits if_splits)
  have "list_all ip_char (take i s)"
    using a z parse_ipv6_groups_chars ipv4_fields_chars
    by (fastforce simp: ParseAddr_def parse_ipv4_def parse_ipv6_def Let_def split: option.splits if_splits)
  moreover have "list_all ip_char (drop (Suc i) s)"
    using n by (auto simp: parse_digits_def ip_char_def hex_val_def list_all_iff split: if_splits)
  ultimately have "list_all ip_char (take i s @ CHR ''/'' # drop (Suc i) s)" by simp
  then show ?thesis using last_index_of_Some(2) [OF i] by simp
qed

lemma ParsePrefix_trimmed: "ParsePrefix s \<noteq> None \<Longrightarrow> go_TrimSpace s = s"
proof (rule TrimSpace_no_spaces)
  assume "ParsePrefix s \<noteq> None"
  then have c: "list_all ip_char s" using ParsePrefix_chars by auto
  then show "ascii_text s" unfolding ascii_text_def
    by (rule list.pred_mono_strong) (auto simp: ip_char_def hex_val_def is_ascii_def is_digit_def split: if_splits)
  show "set s \<inter> set ascii_spaces = {}"
    using c by (auto simp: list_all_iff ip_char_def hex_val_def is_digit_def ascii_spaces_def split: if_splits)
qed

end
