(* ===== verification/Decision.thy ===== *)
theory Decision
  imports Go_Numbers
begin

text \<open>
  Package \<open>decision\<close> of the gateway: actions, modes, the decision record, its constructors,
  \<open>WouldBlock\<close> and \<open>EnforcedAction\<close>. \<open>Action\<close> and \<open>Mode\<close> are named string types in Go, and
  the code converts configured text to them without a check, so they are strings here.
\<close>

type_synonym action = string
type_synonym mode = string

definition ActionAllow :: action where "ActionAllow = ''allow''"
definition ActionCount :: action where "ActionCount = ''count''"
definition ActionBlock :: action where "ActionBlock = ''block''"
definition ActionChallenge :: action where "ActionChallenge = ''challenge''"
definition ActionRateLimit :: action where "ActionRateLimit = ''rate_limit''"

definition ModeCount :: mode where "ModeCount = ''count''"
definition ModeBlock :: mode where "ModeBlock = ''block''"

lemmas action_defs = ActionAllow_def ActionCount_def ActionBlock_def ActionChallenge_def
  ActionRateLimit_def
lemmas mode_defs = ModeCount_def ModeBlock_def

lemma actions_distinct [simp]:
  "ActionAllow \<noteq> ActionCount" "ActionAllow \<noteq> ActionBlock" "ActionAllow \<noteq> ActionChallenge"
  "ActionAllow \<noteq> ActionRateLimit" "ActionCount \<noteq> ActionAllow" "ActionCount \<noteq> ActionBlock"
  "ActionCount \<noteq> ActionChallenge" "ActionCount \<noteq> ActionRateLimit" "ActionBlock \<noteq> ActionAllow"
  "ActionBlock \<noteq> ActionCount" "ActionBlock \<noteq> ActionChallenge" "ActionBlock \<noteq> ActionRateLimit"
  "ActionChallenge \<noteq> ActionAllow" "ActionChallenge \<noteq> ActionCount"
  "ActionChallenge \<noteq> ActionBlock" "ActionChallenge \<noteq> ActionRateLimit"
  "ActionRateLimit \<noteq> ActionAllow" "ActionRateLimit \<noteq> ActionCount"
  "ActionRateLimit \<noteq> ActionBlock" "ActionRateLimit \<noteq> ActionChallenge"
  by (simp_all add: action_defs)

lemma modes_distinct [simp]: "ModeCount \<noteq> ModeBlock" "ModeBlock \<noteq> ModeCount"
  by (simp_all add: mode_defs)

lemma actions_not_Nil [simp]:
  "ActionAllow \<noteq> []" "ActionCount \<noteq> []" "ActionBlock \<noteq> []" "ActionChallenge \<noteq> []"
  "ActionRateLimit \<noteq> []"
  by (simp_all add: action_defs)

text \<open>Times are Unix seconds here; \<open>ResetAt\<close> is computed from a whole number of seconds.\<close>

record rate_limit_info =
  rli_Limit :: int
  rli_Remaining :: int
  rli_ResetAt :: int
  rli_RuleID :: string
  rli_Action :: action

record decision =
  Action :: action
  Reason :: string
  MatchedRuleID :: string
  MatchedRuleName :: string
  RuleGroup :: string
  Tags :: "string list"
  AnomalyScore :: int
  StatusCode :: int
  RateLimit :: "rate_limit_info option"

text \<open>The zero value of the struct.\<close>

definition zero_decision :: decision where
  "zero_decision =
     \<lparr>Action = [], Reason = [], MatchedRuleID = [], MatchedRuleName = [], RuleGroup = [],
      Tags = [], AnomalyScore = 0, StatusCode = 0, RateLimit = None\<rparr>"

definition d_Allow :: decision where
  "d_Allow = zero_decision\<lparr>Action := ActionAllow\<rparr>"

definition d_Block :: "string \<Rightarrow> string \<Rightarrow> decision" where
  "d_Block reason matchedRuleID = zero_decision\<lparr>Action := ActionBlock, Reason := reason,
     MatchedRuleID := matchedRuleID, StatusCode := 403\<rparr>"

definition d_RateLimit :: "string \<Rightarrow> string \<Rightarrow> decision" where
  "d_RateLimit reason matchedRuleID = zero_decision\<lparr>Action := ActionRateLimit,
     Reason := reason, MatchedRuleID := matchedRuleID\<rparr>"

definition d_Count :: "string \<Rightarrow> string \<Rightarrow> decision" where
  "d_Count reason matchedRuleID = zero_decision\<lparr>Action := ActionCount, Reason := reason,
     MatchedRuleID := matchedRuleID\<rparr>"

definition d_AllowRule :: "string \<Rightarrow> string \<Rightarrow> decision" where
  "d_AllowRule reason matchedRuleID = zero_decision\<lparr>Action := ActionAllow, Reason := reason,
     MatchedRuleID := matchedRuleID\<rparr>"

definition WithStatus :: "decision \<Rightarrow> int \<Rightarrow> decision" where
  "WithStatus d statusCode = d\<lparr>StatusCode := statusCode\<rparr>"

definition WouldBlock :: "decision \<Rightarrow> bool" where
  "WouldBlock d \<longleftrightarrow>
     Action d = ActionBlock \<or> Action d = ActionRateLimit \<or> Action d = ActionChallenge"

definition EnforcedAction :: "mode \<Rightarrow> decision \<Rightarrow> action" where
  "EnforcedAction mode d = (if mode = ModeCount \<and> WouldBlock d then ActionCount else Action d)"

lemmas decision_defs = zero_decision_def d_Allow_def d_Block_def d_RateLimit_def d_Count_def
  d_AllowRule_def WithStatus_def

lemma constructor_actions [simp]:
  "Action d_Allow = ActionAllow" "Action (d_Block r i) = ActionBlock"
  "Action (d_RateLimit r i) = ActionRateLimit" "Action (d_Count r i) = ActionCount"
  "Action (d_AllowRule r i) = ActionAllow" "Action (WithStatus d s) = Action d"
  "Action zero_decision = []"
  by (simp_all add: decision_defs)

lemma constructor_reasons [simp]:
  "Reason d_Allow = []" "Reason (d_Block r i) = r" "Reason (d_RateLimit r i) = r"
  "Reason (d_Count r i) = r" "Reason (d_AllowRule r i) = r" "Reason (WithStatus d s) = Reason d"
  by (simp_all add: decision_defs)

lemma constructor_status [simp]:
  "StatusCode (d_Block r i) = 403" "StatusCode (WithStatus d s) = s" "RateLimit (d_Block r i) = None"
  "RateLimit d_Allow = None"
  by (simp_all add: decision_defs)

lemma WouldBlock_simps [simp]:
  "\<not> WouldBlock d_Allow" "WouldBlock (d_Block r i)" "WouldBlock (d_RateLimit r i)"
  "\<not> WouldBlock (d_Count r i)" "\<not> WouldBlock (d_AllowRule r i)"
  "WouldBlock (WithStatus d s) = WouldBlock d"
  by (auto simp: WouldBlock_def)

lemma WouldBlock_not_allow: "WouldBlock d \<Longrightarrow> Action d \<noteq> ActionAllow"
  by (auto simp: WouldBlock_def)

text \<open>
  Count mode never enforces a disruptive action, and the mode only ever weakens a decision.
\<close>

lemma EnforcedAction_count: "EnforcedAction ModeCount d \<notin> {ActionBlock, ActionRateLimit, ActionChallenge}"
  by (auto simp: EnforcedAction_def WouldBlock_def)

lemma EnforcedAction_block [simp]: "EnforcedAction ModeBlock d = Action d"
  by (simp add: EnforcedAction_def)

end
