(* ===== verification/Gateway_Config.thy ===== *)
theory Gateway_Config
  imports Go_Http
begin

text \<open>
  Package \<open>config\<close> of the gateway: the configuration structs, \<open>applyDefaults\<close> and
  \<open>validate\<close>. \<open>LoadFile\<close> reads a file, expands environment variables and decodes YAML with a
  third-party package; these three steps are parameters, and what \<open>LoadFile\<close> does with the
  decoded value is modelled. \<open>url.Parse\<close> is a parameter too: the checks only use whether it
  fails and the scheme and host of its result.
\<close>

section \<open>Structs\<close>

record server_config =
  ListenAddr :: string
  TrustedProxies :: "string list"
  ReadHeaderTimeoutMillis :: int
  ReadTimeoutMillis :: int
  WriteTimeoutMillis :: int
  IdleTimeoutMillis :: int
  MaxHeaderBytes :: int

record redis_config =
  redis_Enabled :: bool
  redis_Addr :: string
  FailMode :: string

record clickhouse_config =
  ch_Enabled :: bool
  ch_URL :: string
  ch_Database :: string
  ch_Username :: string
  ch_Password :: string

record waf_config =
  waf_Enabled :: bool
  waf_Engine :: string
  waf_RuleEngine :: string
  RequestBodyLimitBytes :: int
  DirectivesFile :: string
  DebugBodyPreview :: bool
  BodyPreviewBytes :: int

record control_api_config =
  capi_Enabled :: bool
  BaseURL :: string
  GatewayAPIKey :: string
  CacheTTLSeconds :: int
  FailBehavior :: string

record header_match =
  hm_Name :: string
  hm_Value :: string

record query_param_match =
  qm_Name :: string
  qm_Value :: string

text \<open>
  \<open>ConditionConfig\<close> refers to itself, so it is a datatype with one constructor and the
  struct's fields as selectors.
\<close>

datatype condition_config = ConditionConfig
  (cc_All: "condition_config list")
  (cc_Any: "condition_config list")
  (cc_MethodEquals: string)
  (cc_PathEquals: string)
  (cc_PathStartsWith: string)
  (cc_HostEquals: string)
  (cc_HeaderContains: "header_match option")
  (cc_HeaderEquals: "header_match option")
  (cc_QueryParamContains: "query_param_match option")
  (cc_ClientIPInIPSet: string)
  (cc_ClientIPNotInIPSet: string)

definition empty_condition_config :: condition_config where
  "empty_condition_config = ConditionConfig [] [] [] [] [] [] None None None [] []"

record rate_limit_config =
  rlc_ID :: string
  rlc_Name :: string
  rlc_Enabled :: bool
  rlc_Priority :: int
  rlc_MatchExpression :: condition_config
  rlc_KeyType :: string
  rlc_KeyHeader :: string
  rlc_Limit :: int
  rlc_WindowSeconds :: int
  rlc_Action :: string
  rlc_StatusCode :: int
  rlc_Key :: string

record custom_rule_config =
  crc_ID :: string
  crc_Name :: string
  crc_Priority :: int
  crc_Enabled :: bool
  crc_Action :: string
  crc_StatusCode :: int
  crc_TerminalAllow :: bool
  crc_When :: condition_config

text \<open>\<open>IPSets\<close> is a Go map: its entries in the order a \<open>range\<close> visits them.\<close>

record policy_config =
  pc_Mode :: string
  pc_DefaultAction :: string
  pc_IPBlocklist :: "string list"
  pc_IPAllowlist :: "string list"
  pc_IPSets :: "(string \<times> string list) list"
  pc_RateLimits :: "rate_limit_config list"
  pc_CustomRules :: "custom_rule_config list"

record origin_config =
  oc_URL :: string

record app_config =
  ac_ID :: string
  ac_TenantID :: string
  ac_Hostnames :: "string list"
  ac_Origin :: origin_config
  ac_Policy :: policy_config

record config =
  Server :: server_config
  Redis :: redis_config
  ClickHouse :: clickhouse_config
  WAF :: waf_config
  ControlAPI :: control_api_config
  Apps :: "app_config list"

text \<open>A parsed URL, as far as the checks read it.\<close>

record url =
  url_Scheme :: string
  url_Host :: string
  url_Path :: string
  url_RawQuery :: string
  url_Fragment :: string

type_synonym url_parser = "string \<Rightarrow> url option"

section \<open>applyDefaults\<close>

definition or_default :: "string \<Rightarrow> string \<Rightarrow> string" where
  "or_default s d = (if s = [] then d else s)"

definition int_default :: "int \<Rightarrow> int \<Rightarrow> int" where
  "int_default i d = (if i = 0 then d else i)"

definition default_server :: "server_config \<Rightarrow> server_config" where
  "default_server s = s
     \<lparr>ListenAddr := or_default (ListenAddr s) '':8080'',
      ReadHeaderTimeoutMillis := int_default (ReadHeaderTimeoutMillis s) 5000,
      ReadTimeoutMillis := int_default (ReadTimeoutMillis s) 30000,
      WriteTimeoutMillis := int_default (WriteTimeoutMillis s) 30000,
      IdleTimeoutMillis := int_default (IdleTimeoutMillis s) 60000,
      MaxHeaderBytes := int_default (MaxHeaderBytes s) 1048576\<rparr>"

definition default_redis :: "redis_config \<Rightarrow> redis_config" where
  "default_redis r = r
     \<lparr>redis_Addr := or_default (redis_Addr r) ''localhost:6379'',
      FailMode := or_default (FailMode r) ''open''\<rparr>"

definition default_clickhouse :: "clickhouse_config \<Rightarrow> clickhouse_config" where
  "default_clickhouse c = c
     \<lparr>ch_URL := or_default (ch_URL c) ''http://localhost:8123'',
      ch_Database := or_default (ch_Database c) ''bedemwaf''\<rparr>"

definition default_waf :: "waf_config \<Rightarrow> waf_config" where
  "default_waf w = w
     \<lparr>waf_Engine := or_default (waf_Engine w) ''coraza'',
      waf_RuleEngine := or_default (waf_RuleEngine w) ''DetectionOnly'',
      RequestBodyLimitBytes := int_default (RequestBodyLimitBytes w) 1048576,
      BodyPreviewBytes := int_default (BodyPreviewBytes w) 512\<rparr>"

definition default_control_api :: "control_api_config \<Rightarrow> control_api_config" where
  "default_control_api c = c
     \<lparr>BaseURL := or_default (BaseURL c) ''http://localhost:8081'',
      CacheTTLSeconds := int_default (CacheTTLSeconds c) 30,
      FailBehavior := or_default (FailBehavior c) ''use_stale_then_fail_open''\<rparr>"

definition default_rate_limit :: "rate_limit_config \<Rightarrow> rate_limit_config" where
  "default_rate_limit r = r
     \<lparr>rlc_ID := or_default (rlc_ID r) (rlc_Name r),
      rlc_KeyType := or_default (or_default (rlc_KeyType r) (rlc_Key r)) ''ip'',
      rlc_Action := or_default (rlc_Action r) ''count'',
      rlc_StatusCode := int_default (rlc_StatusCode r) 429\<rparr>"

definition default_custom_rule :: "custom_rule_config \<Rightarrow> custom_rule_config" where
  "default_custom_rule r = r
     \<lparr>crc_Action := or_default (crc_Action r) ''count'',
      crc_StatusCode := int_default (crc_StatusCode r) 403\<rparr>"

definition default_policy :: "policy_config \<Rightarrow> policy_config" where
  "default_policy p = p
     \<lparr>pc_Mode := or_default (pc_Mode p) ''count'',
      pc_DefaultAction := or_default (pc_DefaultAction p) ''allow'',
      pc_RateLimits := map default_rate_limit (pc_RateLimits p),
      pc_CustomRules := map default_custom_rule (pc_CustomRules p)\<rparr>"

definition default_app :: "app_config \<Rightarrow> app_config" where
  "default_app a = a\<lparr>ac_Policy := default_policy (ac_Policy a)\<rparr>"

definition applyDefaults :: "config \<Rightarrow> config" where
  "applyDefaults cfg = cfg
     \<lparr>Server := default_server (Server cfg),
      Redis := default_redis (Redis cfg),
      ClickHouse := default_clickhouse (ClickHouse cfg),
      WAF := default_waf (WAF cfg),
      ControlAPI := default_control_api (ControlAPI cfg),
      Apps := map default_app (Apps cfg)\<rparr>"

section \<open>validate\<close>

datatype config_error =
    AppRequired
  | ControlAPIBaseURLInvalid
  | ControlAPIKeyRequired
  | ControlAPITTLNotPositive
  | InvalidFailBehavior string
  | AppIDRequired
  | AppHostnameRequired string
  | AppOriginRequired string
  | AppOriginInvalid string string
  | AppModeInvalid string string
  | ServerTimeoutNegative
  | ServerMaxHeaderNegative
  | UnsupportedWAFEngine string
  | InvalidRuleEngine string
  | BodyLimitNegative
  | InvalidRedisFailMode string

text \<open>An \<open>error\<close> result: \<open>None\<close> is \<open>nil\<close>.\<close>

definition bad_url :: "url_parser \<Rightarrow> string \<Rightarrow> bool" where
  "bad_url parse s =
     (case parse s of None \<Rightarrow> True | Some v \<Rightarrow> url_Scheme v = [] \<or> url_Host v = [])"

definition validate_control_api :: "url_parser \<Rightarrow> control_api_config \<Rightarrow> config_error option" where
  "validate_control_api parse c =
     (if bad_url parse (BaseURL c) then Some ControlAPIBaseURLInvalid
      else if GatewayAPIKey c = [] then Some ControlAPIKeyRequired
      else if CacheTTLSeconds c \<le> 0 then Some ControlAPITTLNotPositive
      else if FailBehavior c \<notin> {''fail_open'', ''fail_closed'', ''use_stale_then_fail_open''}
        then Some (InvalidFailBehavior (FailBehavior c))
      else None)"

definition validate_app :: "url_parser \<Rightarrow> app_config \<Rightarrow> config_error option" where
  "validate_app parse a =
     (let url = oc_URL (ac_Origin a); mode = pc_Mode (ac_Policy a) in
      if ac_ID a = [] then Some AppIDRequired
      else if ac_Hostnames a = [] then Some (AppHostnameRequired (ac_ID a))
      else if url = [] then Some (AppOriginRequired (ac_ID a))
      else if bad_url parse url then Some (AppOriginInvalid (ac_ID a) url)
      else if mode \<noteq> ''count'' \<and> mode \<noteq> ''block'' then Some (AppModeInvalid (ac_ID a) mode)
      else None)"

fun first_error :: "('a \<Rightarrow> 'e option) \<Rightarrow> 'a list \<Rightarrow> 'e option" where
  "first_error f [] = None"
| "first_error f (x # xs) = (case f x of Some e \<Rightarrow> Some e | None \<Rightarrow> first_error f xs)"

definition validate_server :: "server_config \<Rightarrow> config_error option" where
  "validate_server s =
     (if ReadHeaderTimeoutMillis s < 0 \<or> ReadTimeoutMillis s < 0 \<or> WriteTimeoutMillis s < 0
         \<or> IdleTimeoutMillis s < 0 then Some ServerTimeoutNegative
      else if MaxHeaderBytes s < 0 then Some ServerMaxHeaderNegative
      else None)"

definition validate_waf :: "waf_config \<Rightarrow> config_error option" where
  "validate_waf w =
     (if waf_Engine w \<noteq> ''coraza'' then Some (UnsupportedWAFEngine (waf_Engine w))
      else if waf_RuleEngine w \<notin> {''On'', ''DetectionOnly'', ''Off''}
        then Some (InvalidRuleEngine (waf_RuleEngine w))
      else if RequestBodyLimitBytes w < 0 then Some BodyLimitNegative
      else None)"

text \<open>Checks in sequence: the first error is returned.\<close>

fun checks :: "'e option list \<Rightarrow> 'e option" where
  "checks [] = None"
| "checks (c # cs) = (case c of Some e \<Rightarrow> Some e | None \<Rightarrow> checks cs)"

definition validate :: "url_parser \<Rightarrow> config \<Rightarrow> config_error option" where
  "validate parse cfg = checks
     [if Apps cfg = [] \<and> \<not> capi_Enabled (ControlAPI cfg) then Some AppRequired else None,
      if capi_Enabled (ControlAPI cfg) then validate_control_api parse (ControlAPI cfg) else None,
      first_error (validate_app parse) (Apps cfg),
      validate_server (Server cfg),
      if waf_Enabled (WAF cfg) then validate_waf (WAF cfg) else None,
      if FailMode (Redis cfg) \<notin> {''open'', ''closed''}
        then Some (InvalidRedisFailMode (FailMode (Redis cfg))) else None]"

datatype load_error = ReadFailed | DecodeFailed | Invalid config_error

text \<open>
  \<open>LoadFile\<close>: \<open>read\<close> is \<open>os.ReadFile\<close>, \<open>expand\<close> is \<open>os.ExpandEnv\<close>, \<open>decode\<close> the YAML decoder
  with \<open>KnownFields(true)\<close>.
\<close>

definition LoadFile ::
  "url_parser \<Rightarrow> (string \<Rightarrow> string option) \<Rightarrow> (string \<Rightarrow> string) \<Rightarrow> (string \<Rightarrow> config option)
   \<Rightarrow> string \<Rightarrow> load_error + config" where
  "LoadFile parse read expand decode path =
     (case read path of
        None \<Rightarrow> Inl ReadFailed
      | Some data \<Rightarrow>
          (case decode (expand data) of
             None \<Rightarrow> Inl DecodeFailed
           | Some cfg \<Rightarrow>
               let cfg' = applyDefaults cfg in
               (case validate parse cfg' of
                  Some e \<Rightarrow> Inl (Invalid e)
                | None \<Rightarrow> Inr cfg')))"

section \<open>Facts\<close>

lemma or_default_not_Nil: "d \<noteq> [] \<Longrightarrow> or_default s d \<noteq> []"
  by (simp add: or_default_def)

lemma or_default_idem [simp]: "or_default (or_default s d) d = or_default s d"
  by (simp add: or_default_def)

lemma int_default_idem [simp]: "int_default (int_default i d) d = int_default i d"
  by (simp add: int_default_def)

lemma first_error_None: "first_error f xs = None \<longleftrightarrow> (\<forall>x \<in> set xs. f x = None)"
  by (induction xs) (auto split: option.splits)

lemma checks_None: "checks cs = None \<longleftrightarrow> (\<forall>c \<in> set cs. c = None)"
  by (induction cs) (auto split: option.splits)

lemmas default_defs = default_server_def default_redis_def default_clickhouse_def
  default_waf_def default_control_api_def default_app_def default_policy_def
  default_rate_limit_def default_custom_rule_def

lemma default_rate_limit_idem: "default_rate_limit (default_rate_limit r) = default_rate_limit r"
  by (auto simp: default_rate_limit_def or_default_def)

lemma default_custom_rule_idem: "default_custom_rule (default_custom_rule r) = default_custom_rule r"
  by (simp add: default_custom_rule_def)

lemma default_policy_idem: "default_policy (default_policy p) = default_policy p"
  by (simp add: default_policy_def default_rate_limit_idem default_custom_rule_idem)

lemma applyDefaults_idem: "applyDefaults (applyDefaults cfg) = applyDefaults cfg"
  by (simp add: applyDefaults_def default_server_def default_redis_def default_clickhouse_def
      default_waf_def default_control_api_def default_app_def default_policy_idem)

lemma validate_None_iff:
  "validate parse cfg = None \<longleftrightarrow>
     (Apps cfg \<noteq> [] \<or> capi_Enabled (ControlAPI cfg)) \<and>
     (capi_Enabled (ControlAPI cfg) \<longrightarrow> validate_control_api parse (ControlAPI cfg) = None) \<and>
     (\<forall>a \<in> set (Apps cfg). validate_app parse a = None) \<and>
     validate_server (Server cfg) = None \<and>
     (waf_Enabled (WAF cfg) \<longrightarrow> validate_waf (WAF cfg) = None) \<and>
     FailMode (Redis cfg) \<in> {''open'', ''closed''}"
  unfolding validate_def checks_None by (auto simp: first_error_None split: if_splits)

text \<open>A configuration file that names no mode anywhere starts in count mode and allows.\<close>

lemma default_policy_safe:
  "pc_Mode p = [] \<Longrightarrow> pc_Mode (default_policy p) = ''count''"
  "r \<in> set (pc_CustomRules (default_policy p)) \<Longrightarrow> crc_Action r \<noteq> [] \<and> crc_StatusCode r \<noteq> 0"
  "l \<in> set (pc_RateLimits (default_policy p)) \<Longrightarrow>
     rlc_Action l \<noteq> [] \<and> rlc_KeyType l \<noteq> [] \<and> rlc_StatusCode l \<noteq> 0"
  by (auto simp: default_policy_def default_custom_rule_def default_rate_limit_def or_default_def
      int_default_def split: if_splits)

end
