(* ===== verification/Policy.thy ===== *)
theory Policy
  imports Netip Decision Gateway_Config
begin

text \<open>
  Package \<open>policy\<close> of the gateway (\<open>store.go\<close>): the runtime app, its rules and conditions,
  host normalisation and validation, the host table, IP lists, custom rules and the parser
  that turns configuration into an app. The lemmas give the functional behaviour of each
  operation; \<open>wf_app\<close> is the invariant that every parsed app satisfies.
\<close>

section \<open>Structs\<close>

type_synonym ip_sets = "string \<Rightarrow> prefix_t list option"

record header_condition =
  hc_Name :: string
  hc_Value :: string

record query_param_condition =
  qc_Name :: string
  qc_Value :: string

datatype condition = Condition
  (c_All: "condition list")
  (c_Any: "condition list")
  (c_MethodEquals: string)
  (c_PathEquals: string)
  (c_PathStartsWith: string)
  (c_HostEquals: string)
  (c_HeaderContains: "header_condition option")
  (c_HeaderEquals: "header_condition option")
  (c_QueryParamContains: "query_param_condition option")
  (c_ClientIPInIPSet: string)
  (c_ClientIPNotInIPSet: string)

record rate_limit_rule =
  rl_ID :: string
  rl_Name :: string
  rl_Enabled :: bool
  rl_Priority :: int
  rl_MatchExpression :: "condition option"
  rl_KeyType :: string
  rl_KeyHeader :: string
  rl_Limit :: int
  rl_WindowSeconds :: int
  rl_Action :: action
  rl_StatusCode :: int

record custom_rule =
  cr_ID :: string
  cr_Name :: string
  cr_Priority :: int
  cr_Enabled :: bool
  cr_Action :: action
  cr_StatusCode :: int
  cr_TerminalAllow :: bool
  cr_When :: condition

record app =
  app_ID :: string
  app_TenantID :: string
  app_PolicyID :: string
  app_PolicyVersion :: string
  app_Hostnames :: "string list"
  app_Origin :: url
  app_Mode :: mode
  app_DefaultAction :: action
  app_IPBlocklist :: "prefix_t list"
  app_IPAllowlist :: "prefix_t list"
  app_IPSets :: ip_sets
  app_RateLimits :: "rate_limit_rule list"
  app_CustomRules :: "custom_rule list"
  app_RawOriginString :: string

record request_context =
  rc_Method :: string
  rc_Path :: string
  rc_Host :: string
  rc_Headers :: values_map
  rc_Query :: values_map
  rc_ClientIP :: addr

record store =
  byHost :: "string \<Rightarrow> app option"

record lookup_result =
  lr_App :: "app option"
  lr_Found :: bool
  lr_FailOpen :: bool
  lr_StatusCode :: int
  lr_Reason :: string
  lr_Warning :: string
  lr_Stale :: bool

definition zero_lookup :: lookup_result where
  "zero_lookup = \<lparr>lr_App = None, lr_Found = False, lr_FailOpen = False, lr_StatusCode = 0,
     lr_Reason = [], lr_Warning = [], lr_Stale = False\<rparr>"

section \<open>Hosts\<close>

definition NormalizeHost :: "unicode \<Rightarrow> string \<Rightarrow> string" where
  "NormalizeHost u host0 =
     (let host = go_TrimSpace (go_ToLower u host0) in
      if host = [] then []
      else
        (case (if go_Contains host '':'' then go_SplitHostPort host else None) of
           Some (parsedHost, port) \<Rightarrow> go_Trim parsedHost ''[]''
         | None \<Rightarrow> go_Trim host ''[]''))"

text \<open>The inner loop over the runes of a label: letters, digits and hyphens.\<close>

definition label_runes_ok :: "unicode \<Rightarrow> string \<Rightarrow> bool" where
  "label_runes_ok u label =
     (if ascii_text label
      then list_all (\<lambda>r. is_lower r \<or> is_upper r \<or> is_digit r \<or> r = CHR ''-'') label
      else uni_LetterDigitHyphen u label)"

definition valid_label :: "unicode \<Rightarrow> string \<Rightarrow> bool" where
  "valid_label u label \<longleftrightarrow>
     label \<noteq> [] \<and> length label \<le> 63 \<and> hd label \<noteq> CHR ''-'' \<and> last label \<noteq> CHR ''-'' \<and>
     label_runes_ok u label"

definition host_separators :: string where
  "host_separators = [CHR 0x20, CHR 0x09, CHR 0x0D, CHR 0x0A, CHR ''/'', CHR ''@'']"

definition ValidHost :: "unicode \<Rightarrow> string \<Rightarrow> bool" where
  "ValidHost u host0 =
     (let raw = go_TrimSpace (go_ToLower u host0) in
      if raw = [] \<or> go_ContainsAny raw host_separators \<or> go_Contains raw ''://'' then False
      else
        let host = NormalizeHost u host0 in
        if host = [] \<or> 253 < length host then False
        else if go_ContainsAny host host_separators then False
        else if go_Contains host ''..'' then False
        else if ParseAddr host \<noteq> None then True
        else list_all (valid_label u) (split_on (CHR ''.'') (go_TrimSuffix host ''.'')))"

section \<open>The host table\<close>

definition MatchHost :: "unicode \<Rightarrow> store \<Rightarrow> string \<Rightarrow> app option" where
  "MatchHost u s host = byHost s (NormalizeHost u host)"

definition store_Lookup :: "unicode \<Rightarrow> store \<Rightarrow> string \<Rightarrow> lookup_result" where
  "store_Lookup u s host =
     (case MatchHost u s host of
        None \<Rightarrow> zero_lookup\<lparr>lr_Found := False, lr_Reason := ''no_matching_app''\<rparr>
      | Some app \<Rightarrow> zero_lookup\<lparr>lr_App := Some app, lr_Found := True\<rparr>)"

section \<open>IP lists\<close>

definition ipInSet :: "addr \<Rightarrow> prefix_t list \<Rightarrow> bool" where
  "ipInSet ip ps = list_ex (\<lambda>p. prefix_Contains p ip) ps"

definition EvaluateIP :: "app \<Rightarrow> addr \<Rightarrow> decision" where
  "EvaluateIP a clientIP =
     (case find (\<lambda>p. prefix_Contains p clientIP) (app_IPBlocklist a) of
        Some p \<Rightarrow> d_Block ''ip_blocklist'' (''ip_blocklist:'' @ prefix_String p)
      | None \<Rightarrow>
          if app_IPAllowlist a \<noteq> [] then
            (if ipInSet clientIP (app_IPAllowlist a) then d_Allow
             else d_Block ''ip_allowlist'' ''ip_allowlist'')
          else d_Allow)"

section \<open>Conditions\<close>

definition canonicalHeaderName :: "string \<Rightarrow> string" where
  "canonicalHeaderName name = go_CanonicalHeaderKey (go_TrimSpace name)"

definition headerContains :: "values_map \<Rightarrow> string \<Rightarrow> string \<Rightarrow> bool" where
  "headerContains headers name value =
     list_ex (\<lambda>got. go_Contains got value) (values_of headers (canonicalHeaderName name))"

definition headerEquals :: "values_map \<Rightarrow> string \<Rightarrow> string \<Rightarrow> bool" where
  "headerEquals headers name value =
     list_ex (\<lambda>got. got = value) (values_of headers (canonicalHeaderName name))"

text \<open>Indexing a map with a missing key gives a nil slice.\<close>

definition set_members :: "ip_sets \<Rightarrow> string \<Rightarrow> prefix_t list" where
  "set_members ipSets name = (case ipSets name of None \<Rightarrow> [] | Some ps \<Rightarrow> ps)"

text \<open>The operators are tried in the order of the struct; the first one that is set decides.\<close>

fun Match :: "unicode \<Rightarrow> request_context \<Rightarrow> ip_sets \<Rightarrow> condition \<Rightarrow> bool" where
  "Match u ctx ipSets
     (Condition all any meth path pathPrefix hostEq hdrContains hdrEquals query inSet notInSet) =
     (if all \<noteq> [] then list_all (Match u ctx ipSets) all
      else if any \<noteq> [] then list_ex (Match u ctx ipSets) any
      else if meth \<noteq> [] then go_EqualFold u (rc_Method ctx) meth
      else if path \<noteq> [] then rc_Path ctx = path
      else if pathPrefix \<noteq> [] then go_HasPrefix (rc_Path ctx) pathPrefix
      else if hostEq \<noteq> [] then NormalizeHost u (rc_Host ctx) = NormalizeHost u hostEq
      else if hdrContains \<noteq> None then
        headerContains (rc_Headers ctx) (hc_Name (the hdrContains)) (hc_Value (the hdrContains))
      else if hdrEquals \<noteq> None then
        headerEquals (rc_Headers ctx) (hc_Name (the hdrEquals)) (hc_Value (the hdrEquals))
      else if query \<noteq> None then
        list_ex (\<lambda>value. go_Contains value (qc_Value (the query)))
          (values_of (rc_Query ctx) (qc_Name (the query)))
      else if inSet \<noteq> [] then ipInSet (rc_ClientIP ctx) (set_members ipSets inSet)
      else if notInSet \<noteq> [] then \<not> ipInSet (rc_ClientIP ctx) (set_members ipSets notInSet)
      else False)"

section \<open>Custom rules\<close>

definition annotate :: "custom_rule \<Rightarrow> string list \<Rightarrow> decision \<Rightarrow> decision" where
  "annotate rule tags d = d\<lparr>MatchedRuleName := cr_Name rule, RuleGroup := ''custom'', Tags := tags\<rparr>"

text \<open>The loop of \<open>EvaluateCustomRules\<close>, with \<open>firstCount\<close> as its state.\<close>

fun custom_rules_loop ::
  "unicode \<Rightarrow> request_context \<Rightarrow> ip_sets \<Rightarrow> decision \<Rightarrow> custom_rule list \<Rightarrow> decision" where
  "custom_rules_loop u ctx ipSets firstCount [] =
     (if Action firstCount \<noteq> [] then firstCount else d_Allow)"
| "custom_rules_loop u ctx ipSets firstCount (rule # rules) =
     (if \<not> cr_Enabled rule then custom_rules_loop u ctx ipSets firstCount rules
      else if \<not> Match u ctx ipSets (cr_When rule) then custom_rules_loop u ctx ipSets firstCount rules
      else if cr_Action rule = ActionBlock then
        annotate rule [''custom_rule'']
          (WithStatus (d_Block ''custom_rule'' (cr_ID rule)) (cr_StatusCode rule))
      else if cr_Action rule = ActionCount then
        custom_rules_loop u ctx ipSets
          (if Action firstCount = []
           then annotate rule [''custom_rule''] (d_Count ''custom_rule'' (cr_ID rule))
           else firstCount) rules
      else if cr_Action rule = ActionAllow then
        (if cr_TerminalAllow rule
         then annotate rule [''custom_rule'', ''terminal_allow'']
                (d_AllowRule ''custom_rule_allow'' (cr_ID rule))
         else custom_rules_loop u ctx ipSets firstCount rules)
      else custom_rules_loop u ctx ipSets firstCount rules)"

definition EvaluateCustomRules :: "unicode \<Rightarrow> app \<Rightarrow> request_context \<Rightarrow> decision" where
  "EvaluateCustomRules u a ctx =
     custom_rules_loop u ctx (app_IPSets a) zero_decision (app_CustomRules a)"

section \<open>Parsing configuration\<close>

datatype condition_error =
    OperatorCount nat
  | HeaderContainsIncomplete
  | HeaderEqualsIncomplete
  | QueryParamIncomplete
  | UnknownIPSet string

datatype policy_error =
    BadPrefix string
  | IPSetNameEmpty
  | BadIPSet string policy_error
  | CustomRuleIDRequired
  | DuplicateCustomRule string
  | CustomRuleNameRequired string
  | CustomRuleAction string string
  | CustomRuleStatus string int
  | CustomRuleCondition string condition_error
  | RateLimitIDRequired
  | DuplicateRateLimit string
  | RateLimitNameRequired string
  | RateLimitNotPositive string
  | RateWindowNotPositive string
  | RateLimitAction string string
  | RateLimitKeyType string string
  | RateLimitKeyHeader string
  | RateLimitStatus string int
  | RateLimitCondition string condition_error

datatype app_error =
    OriginParseFailed string
  | OriginIncomplete string
  | BadBlocklist string policy_error
  | BadAllowlist string policy_error
  | BadIPSets string policy_error
  | BadCustomRules string policy_error
  | BadRateLimits string policy_error
  | DuplicateHostname string string string

definition parsePrefixes :: "string list \<Rightarrow> policy_error + prefix_t list" where
  "parsePrefixes values =
     traverse (\<lambda>value. case ParsePrefix (go_TrimSpace value) of
                         None \<Rightarrow> Inl (BadPrefix value)
                       | Some p \<Rightarrow> Inr (prefix_Masked p)) values"

text \<open>The loop over the entries of the map; \<open>sets\<close> is the map built so far.\<close>

fun parseIPSets_loop :: "ip_sets \<Rightarrow> (string \<times> string list) list \<Rightarrow> policy_error + ip_sets" where
  "parseIPSets_loop sets [] = Inr sets"
| "parseIPSets_loop sets ((name, cidrs) # entries) =
     (if go_TrimSpace name = [] then Inl IPSetNameEmpty
      else
        (case parsePrefixes cidrs of
           Inl e \<Rightarrow> Inl (BadIPSet name e)
         | Inr ps \<Rightarrow> parseIPSets_loop (sets(name \<mapsto> ps)) entries))"

definition parseIPSets :: "(string \<times> string list) list \<Rightarrow> policy_error + ip_sets" where
  "parseIPSets values = parseIPSets_loop Map.empty values"

text \<open>The operators of a condition that are set, in the order \<open>validateCondition\<close> counts them.\<close>

definition operators_set :: "condition_config \<Rightarrow> bool list" where
  "operators_set value =
     [cc_All value \<noteq> [], cc_Any value \<noteq> [], cc_MethodEquals value \<noteq> [],
      cc_PathEquals value \<noteq> [], cc_PathStartsWith value \<noteq> [], cc_HostEquals value \<noteq> [],
      cc_HeaderContains value \<noteq> None, cc_HeaderEquals value \<noteq> None,
      cc_QueryParamContains value \<noteq> None, cc_ClientIPInIPSet value \<noteq> [],
      cc_ClientIPNotInIPSet value \<noteq> []]"

definition operator_count :: "condition_config \<Rightarrow> nat" where
  "operator_count value = length (filter id (operators_set value))"

definition incomplete_header :: "header_match option \<Rightarrow> bool" where
  "incomplete_header m = (case m of None \<Rightarrow> False | Some h \<Rightarrow> hm_Name h = [] \<or> hm_Value h = [])"

definition incomplete_query :: "query_param_match option \<Rightarrow> bool" where
  "incomplete_query m = (case m of None \<Rightarrow> False | Some q \<Rightarrow> qm_Name q = [] \<or> qm_Value q = [])"

definition validateCondition :: "condition_config \<Rightarrow> ip_sets \<Rightarrow> condition_error option" where
  "validateCondition value ipSets =
     (if operator_count value \<noteq> 1 then Some (OperatorCount (operator_count value))
      else if incomplete_header (cc_HeaderContains value) then Some HeaderContainsIncomplete
      else if incomplete_header (cc_HeaderEquals value) then Some HeaderEqualsIncomplete
      else if incomplete_query (cc_QueryParamContains value) then Some QueryParamIncomplete
      else if cc_ClientIPInIPSet value \<noteq> [] \<and> ipSets (cc_ClientIPInIPSet value) = None
        then Some (UnknownIPSet (cc_ClientIPInIPSet value))
      else if cc_ClientIPNotInIPSet value \<noteq> [] \<and> ipSets (cc_ClientIPNotInIPSet value) = None
        then Some (UnknownIPSet (cc_ClientIPNotInIPSet value))
      else None)"

definition hasCondition :: "condition_config \<Rightarrow> bool" where
  "hasCondition value \<longleftrightarrow> list_ex id (operators_set value)"

definition parse_header :: "header_match \<Rightarrow> header_condition" where
  "parse_header m = \<lparr>hc_Name = canonicalHeaderName (hm_Name m), hc_Value = hm_Value m\<rparr>"

definition parse_query :: "query_param_match \<Rightarrow> query_param_condition" where
  "parse_query m = \<lparr>qc_Name = qm_Name m, qc_Value = qm_Value m\<rparr>"

lemma traverse_cong [fundef_cong]:
  "xs = ys \<Longrightarrow> (\<And>x. x \<in> set ys \<Longrightarrow> f x = g x) \<Longrightarrow> traverse f xs = traverse g ys"
  by (induction xs arbitrary: ys) (auto split: sum.splits)

fun parseCondition :: "ip_sets \<Rightarrow> condition_config \<Rightarrow> condition_error + condition" where
  "parseCondition ipSets
     (ConditionConfig all any meth path pathPrefix host hdrContains hdrEquals query inSet notInSet) =
     (case validateCondition
             (ConditionConfig all any meth path pathPrefix host hdrContains hdrEquals query
                inSet notInSet) ipSets of
        Some e \<Rightarrow> Inl e
      | None \<Rightarrow>
          (case traverse (parseCondition ipSets) all of
             Inl e \<Rightarrow> Inl e
           | Inr all' \<Rightarrow>
               (case traverse (parseCondition ipSets) any of
                  Inl e \<Rightarrow> Inl e
                | Inr any' \<Rightarrow>
                    Inr (Condition all' any' meth path pathPrefix host
                           (map_option parse_header hdrContains)
                           (map_option parse_header hdrEquals)
                           (map_option parse_query query) inSet notInSet))))"

definition parse_custom_rule ::
  "ip_sets \<Rightarrow> string set \<Rightarrow> custom_rule_config \<Rightarrow> policy_error + custom_rule" where
  "parse_custom_rule ipSets seen value =
     (if go_TrimSpace (crc_ID value) = [] then Inl CustomRuleIDRequired
      else if crc_ID value \<in> seen then Inl (DuplicateCustomRule (crc_ID value))
      else if crc_Name value = [] then Inl (CustomRuleNameRequired (crc_ID value))
      else if crc_Action value \<notin> {ActionAllow, ActionCount, ActionBlock}
        then Inl (CustomRuleAction (crc_ID value) (crc_Action value))
      else if crc_StatusCode value < 0 \<or> 999 < crc_StatusCode value
        then Inl (CustomRuleStatus (crc_ID value) (crc_StatusCode value))
      else
        (case parseCondition ipSets (crc_When value) of
           Inl e \<Rightarrow> Inl (CustomRuleCondition (crc_ID value) e)
         | Inr condition \<Rightarrow>
             Inr \<lparr>cr_ID = crc_ID value, cr_Name = crc_Name value, cr_Priority = crc_Priority value,
                  cr_Enabled = crc_Enabled value, cr_Action = crc_Action value,
                  cr_StatusCode = crc_StatusCode value, cr_TerminalAllow = crc_TerminalAllow value,
                  cr_When = condition\<rparr>))"

fun parse_custom_rules_loop ::
  "ip_sets \<Rightarrow> string set \<Rightarrow> custom_rule_config list \<Rightarrow> policy_error + custom_rule list" where
  "parse_custom_rules_loop ipSets seen [] = Inr []"
| "parse_custom_rules_loop ipSets seen (value # values) =
     (case parse_custom_rule ipSets seen value of
        Inl e \<Rightarrow> Inl e
      | Inr rule \<Rightarrow>
          (case parse_custom_rules_loop ipSets (insert (crc_ID value) seen) values of
             Inl e \<Rightarrow> Inl e
           | Inr rules \<Rightarrow> Inr (rule # rules)))"

text \<open>\<open>sort.SliceStable\<close> by priority is the library's stable \<^const>\<open>sort_key\<close>.\<close>

definition parseCustomRules ::
  "custom_rule_config list \<Rightarrow> ip_sets \<Rightarrow> policy_error + custom_rule list" where
  "parseCustomRules values ipSets =
     (case parse_custom_rules_loop ipSets {} values of
        Inl e \<Rightarrow> Inl e
      | Inr rules \<Rightarrow> Inr (sort_key cr_Priority rules))"

definition rate_key_types :: "string set" where
  "rate_key_types = {''ip'', ''host'', ''path'', ''header'', ''api_key_placeholder''}"

definition parse_match_expression ::
  "ip_sets \<Rightarrow> condition_config \<Rightarrow> condition_error + condition option" where
  "parse_match_expression ipSets value =
     (if hasCondition value then
        (case parseCondition ipSets value of Inl e \<Rightarrow> Inl e | Inr c \<Rightarrow> Inr (Some c))
      else Inr None)"

definition parse_rate_limit ::
  "ip_sets \<Rightarrow> string set \<Rightarrow> rate_limit_config \<Rightarrow> policy_error + rate_limit_rule" where
  "parse_rate_limit ipSets seen value =
     (if go_TrimSpace (rlc_ID value) = [] then Inl RateLimitIDRequired
      else if rlc_ID value \<in> seen then Inl (DuplicateRateLimit (rlc_ID value))
      else if rlc_Name value = [] then Inl (RateLimitNameRequired (rlc_ID value))
      else if rlc_Limit value \<le> 0 then Inl (RateLimitNotPositive (rlc_ID value))
      else if rlc_WindowSeconds value \<le> 0 then Inl (RateWindowNotPositive (rlc_ID value))
      else if rlc_Action value \<noteq> ActionCount \<and> rlc_Action value \<noteq> ActionBlock
        then Inl (RateLimitAction (rlc_ID value) (rlc_Action value))
      else if rlc_KeyType value \<notin> rate_key_types
        then Inl (RateLimitKeyType (rlc_ID value) (rlc_KeyType value))
      else if rlc_KeyType value = ''header'' \<and> rlc_KeyHeader value = []
        then Inl (RateLimitKeyHeader (rlc_ID value))
      else if rlc_StatusCode value < 0 \<or> 999 < rlc_StatusCode value
        then Inl (RateLimitStatus (rlc_ID value) (rlc_StatusCode value))
      else
        (case parse_match_expression ipSets (rlc_MatchExpression value) of
           Inl e \<Rightarrow> Inl (RateLimitCondition (rlc_ID value) e)
         | Inr m \<Rightarrow>
             Inr \<lparr>rl_ID = rlc_ID value, rl_Name = rlc_Name value, rl_Enabled = rlc_Enabled value,
                  rl_Priority = rlc_Priority value, rl_MatchExpression = m,
                  rl_KeyType = rlc_KeyType value,
                  rl_KeyHeader = canonicalHeaderName (rlc_KeyHeader value),
                  rl_Limit = rlc_Limit value, rl_WindowSeconds = rlc_WindowSeconds value,
                  rl_Action = rlc_Action value, rl_StatusCode = rlc_StatusCode value\<rparr>))"

fun parse_rate_limits_loop ::
  "ip_sets \<Rightarrow> string set \<Rightarrow> rate_limit_config list \<Rightarrow> policy_error + rate_limit_rule list" where
  "parse_rate_limits_loop ipSets seen [] = Inr []"
| "parse_rate_limits_loop ipSets seen (value # values) =
     (case parse_rate_limit ipSets seen value of
        Inl e \<Rightarrow> Inl e
      | Inr rule \<Rightarrow>
          (case parse_rate_limits_loop ipSets (insert (rlc_ID value) seen) values of
             Inl e \<Rightarrow> Inl e
           | Inr rules \<Rightarrow> Inr (rule # rules)))"

definition parseRateLimitRules ::
  "rate_limit_config list \<Rightarrow> ip_sets \<Rightarrow> policy_error + rate_limit_rule list" where
  "parseRateLimitRules values ipSets =
     (case parse_rate_limits_loop ipSets {} values of
        Inl e \<Rightarrow> Inl e
      | Inr rules \<Rightarrow> Inr (sort_key rl_Priority rules))"

section \<open>newApp and NewStore\<close>

definition build_app ::
  "app_config \<Rightarrow> url \<Rightarrow> prefix_t list \<Rightarrow> prefix_t list \<Rightarrow> ip_sets \<Rightarrow> custom_rule list
   \<Rightarrow> rate_limit_rule list \<Rightarrow> app" where
  "build_app appCfg origin blocklist allowlist ipSets customRules rateLimits =
     \<lparr>app_ID = ac_ID appCfg,
      app_TenantID = (if ac_TenantID appCfg = [] then ''default'' else ac_TenantID appCfg),
      app_PolicyID = [], app_PolicyVersion = [],
      app_Hostnames = ac_Hostnames appCfg, app_Origin = origin,
      app_Mode = pc_Mode (ac_Policy appCfg),
      app_DefaultAction = pc_DefaultAction (ac_Policy appCfg),
      app_IPBlocklist = blocklist, app_IPAllowlist = allowlist, app_IPSets = ipSets,
      app_RateLimits = rateLimits, app_CustomRules = customRules,
      app_RawOriginString = oc_URL (ac_Origin appCfg)\<rparr>"

definition newApp :: "url_parser \<Rightarrow> app_config \<Rightarrow> app_error + app" where
  "newApp parse appCfg =
     (let p = ac_Policy appCfg; id' = ac_ID appCfg in
      case parse (oc_URL (ac_Origin appCfg)) of
        None \<Rightarrow> Inl (OriginParseFailed id')
      | Some origin \<Rightarrow>
        if url_Scheme origin = [] \<or> url_Host origin = [] then Inl (OriginIncomplete id')
        else case parsePrefixes (pc_IPBlocklist p) of
          Inl e \<Rightarrow> Inl (BadBlocklist id' e)
        | Inr blocklist \<Rightarrow>
        (case parsePrefixes (pc_IPAllowlist p) of
          Inl e \<Rightarrow> Inl (BadAllowlist id' e)
        | Inr allowlist \<Rightarrow>
        (case parseIPSets (pc_IPSets p) of
          Inl e \<Rightarrow> Inl (BadIPSets id' e)
        | Inr ipSets \<Rightarrow>
        (case parseCustomRules (pc_CustomRules p) ipSets of
          Inl e \<Rightarrow> Inl (BadCustomRules id' e)
        | Inr customRules \<Rightarrow>
        (case parseRateLimitRules (pc_RateLimits p) ipSets of
          Inl e \<Rightarrow> Inl (BadRateLimits id' e)
        | Inr rateLimits \<Rightarrow>
            Inr (build_app appCfg origin blocklist allowlist ipSets customRules rateLimits))))))"

fun add_hostnames ::
  "unicode \<Rightarrow> app \<Rightarrow> (string \<Rightarrow> app option) \<Rightarrow> string list \<Rightarrow> app_error + (string \<Rightarrow> app option)" where
  "add_hostnames u a tbl [] = Inr tbl"
| "add_hostnames u a tbl (hostname # hostnames) =
     (let host = NormalizeHost u hostname in
      case tbl host of
        Some existing \<Rightarrow> Inl (DuplicateHostname host (app_ID existing) (app_ID a))
      | None \<Rightarrow> add_hostnames u a (tbl(host \<mapsto> a)) hostnames)"

fun new_store_loop ::
  "unicode \<Rightarrow> url_parser \<Rightarrow> (string \<Rightarrow> app option) \<Rightarrow> app_config list
   \<Rightarrow> app_error + (string \<Rightarrow> app option)" where
  "new_store_loop u parse tbl [] = Inr tbl"
| "new_store_loop u parse tbl (appCfg # apps) =
     (case newApp parse appCfg of
        Inl e \<Rightarrow> Inl e
      | Inr a \<Rightarrow>
          (case add_hostnames u a tbl (app_Hostnames a) of
             Inl e \<Rightarrow> Inl e
           | Inr tbl' \<Rightarrow> new_store_loop u parse tbl' apps))"

definition NewStore :: "unicode \<Rightarrow> url_parser \<Rightarrow> app_config list \<Rightarrow> app_error + store" where
  "NewStore u parse apps =
     (case new_store_loop u parse Map.empty apps of
        Inl e \<Rightarrow> Inl e
      | Inr tbl \<Rightarrow> Inr \<lparr>byHost = tbl\<rparr>)"

end
