(* ===== verification/Policy_Facts.thy ===== *)
theory Policy_Facts
  imports Policy
begin

text \<open>
  What the policy component guarantees: the invariant \<open>wf_app\<close> of every parsed app, the
  declarative meaning of conditions, the order in which custom rules decide, the IP list rule
  and the host table. The interface that the request handler relies on is the locale
  \<open>policy_provider\<close>, interpreted here on the static store.
\<close>

section \<open>Conditions\<close>

text \<open>
  The meaning of a configured condition: every operator that is set holds. Nothing in it
  depends on the order in which \<^const>\<open>Match\<close> looks at the operators.
\<close>

fun config_holds :: "unicode \<Rightarrow> request_context \<Rightarrow> ip_sets \<Rightarrow> condition_config \<Rightarrow> bool" where
  "config_holds u ctx ipSets
     (ConditionConfig all any meth path pathPrefix host hdrContains hdrEquals query inSet notInSet) \<longleftrightarrow>
     (all \<noteq> [] \<longrightarrow> list_all (config_holds u ctx ipSets) all) \<and>
     (any \<noteq> [] \<longrightarrow> list_ex (config_holds u ctx ipSets) any) \<and>
     (meth \<noteq> [] \<longrightarrow> go_EqualFold u (rc_Method ctx) meth) \<and>
     (path \<noteq> [] \<longrightarrow> rc_Path ctx = path) \<and>
     (pathPrefix \<noteq> [] \<longrightarrow> prefix pathPrefix (rc_Path ctx)) \<and>
     (host \<noteq> [] \<longrightarrow> NormalizeHost u (rc_Host ctx) = NormalizeHost u host) \<and>
     (\<forall>h. hdrContains = Some h \<longrightarrow>
        (\<exists>v \<in> set (values_of (rc_Headers ctx) (canonicalHeaderName (hm_Name h))). sublist (hm_Value h) v)) \<and>
     (\<forall>h. hdrEquals = Some h \<longrightarrow>
        hm_Value h \<in> set (values_of (rc_Headers ctx) (canonicalHeaderName (hm_Name h)))) \<and>
     (\<forall>q. query = Some q \<longrightarrow>
        (\<exists>v \<in> set (values_of (rc_Query ctx) (qm_Name q)). sublist (qm_Value q) v)) \<and>
     (inSet \<noteq> [] \<longrightarrow> (\<exists>p \<in> set (set_members ipSets inSet). prefix_Contains p (rc_ClientIP ctx))) \<and>
     (notInSet \<noteq> [] \<longrightarrow> (\<forall>p \<in> set (set_members ipSets notInSet). \<not> prefix_Contains p (rc_ClientIP ctx)))"

lemma sublist_hd_notin: "sublist xs ys \<Longrightarrow> x \<notin> set ys \<Longrightarrow> x \<notin> set xs"
  by (auto simp: sublist_def)

text \<open>Header names survive a second canonicalisation: what is stored is what is looked up.\<close>

lemma canon_mime_set: "c \<in> set (canon_mime b s) \<Longrightarrow> header_field_byte c \<or> \<not> list_all header_field_byte s"
  by (metis canon_mime_valid list_all_iff)

lemma header_field_not_space: "header_field_byte c \<Longrightarrow> c \<notin> set ascii_spaces \<and> is_ascii c"
  by (auto simp: header_field_byte_def ascii_spaces_def is_ascii_def is_digit_def is_lower_def
      is_upper_def)

lemma TrimSpace_CanonicalHeaderKey:
  "go_TrimSpace (go_CanonicalHeaderKey (go_TrimSpace s)) = go_CanonicalHeaderKey (go_TrimSpace s)"
proof (cases "list_all header_field_byte (go_TrimSpace s)")
  case True
  let ?k = "canon_mime True (go_TrimSpace s)"
  have "list_all header_field_byte ?k" using True by (simp add: canon_mime_valid)
  then have "ascii_text ?k" and "set ?k \<inter> set ascii_spaces = {}"
    using header_field_not_space by (auto simp: list_all_iff ascii_text_def)
  then have "go_TrimSpace ?k = ?k" by (rule TrimSpace_no_spaces)
  with True show ?thesis by (simp add: go_CanonicalHeaderKey_def)
next
  case False
  then have "go_CanonicalHeaderKey (go_TrimSpace s) = go_TrimSpace s"
    by (simp add: go_CanonicalHeaderKey_def)
  then show ?thesis by simp
qed

lemma canonicalHeaderName_idem [simp]:
  "canonicalHeaderName (canonicalHeaderName s) = canonicalHeaderName s"
  by (simp add: canonicalHeaderName_def TrimSpace_CanonicalHeaderKey)

lemmas parseCondition_splits = option.splits sum.splits

text \<open>A condition that passed validation has exactly one operator.\<close>

lemma parseCondition_operators:
  "parseCondition ips v = Inr c \<Longrightarrow> length (filter id (operators_set v)) = 1"
  by (cases v) (auto simp: validateCondition_def operator_count_def split: parseCondition_splits if_splits)

text \<open>
  A chain of tests in which exactly one test succeeds gives the same answer as the conjunction
  of all the guarded results.
\<close>

fun first_set :: "(bool \<times> bool) list \<Rightarrow> bool" where
  "first_set [] = False"
| "first_set ((g, r) # xs) = (if g then r else first_set xs)"

lemma first_set_single:
  "length (filter id (map fst xs)) = 1 \<Longrightarrow> first_set xs = list_all (\<lambda>(g, r). g \<longrightarrow> r) xs"
proof (induction xs rule: first_set.induct)
  case (2 g r xs)
  show ?case
  proof (cases g)
    case True
    with "2.prems" have "\<forall>x \<in> set xs. \<not> fst x" by (auto simp: filter_empty_conv)
    then have "list_all (\<lambda>(g, r). g \<longrightarrow> r) xs" by (auto simp: list_all_iff)
    with True show ?thesis by simp
  qed (use 2 in simp)
qed simp

lemma parseCondition_Match:
  "parseCondition ips v = Inr c \<Longrightarrow> Match u ctx ips c \<longleftrightarrow> config_holds u ctx ips v"
proof (induction ips v arbitrary: c rule: parseCondition.induct)
  case (1 ips all any meth path pathPrefix host hdrContains hdrEquals query inSet notInSet)
  let ?v = "ConditionConfig all any meth path pathPrefix host hdrContains hdrEquals query inSet notInSet"
  from "1.prems" have valid: "validateCondition ?v ips = None"
    by (auto split: parseCondition_splits)
  from "1.prems" valid obtain all' any' where
    all': "traverse (parseCondition ips) all = Inr all'" and
    any': "traverse (parseCondition ips) any = Inr any'" and
    c: "c = Condition all' any' meth path pathPrefix host (map_option parse_header hdrContains)
              (map_option parse_header hdrEquals) (map_option parse_query query) inSet notInSet"
    by (auto split: parseCondition_splits)
  have one: "length (filter id (operators_set ?v)) = 1"
    using "1.prems" by (rule parseCondition_operators)
  have A: "list_all (Match u ctx ips) all' \<longleftrightarrow> list_all (config_holds u ctx ips) all"
    using all' "1.IH"(1) [OF valid] unfolding traverse_Inr_iff
    by (induction all all' rule: list_all2_induct) auto
  have B: "list_ex (Match u ctx ips) any' \<longleftrightarrow> list_ex (config_holds u ctx ips) any"
    using any' "1.IH"(2) [OF valid all'] unfolding traverse_Inr_iff
    by (induction any any' rule: list_all2_induct) auto
  have len: "all' = [] \<longleftrightarrow> all = []" "any' = [] \<longleftrightarrow> any = []"
    using traverse_Inr_length [OF all'] traverse_Inr_length [OF any'] by auto
  let ?tests = "[(all \<noteq> [], list_all (config_holds u ctx ips) all),
    (any \<noteq> [], list_ex (config_holds u ctx ips) any),
    (meth \<noteq> [], go_EqualFold u (rc_Method ctx) meth),
    (path \<noteq> [], rc_Path ctx = path),
    (pathPrefix \<noteq> [], prefix pathPrefix (rc_Path ctx)),
    (host \<noteq> [], NormalizeHost u (rc_Host ctx) = NormalizeHost u host),
    (hdrContains \<noteq> None, \<exists>v \<in> set (values_of (rc_Headers ctx) (canonicalHeaderName
       (hm_Name (the hdrContains)))). sublist (hm_Value (the hdrContains)) v),
    (hdrEquals \<noteq> None, hm_Value (the hdrEquals) \<in> set (values_of (rc_Headers ctx)
       (canonicalHeaderName (hm_Name (the hdrEquals))))),
    (query \<noteq> None, \<exists>v \<in> set (values_of (rc_Query ctx) (qm_Name (the query))).
       sublist (qm_Value (the query)) v),
    (inSet \<noteq> [], \<exists>p \<in> set (set_members ips inSet). prefix_Contains p (rc_ClientIP ctx)),
    (notInSet \<noteq> [], \<forall>p \<in> set (set_members ips notInSet). \<not> prefix_Contains p (rc_ClientIP ctx))]"
  have "Match u ctx ips c = first_set ?tests"
    unfolding c Match.simps A B len first_set.simps
    by (simp add: parse_header_def parse_query_def headerContains_def headerEquals_def
        go_Contains_def go_HasPrefix_def ipInSet_def list_ex_iff option.map_sel cong: if_cong)
  also have "\<dots> = list_all (\<lambda>(g, r). g \<longrightarrow> r) ?tests"
    using one by (intro first_set_single) (simp only: operators_set_def list.map fst_conv condition_config.sel)
  also have "\<dots> = config_holds u ctx ips ?v"
    by (simp only: config_holds.simps list.pred_inject prod.case) (cases hdrContains; cases hdrEquals; cases query; simp)
  finally show ?case .
qed

section \<open>The invariant of parsed apps\<close>

text \<open>Every set name a condition refers to exists, at every depth.\<close>

fun condition_closed :: "ip_sets \<Rightarrow> condition \<Rightarrow> bool" where
  "condition_closed ips
     (Condition all any meth path pathPrefix hostEq hdrContains hdrEquals query inSet notInSet) \<longleftrightarrow>
     list_all (condition_closed ips) all \<and> list_all (condition_closed ips) any \<and>
     (inSet \<noteq> [] \<longrightarrow> ips inSet \<noteq> None) \<and> (notInSet \<noteq> [] \<longrightarrow> ips notInSet \<noteq> None)"

definition wf_status :: "int \<Rightarrow> bool" where
  "wf_status code \<longleftrightarrow> 0 \<le> code \<and> code \<le> 999"

definition wf_custom_rule :: "ip_sets \<Rightarrow> custom_rule \<Rightarrow> bool" where
  "wf_custom_rule ips r \<longleftrightarrow>
     go_TrimSpace (cr_ID r) \<noteq> [] \<and> cr_Name r \<noteq> [] \<and>
     cr_Action r \<in> {ActionAllow, ActionCount, ActionBlock} \<and> wf_status (cr_StatusCode r) \<and>
     condition_closed ips (cr_When r)"

definition wf_rate_limit :: "ip_sets \<Rightarrow> rate_limit_rule \<Rightarrow> bool" where
  "wf_rate_limit ips r \<longleftrightarrow>
     go_TrimSpace (rl_ID r) \<noteq> [] \<and> rl_Name r \<noteq> [] \<and> 0 < rl_Limit r \<and> 0 < rl_WindowSeconds r \<and>
     rl_Action r \<in> {ActionCount, ActionBlock} \<and> rl_KeyType r \<in> rate_key_types \<and>
     wf_status (rl_StatusCode r) \<and>
     (\<forall>c. rl_MatchExpression r = Some c \<longrightarrow> condition_closed ips c)"

definition masked :: "prefix_t list \<Rightarrow> bool" where
  "masked ps \<longleftrightarrow> list_all (\<lambda>p. prefix_Masked p = p) ps"

definition wf_app :: "app \<Rightarrow> bool" where
  "wf_app a \<longleftrightarrow>
     app_TenantID a \<noteq> [] \<and> url_Scheme (app_Origin a) \<noteq> [] \<and> url_Host (app_Origin a) \<noteq> [] \<and>
     masked (app_IPBlocklist a) \<and> masked (app_IPAllowlist a) \<and>
     (\<forall>n ps. app_IPSets a n = Some ps \<longrightarrow> go_TrimSpace n \<noteq> [] \<and> masked ps) \<and>
     list_all (wf_custom_rule (app_IPSets a)) (app_CustomRules a) \<and>
     distinct (map cr_ID (app_CustomRules a)) \<and> sorted (map cr_Priority (app_CustomRules a)) \<and>
     list_all (wf_rate_limit (app_IPSets a)) (app_RateLimits a) \<and>
     distinct (map rl_ID (app_RateLimits a)) \<and> sorted (map rl_Priority (app_RateLimits a))"

lemma Masked_idem [simp]: "prefix_Masked (prefix_Masked p) = prefix_Masked p"
  by (cases p rule: prefix_Masked.cases) simp_all

lemma parsePrefixes_masked:
  assumes "parsePrefixes vs = Inr ps"
  shows "masked ps"
  unfolding masked_def list_all_iff
proof
  fix p assume "p \<in> set ps"
  then show "prefix_Masked p = p"
    using traverse_Inr_set [OF assms [unfolded parsePrefixes_def] \<open>p \<in> set ps\<close>]
    by (auto split: option.splits)
qed

lemma parseIPSets_loop_masked:
  assumes "parseIPSets_loop sets vs = Inr ips"
    and "\<forall>n ps. sets n = Some ps \<longrightarrow> go_TrimSpace n \<noteq> [] \<and> masked ps"
  shows "\<forall>n ps. ips n = Some ps \<longrightarrow> go_TrimSpace n \<noteq> [] \<and> masked ps"
  using assms
proof (induction sets vs rule: parseIPSets_loop.induct)
  case (2 sets name cidrs entries)
  then obtain ps where ps: "parsePrefixes cidrs = Inr ps" and n: "go_TrimSpace name \<noteq> []"
    and "parseIPSets_loop (sets(name \<mapsto> ps)) entries = Inr ips"
    by (auto split: if_splits sum.splits)
  moreover have "\<forall>n qs. (sets(name \<mapsto> ps)) n = Some qs \<longrightarrow> go_TrimSpace n \<noteq> [] \<and> masked qs"
    using "2.prems"(2) n parsePrefixes_masked [OF ps] by simp
  ultimately show ?case using "2.IH" by blast
qed simp

lemma parseIPSets_masked:
  "parseIPSets vs = Inr ips \<Longrightarrow> ips n = Some ps \<Longrightarrow> go_TrimSpace n \<noteq> [] \<and> masked ps"
  unfolding parseIPSets_def by (drule parseIPSets_loop_masked) auto

lemma parseCondition_closed: "parseCondition ips v = Inr c \<Longrightarrow> condition_closed ips c"
proof (induction ips v arbitrary: c rule: parseCondition.induct)
  case (1 ips all any meth path pathPrefix host hdrContains hdrEquals query inSet notInSet)
  let ?v = "ConditionConfig all any meth path pathPrefix host hdrContains hdrEquals query inSet notInSet"
  from "1.prems" have valid: "validateCondition ?v ips = None"
    by (auto split: parseCondition_splits)
  from "1.prems" valid obtain all' any' where
    all': "traverse (parseCondition ips) all = Inr all'" and
    any': "traverse (parseCondition ips) any = Inr any'" and
    c: "c = Condition all' any' meth path pathPrefix host (map_option parse_header hdrContains)
              (map_option parse_header hdrEquals) (map_option parse_query query) inSet notInSet"
    by (auto split: parseCondition_splits)
  have "list_all (condition_closed ips) all'"
    using traverse_Inr_set [OF all'] "1.IH"(1) [OF valid] by (fastforce simp: list_all_iff)
  moreover have "list_all (condition_closed ips) any'"
    using traverse_Inr_set [OF any'] "1.IH"(2) [OF valid all'] by (fastforce simp: list_all_iff)
  ultimately show ?case
    using valid by (simp add: c validateCondition_def split: if_splits) blast
qed

text \<open>Success of a rule parser leaves one possible result, whatever ids were seen before.\<close>

definition custom_rule_of :: "ip_sets \<Rightarrow> custom_rule_config \<Rightarrow> custom_rule" where
  "custom_rule_of ips v =
     \<lparr>cr_ID = crc_ID v, cr_Name = crc_Name v, cr_Priority = crc_Priority v,
      cr_Enabled = crc_Enabled v, cr_Action = crc_Action v, cr_StatusCode = crc_StatusCode v,
      cr_TerminalAllow = crc_TerminalAllow v, cr_When = projr (parseCondition ips (crc_When v))\<rparr>"

lemma parse_custom_rule_Inr:
  assumes "parse_custom_rule ips seen v = Inr r"
  shows "r = custom_rule_of ips v" "crc_ID v \<notin> seen" "wf_custom_rule ips r"
    "parseCondition ips (crc_When v) = Inr (cr_When r)"
  using assms
  by (auto simp: parse_custom_rule_def custom_rule_of_def wf_custom_rule_def wf_status_def
      intro: parseCondition_closed split: if_splits sum.splits)

lemma parse_custom_rules_loop_Inr:
  assumes "parse_custom_rules_loop ips seen vs = Inr rs"
  shows "rs = map (custom_rule_of ips) vs \<and> list_all (wf_custom_rule ips) rs \<and>
    distinct (map crc_ID vs) \<and> set (map crc_ID vs) \<inter> seen = {} \<and>
    (\<forall>v \<in> set vs. parseCondition ips (crc_When v) = Inr (cr_When (custom_rule_of ips v)))"
  using assms
proof (induction ips seen vs arbitrary: rs rule: parse_custom_rules_loop.induct)
  case (2 ips seen v vs)
  then obtain r rs' where r: "parse_custom_rule ips seen v = Inr r"
    and rs': "parse_custom_rules_loop ips (insert (crc_ID v) seen) vs = Inr rs'" and "rs = r # rs'"
    by (auto split: sum.splits)
  with "2.IH" [OF r rs'] parse_custom_rule_Inr [OF r] show ?case by auto
qed simp

definition rate_limit_of :: "ip_sets \<Rightarrow> rate_limit_config \<Rightarrow> rate_limit_rule" where
  "rate_limit_of ips v =
     \<lparr>rl_ID = rlc_ID v, rl_Name = rlc_Name v, rl_Enabled = rlc_Enabled v,
      rl_Priority = rlc_Priority v,
      rl_MatchExpression = projr (parse_match_expression ips (rlc_MatchExpression v)),
      rl_KeyType = rlc_KeyType v, rl_KeyHeader = canonicalHeaderName (rlc_KeyHeader v),
      rl_Limit = rlc_Limit v, rl_WindowSeconds = rlc_WindowSeconds v, rl_Action = rlc_Action v,
      rl_StatusCode = rlc_StatusCode v\<rparr>"

lemma parse_match_expression_closed:
  "parse_match_expression ips v = Inr (Some c) \<Longrightarrow> condition_closed ips c"
  by (auto simp: parse_match_expression_def intro: parseCondition_closed split: if_splits sum.splits)

lemma parse_rate_limit_Inr:
  assumes "parse_rate_limit ips seen v = Inr r"
  shows "r = rate_limit_of ips v" "rlc_ID v \<notin> seen" "wf_rate_limit ips r"
  using assms
  by (auto simp: parse_rate_limit_def rate_limit_of_def wf_rate_limit_def wf_status_def
      intro: parse_match_expression_closed split: if_splits sum.splits)

lemma parse_rate_limits_loop_Inr:
  assumes "parse_rate_limits_loop ips seen vs = Inr rs"
  shows "rs = map (rate_limit_of ips) vs \<and> list_all (wf_rate_limit ips) rs \<and>
    distinct (map rlc_ID vs) \<and> set (map rlc_ID vs) \<inter> seen = {}"
  using assms
proof (induction ips seen vs arbitrary: rs rule: parse_rate_limits_loop.induct)
  case (2 ips seen v vs)
  then obtain r rs' where r: "parse_rate_limit ips seen v = Inr r"
    and rs': "parse_rate_limits_loop ips (insert (rlc_ID v) seen) vs = Inr rs'" and "rs = r # rs'"
    by (auto split: sum.splits)
  with "2.IH" [OF r rs'] parse_rate_limit_Inr [OF r] show ?case by auto
qed simp

text \<open>A stable sort commutes with a map that keeps the keys.\<close>

lemma insort_key_map: "insort_key f (g x) (map g xs) = map g (insort_key (\<lambda>x. f (g x)) x xs)"
  by (induction xs) auto

lemma sort_key_map: "sort_key f (map g xs) = map g (sort_key (\<lambda>x. f (g x)) xs)"
  by (induction xs) (auto simp: insort_key_map)

lemma parseCustomRules_Inr:
  assumes "parseCustomRules vs ips = Inr rs"
  shows "rs = map (custom_rule_of ips) (sort_key crc_Priority vs)" "list_all (wf_custom_rule ips) rs"
    "distinct (map cr_ID rs)" "sorted (map cr_Priority rs)"
    "\<forall>v \<in> set vs. parseCondition ips (crc_When v) = Inr (cr_When (custom_rule_of ips v))"
proof -
  obtain rs0 where rs0: "parse_custom_rules_loop ips {} vs = Inr rs0" and rs: "rs = sort_key cr_Priority rs0"
    using assms by (auto simp: parseCustomRules_def split: sum.splits)
  note P = parse_custom_rules_loop_Inr [OF rs0]
  have prio: "cr_Priority (custom_rule_of ips v) = crc_Priority v" for v by (simp add: custom_rule_of_def)
  have cid: "cr_ID (custom_rule_of ips v) = crc_ID v" for v by (simp add: custom_rule_of_def)
  show eq: "rs = map (custom_rule_of ips) (sort_key crc_Priority vs)"
    using P by (simp add: rs sort_key_map prio)
  show "list_all (wf_custom_rule ips) rs" using P by (simp add: rs list_all_iff)
  show "sorted (map cr_Priority rs)" by (simp add: rs)
  have "distinct (map crc_ID (sort_key crc_Priority vs))"
    using P by (simp add: distinct_map)
  then show "distinct (map cr_ID rs)" by (simp add: eq cid comp_def)
  show "\<forall>v \<in> set vs. parseCondition ips (crc_When v) = Inr (cr_When (custom_rule_of ips v))"
    using P by blast
qed

lemma parseRateLimitRules_Inr:
  assumes "parseRateLimitRules vs ips = Inr rs"
  shows "rs = map (rate_limit_of ips) (sort_key rlc_Priority vs)" "list_all (wf_rate_limit ips) rs"
    "distinct (map rl_ID rs)" "sorted (map rl_Priority rs)"
proof -
  obtain rs0 where rs0: "parse_rate_limits_loop ips {} vs = Inr rs0" and rs: "rs = sort_key rl_Priority rs0"
    using assms by (auto simp: parseRateLimitRules_def split: sum.splits)
  note P = parse_rate_limits_loop_Inr [OF rs0]
  have prio: "rl_Priority (rate_limit_of ips v) = rlc_Priority v" for v by (simp add: rate_limit_of_def)
  have rid: "rl_ID (rate_limit_of ips v) = rlc_ID v" for v by (simp add: rate_limit_of_def)
  show eq: "rs = map (rate_limit_of ips) (sort_key rlc_Priority vs)"
    using P by (simp add: rs sort_key_map prio)
  show "list_all (wf_rate_limit ips) rs" using P by (simp add: rs list_all_iff)
  show "sorted (map rl_Priority rs)" by (simp add: rs)
  have "distinct (map rlc_ID (sort_key rlc_Priority vs))"
    using P by (simp add: distinct_map)
  then show "distinct (map rl_ID rs)" by (simp add: eq rid comp_def)
qed

lemma newApp_Inr:
  assumes "newApp parse cfg = Inr a"
  obtains origin blocklist allowlist ips rules limits where
    "parse (oc_URL (ac_Origin cfg)) = Some origin" "url_Scheme origin \<noteq> []" "url_Host origin \<noteq> []"
    "parsePrefixes (pc_IPBlocklist (ac_Policy cfg)) = Inr blocklist"
    "parsePrefixes (pc_IPAllowlist (ac_Policy cfg)) = Inr allowlist"
    "parseIPSets (pc_IPSets (ac_Policy cfg)) = Inr ips"
    "parseCustomRules (pc_CustomRules (ac_Policy cfg)) ips = Inr rules"
    "parseRateLimitRules (pc_RateLimits (ac_Policy cfg)) ips = Inr limits"
    "a = build_app cfg origin blocklist allowlist ips rules limits"
  using assms by (auto simp: newApp_def Let_def split: option.splits if_splits sum.splits)

lemma newApp_wf_app: "newApp parse cfg = Inr a \<Longrightarrow> wf_app a"
proof (erule newApp_Inr)
  fix origin blocklist allowlist ips rules limits
  assume o: "url_Scheme origin \<noteq> []" "url_Host origin \<noteq> []"
    and b: "parsePrefixes (pc_IPBlocklist (ac_Policy cfg)) = Inr blocklist"
    and w: "parsePrefixes (pc_IPAllowlist (ac_Policy cfg)) = Inr allowlist"
    and i: "parseIPSets (pc_IPSets (ac_Policy cfg)) = Inr ips"
    and r: "parseCustomRules (pc_CustomRules (ac_Policy cfg)) ips = Inr rules"
    and l: "parseRateLimitRules (pc_RateLimits (ac_Policy cfg)) ips = Inr limits"
    and a: "a = build_app cfg origin blocklist allowlist ips rules limits"
  show "wf_app a"
    using o parsePrefixes_masked [OF b] parsePrefixes_masked [OF w] parseIPSets_masked [OF i]
      parseCustomRules_Inr [OF r] parseRateLimitRules_Inr [OF l]
    unfolding a build_app_def wf_app_def by simp
qed

section \<open>Custom rules\<close>

text \<open>
  What a list of configured rules means for a request: among the enabled rules whose condition
  holds, taken by priority and then in the order of the file, the first blocking or
  terminal-allow rule decides; without one, the first counting rule is reported.
\<close>

definition config_terminal :: "custom_rule_config \<Rightarrow> bool" where
  "config_terminal v \<longleftrightarrow> crc_Action v = ActionBlock \<or> crc_Action v = ActionAllow \<and> crc_TerminalAllow v"

definition config_decision :: "custom_rule_config \<Rightarrow> decision" where
  "config_decision v =
     (if crc_Action v = ActionBlock then
        zero_decision\<lparr>Action := ActionBlock, Reason := ''custom_rule'', MatchedRuleID := crc_ID v,
          MatchedRuleName := crc_Name v, RuleGroup := ''custom'', Tags := [''custom_rule''],
          StatusCode := crc_StatusCode v\<rparr>
      else if crc_Action v = ActionCount then
        zero_decision\<lparr>Action := ActionCount, Reason := ''custom_rule'', MatchedRuleID := crc_ID v,
          MatchedRuleName := crc_Name v, RuleGroup := ''custom'', Tags := [''custom_rule'']\<rparr>
      else
        zero_decision\<lparr>Action := ActionAllow, Reason := ''custom_rule_allow'',
          MatchedRuleID := crc_ID v, MatchedRuleName := crc_Name v, RuleGroup := ''custom'',
          Tags := [''custom_rule'', ''terminal_allow'']\<rparr>)"

definition custom_rules_spec ::
  "unicode \<Rightarrow> request_context \<Rightarrow> ip_sets \<Rightarrow> custom_rule_config list \<Rightarrow> decision" where
  "custom_rules_spec u ctx ips vs =
     (let hits = filter (\<lambda>v. crc_Enabled v \<and> config_holds u ctx ips (crc_When v)) (sort_key crc_Priority vs)
      in case find config_terminal hits of
           Some v \<Rightarrow> config_decision v
         | None \<Rightarrow>
             (case find (\<lambda>v. crc_Action v = ActionCount) hits of
                Some v \<Rightarrow> config_decision v
              | None \<Rightarrow> d_Allow))"

lemma custom_rules_loop_spec:
  assumes "\<forall>v \<in> set vs. Match u ctx ips (cr_When (custom_rule_of ips v)) = config_holds u ctx ips (crc_When v)"
  shows "custom_rules_loop u ctx ips fc (map (custom_rule_of ips) vs) =
    (let hits = filter (\<lambda>v. crc_Enabled v \<and> config_holds u ctx ips (crc_When v)) vs
      in case find config_terminal hits of
           Some v \<Rightarrow> config_decision v
         | None \<Rightarrow> if Action fc \<noteq> [] then fc else
             (case find (\<lambda>v. crc_Action v = ActionCount) hits of
                Some v \<Rightarrow> config_decision v
              | None \<Rightarrow> d_Allow))"
  using assms
proof (induction vs arbitrary: fc)
  case (Cons v vs)
  have sel: "cr_Enabled (custom_rule_of ips v) = crc_Enabled v"
    "cr_Action (custom_rule_of ips v) = crc_Action v"
    "cr_TerminalAllow (custom_rule_of ips v) = crc_TerminalAllow v"
    by (simp_all add: custom_rule_of_def)
  have dec: "crc_Action v = ActionBlock \<Longrightarrow> annotate (custom_rule_of ips v) [''custom_rule'']
       (WithStatus (d_Block ''custom_rule'' (cr_ID (custom_rule_of ips v)))
         (cr_StatusCode (custom_rule_of ips v))) = config_decision v"
    "crc_Action v = ActionCount \<Longrightarrow> annotate (custom_rule_of ips v) [''custom_rule'']
       (d_Count ''custom_rule'' (cr_ID (custom_rule_of ips v))) = config_decision v"
    "crc_Action v = ActionAllow \<Longrightarrow> annotate (custom_rule_of ips v) [''custom_rule'', ''terminal_allow'']
       (d_AllowRule ''custom_rule_allow'' (cr_ID (custom_rule_of ips v))) = config_decision v"
    by (simp_all add: annotate_def custom_rule_of_def config_decision_def decision_defs)
  have act: "crc_Action v = ActionCount \<Longrightarrow> Action (config_decision v) \<noteq> []"
    by (simp add: config_decision_def)
  have IH: "custom_rules_loop u ctx ips fc' (map (custom_rule_of ips) vs) =
    (let hits = filter (\<lambda>v. crc_Enabled v \<and> config_holds u ctx ips (crc_When v)) vs
      in case find config_terminal hits of Some v \<Rightarrow> config_decision v
         | None \<Rightarrow> if Action fc' \<noteq> [] then fc' else
             (case find (\<lambda>v. crc_Action v = ActionCount) hits of
                Some v \<Rightarrow> config_decision v | None \<Rightarrow> d_Allow))" for fc'
    using Cons by simp
  have m: "Match u ctx ips (cr_When (custom_rule_of ips v)) = config_holds u ctx ips (crc_When v)"
    using Cons.prems by simp
  show ?case
    by (cases "crc_Enabled v \<and> config_holds u ctx ips (crc_When v)"; cases "config_terminal v";
        cases "crc_Action v = ActionCount"; cases "Action fc = []")
      (auto simp: sel m IH dec act config_terminal_def [of v] Let_def split: option.split)
qed (simp add: d_Allow_def)

lemma EvaluateCustomRules_refines:
  assumes "newApp parse cfg = Inr a"
  shows "EvaluateCustomRules u a ctx =
    custom_rules_spec u ctx (app_IPSets a) (pc_CustomRules (ac_Policy cfg))"
proof -
  from assms obtain ips where r: "parseCustomRules (pc_CustomRules (ac_Policy cfg)) ips = Inr (app_CustomRules a)"
    and ips: "app_IPSets a = ips"
    by (elim newApp_Inr) (auto simp: build_app_def)
  note R = parseCustomRules_Inr [OF r]
  have "\<forall>v \<in> set (sort_key crc_Priority (pc_CustomRules (ac_Policy cfg))).
      Match u ctx ips (cr_When (custom_rule_of ips v)) = config_holds u ctx ips (crc_When v)"
    using R(5) parseCondition_Match by simp
  from custom_rules_loop_spec [OF this, of zero_decision] show ?thesis
    unfolding EvaluateCustomRules_def custom_rules_spec_def ips R(1) by (simp add: Let_def)
qed

section \<open>IP lists\<close>

text \<open>A configured CIDR text covers an address: same family, no zone, same leading bits.\<close>

fun cidr_block_holds :: "prefix_t \<Rightarrow> addr \<Rightarrow> bool" where
  "cidr_block_holds (Prefix (IPv4 b) n) (IPv4 a) \<longleftrightarrow> unat a div 2 ^ (32 - n) = unat b div 2 ^ (32 - n)"
| "cidr_block_holds (Prefix (IPv6 b bz) n) (IPv6 a z) \<longleftrightarrow>
     z = [] \<and> unat a div 2 ^ (128 - n) = unat b div 2 ^ (128 - n)"
| "cidr_block_holds p a \<longleftrightarrow> False"

definition cidr_covers :: "addr \<Rightarrow> string \<Rightarrow> bool" where
  "cidr_covers ip s =
     (case ParsePrefix (go_TrimSpace s) of None \<Rightarrow> False | Some p \<Rightarrow> cidr_block_holds p ip)"

lemma Contains_cidr: "prefix_Contains p a = cidr_block_holds p a"
proof (cases p)
  case (Prefix b n)
  then show ?thesis
    by (cases b; cases a)
      (simp_all only: cidr_block_holds.simps Contains_IPv4 Contains_IPv6 prefix_Contains.simps)
qed

lemma parsePrefixes_ipInSet:
  assumes "parsePrefixes vs = Inr ps"
  shows "ipInSet ip ps \<longleftrightarrow> list_ex (cidr_covers ip) vs"
proof -
  have "list_all2 (\<lambda>v p. prefix_Contains p ip = cidr_covers ip v) vs ps"
    using assms unfolding parsePrefixes_def traverse_Inr_iff
    by (rule list_all2_mono) (auto simp: cidr_covers_def Contains_Masked Contains_cidr [symmetric] split: option.splits)
  then show ?thesis unfolding ipInSet_def by (induction rule: list_all2_induct) auto
qed

lemma EvaluateIP_cases:
  "EvaluateIP a ip =
     (if ipInSet ip (app_IPBlocklist a)
      then d_Block ''ip_blocklist'' (''ip_blocklist:'' @
             prefix_String (the (find (\<lambda>p. prefix_Contains p ip) (app_IPBlocklist a))))
      else if app_IPAllowlist a = [] \<or> ipInSet ip (app_IPAllowlist a) then d_Allow
      else d_Block ''ip_allowlist'' ''ip_allowlist'')"
proof (cases "find (\<lambda>p. prefix_Contains p ip) (app_IPBlocklist a)")
  case None
  then have "\<not> ipInSet ip (app_IPBlocklist a)" by (auto simp: ipInSet_def list_ex_iff find_None_iff)
  with None show ?thesis by (simp add: EvaluateIP_def)
next
  case (Some p)
  then have "ipInSet ip (app_IPBlocklist a)"
    by (auto simp: ipInSet_def list_ex_iff find_Some_iff intro!: bexI [OF _ nth_mem])
  with Some show ?thesis by (simp add: EvaluateIP_def)
qed

lemma parsePrefixes_Nil: "parsePrefixes vs = Inr ps \<Longrightarrow> ps = [] \<longleftrightarrow> vs = []"
  by (auto simp: parsePrefixes_def dest: traverse_Inr_length)

lemma EvaluateIP_config:
  assumes "newApp parse cfg = Inr a"
  shows "EvaluateIP a ip =
     (if list_ex (cidr_covers ip) (pc_IPBlocklist (ac_Policy cfg))
      then d_Block ''ip_blocklist'' (''ip_blocklist:'' @
             prefix_String (the (find (\<lambda>p. prefix_Contains p ip) (app_IPBlocklist a))))
      else if pc_IPAllowlist (ac_Policy cfg) = [] \<or> list_ex (cidr_covers ip) (pc_IPAllowlist (ac_Policy cfg))
      then d_Allow
      else d_Block ''ip_allowlist'' ''ip_allowlist'')"
proof -
  from assms have b: "parsePrefixes (pc_IPBlocklist (ac_Policy cfg)) = Inr (app_IPBlocklist a)"
    and w: "parsePrefixes (pc_IPAllowlist (ac_Policy cfg)) = Inr (app_IPAllowlist a)"
    by (auto elim!: newApp_Inr simp: build_app_def)
  show ?thesis
    unfolding EvaluateIP_cases parsePrefixes_ipInSet [OF b] parsePrefixes_ipInSet [OF w]
      parsePrefixes_Nil [OF w] ..
qed

section \<open>The host table\<close>

lemma newApp_hostnames: "newApp parse cfg = Inr a \<Longrightarrow> app_Hostnames a = ac_Hostnames cfg"
  by (elim newApp_Inr) (simp add: build_app_def)

lemma add_hostnames_Inr:
  "add_hostnames u a tbl hs = Inr tbl' \<longleftrightarrow>
     distinct (map (NormalizeHost u) hs) \<and> dom tbl \<inter> NormalizeHost u ` set hs = {} \<and>
     tbl' = (\<lambda>h. if h \<in> NormalizeHost u ` set hs then Some a else tbl h)"
proof (induction u a tbl hs arbitrary: tbl' rule: add_hostnames.induct)
  case (2 u a tbl h hs)
  show ?case
  proof (cases "tbl (NormalizeHost u h)")
    case None
    have "(\<lambda>x. if x \<in> NormalizeHost u ` set hs then Some a else (tbl(NormalizeHost u h \<mapsto> a)) x)
        = (\<lambda>x. if x \<in> NormalizeHost u ` set (h # hs) then Some a else tbl x)"
      by auto
    with None show ?thesis
      using "2.IH" [OF refl None] by (auto simp: Let_def domIff simp del: fun_upd_apply)
  qed (auto simp: Let_def)
qed auto

lemma add_hostnames_error:
  "add_hostnames u a tbl hs = Inl e \<Longrightarrow>
     \<not> (distinct (map (NormalizeHost u) hs) \<and> dom tbl \<inter> NormalizeHost u ` set hs = {})"
  using add_hostnames_Inr [of u a tbl hs] by (metis sum.distinct(1))

definition cfg_hosts :: "unicode \<Rightarrow> app_config \<Rightarrow> string list" where
  "cfg_hosts u cfg = map (NormalizeHost u) (ac_Hostnames cfg)"

lemma new_store_loop_Inr:
  assumes "new_store_loop u parse tbl cfgs = Inr tbl'"
  shows "(\<forall>cfg \<in> set cfgs. \<exists>a. newApp parse cfg = Inr a) \<and>
    distinct (concat (map (cfg_hosts u) cfgs)) \<and>
    dom tbl \<inter> set (concat (map (cfg_hosts u) cfgs)) = {} \<and>
    (\<forall>h a. tbl' h = Some a \<longleftrightarrow>
       tbl h = Some a \<or> (\<exists>cfg \<in> set cfgs. newApp parse cfg = Inr a \<and> h \<in> set (cfg_hosts u cfg)))"
  using assms
proof (induction u parse tbl cfgs rule: new_store_loop.induct)
  case (2 u parse tbl cfg cfgs)
  then obtain a tbl1 where a: "newApp parse cfg = Inr a"
    and t1: "add_hostnames u a tbl (app_Hostnames a) = Inr tbl1"
    and rest: "new_store_loop u parse tbl1 cfgs = Inr tbl'"
    by (auto split: sum.splits)
  note IH = "2.IH" [OF a t1 rest]
  have hs: "app_Hostnames a = ac_Hostnames cfg" by (rule newApp_hostnames [OF a])
  have t1': "distinct (cfg_hosts u cfg)" "dom tbl \<inter> set (cfg_hosts u cfg) = {}"
    "\<And>h. tbl1 h = (if h \<in> set (cfg_hosts u cfg) then Some a else tbl h)"
    using t1 unfolding hs add_hostnames_Inr by (auto simp: cfg_hosts_def)
  have dom: "dom tbl1 = dom tbl \<union> set (cfg_hosts u cfg)"
    by (auto simp: domIff t1'(3) split: if_splits)
  have "tbl' h = Some b \<longleftrightarrow> tbl h = Some b \<or>
      (\<exists>c \<in> set (cfg # cfgs). newApp parse c = Inr b \<and> h \<in> set (cfg_hosts u c))" for h b
  proof -
    have "tbl' h = Some b \<longleftrightarrow> tbl1 h = Some b \<or>
        (\<exists>c \<in> set cfgs. newApp parse c = Inr b \<and> h \<in> set (cfg_hosts u c))"
      using IH by blast
    then show ?thesis using a t1' by (auto simp: domIff split: if_splits)
  qed
  moreover have "dom tbl \<inter> set (concat (map (cfg_hosts u) (cfg # cfgs))) = {}"
    "distinct (concat (map (cfg_hosts u) (cfg # cfgs)))"
    using IH t1'(1,2) unfolding dom by auto
  ultimately show ?case using IH a by simp
qed simp

lemma new_store_loop_total:
  assumes "\<forall>cfg \<in> set cfgs. \<exists>a. newApp parse cfg = Inr a"
    and "distinct (concat (map (cfg_hosts u) cfgs))"
    and "dom tbl \<inter> set (concat (map (cfg_hosts u) cfgs)) = {}"
  shows "\<exists>tbl'. new_store_loop u parse tbl cfgs = Inr tbl'"
  using assms
proof (induction u parse tbl cfgs rule: new_store_loop.induct)
  case (2 u parse tbl cfg cfgs)
  then obtain a where a: "newApp parse cfg = Inr a" by auto
  have hs: "app_Hostnames a = ac_Hostnames cfg" by (rule newApp_hostnames [OF a])
  define tbl1 where "tbl1 = (\<lambda>h. if h \<in> set (cfg_hosts u cfg) then Some a else tbl h)"
  have t1: "add_hostnames u a tbl (app_Hostnames a) = Inr tbl1"
    using "2.prems" unfolding hs add_hostnames_Inr by (auto simp: tbl1_def cfg_hosts_def)
  have "dom tbl1 = dom tbl \<union> set (cfg_hosts u cfg)" by (auto simp: domIff tbl1_def split: if_splits)
  then have "\<exists>tbl'. new_store_loop u parse tbl1 cfgs = Inr tbl'"
    using "2.prems" by (intro "2.IH" [OF a t1]) auto
  then show ?case using a t1 by simp
qed simp

lemma NewStore_Inr_iff:
  "(\<exists>s. NewStore u parse cfgs = Inr s) \<longleftrightarrow>
     (\<forall>cfg \<in> set cfgs. \<exists>a. newApp parse cfg = Inr a) \<and> distinct (concat (map (cfg_hosts u) cfgs))"
  using new_store_loop_Inr [of u parse Map.empty cfgs] new_store_loop_total [of cfgs parse u Map.empty]
  by (force simp: NewStore_def split: sum.splits)

lemma MatchHost_iff:
  "NewStore u parse cfgs = Inr s \<Longrightarrow>
   MatchHost u s h = Some a \<longleftrightarrow>
     (\<exists>cfg \<in> set cfgs. newApp parse cfg = Inr a \<and> NormalizeHost u h \<in> set (cfg_hosts u cfg))"
  using new_store_loop_Inr [of u parse Map.empty cfgs]
  by (auto simp: NewStore_def MatchHost_def split: sum.splits)

text \<open>The names of a plain host: ASCII, no space, no colon, no bracket.\<close>

definition plain_host :: "string \<Rightarrow> bool" where
  "plain_host h \<longleftrightarrow> h \<noteq> [] \<and> ascii_text h \<and> set h \<inter> (set ascii_spaces \<union> set '':[]'') = {}"

lemma dropWhile_none: "(\<And>x. x \<in> set xs \<Longrightarrow> \<not> P x) \<Longrightarrow> dropWhile P xs = xs"
  by (cases xs) auto

lemma Trim_none: "set s \<inter> set cs = {} \<Longrightarrow> go_Trim s cs = s"
  by (subst dropWhile_none | auto simp: go_Trim_def go_TrimLeft_def go_TrimRight_def)+

lemma ascii_lower_special:
  "ascii_lower c = d \<Longrightarrow> \<not> is_lower d \<Longrightarrow> c = d"
  by (auto simp: ascii_lower_def is_lower_def is_upper_def split: if_splits)

lemma lower_disjoint:
  assumes "set s \<inter> set cs = {}" and "list_all (\<lambda>c. \<not> is_lower c) cs"
  shows "set (map ascii_lower s) \<inter> set cs = {}"
  using assms ascii_lower_special by (fastforce simp: list_all_iff)

lemma specials_not_lower:
  "list_all (\<lambda>c. \<not> is_lower c) ascii_spaces" "list_all (\<lambda>c. \<not> is_lower c) '':[]''"
  by (simp_all add: ascii_spaces_def is_lower_def)

lemma plain_host_lower: "plain_host h \<Longrightarrow> plain_host (map ascii_lower h)"
  using lower_disjoint [of h ascii_spaces] lower_disjoint [of h "'':[]''"] specials_not_lower
  unfolding plain_host_def by (simp add: Int_Un_distrib)

lemma plain_host_TrimSpace: "plain_host h \<Longrightarrow> go_TrimSpace h = h"
  by (rule TrimSpace_no_spaces) (auto simp: plain_host_def)

lemma sublist_singleton: "sublist [c] s \<longleftrightarrow> c \<in> set s"
proof
  assume "c \<in> set s"
  then obtain ys zs where "s = ys @ c # zs" by (meson split_list)
  then have "s = ys @ [c] @ zs" by simp
  then show "sublist [c] s" unfolding sublist_def by blast
qed (auto simp: sublist_def)

lemma NormalizeHost_plain:
  assumes "plain_host h"
  shows "NormalizeHost u h = map ascii_lower h"
proof -
  note l = plain_host_lower [OF assms]
  have "\<not> go_Contains (map ascii_lower h) '':''"
    using l by (auto simp: go_Contains_def sublist_singleton plain_host_def)
  moreover have "go_Trim (map ascii_lower h) ''[]'' = map ascii_lower h"
    using l by (intro Trim_none) (auto simp: plain_host_def)
  ultimately show ?thesis
    using assms l plain_host_TrimSpace [OF l]
    by (simp add: NormalizeHost_def Let_def plain_host_def)
qed

lemma NormalizeHost_port:
  assumes "plain_host h" and "list_all is_digit port"
  shows "NormalizeHost u (h @ '':'' @ port) = map ascii_lower h"
proof -
  note l = plain_host_lower [OF assms(1)]
  let ?hp = "map ascii_lower h @ '':'' @ port"
  have port: "map ascii_lower port = port" "ascii_text port"
    "set port \<inter> (set ascii_spaces \<union> set '':[]'') = {}"
  proof -
    have p: "ascii_lower c = c" "is_ascii c" "c \<notin> set ascii_spaces \<union> set '':[]''" if "is_digit c" for c
      using that by (auto simp: ascii_lower_def is_upper_def is_digit_def is_ascii_def ascii_spaces_def)
    then show "map ascii_lower port = port" "ascii_text port"
      "set port \<inter> (set ascii_spaces \<union> set '':[]'') = {}"
      using assms(2) by (auto simp: list_all_iff ascii_text_def intro: map_idI)
  qed
  have colon: "ascii_lower (CHR '':'') = CHR '':''" "is_ascii (CHR '':'')" "CHR '':'' \<notin> set ascii_spaces"
    by (simp_all add: ascii_lower_def is_upper_def is_ascii_def ascii_spaces_def)
  have low: "go_ToLower u (h @ '':'' @ port) = ?hp"
    using assms port colon by (simp add: plain_host_def)
  have trim: "go_TrimSpace ?hp = ?hp"
    using l port colon by (intro TrimSpace_no_spaces) (auto simp: plain_host_def)
  have split: "go_SplitHostPort ?hp = Some (map ascii_lower h, port)"
    using l port by (intro SplitHostPort_plain) (auto simp: plain_host_def)
  have "go_Trim (map ascii_lower h) ''[]'' = map ascii_lower h"
    using l by (intro Trim_none) (auto simp: plain_host_def)
  moreover have "go_Contains ?hp '':''"
    by (simp add: go_Contains_def sublist_singleton)
  ultimately show ?thesis
    unfolding NormalizeHost_def low trim Let_def using split by simp
qed

section \<open>The provider interface\<close>

text \<open>What the request handler may rely on in the result of a lookup.\<close>

definition wf_lookup :: "lookup_result \<Rightarrow> bool" where
  "wf_lookup r \<longleftrightarrow>
     (lr_Found r \<longrightarrow> (\<exists>a. lr_App r = Some a \<and> wf_app a) \<and> \<not> lr_FailOpen r) \<and>
     (lr_StatusCode r = 0 \<or> lr_StatusCode r = 503)"

locale policy_provider =
  fixes lookup :: "string \<Rightarrow> 's \<Rightarrow> lookup_result \<times> 's"
    and prov_inv :: "'s \<Rightarrow> bool"
  assumes lookup_inv: "prov_inv s \<Longrightarrow> prov_inv (snd (lookup h s))"
    and lookup_wf: "prov_inv s \<Longrightarrow> wf_lookup (fst (lookup h s))"
begin

lemma found_app:
  assumes "prov_inv s" and "lr_Found (fst (lookup h s))"
  shows "\<exists>a. lr_App (fst (lookup h s)) = Some a \<and> wf_app a"
  using lookup_wf [OF assms(1), of h] assms(2) by (simp add: wf_lookup_def)

text \<open>The invariant survives every sequence of lookups, and every one of them is well formed.\<close>

lemma lookups_wf:
  assumes "prov_inv s"
  shows "prov_inv (fold (\<lambda>h s. snd (lookup h s)) hs s)"
  using assms by (induction hs arbitrary: s) (simp_all add: lookup_inv)

end

text \<open>The static store as a provider: a lookup leaves it unchanged.\<close>

definition static_lookup :: "unicode \<Rightarrow> string \<Rightarrow> store \<Rightarrow> lookup_result \<times> store" where
  "static_lookup u host s = (store_Lookup u s host, s)"

definition wf_store :: "store \<Rightarrow> bool" where
  "wf_store s \<longleftrightarrow> (\<forall>h a. byHost s h = Some a \<longrightarrow> wf_app a)"

lemma NewStore_wf: "NewStore u parse cfgs = Inr s \<Longrightarrow> wf_store s"
  using new_store_loop_Inr [of u parse Map.empty cfgs]
  by (auto simp: NewStore_def wf_store_def intro: newApp_wf_app split: sum.splits)

interpretation static: policy_provider "static_lookup u" wf_store
proof
  show "wf_store s \<Longrightarrow> wf_lookup (fst (static_lookup u h s))" for s h
    by (auto simp: static_lookup_def store_Lookup_def wf_lookup_def zero_lookup_def wf_store_def
        MatchHost_def split: option.splits)
qed (simp add: static_lookup_def)

section \<open>A sample configuration\<close>

text \<open>
  One app with a block list, an IP set, a rate limit and two custom rules, in a given mode; the
  witnesses below and in the later theories run on it.
\<close>

unbundle bit_operations_syntax

definition sample_parse :: url_parser where
  "sample_parse s = (if s = ''http://origin:80'' then
     Some \<lparr>url_Scheme = ''http'', url_Host = ''origin:80'', url_Path = [], url_RawQuery = [], url_Fragment = []\<rparr> else None)"

definition sample_when :: "string \<Rightarrow> condition_config" where
  "sample_when p = ConditionConfig [] [] [] [] p [] None None None [] []"

definition sample_rule :: "string \<Rightarrow> string \<Rightarrow> int \<Rightarrow> int \<Rightarrow> string \<Rightarrow> custom_rule_config" where
  "sample_rule i action prio status p =
     \<lparr>crc_ID = i, crc_Name = i, crc_Priority = prio, crc_Enabled = True, crc_Action = action,
      crc_StatusCode = status, crc_TerminalAllow = False, crc_When = sample_when p\<rparr>"

definition sample_limit :: rate_limit_config where
  "sample_limit = \<lparr>rlc_ID = ''login'', rlc_Name = ''login'', rlc_Enabled = True, rlc_Priority = 1,
     rlc_MatchExpression = empty_condition_config, rlc_KeyType = ''ip'', rlc_KeyHeader = [],
     rlc_Limit = 2, rlc_WindowSeconds = 60, rlc_Action = ''block'', rlc_StatusCode = 429, rlc_Key = []\<rparr>"

definition sample_policy :: "string \<Rightarrow> policy_config" where
  "sample_policy mode = \<lparr>pc_Mode = mode, pc_DefaultAction = ''allow'', pc_IPBlocklist = [''10.1.0.0/16''],
     pc_IPAllowlist = [], pc_IPSets = [(''office'', [''192.0.2.0/24''])], pc_RateLimits = [sample_limit],
     pc_CustomRules = [sample_rule ''count-all'' ''count'' 20 0 ''/'', sample_rule ''no-admin'' ''block'' 10 451 ''/admin'']\<rparr>"

definition sample_config :: "string \<Rightarrow> app_config" where
  "sample_config mode = \<lparr>ac_ID = ''shop'', ac_TenantID = [], ac_Hostnames = [''Shop.Example''],
     ac_Origin = \<lparr>oc_URL = ''http://origin:80''\<rparr>, ac_Policy = sample_policy mode\<rparr>"

lemma sample_TrimSpace [simp]:
  "go_TrimSpace ''10.1.0.0/16'' = ''10.1.0.0/16''" "go_TrimSpace ''192.0.2.0/24'' = ''192.0.2.0/24''"
  "go_TrimSpace ''office'' = ''office''" "go_TrimSpace ''login'' = ''login''"
  "go_TrimSpace ''count-all'' = ''count-all''" "go_TrimSpace ''no-admin'' = ''no-admin''"
  by (rule TrimSpace_ascii_id; simp add: go_eval ascii_spaces_def)+

lemma sample_prefixes [simp]:
  "parsePrefixes [''10.1.0.0/16''] = Inr [Prefix (IPv4 0x0A010000) 16]"
  "parsePrefixes [''192.0.2.0/24''] = Inr [Prefix (IPv4 0xC0000200) 24]"
  "parsePrefixes [] = Inr []"
proof -
  have "(0x0A010000 :: 32 word) AND NOT (mask 16) = 0x0A010000" "(0xC0000200 :: 32 word) AND NOT (mask 8) = 0xC0000200"
    by (simp_all add: mask_eq_exp_minus_1)
  then show "parsePrefixes [''10.1.0.0/16''] = Inr [Prefix (IPv4 0x0A010000) 16]"
  "parsePrefixes [''192.0.2.0/24''] = Inr [Prefix (IPv4 0xC0000200) 24]"
    by (simp_all add: parsePrefixes_def netip_eval go_eval Let_def)
qed (simp add: parsePrefixes_def)

definition sample_condition :: "string \<Rightarrow> condition" where
  "sample_condition p = Condition [] [] [] [] p [] None None None [] []"

lemma sample_condition_parses [simp]:
  "p \<noteq> [] \<Longrightarrow> parseCondition ips (sample_when p) = Inr (sample_condition p)"
  by (simp add: sample_when_def sample_condition_def validateCondition_def operator_count_def operators_set_def
      incomplete_header_def incomplete_query_def)

definition sample_app :: "string \<Rightarrow> app" where
  "sample_app mode = \<lparr>app_ID = ''shop'', app_TenantID = ''default'', app_PolicyID = [], app_PolicyVersion = [],
     app_Hostnames = [''Shop.Example''],
     app_Origin = \<lparr>url_Scheme = ''http'', url_Host = ''origin:80'', url_Path = [], url_RawQuery = [], url_Fragment = []\<rparr>,
     app_Mode = mode, app_DefaultAction = ''allow'', app_IPBlocklist = [Prefix (IPv4 0x0A010000) 16],
     app_IPAllowlist = [], app_IPSets = [''office'' \<mapsto> [Prefix (IPv4 0xC0000200) 24]],
     app_RateLimits = [\<lparr>rl_ID = ''login'', rl_Name = ''login'', rl_Enabled = True, rl_Priority = 1,
        rl_MatchExpression = None, rl_KeyType = ''ip'', rl_KeyHeader = [], rl_Limit = 2,
        rl_WindowSeconds = 60, rl_Action = ''block'', rl_StatusCode = 429\<rparr>],
     app_CustomRules =
       [\<lparr>cr_ID = ''no-admin'', cr_Name = ''no-admin'', cr_Priority = 10, cr_Enabled = True, cr_Action = ''block'',
         cr_StatusCode = 451, cr_TerminalAllow = False, cr_When = sample_condition ''/admin''\<rparr>,
        \<lparr>cr_ID = ''count-all'', cr_Name = ''count-all'', cr_Priority = 20, cr_Enabled = True, cr_Action = ''count'',
         cr_StatusCode = 0, cr_TerminalAllow = False, cr_When = sample_condition ''/''\<rparr>],
     app_RawOriginString = ''http://origin:80''\<rparr>"

lemma canonicalHeaderName_Nil [simp]: "canonicalHeaderName [] = []"
  by (simp add: canonicalHeaderName_def go_CanonicalHeaderKey_def)

lemma sample_newApp: "newApp sample_parse (sample_config mode) = Inr (sample_app mode)"
  by (simp add: newApp_def sample_config_def sample_policy_def sample_parse_def Let_def parseIPSets_def
      parseCustomRules_def sample_rule_def parse_custom_rule_def action_defs parseRateLimitRules_def
      sample_limit_def parse_rate_limit_def rate_key_types_def parse_match_expression_def hasCondition_def
      operators_set_def empty_condition_config_def build_app_def sample_app_def)

lemma sample_host: "NormalizeHost ascii_tables ''Shop.Example'' = ''shop.example''"
  by (subst NormalizeHost_plain) (simp_all add: plain_host_def go_eval ascii_spaces_def char_of_def bit_0)

lemma sample_store: "NewStore ascii_tables sample_parse [sample_config mode] = Inr \<lparr>byHost = [''shop.example'' \<mapsto> sample_app mode]\<rparr>"
proof -
  have "app_Hostnames (sample_app mode) = [''Shop.Example'']" by (simp add: sample_app_def)
  then show ?thesis by (simp add: NewStore_def sample_newApp sample_host)
qed

lemma sample_lower [simp]: "map ascii_lower ''Shop.Example'' = ''shop.example''"
  by (simp add: go_eval char_of_def bit_0)

definition sample_context :: "string \<Rightarrow> request_context" where
  "sample_context path = \<lparr>rc_Method = ''GET'', rc_Path = path, rc_Host = ''shop.example'', rc_Headers = [],
     rc_Query = [], rc_ClientIP = IPv4 0xC0000207\<rparr>"

section \<open>Properties\<close>

text \<open>
  C7: Every app that the parser accepts is well formed: masked prefixes, rules sorted by
  priority with distinct non-blank ids, supported actions and key types, positive limits and
  windows, statuses between 0 and 999, and no reference to an unknown IP set at any depth.
\<close>

theorem parsed_app_well_formed: "newApp parse cfg = Inr a \<Longrightarrow> wf_app a"
  by (rule newApp_wf_app)

theorem parsed_app_well_formed_witness:
  "newApp sample_parse (sample_config ''block'') = Inr (sample_app ''block'') \<and> wf_app (sample_app ''block'')"
  using parsed_app_well_formed [OF sample_newApp] sample_newApp by blast

text \<open>
  C6: The rules of a parsed app decide as the configuration says: of the enabled rules whose
  condition holds, in order of priority and then of the file, the first blocking or
  terminal-allow rule decides, and without one the first counting rule is reported.
\<close>

theorem custom_rules_follow_config:
  "newApp parse cfg = Inr a \<Longrightarrow>
   EvaluateCustomRules u a ctx = custom_rules_spec u ctx (app_IPSets a) (pc_CustomRules (ac_Policy cfg))"
  by (rule EvaluateCustomRules_refines)

theorem custom_rules_follow_config_witness:
  "EvaluateCustomRules ascii_tables (sample_app ''block'') (sample_context ''/admin/users'') =
     custom_rules_spec ascii_tables (sample_context ''/admin/users'') (app_IPSets (sample_app ''block''))
       (pc_CustomRules (ac_Policy (sample_config ''block'')))"
  by (rule custom_rules_follow_config [OF sample_newApp])

text \<open>
  C22: The IP lists of a parsed app follow the configured CIDR texts: an address covered by the
  block list is blocked with reason \<open>ip_blocklist\<close>, whatever the allow list says; otherwise a
  non-empty allow list blocks the addresses it does not cover; everything else is allowed.
\<close>

theorem ip_lists_follow_config:
  assumes "newApp parse cfg = Inr a"
  shows "EvaluateIP a ip =
     (if list_ex (cidr_covers ip) (pc_IPBlocklist (ac_Policy cfg))
      then d_Block ''ip_blocklist'' (''ip_blocklist:'' @
             prefix_String (the (find (\<lambda>p. prefix_Contains p ip) (app_IPBlocklist a))))
      else if pc_IPAllowlist (ac_Policy cfg) = [] \<or> list_ex (cidr_covers ip) (pc_IPAllowlist (ac_Policy cfg))
      then d_Allow
      else d_Block ''ip_allowlist'' ''ip_allowlist'')"
  by (rule EvaluateIP_config [OF assms])

theorem ip_lists_follow_config_witness:
  "WouldBlock (EvaluateIP (sample_app ''block'') (IPv4 0x0A010203)) \<and>
   EvaluateIP (sample_app ''block'') (IPv4 0x0A020304) = d_Allow"
proof -
  have "cidr_covers (IPv4 0x0A010203) ''10.1.0.0/16''" "\<not> cidr_covers (IPv4 0x0A020304) ''10.1.0.0/16''"
    by (simp_all add: cidr_covers_def netip_eval go_eval Let_def)
  then show ?thesis
    using ip_lists_follow_config [OF sample_newApp, of "''block''"]
    by (simp add: sample_config_def sample_policy_def)
qed

text \<open>
  C8: A condition that the parser accepts holds for a request exactly when every operator set in
  its configuration holds, at every depth; the order in which the code looks at the operators
  does not matter.
\<close>

theorem condition_meaning:
  "parseCondition ips v = Inr c \<Longrightarrow> Match u ctx ips c \<longleftrightarrow> config_holds u ctx ips v"
  by (rule parseCondition_Match)

theorem condition_meaning_witness:
  "Match ascii_tables (sample_context ''/admin/users'') Map.empty (sample_condition ''/admin'') \<longleftrightarrow>
   config_holds ascii_tables (sample_context ''/admin/users'') Map.empty (sample_when ''/admin'')"
  by (rule condition_meaning [OF sample_condition_parses]) simp

text \<open>
  C33: The host table is exact: a lookup finds an app if and only if the app was built from one of
  the configurations and the normalised host is among that configuration's normalised names.
\<close>

theorem host_table_exact:
  "NewStore u parse cfgs = Inr s \<Longrightarrow>
   MatchHost u s h = Some a \<longleftrightarrow>
     (\<exists>cfg \<in> set cfgs. newApp parse cfg = Inr a \<and> NormalizeHost u h \<in> set (cfg_hosts u cfg))"
  by (rule MatchHost_iff)

theorem host_table_exact_witness:
  "MatchHost ascii_tables \<lparr>byHost = [''shop.example'' \<mapsto> sample_app ''block'']\<rparr> ''shop.example''
     = Some (sample_app ''block'')"
proof -
  have "NormalizeHost ascii_tables ''shop.example'' = ''shop.example''"
    by (subst NormalizeHost_plain) (simp_all add: plain_host_def go_eval ascii_spaces_def)
  moreover have "cfg_hosts ascii_tables (sample_config ''block'') = [''shop.example'']"
    by (simp add: cfg_hosts_def sample_config_def sample_host)
  ultimately show ?thesis
    unfolding host_table_exact [OF sample_store] by (simp add: sample_newApp)
qed

text \<open>
  Building the host table succeeds exactly when every app parses and no two configured host
  names are equal after normalisation, within one app or across apps.
\<close>

theorem store_built_iff:
  "(\<exists>s. NewStore u parse cfgs = Inr s) \<longleftrightarrow>
     list_all (\<lambda>cfg. \<exists>a. newApp parse cfg = Inr a) cfgs \<and> distinct (concat (map (cfg_hosts u) cfgs))"
  using NewStore_Inr_iff [of u parse cfgs] by (simp add: list_all_iff)

text \<open>
  The host that selects the policy does not depend on letter case or on a port: a plain host
  name with any port of digits has the normal form of its lower-case text.
\<close>

theorem host_case_and_port:
  "plain_host h \<Longrightarrow> list_all is_digit port \<Longrightarrow>
   NormalizeHost u (h @ '':'' @ port) = map ascii_lower h \<and> NormalizeHost u h = map ascii_lower h"
  by (simp add: NormalizeHost_port [simplified] NormalizeHost_plain)

theorem host_case_and_port_example:
  "NormalizeHost ascii_tables (''Shop.Example'' @ '':'' @ ''8080'') = map ascii_lower ''Shop.Example'' \<and>
   NormalizeHost ascii_tables ''Shop.Example'' = map ascii_lower ''Shop.Example''"
  by (rule host_case_and_port) (simp_all add: plain_host_def go_eval ascii_spaces_def)

end
