(* ===== verification/Rate_Limit.thy ===== *)
theory Rate_Limit
  imports Policy_Facts
begin

text \<open>
  Package \<open>ratelimit\<close> of the gateway: the fixed-window limiter over a counter store, and the
  three stores (in memory, failing, Redis over RESP with a Lua script). SHA-256, the network
  exchange with the Redis server and the server's own commands are parameters. Times are
  nanoseconds since the Unix epoch.

  The interface between the limiter and its store is the locale \<open>fixed_window_store\<close>; the
  limiter's lemmas are proved in it once and used for the stores through interpretations.
\<close>

section \<open>Requests, keys\<close>

record rl_request =
  rr_ClientIP :: string
  rr_Method :: string
  rr_Host :: string
  rr_Path :: string
  rr_Headers :: values_map
  rr_Query :: values_map

definition rl_parseAddr :: "string \<Rightarrow> addr" where
  "rl_parseAddr value = (case ParseAddr value of None \<Rightarrow> IPv4Unspecified | Some a \<Rightarrow> a)"

definition keyPartForRule :: "unicode \<Rightarrow> rl_request \<Rightarrow> rate_limit_rule \<Rightarrow> string" where
  "keyPartForRule u req rule =
     (if rl_KeyType rule = ''host'' then go_ToLower u (rr_Host req)
      else if rl_KeyType rule = ''path'' then rr_Path req
      else if rl_KeyType rule = ''header'' then header_Get (rr_Headers req) (rl_KeyHeader rule)
      else if rl_KeyType rule = ''api_key_placeholder'' then header_Get (rr_Headers req) ''X-API-Key''
      else rr_ClientIP req)"

definition HashKeyPart :: "(string \<Rightarrow> string) \<Rightarrow> string \<Rightarrow> string" where
  "HashKeyPart sha256 value = go_HexEncode (sha256 value)"

definition redis_key :: "string \<Rightarrow> string \<Rightarrow> string \<Rightarrow> string \<Rightarrow> int \<Rightarrow> string" where
  "redis_key tenant appID ruleID keyHash window =
     ''bedemwaf:rl:'' @ tenant @ '':'' @ appID @ '':'' @ ruleID @ '':'' @ keyHash @ '':'' @ go_Itoa window"

section \<open>The limiter\<close>

definition rateLimitDecision :: "rate_limit_rule \<Rightarrow> int \<Rightarrow> int \<Rightarrow> decision" where
  "rateLimitDecision rule remaining resetAt =
     zero_decision\<lparr>Action := (if rl_Action rule = ActionBlock then ActionRateLimit else ActionCount),
       Reason := ''rate_limit'', MatchedRuleID := ''rate_limit:'' @ rl_ID rule,
       MatchedRuleName := rl_Name rule, RuleGroup := ''rate_limit'', Tags := [''rate_limit''],
       StatusCode := rl_StatusCode rule,
       RateLimit := Some \<lparr>rli_Limit = rl_Limit rule, rli_Remaining = remaining,
         rli_ResetAt = resetAt, rli_RuleID = rl_ID rule, rli_Action = rl_Action rule\<rparr>\<rparr>"

definition within_limit :: "rate_limit_rule \<Rightarrow> int \<Rightarrow> int \<Rightarrow> decision" where
  "within_limit rule remaining resetAt =
     zero_decision\<lparr>Action := ActionAllow, MatchedRuleName := rl_Name rule,
       RuleGroup := ''rate_limit'', Tags := [''rate_limit''],
       RateLimit := Some \<lparr>rli_Limit = rl_Limit rule, rli_Remaining = remaining,
         rli_ResetAt = resetAt, rli_RuleID = rl_ID rule, rli_Action = rl_Action rule\<rparr>\<rparr>"

definition rl_context :: "rl_request \<Rightarrow> request_context" where
  "rl_context req =
     \<lparr>rc_Method = rr_Method req, rc_Path = rr_Path req, rc_Host = rr_Host req,
      rc_Headers = rr_Headers req, rc_Query = rr_Query req,
      rc_ClientIP = rl_parseAddr (rr_ClientIP req)\<rparr>"

definition rule_applies :: "unicode \<Rightarrow> app \<Rightarrow> rl_request \<Rightarrow> rate_limit_rule \<Rightarrow> bool" where
  "rule_applies u a req rule \<longleftrightarrow>
     rl_Enabled rule \<and>
     (case rl_MatchExpression rule of
        None \<Rightarrow> True
      | Some c \<Rightarrow> Match u (rl_context req) (app_IPSets a) c)"

text \<open>
  \<open>now.Unix()\<close> is the number of whole seconds, rounded down; the division by the window
  truncates and panics for a window of zero; the end of the window is computed in 64 bits.
\<close>

definition unix_seconds :: "int \<Rightarrow> int" where
  "unix_seconds ns = ns div 1000000000"

definition window_of :: "int \<Rightarrow> rate_limit_rule \<Rightarrow> int" where
  "window_of now rule = go_div (unix_seconds now) (rl_WindowSeconds rule)"

definition reset_at :: "int \<Rightarrow> rate_limit_rule \<Rightarrow> int" where
  "reset_at now rule = wrap64 ((window_of now rule + 1) * rl_WindowSeconds rule)"

definition rule_key :: "unicode \<Rightarrow> (string \<Rightarrow> string) \<Rightarrow> int \<Rightarrow> app \<Rightarrow> rl_request \<Rightarrow> rate_limit_rule \<Rightarrow> string" where
  "rule_key u sha256 now a req rule =
     redis_key (app_TenantID a) (app_ID a) (rl_ID rule)
       (HashKeyPart sha256 (keyPartForRule u req rule)) (window_of now rule)"

datatype store_error =
    DialFailed
  | IOFailed
  | RedisError string
  | NotAnArray string
  | NotAnInteger string
  | BadNumber string
  | BadLength nat
  | StoreFailure

type_synonym 's increment = "string \<Rightarrow> int \<Rightarrow> int \<Rightarrow> 's \<Rightarrow> (store_error + int \<times> int) outcome \<times> 's"

definition Check ::
  "unicode \<Rightarrow> (string \<Rightarrow> string) \<Rightarrow> 's increment \<Rightarrow> bool \<Rightarrow> int \<Rightarrow> app \<Rightarrow> rl_request
   \<Rightarrow> rate_limit_rule \<Rightarrow> 's \<Rightarrow> decision outcome \<times> 's" where
  "Check u sha256 incr failClosed now a req rule s =
     (if \<not> rl_Enabled rule then (Ret d_Allow, s)
      else if \<not> rule_applies u a req rule then (Ret d_Allow, s)
      else if rl_WindowSeconds rule = 0 then (Panic, s)
      else
        (case incr (rule_key u sha256 now a req rule) (rl_Limit rule) (rl_WindowSeconds rule) s of
           (Panic, s') \<Rightarrow> (Panic, s')
         | (Ret (Inl err), s') \<Rightarrow>
             if \<not> failClosed then (Ret d_Allow, s')
             else (Ret (rateLimitDecision rule 0 (reset_at now rule)), s')
         | (Ret (Inr (count, remaining)), s') \<Rightarrow>
             if count \<le> rl_Limit rule then (Ret (within_limit rule remaining (reset_at now rule)), s')
             else (Ret (rateLimitDecision rule remaining (reset_at now rule)), s')))"

text \<open>The limiter used when Redis is disabled.\<close>

definition noop_Check :: "app \<Rightarrow> rl_request \<Rightarrow> rate_limit_rule \<Rightarrow> 's \<Rightarrow> decision outcome \<times> 's" where
  "noop_Check a req rule s = (Ret d_Allow, s)"

section \<open>The stores\<close>

type_synonym memory_store = "string \<Rightarrow> int option"

definition NewMemoryStore :: memory_store where
  "NewMemoryStore = Map.empty"

definition mem_count :: "memory_store \<Rightarrow> string \<Rightarrow> int" where
  "mem_count m key = (case m key of None \<Rightarrow> 0 | Some n \<Rightarrow> n)"

definition mem_IncrementFixedWindow :: "memory_store increment" where
  "mem_IncrementFixedWindow key limit windowSeconds m =
     (let c = wrap64 (mem_count m key + 1);
          m' = m(key \<mapsto> c);
          remaining = wrap64 (limit - c)
      in (Ret (Inr (c, if remaining < 0 then 0 else remaining)), m'))"

definition failing_IncrementFixedWindow :: "unit increment" where
  "failing_IncrementFixedWindow key limit windowSeconds s = (Ret (Inl StoreFailure), s)"

subsection \<open>Redis\<close>

definition crlf :: string where
  "crlf = [CHR 0x0D, CHR 0x0A]"

definition writeRESPArray :: "string list \<Rightarrow> string" where
  "writeRESPArray values =
     ''*'' @ go_Itoa (int (length values)) @ crlf @
     concat (map (\<lambda>value. ''$'' @ go_Itoa (int (length value)) @ crlf @ value @ crlf) values)"

text \<open>\<open>bufio.Reader.ReadString('\n')\<close> on the bytes the peer sends; the end of input is an error.\<close>

fun ReadString :: "string \<Rightarrow> (string \<times> string) option" where
  "ReadString [] = None"
| "ReadString (c # s) =
     (if c = CHR 0x0A then Some ([c], s)
      else (case ReadString s of None \<Rightarrow> None | Some (line, rest) \<Rightarrow> Some (c # line, rest)))"

fun read_integers :: "nat \<Rightarrow> string \<Rightarrow> store_error + int list" where
  "read_integers 0 input = Inr []"
| "read_integers (Suc n) input =
     (case ReadString input of
        None \<Rightarrow> Inl IOFailed
      | Some (line0, rest) \<Rightarrow>
          let line = go_TrimSpace line0 in
          if \<not> go_HasPrefix line '':'' then Inl (NotAnInteger line)
          else
            (case go_ParseInt64 (go_TrimPrefix line '':'') of
               None \<Rightarrow> Inl (BadNumber line)
             | Some value \<Rightarrow>
                 (case read_integers n rest of Inl e \<Rightarrow> Inl e | Inr values \<Rightarrow> Inr (value # values))))"

text \<open>
  \<open>make([]int64, 0, count)\<close> panics for a negative capacity and for one whose size exceeds
  the address space (48 bits, 8 bytes each).
\<close>

definition readIntegerArray :: "string \<Rightarrow> (store_error + int list) outcome" where
  "readIntegerArray input =
     (case ReadString input of
        None \<Rightarrow> Ret (Inl IOFailed)
      | Some (line0, rest) \<Rightarrow>
          let line = go_TrimSpace line0 in
          if go_HasPrefix line ''-'' then Ret (Inl (RedisError (go_TrimPrefix line ''-'')))
          else if \<not> go_HasPrefix line ''*'' then Ret (Inl (NotAnArray line))
          else
            (case go_ParseInt64 (go_TrimPrefix line ''*'') of
               None \<Rightarrow> Ret (Inl (BadNumber line))
             | Some count \<Rightarrow>
                 if count < 0 \<or> 2 ^ 45 < count then Panic
                 else Ret (read_integers (nat count) rest)))"

text \<open>
  The exchange with the server is a parameter: it takes the bytes of the request and gives the
  bytes received before the connection ends, or an error when the connection cannot be made or
  written to.
\<close>

definition fixedWindowLua_text :: string where
  "fixedWindowLua_text =
     concat (map (\<lambda>line. line @ [CHR 0x0A])
       [[],
        ''local current = redis.call(\"INCR\", KEYS[1])'',
        ''if current == 1 then'',
        ''  redis.call(\"EXPIRE\", KEYS[1], ARGV[2])'',
        ''end'',
        ''local limit = tonumber(ARGV[1])'',
        ''local remaining = limit - current'',
        ''if remaining < 0 then'',
        ''  remaining = 0'',
        ''end'',
        ''return {current, remaining}''])"

definition redis_request :: "string \<Rightarrow> int \<Rightarrow> int \<Rightarrow> string" where
  "redis_request key limit windowSeconds =
     writeRESPArray [''EVAL'', fixedWindowLua_text, ''1'', key, go_Itoa limit, go_Itoa windowSeconds]"

definition redis_IncrementFixedWindow ::
  "(string \<Rightarrow> 's \<Rightarrow> (store_error + string) \<times> 's) \<Rightarrow> 's increment" where
  "redis_IncrementFixedWindow exchange key limit windowSeconds s =
     (case exchange (redis_request key limit windowSeconds) s of
        (Inl e, s') \<Rightarrow> (Ret (Inl e), s')
      | (Inr reply, s') \<Rightarrow>
          (case readIntegerArray reply of
             Panic \<Rightarrow> (Panic, s')
           | Ret (Inl e) \<Rightarrow> (Ret (Inl e), s')
           | Ret (Inr values) \<Rightarrow>
               if length values \<noteq> 2 then (Ret (Inl (BadLength (length values))), s')
               else (Ret (Inr (values ! 0, values ! 1)), s')))"

text \<open>What the Lua script computes, over the server's \<open>INCR\<close> and \<open>EXPIRE\<close> commands.\<close>

definition fixedWindowLua ::
  "(string \<Rightarrow> 'db \<Rightarrow> int \<times> 'db) \<Rightarrow> (string \<Rightarrow> int \<Rightarrow> 'db \<Rightarrow> 'db) \<Rightarrow> string \<Rightarrow> int \<Rightarrow> int \<Rightarrow> 'db
   \<Rightarrow> int list \<times> 'db" where
  "fixedWindowLua INCR EXPIRE key limit window db =
     (let (current, db1) = INCR key db;
          db2 = (if current = 1 then EXPIRE key window db1 else db1);
          remaining = limit - current
      in ([current, if remaining < 0 then 0 else remaining], db2))"

text \<open>How the server sends the table a script returns: a RESP array of integers.\<close>

definition resp_integers :: "int list \<Rightarrow> string" where
  "resp_integers vs =
     ''*'' @ go_Itoa (int (length vs)) @ crlf @ concat (map (\<lambda>v. '':'' @ go_Itoa v @ crlf) vs)"

section \<open>FromConfig\<close>

datatype limiter_kind = Noop | FixedWindow string bool

definition FromConfig :: "redis_config \<Rightarrow> limiter_kind" where
  "FromConfig cfg =
     (if \<not> redis_Enabled cfg then Noop else FixedWindow (redis_Addr cfg) (FailMode cfg = ''closed''))"

end
