(* ===== verification/Rate_Limit_Facts.thy ===== *)
theory Rate_Limit_Facts
  imports Rate_Limit
begin

text \<open>
  The contract of a counter store, what the limiter guarantees over any store that meets it,
  the wire format of the Redis store and the separation of the counters' keys.
\<close>

section \<open>The contract of a store\<close>

text \<open>
  A successful increment returns the new value of the key's counter, leaves the other counters
  alone and reports how much of the limit is left; a failed one changes no counter.
\<close>

locale fixed_window_store =
  fixes incr :: "'s increment"
    and count :: "'s \<Rightarrow> string \<Rightarrow> int"
  assumes incr_ok:
      "\<lbrakk>incr key limit w s = (Ret (Inr (c, r)), s'); 0 \<le> count s key; count s key < 2 ^ 63 - 1;
        0 \<le> limit; limit < 2 ^ 63\<rbrakk>
       \<Longrightarrow> c = count s key + 1 \<and> r = max 0 (limit - c) \<and> count s' = (count s)(key := c)"
    and incr_failed: "incr key limit w s = (Ret (Inl e), s') \<Longrightarrow> count s' = count s"
    and incr_no_panic: "fst (incr key limit w s) \<noteq> Panic"

locale reliable_store = fixed_window_store +
  assumes incr_succeeds: "\<exists>c r s'. incr key limit w s = (Ret (Inr (c, r)), s')"

definition limited_action :: "rate_limit_rule \<Rightarrow> action" where
  "limited_action rule = (if rl_Action rule = ActionBlock then ActionRateLimit else ActionCount)"

lemma rateLimitDecision_simps [simp]:
  "Action (rateLimitDecision rule n t) = limited_action rule"
  "Reason (rateLimitDecision rule n t) = ''rate_limit''"
  "StatusCode (rateLimitDecision rule n t) = rl_StatusCode rule"
  "RateLimit (rateLimitDecision rule n t) \<noteq> None"
  "Action (within_limit rule n t) = ActionAllow"
  by (simp_all add: rateLimitDecision_def within_limit_def limited_action_def)

lemma limited_action_not_allow [simp]:
  "limited_action rule \<noteq> ActionAllow" "ActionAllow \<noteq> limited_action rule"
  by (simp_all add: limited_action_def)

text \<open>Requests checked one after the other, each with the reading of the clock.\<close>

fun check_all ::
  "unicode \<Rightarrow> (string \<Rightarrow> string) \<Rightarrow> 's increment \<Rightarrow> bool \<Rightarrow> app \<Rightarrow> rate_limit_rule
   \<Rightarrow> (int \<times> rl_request) list \<Rightarrow> 's \<Rightarrow> decision outcome list \<times> 's" where
  "check_all u sha256 incr failClosed a rule [] s = ([], s)"
| "check_all u sha256 incr failClosed a rule ((now, req) # reqs) s =
     (let (d, s1) = Check u sha256 incr failClosed now a req rule s;
          (ds, s2) = check_all u sha256 incr failClosed a rule reqs s1
      in (d # ds, s2))"

context fixed_window_store
begin

lemma Check_no_panic: "rl_WindowSeconds rule \<noteq> 0 \<Longrightarrow> fst (Check u sha incr fc now a req rule s) \<noteq> Panic"
  using incr_no_panic [of "rule_key u sha now a req rule" "rl_Limit rule" "rl_WindowSeconds rule" s]
  by (auto simp: Check_def split: outcome.splits sum.splits prod.splits)

text \<open>A check that does not apply to the request leaves the store alone.\<close>

lemma Check_skip:
  "\<not> rule_applies u a req rule \<Longrightarrow> Check u sha incr fc now a req rule s = (Ret d_Allow, s)"
  by (auto simp: Check_def)

text \<open>The counter of any other key is not touched by a check.\<close>

lemma Check_frame:
  assumes "Check u sha incr fc now a req rule s = (d, s')"
    and "0 \<le> count s (rule_key u sha now a req rule)" "count s (rule_key u sha now a req rule) < 2 ^ 63 - 1"
    and "0 \<le> rl_Limit rule" "rl_Limit rule < 2 ^ 63" and "rl_WindowSeconds rule \<noteq> 0"
    and "key \<noteq> rule_key u sha now a req rule"
  shows "count s' key = count s key"
proof (cases "rule_applies u a req rule")
  case True
  let ?k = "rule_key u sha now a req rule"
  obtain res s1 where i: "incr ?k (rl_Limit rule) (rl_WindowSeconds rule) s = (res, s1)" by fastforce
  have s1: "s1 = s'" using assms(1,6) True i
    by (auto simp: Check_def rule_applies_def split: outcome.splits sum.splits if_splits)
  show ?thesis
  proof (cases res)
    case Panic
    then show ?thesis using incr_no_panic i by (metis fst_conv)
  next
    case (Ret v)
    show ?thesis
    proof (cases v)
      case (Inl e)
      then show ?thesis using incr_failed i Ret s1 by metis
    next
      case (Inr cr)
      then obtain c r where "v = Inr (c, r)" by (cases cr) auto
      with incr_ok i Ret assms s1 show ?thesis by (metis fun_upd_other)
    qed
  qed
qed (use assms Check_skip in auto)

end

context reliable_store
begin

lemma Check_reliable:
  assumes "rule_applies u a req rule" and "rl_WindowSeconds rule \<noteq> 0"
    and "0 \<le> count s (rule_key u sha now a req rule)" "count s (rule_key u sha now a req rule) < 2 ^ 63 - 1"
    and "0 \<le> rl_Limit rule" "rl_Limit rule < 2 ^ 63"
  defines "n \<equiv> count s (rule_key u sha now a req rule) + 1"
  shows "\<exists>s'. Check u sha incr fc now a req rule s =
      (Ret (if n \<le> rl_Limit rule then within_limit rule (rl_Limit rule - n) (reset_at now rule)
            else rateLimitDecision rule 0 (reset_at now rule)), s') \<and>
      count s' = (count s)(rule_key u sha now a req rule := n)"
proof -
  let ?k = "rule_key u sha now a req rule"
  obtain c r s' where i: "incr ?k (rl_Limit rule) (rl_WindowSeconds rule) s = (Ret (Inr (c, r)), s')"
    using incr_succeeds by blast
  note C = incr_ok [OF i assms(3,4,5,6)]
  have "rl_Enabled rule" using assms(1) by (simp add: rule_applies_def)
  then show ?thesis using assms(1,2) C i by (simp add: Check_def n_def max_def)
qed

text \<open>
  Requests that share a key within one window: the first ones up to the limit pass, every later
  one gets the limited action.
\<close>

lemma check_all_window:
  assumes "\<forall>(now, req) \<in> set reqs. rule_applies u a req rule \<and> rule_key u sha now a req rule = key"
    and "rl_WindowSeconds rule \<noteq> 0" "0 \<le> rl_Limit rule" "rl_Limit rule < 2 ^ 63"
    and "0 \<le> count s key" "count s key + int (length reqs) < 2 ^ 63"
  shows "map (map_outcome Action) (fst (check_all u sha incr fc a rule reqs s)) =
    map (\<lambda>i. Ret (if count s key + int i < rl_Limit rule then ActionAllow else limited_action rule))
      [0..<length reqs]"
  using assms
proof (induction reqs arbitrary: s)
  case (Cons q reqs)
  obtain now req where q: "q = (now, req)" by fastforce
  from Cons.prems q have ap: "rule_applies u a req rule" and key: "rule_key u sha now a req rule = key"
    by auto
  obtain d s1 where d: "Check u sha incr fc now a req rule s = (Ret d, s1)"
    and act: "Action d = (if count s key + 1 \<le> rl_Limit rule then ActionAllow else limited_action rule)"
    and s1: "count s1 key = count s key + 1"
    using Check_reliable [OF ap Cons.prems(2), of s sha now fc] Cons.prems key by fastforce
  have IH: "map (map_outcome Action) (fst (check_all u sha incr fc a rule reqs s1)) =
    map (\<lambda>i. Ret (if count s1 key + int i < rl_Limit rule then ActionAllow else limited_action rule))
      [0..<length reqs]"
    using Cons.prems s1 by (intro Cons.IH) auto
  have up: "[0..<length (q # reqs)] = 0 # map Suc [0..<length reqs]"
    by (simp add: map_Suc_upt upt_conv_Cons del: upt_Suc)
  show ?case
    unfolding up by (simp add: q d act IH s1 case_prod_unfold Let_def comp_def algebra_simps)
qed simp

end

section \<open>The stores meet the contract\<close>

lemma mem_count_upd: "mem_count (m(key \<mapsto> c)) = (mem_count m)(key := c)"
  by (auto simp: mem_count_def)

interpretation memory: reliable_store mem_IncrementFixedWindow mem_count
proof
  fix key limit w c r and m m' :: memory_store
  assume i: "mem_IncrementFixedWindow key limit w m = (Ret (Inr (c, r)), m')"
    and b: "0 \<le> mem_count m key" "mem_count m key < 2 ^ 63 - 1" "0 \<le> limit" "limit < 2 ^ 63"
  have "wrap64 (mem_count m key + 1) = mem_count m key + 1" by (rule wrap64_id) (use b in auto)
  moreover have "wrap64 (limit - (mem_count m key + 1)) = limit - (mem_count m key + 1)"
    by (rule wrap64_id) (use b in auto)
  ultimately show "c = mem_count m key + 1 \<and> r = max 0 (limit - c) \<and> mem_count m' = (mem_count m)(key := c)"
    using i by (auto simp: mem_IncrementFixedWindow_def Let_def mem_count_upd split: if_splits)
qed (auto simp: mem_IncrementFixedWindow_def Let_def)

interpretation failing: fixed_window_store failing_IncrementFixedWindow "\<lambda>_ _. 0"
  by unfold_locales (simp_all add: failing_IncrementFixedWindow_def)

section \<open>The window\<close>

lemma window_bounds:
  assumes "0 \<le> now" and "0 < rl_WindowSeconds rule" and "unix_seconds now + rl_WindowSeconds rule < 2 ^ 63"
  shows "window_of now rule = unix_seconds now div rl_WindowSeconds rule"
    and "unix_seconds now < reset_at now rule"
    and "reset_at now rule \<le> unix_seconds now + rl_WindowSeconds rule"
proof -
  let ?t = "unix_seconds now" and ?w = "rl_WindowSeconds rule"
  have t: "0 \<le> ?t" using assms(1) by (simp add: unix_seconds_def pos_imp_zdiv_nonneg_iff)
  show w: "window_of now rule = ?t div ?w"
    unfolding window_of_def using t assms(2) by (rule go_div_nonneg)
  have eq: "(?t div ?w + 1) * ?w = ?t - ?t mod ?w + ?w"
    by (simp add: algebra_simps minus_mod_eq_mult_div)
  have m: "0 \<le> ?t mod ?w" "?t mod ?w < ?w" using assms(2) by simp_all
  have "wrap64 ((?t div ?w + 1) * ?w) = (?t div ?w + 1) * ?w"
    unfolding eq by (rule wrap64_id) (use m t assms in linarith)+
  then have r: "reset_at now rule = ?t - ?t mod ?w + ?w" by (simp add: reset_at_def w eq)
  show "?t < reset_at now rule" "reset_at now rule \<le> ?t + ?w" unfolding r using m by linarith+
qed

section \<open>Keys\<close>

lemma no_colon_prefix:
  "CHR '':'' \<notin> set a \<Longrightarrow> CHR '':'' \<notin> set b \<Longrightarrow> a @ CHR '':'' # s = b @ CHR '':'' # t \<Longrightarrow> a = b \<and> s = t"
proof (induction a arbitrary: b)
  case Nil
  then show ?case by (cases b) auto
next
  case (Cons x a)
  then show ?case by (cases b) auto
qed

lemma Itoa_no_colon: "CHR '':'' \<notin> set (go_Itoa i)"
  using Itoa_chars [of "CHR '':''" i] by (auto simp: is_digit_def)

lemma hex_digit_no_colon: "d < 16 \<Longrightarrow> hex_digit d \<noteq> CHR '':''"
  by (auto dest!: arg_cong [where f = "of_char :: char \<Rightarrow> nat"] simp: byte_hex_digit split: if_splits)

lemma HexEncode_no_colon: "CHR '':'' \<notin> set (go_HexEncode bs)"
proof -
  have "hex_digit (byte b div 16) \<noteq> CHR '':''" "hex_digit (byte b mod 16) \<noteq> CHR '':''" for b
    using byte_less [of b] by (intro hex_digit_no_colon, simp add: less_mult_imp_div_less)+
  then show ?thesis by (auto simp: go_HexEncode_def dest: sym)
qed

definition colon_free :: "string \<Rightarrow> bool" where
  "colon_free s \<longleftrightarrow> CHR '':'' \<notin> set s"

lemma redis_key_inject:
  assumes "redis_key t a r h w = redis_key t' a' r' h' w'"
    and "colon_free t" "colon_free a" "colon_free r" "colon_free h"
    and "colon_free t'" "colon_free a'" "colon_free r'" "colon_free h'"
  shows "t = t' \<and> a = a' \<and> r = r' \<and> h = h' \<and> w = w'"
proof -
  note nc = assms(2-) [unfolded colon_free_def]
  have eq: "t @ CHR '':'' # a @ CHR '':'' # r @ CHR '':'' # h @ CHR '':'' # go_Itoa w =
      t' @ CHR '':'' # a' @ CHR '':'' # r' @ CHR '':'' # h' @ CHR '':'' # go_Itoa w'"
    using assms(1) by (simp add: redis_key_def)
  from no_colon_prefix [OF nc(1) nc(5) eq] have t: "t = t'" and eq:
    "a @ CHR '':'' # r @ CHR '':'' # h @ CHR '':'' # go_Itoa w =
      a' @ CHR '':'' # r' @ CHR '':'' # h' @ CHR '':'' # go_Itoa w'" by auto
  from no_colon_prefix [OF nc(2) nc(6) eq] have a: "a = a'" and eq:
    "r @ CHR '':'' # h @ CHR '':'' # go_Itoa w = r' @ CHR '':'' # h' @ CHR '':'' # go_Itoa w'" by auto
  from no_colon_prefix [OF nc(3) nc(7) eq] have r: "r = r'" and eq:
    "h @ CHR '':'' # go_Itoa w = h' @ CHR '':'' # go_Itoa w'" by auto
  from no_colon_prefix [OF nc(4) nc(8) eq] have "h = h'" "go_Itoa w = go_Itoa w'" by auto
  with t a r Itoa_inject show ?thesis by blast
qed

lemma HashKeyPart_colon_free: "colon_free (HashKeyPart sha v)"
  by (simp add: colon_free_def HashKeyPart_def HexEncode_no_colon)

section \<open>The Redis wire format\<close>

lemma ReadString_line:
  "CHR 0x0A \<notin> set line \<Longrightarrow> ReadString (line @ CHR 0x0A # rest) = Some (line @ [CHR 0x0A], rest)"
  by (induction line) auto

lemma strip_ascii_space:
  assumes "ascii_text (c # s)" and "c \<in> set ascii_spaces"
  shows "strip (map rev space_runes) (c # s) = strip (map rev space_runes) s"
proof -
  have "starts_with_any (map rev space_runes) (c # s)"
    using assms by (simp add: starts_with_any_ascii)
  then obtain p where f: "find (\<lambda>p. p \<noteq> [] \<and> prefix p (c # s)) (map rev space_runes) = Some p"
    by (auto simp: starts_with_any_find)
  then have p: "p \<in> set (map rev space_runes)" "p \<noteq> []" "prefix p (c # s)"
    unfolding find_Some_iff by auto
  have "ascii_text p" using p(3) assms(1) by (meson ascii_text_sublist prefix_imp_sublist)
  have "p \<notin> set (map rev wide_spaces)"
  proof
    assume "p \<in> set (map rev wide_spaces)"
    then have "\<not> is_ascii (hd p)" using wide_spaces_not_ascii by (auto simp: list_all_iff)
    with \<open>ascii_text p\<close> p(2) show False by (cases p) auto
  qed
  then obtain d where "p = [d]" using p(1) by (auto simp: space_runes_def)
  with f show ?thesis by (simp add: strip.simps [of _ "c # s"])
qed

lemma TrimSpace_crlf:
  assumes "ascii_text line" "set line \<inter> set ascii_spaces = {}" "line \<noteq> []"
  shows "go_TrimSpace (line @ crlf) = line"
proof -
  have "\<not> starts_with_any space_runes (line @ crlf)"
    using assms by (subst starts_with_any_ascii) (auto simp: crlf_def is_ascii_def dest: hd_in_set)
  then have "strip space_runes (line @ crlf) = line @ crlf" by (rule strip_none)
  moreover have "rev (line @ crlf) = CHR 0x0A # CHR 0x0D # rev line" by (simp add: crlf_def)
  moreover have "strip (map rev space_runes) (CHR 0x0A # CHR 0x0D # rev line) = rev line"
  proof -
    have a: "ascii_text (CHR 0x0A # CHR 0x0D # rev line)"
      using assms(1) by (simp add: ascii_text_def is_ascii_def)
    have "\<not> starts_with_any (map rev space_runes) (rev line)"
      using assms by (subst starts_with_any_ascii) (auto simp: ascii_text_def hd_rev dest: last_in_set)
    with a show ?thesis
      by (simp add: strip_ascii_space strip_none ascii_spaces_def)
  qed
  ultimately show ?thesis by (simp only: go_TrimSpace_def rev_rev_ident)
qed

lemma Itoa_line: "c \<in> set (go_Itoa i) \<Longrightarrow> is_ascii c \<and> c \<notin> set ascii_spaces"
  by (drule Itoa_chars) (auto simp: is_ascii_def ascii_spaces_def is_digit_def)

text \<open>Reading a line that holds a tag byte and a number.\<close>

lemma tagged_line:
  assumes "tag \<in> {CHR ''*'', CHR '':''}"
  shows "ReadString (tag # go_Itoa i @ crlf @ rest) = Some (tag # go_Itoa i @ crlf, rest)"
    and "go_TrimSpace (tag # go_Itoa i @ crlf) = tag # go_Itoa i"
proof -
  have nl: "CHR 0x0A \<notin> set (go_Itoa i)" using Itoa_line by (auto simp: ascii_spaces_def)
  show "ReadString (tag # go_Itoa i @ crlf @ rest) = Some (tag # go_Itoa i @ crlf, rest)"
    using ReadString_line [of "tag # go_Itoa i @ [CHR 0x0D]" rest] nl assms by (auto simp: crlf_def)
  show "go_TrimSpace (tag # go_Itoa i @ crlf) = tag # go_Itoa i"
  proof -
    have "ascii_text (tag # go_Itoa i)"
      using assms Itoa_line [of _ i] by (auto simp: ascii_text_def list_all_iff is_ascii_def)
    moreover have "set (tag # go_Itoa i) \<inter> set ascii_spaces = {}"
      using assms Itoa_line [of _ i] by (auto simp: ascii_spaces_def)
    ultimately show ?thesis using TrimSpace_crlf [of "tag # go_Itoa i"] by simp
  qed
qed

declare ReadString.simps(2) [simp del]

lemma read_integers_resp:
  assumes "\<forall>v \<in> set vs. - (2 ^ 63) \<le> v \<and> v < 2 ^ 63"
  shows "read_integers (length vs) (concat (map (\<lambda>v. '':'' @ go_Itoa v @ crlf) vs) @ rest) = Inr vs"
  using assms
proof (induction vs)
  case (Cons v vs)
  then show ?case
    by (simp add: tagged_line go_HasPrefix_def go_TrimPrefix_def ParseInt64_Itoa [simplified])
qed simp

lemma readIntegerArray_resp:
  assumes "\<forall>v \<in> set vs. - (2 ^ 63) \<le> v \<and> v < 2 ^ 63" and "length vs \<le> 2 ^ 45"
  shows "readIntegerArray (resp_integers vs) = Ret (Inr vs)"
proof -
  have "go_ParseInt64 (go_Itoa (int (length vs))) = Some (int (length vs))"
    by (rule ParseInt64_Itoa) (use assms(2) in auto)
  moreover have "\<not> (2 ^ 45 < int (length vs))" using assms(2) by simp
  ultimately show ?thesis
    using read_integers_resp [OF assms(1), of "[]"]
    by (simp add: readIntegerArray_def resp_integers_def tagged_line go_HasPrefix_def go_TrimPrefix_def)
qed




section \<open>Properties\<close>

text \<open>
  C23: With the in-memory store, requests that share a key within one window pass while the
  counter is below the limit and get the limited action (rate limit for a blocking rule, count
  for a counting one) from then on: exactly the first \<open>Limit\<close> requests of a window pass.
\<close>

theorem window_limit_enforced:
  assumes "list_all (\<lambda>(now, req). rule_applies u a req rule \<and> rule_key u sha256 now a req rule = key) reqs"
    and "wf_rate_limit ips rule" "rl_Limit rule < 2 ^ 63"
    and "0 \<le> mem_count m key" "mem_count m key + int (length reqs) < 2 ^ 63"
  shows "map (map_outcome Action) (fst (check_all u sha256 mem_IncrementFixedWindow failClosed a rule reqs m)) =
    map (\<lambda>i. Ret (if mem_count m key + int i < rl_Limit rule then ActionAllow else limited_action rule))
      [0..<length reqs]"
  by (rule memory.check_all_window) (use assms in \<open>auto simp: list_all_iff wf_rate_limit_def\<close>)

definition sample_rl_rule :: rate_limit_rule where
  "sample_rl_rule = hd (app_RateLimits (sample_app ''block''))"

definition sample_rl_request :: rl_request where
  "sample_rl_request = \<lparr>rr_ClientIP = ''192.0.2.7'', rr_Method = ''GET'', rr_Host = ''shop.example'',
     rr_Path = ''/login'', rr_Headers = [], rr_Query = []\<rparr>"

lemma sample_rl_rule_wf: "wf_rate_limit ips sample_rl_rule"
  by (simp add: sample_rl_rule_def sample_app_def wf_rate_limit_def wf_status_def rate_key_types_def action_defs)

theorem window_limit_enforced_witness:
  "map (map_outcome Action) (fst (check_all ascii_tables id mem_IncrementFixedWindow False (sample_app ''block'')
     sample_rl_rule (replicate 3 (0, sample_rl_request)) NewMemoryStore)) =
   [Ret ActionAllow, Ret ActionAllow, Ret ActionRateLimit]"
proof -
  have ap: "rule_applies ascii_tables (sample_app ''block'') sample_rl_request sample_rl_rule"
    by (simp add: rule_applies_def sample_rl_rule_def sample_app_def)
  have l: "rl_Limit sample_rl_rule = 2" "limited_action sample_rl_rule = ActionRateLimit"
    by (simp_all add: sample_rl_rule_def sample_app_def limited_action_def action_defs)
  have m: "mem_count NewMemoryStore k = 0" for k by (simp add: mem_count_def NewMemoryStore_def)
  show ?thesis
    by (subst window_limit_enforced [where key = "rule_key ascii_tables id 0 (sample_app ''block'') sample_rl_request sample_rl_rule",
          OF _ sample_rl_rule_wf])
      (simp_all add: ap l m numeral_3_eq_3 upt_rec)
qed





text \<open>
  The end of the window that a rate-limit decision reports lies after the current second and
  at most one window length ahead, for every clock reading since 1970 that fits.
\<close>

theorem reset_time_bounds:
  assumes "0 \<le> now" "0 < rl_WindowSeconds rule" "unix_seconds now + rl_WindowSeconds rule < 2 ^ 63"
  shows "unix_seconds now < reset_at now rule \<and> reset_at now rule \<le> unix_seconds now + rl_WindowSeconds rule"
  using window_bounds [OF assms] by blast

theorem reset_time_bounds_example:
  "unix_seconds 1700000000000000000 < reset_at 1700000000000000000 sample_rl_rule \<and>
   reset_at 1700000000000000000 sample_rl_rule \<le> unix_seconds 1700000000000000000 + rl_WindowSeconds sample_rl_rule"
  by (rule reset_time_bounds) (simp_all add: sample_rl_rule_def sample_app_def unix_seconds_def)

text \<open>
  C37: Counters do not mix: two checks share a counter key only if they are for the same tenant,
  app, rule and window and their key parts have the same hash, as long as the ids hold no colon.
\<close>

theorem counter_keys_separate:
  assumes "rule_key u sha256 now a req rule = rule_key u sha256 now' a' req' rule'"
    and "colon_free (app_TenantID a)" "colon_free (app_ID a)" "colon_free (rl_ID rule)"
    and "colon_free (app_TenantID a')" "colon_free (app_ID a')" "colon_free (rl_ID rule')"
  shows "app_TenantID a = app_TenantID a' \<and> app_ID a = app_ID a' \<and> rl_ID rule = rl_ID rule' \<and>
    sha256 (keyPartForRule u req rule) = sha256 (keyPartForRule u req' rule') \<and>
    window_of now rule = window_of now' rule'"
  using redis_key_inject [OF assms(1) [unfolded rule_key_def] assms(2-4) HashKeyPart_colon_free assms(5-7)
      HashKeyPart_colon_free] HexEncode_inject by (auto simp: HashKeyPart_def)

theorem counter_keys_separate_witness:
  "window_of 0 sample_rl_rule = window_of 59000000000 sample_rl_rule"
proof -
  have k: "rule_key ascii_tables id 0 (sample_app ''block'') sample_rl_request sample_rl_rule =
      rule_key ascii_tables id 59000000000 (sample_app ''block'') sample_rl_request sample_rl_rule"
    by (simp add: rule_key_def window_of_def unix_seconds_def go_div_def sample_rl_rule_def sample_app_def)
  show ?thesis
    using counter_keys_separate [OF k] by (simp add: colon_free_def sample_app_def sample_rl_rule_def)
qed

text \<open>
  The reader of Redis replies inverts the encoding of an array of 64-bit integers.
\<close>

theorem redis_reply_round_trip:
  assumes "list_all (\<lambda>v. - (2 ^ 63) \<le> v \<and> v < 2 ^ 63) vs" "length vs \<le> 2 ^ 45"
  shows "readIntegerArray (resp_integers vs) = Ret (Inr vs)"
  by (rule readIntegerArray_resp) (use assms in \<open>auto simp: list_all_iff\<close>)

theorem redis_reply_round_trip_example:
  "readIntegerArray (resp_integers [3, - 7]) = Ret (Inr [3, - 7])"
  by (rule redis_reply_round_trip) simp_all

text \<open>
  A reply that announces a negative number of elements, as Redis does for a null array,
  makes the reader panic instead of returning an error.
\<close>

theorem redis_null_array_panics:
  "readIntegerArray (''*-1'' @ crlf @ rest) = Panic"
proof -
  have "''*-1'' @ crlf @ rest = CHR ''*'' # go_Itoa (- 1) @ crlf @ rest"
    by (simp add: go_Itoa_def decimal.simps digit_char_def char_of_def bit_0)
  then show ?thesis
    by (simp add: readIntegerArray_def tagged_line go_HasPrefix_def go_TrimPrefix_def ParseInt64_Itoa)
qed

end
