(* ===== verification/Gateway_Metrics.thy ===== *)
theory Gateway_Metrics
  imports Go_Prelude
begin

text \<open>
  Package \<open>metrics\<close> of the gateway: the counters and histograms of the registry as a record,
  and the functions that update them. A counter vector is a function from its labels, a
  histogram the list of observed durations (in nanoseconds), newest first. Rendering and
  registration are done by the Prometheus client library and are not modelled.
\<close>

record metrics =
  requestsTotal :: "string \<times> string \<times> string \<Rightarrow> nat"
  blockedRequestsTotal :: "string \<times> string \<Rightarrow> nat"
  requestDuration :: "int list"
  originDuration :: "int list"
  policyCacheHitsTotal :: nat
  policyCacheMissesTotal :: nat
  policyFetchErrorsTotal :: nat
  rateLimitedTotal :: nat
  auditEventsDroppedTotal :: nat

definition init_metrics :: metrics where
  "init_metrics =
     \<lparr>requestsTotal = (\<lambda>_. 0), blockedRequestsTotal = (\<lambda>_. 0), requestDuration = [],
      originDuration = [], policyCacheHitsTotal = 0, policyCacheMissesTotal = 0,
      policyFetchErrorsTotal = 0, rateLimitedTotal = 0, auditEventsDroppedTotal = 0\<rparr>"

definition metric_label :: "string \<Rightarrow> string" where
  "metric_label value = (if value = [] then ''unknown'' else value)"

definition bump :: "'k \<Rightarrow> ('k \<Rightarrow> nat) \<Rightarrow> 'k \<Rightarrow> nat" where
  "bump k f = f(k := f k + 1)"

definition ObserveRequest ::
  "string \<Rightarrow> string \<Rightarrow> string \<Rightarrow> string \<Rightarrow> int \<Rightarrow> int \<Rightarrow> metrics \<Rightarrow> metrics" where
  "ObserveRequest appID host action reason status duration m =
     (let m1 = m\<lparr>requestsTotal :=
                    bump (metric_label appID, metric_label host, metric_label action) (requestsTotal m),
                 requestDuration := duration # requestDuration m\<rparr>
      in if 400 \<le> status \<or> action = ''block'' \<or> action = ''rate_limit''
         then m1\<lparr>blockedRequestsTotal :=
                   bump (metric_label appID, metric_label reason) (blockedRequestsTotal m1)\<rparr>
         else m1)"

definition ObserveOrigin :: "int \<Rightarrow> metrics \<Rightarrow> metrics" where
  "ObserveOrigin duration m = m\<lparr>originDuration := duration # originDuration m\<rparr>"

definition IncPolicyCacheHit :: "metrics \<Rightarrow> metrics" where
  "IncPolicyCacheHit m = m\<lparr>policyCacheHitsTotal := policyCacheHitsTotal m + 1\<rparr>"

definition IncPolicyCacheMiss :: "metrics \<Rightarrow> metrics" where
  "IncPolicyCacheMiss m = m\<lparr>policyCacheMissesTotal := policyCacheMissesTotal m + 1\<rparr>"

definition IncPolicyFetchError :: "metrics \<Rightarrow> metrics" where
  "IncPolicyFetchError m = m\<lparr>policyFetchErrorsTotal := policyFetchErrorsTotal m + 1\<rparr>"

definition IncRateLimited :: "metrics \<Rightarrow> metrics" where
  "IncRateLimited m = m\<lparr>rateLimitedTotal := rateLimitedTotal m + 1\<rparr>"

definition IncAuditEventDropped :: "metrics \<Rightarrow> metrics" where
  "IncAuditEventDropped m = m\<lparr>auditEventsDroppedTotal := auditEventsDroppedTotal m + 1\<rparr>"

lemmas metrics_defs = ObserveRequest_def ObserveOrigin_def IncPolicyCacheHit_def
  IncPolicyCacheMiss_def IncPolicyFetchError_def IncRateLimited_def IncAuditEventDropped_def

text \<open>One observed request adds one observation, whatever its labels.\<close>

lemma ObserveRequest_observations [simp]:
  "length (requestDuration (ObserveRequest a h ac r st d m)) = Suc (length (requestDuration m))"
  "originDuration (ObserveRequest a h ac r st d m) = originDuration m"
  "rateLimitedTotal (ObserveRequest a h ac r st d m) = rateLimitedTotal m"
  by (simp_all add: ObserveRequest_def Let_def)

lemma originDuration_simps [simp]:
  "length (originDuration (ObserveOrigin d m)) = Suc (length (originDuration m))"
  "requestDuration (ObserveOrigin d m) = requestDuration m"
  "rateLimitedTotal (ObserveOrigin d m) = rateLimitedTotal m"
  "rateLimitedTotal (IncRateLimited m) = Suc (rateLimitedTotal m)"
  "requestDuration (IncRateLimited m) = requestDuration m"
  by (simp_all add: metrics_defs)

end
