(* ===== verification/Policy_Client.thy ===== *)
theory Policy_Client
  imports Policy_Facts Gateway_Metrics
begin

text \<open>
  Package \<open>policyclient\<close> of the gateway: the client that fetches a policy from the control API
  and turns it into an app, and the provider that caches apps per host. The HTTP exchange, JSON
  decoding and \<open>url.Parse\<close> are parameters; the clock and the exchange act on a world that the
  provider carries. \<open>Lookup\<close> is split where it can be interrupted (the first cache probe, the
  probe under the host's lock, the completion of a fetch), and the whole function is the
  composition of its stages. Times are nanoseconds.
\<close>

section \<open>The client\<close>

text \<open>
  \<open>url.PathEscape\<close> and the escaping of a URL's path: each keeps the unreserved characters and
  some reserved ones.
\<close>

definition escape_keeping :: "string \<Rightarrow> string \<Rightarrow> string" where
  "escape_keeping kept s =
     concat (map (\<lambda>c. if is_lower c \<or> is_upper c \<or> is_digit c \<or> c \<in> set ''-_.~'' \<or> c \<in> set kept then [c]
                      else [CHR ''%'', upper_hex (byte c div 16), upper_hex (byte c mod 16)]) s)"

definition go_PathEscape :: "string \<Rightarrow> string" where
  "go_PathEscape s = escape_keeping ''$&+=:@'' s"

definition go_EscapedPath :: "string \<Rightarrow> string" where
  "go_EscapedPath s = escape_keeping ''$&+,/:;=@'' s"

record client =
  cl_baseURL :: url
  cl_gatewayAPIKey :: string

definition NewClient :: "url_parser \<Rightarrow> control_api_config \<Rightarrow> client option" where
  "NewClient parse cfg =
     (case parse (go_TrimRight (BaseURL cfg) ''/'') of
        None \<Rightarrow> None
      | Some base \<Rightarrow>
          if url_Scheme base = [] \<or> url_Host base = [] then None
          else Some \<lparr>cl_baseURL = base, cl_gatewayAPIKey = GatewayAPIKey cfg\<rparr>)"

record fetch_request =
  fq_Scheme :: string
  fq_Host :: string
  fq_Path :: string
  fq_Authorization :: string
  fq_Accept :: string

text \<open>The reference has an absolute path, so only the scheme and host of the base remain.\<close>

definition fetch_request_of :: "unicode \<Rightarrow> client \<Rightarrow> string \<Rightarrow> fetch_request" where
  "fetch_request_of u c hostname =
     \<lparr>fq_Scheme = url_Scheme (cl_baseURL c), fq_Host = url_Host (cl_baseURL c),
      fq_Path = go_EscapedPath (''/v1/gateway/apps/'' @ go_PathEscape (NormalizeHost u hostname) @ ''/policy''),
      fq_Authorization = ''Bearer '' @ cl_gatewayAPIKey c, fq_Accept = ''application/json''\<rparr>"

subsection \<open>The remote policy\<close>

record remote_origin =
  ro_URL :: string
  ro_Scheme :: string
  ro_Host :: string
  ro_Port :: int

text \<open>Raw JSON messages are kept as text.\<close>

record gateway_policy =
  gp_TenantID :: string
  gp_AppID :: string
  gp_PolicyID :: string
  gp_PolicyVersionID :: string
  gp_Mode :: string
  gp_Origin :: remote_origin
  gp_IPSets :: string
  gp_CustomRules :: string
  gp_RateLimits :: string
  gp_WAF :: string
  gp_PublishedAt :: string

record remote_custom_rule =
  rcr_ID :: string
  rcr_Name :: string
  rcr_Priority :: int
  rcr_Enabled :: bool
  rcr_Action :: string
  rcr_StatusCode :: int
  rcr_TerminalAllow :: bool
  rcr_When :: condition_config

record remote_rate_limit =
  rrl_ID :: string
  rrl_Name :: string
  rrl_Enabled :: bool
  rrl_Priority :: int
  rrl_Match :: condition_config
  rrl_KeyType :: string
  rrl_KeyHeader :: string
  rrl_Limit :: int
  rrl_WindowSeconds :: int
  rrl_Action :: string
  rrl_StatusCode :: int

text \<open>The three uses of \<open>json.Unmarshal\<close> and the decoding of the response body.\<close>

record json_codec =
  unmarshal_ip_sets :: "string \<Rightarrow> (string \<times> string list) list option"
  unmarshal_custom_rules :: "string \<Rightarrow> remote_custom_rule list option"
  unmarshal_rate_limits :: "string \<Rightarrow> remote_rate_limit list option"
  decode_policy :: "string \<Rightarrow> gateway_policy option"

datatype fetch_error =
    RequestFailed
  | StatusNotOK int
  | PolicyDecodeFailed
  | MissingIdentifiers
  | MissingOrigin
  | DecodeIPSets
  | DecodeCustomRules
  | DecodeRateLimits
  | BadApp app_error

definition no_json :: "string \<Rightarrow> bool" where
  "no_json raw \<longleftrightarrow> raw = [] \<or> raw = ''null''"

definition decodeIPSets :: "json_codec \<Rightarrow> string \<Rightarrow> fetch_error + (string \<times> string list) list" where
  "decodeIPSets j raw =
     (if no_json raw then Inr []
      else case unmarshal_ip_sets j raw of None \<Rightarrow> Inl DecodeIPSets | Some got \<Rightarrow> Inr got)"

definition custom_rule_config_of :: "remote_custom_rule \<Rightarrow> custom_rule_config" where
  "custom_rule_config_of rule =
     \<lparr>crc_ID = rcr_ID rule, crc_Name = rcr_Name rule, crc_Priority = rcr_Priority rule,
      crc_Enabled = rcr_Enabled rule, crc_Action = rcr_Action rule,
      crc_StatusCode = rcr_StatusCode rule, crc_TerminalAllow = rcr_TerminalAllow rule,
      crc_When = rcr_When rule\<rparr>"

definition decodeCustomRules :: "json_codec \<Rightarrow> string \<Rightarrow> fetch_error + custom_rule_config list" where
  "decodeCustomRules j raw =
     (if no_json raw then Inr []
      else case unmarshal_custom_rules j raw of
             None \<Rightarrow> Inl DecodeCustomRules
           | Some got \<Rightarrow> Inr (map custom_rule_config_of got))"

definition rate_limit_config_of :: "remote_rate_limit \<Rightarrow> rate_limit_config" where
  "rate_limit_config_of rule =
     \<lparr>rlc_ID = rrl_ID rule, rlc_Name = rrl_Name rule, rlc_Enabled = rrl_Enabled rule,
      rlc_Priority = rrl_Priority rule, rlc_MatchExpression = rrl_Match rule,
      rlc_KeyType = rrl_KeyType rule, rlc_KeyHeader = rrl_KeyHeader rule,
      rlc_Limit = rrl_Limit rule, rlc_WindowSeconds = rrl_WindowSeconds rule,
      rlc_Action = rrl_Action rule, rlc_StatusCode = rrl_StatusCode rule, rlc_Key = []\<rparr>"

definition decodeRateLimits :: "json_codec \<Rightarrow> string \<Rightarrow> fetch_error + rate_limit_config list" where
  "decodeRateLimits j raw =
     (if no_json raw then Inr []
      else case unmarshal_rate_limits j raw of
             None \<Rightarrow> Inl DecodeRateLimits
           | Some got \<Rightarrow> Inr (map rate_limit_config_of got))"

definition remote_origin_url :: "remote_origin \<Rightarrow> string" where
  "remote_origin_url origin =
     (if ro_URL origin = [] \<and> ro_Scheme origin \<noteq> [] \<and> ro_Host origin \<noteq> [] then
        (let base = ro_Scheme origin @ ''://'' @ ro_Host origin in
         if 0 < ro_Port origin then base @ '':'' @ go_Itoa (ro_Port origin) else base)
      else ro_URL origin)"

definition remote_app_config ::
  "unicode \<Rightarrow> gateway_policy \<Rightarrow> string \<Rightarrow> string \<Rightarrow> (string \<times> string list) list \<Rightarrow> custom_rule_config list
   \<Rightarrow> rate_limit_config list \<Rightarrow> app_config" where
  "remote_app_config u p hostname originURL ipSets customRules rateLimits =
     \<lparr>ac_ID = gp_AppID p, ac_TenantID = gp_TenantID p, ac_Hostnames = [NormalizeHost u hostname],
      ac_Origin = \<lparr>oc_URL = originURL\<rparr>,
      ac_Policy = \<lparr>pc_Mode = gp_Mode p, pc_DefaultAction = ''allow'', pc_IPBlocklist = [],
        pc_IPAllowlist = [], pc_IPSets = ipSets, pc_RateLimits = rateLimits,
        pc_CustomRules = customRules\<rparr>\<rparr>"

definition toApp ::
  "unicode \<Rightarrow> json_codec \<Rightarrow> url_parser \<Rightarrow> gateway_policy \<Rightarrow> string \<Rightarrow> fetch_error + app" where
  "toApp u j parse p hostname =
     (if gp_TenantID p = [] \<or> gp_AppID p = [] \<or> gp_PolicyID p = [] \<or> gp_PolicyVersionID p = []
        then Inl MissingIdentifiers
      else let originURL = remote_origin_url (gp_Origin p) in
      if originURL = [] then Inl MissingOrigin
      else case decodeIPSets j (gp_IPSets p) of
        Inl e \<Rightarrow> Inl e
      | Inr ipSets \<Rightarrow>
      (case decodeCustomRules j (gp_CustomRules p) of
        Inl e \<Rightarrow> Inl e
      | Inr customRules \<Rightarrow>
      (case decodeRateLimits j (gp_RateLimits p) of
        Inl e \<Rightarrow> Inl e
      | Inr rateLimits \<Rightarrow>
      (case newApp parse (remote_app_config u p hostname originURL ipSets customRules rateLimits) of
        Inl e \<Rightarrow> Inl (BadApp e)
      | Inr app \<Rightarrow> Inr (app\<lparr>app_PolicyID := gp_PolicyID p, app_PolicyVersion := gp_PolicyVersionID p\<rparr>)))))"

text \<open>The exchange gives the status and body of the response, or \<open>None\<close> when it fails.\<close>

type_synonym 'w exchange = "fetch_request \<Rightarrow> 'w \<Rightarrow> (int \<times> string) option \<times> 'w"

definition FetchPolicy ::
  "unicode \<Rightarrow> json_codec \<Rightarrow> url_parser \<Rightarrow> client \<Rightarrow> 'w exchange \<Rightarrow> string \<Rightarrow> 'w
   \<Rightarrow> (fetch_error + app) \<times> 'w" where
  "FetchPolicy u j parse c http hostname w =
     (case http (fetch_request_of u c hostname) w of
        (None, w') \<Rightarrow> (Inl RequestFailed, w')
      | (Some (status, body), w') \<Rightarrow>
          if status \<noteq> 200 then (Inl (StatusNotOK status), w')
          else (case decode_policy j body of
                  None \<Rightarrow> (Inl PolicyDecodeFailed, w')
                | Some remote \<Rightarrow> (toApp u j parse remote hostname, w')))"

section \<open>The provider\<close>

record cache_entry =
  ce_app :: app
  ce_expiresAt :: int

definition FailOpen :: string where "FailOpen = ''fail_open''"
definition FailClosed :: string where "FailClosed = ''fail_closed''"
definition UseStaleThenFailOpen :: string where "UseStaleThenFailOpen = ''use_stale_then_fail_open''"

record provider_config =
  pv_ttl :: int
  pv_failBehavior :: string

definition NewProvider :: "control_api_config \<Rightarrow> provider_config" where
  "NewProvider cfg =
     (let ttl = wrap64 (CacheTTLSeconds cfg * 1000000000) in
      \<lparr>pv_ttl = (if ttl \<le> 0 then 30 * 1000000000 else ttl),
       pv_failBehavior = (if FailBehavior cfg = [] then UseStaleThenFailOpen else FailBehavior cfg)\<rparr>)"

record 'w provider =
  pv_cache :: "string \<Rightarrow> cache_entry option"
  pv_locks :: "string set"
  pv_hits :: nat
  pv_misses :: nat
  pv_errors :: nat
  pv_metrics :: metrics
  pv_world :: 'w

definition pv_cached :: "string \<Rightarrow> 'w provider \<Rightarrow> cache_entry option" where
  "pv_cached host p = pv_cache p host"

definition pv_store :: "string \<Rightarrow> cache_entry \<Rightarrow> 'w provider \<Rightarrow> 'w provider" where
  "pv_store host entry p = p\<lparr>pv_cache := (pv_cache p)(host \<mapsto> entry)\<rparr>"

definition pv_hostLock :: "string \<Rightarrow> 'w provider \<Rightarrow> 'w provider" where
  "pv_hostLock host p = p\<lparr>pv_locks := insert host (pv_locks p)\<rparr>"

definition read_clock :: "('w \<Rightarrow> int \<times> 'w) \<Rightarrow> 'w provider \<Rightarrow> int \<times> 'w provider" where
  "read_clock clock p = (let (now, w) = clock (pv_world p) in (now, p\<lparr>pv_world := w\<rparr>))"

definition fresh_entry :: "int \<Rightarrow> cache_entry option \<Rightarrow> app option" where
  "fresh_entry now e =
     (case e of None \<Rightarrow> None | Some entry \<Rightarrow> if now < ce_expiresAt entry then Some (ce_app entry) else None)"

definition count_hit :: "'w provider \<Rightarrow> 'w provider" where
  "count_hit p = p\<lparr>pv_hits := pv_hits p + 1, pv_metrics := IncPolicyCacheHit (pv_metrics p)\<rparr>"

definition count_miss :: "'w provider \<Rightarrow> 'w provider" where
  "count_miss p = p\<lparr>pv_misses := pv_misses p + 1, pv_metrics := IncPolicyCacheMiss (pv_metrics p)\<rparr>"

definition count_error :: "'w provider \<Rightarrow> 'w provider" where
  "count_error p = p\<lparr>pv_errors := pv_errors p + 1, pv_metrics := IncPolicyFetchError (pv_metrics p)\<rparr>"

definition found_app :: "app \<Rightarrow> lookup_result" where
  "found_app a = zero_lookup\<lparr>lr_App := Some a, lr_Found := True\<rparr>"

text \<open>Up to the point where the host's lock is taken.\<close>

definition lookup_enter ::
  "('w \<Rightarrow> int \<times> 'w) \<Rightarrow> string \<Rightarrow> 'w provider \<Rightarrow> lookup_result option \<times> 'w provider" where
  "lookup_enter clock host p0 =
     (if host = [] then (Some (zero_lookup\<lparr>lr_Found := False, lr_Reason := ''empty_host''\<rparr>), p0)
      else
        let (now, p) = read_clock clock p0 in
        case fresh_entry now (pv_cached host p) of
          Some a \<Rightarrow> (Some (found_app a), count_hit p)
        | None \<Rightarrow> (None, pv_hostLock host (count_miss p)))"

text \<open>Under the lock: the cache is probed again with a new reading of the clock.\<close>

definition lookup_recheck ::
  "('w \<Rightarrow> int \<times> 'w) \<Rightarrow> string \<Rightarrow> 'w provider \<Rightarrow> (lookup_result + int) \<times> 'w provider" where
  "lookup_recheck clock host p0 =
     (let (now, p) = read_clock clock p0 in
      case fresh_entry now (pv_cached host p) of
        Some a \<Rightarrow> (Inl (found_app a), count_hit p)
      | None \<Rightarrow> (Inr now, p))"

definition fail_result :: "provider_config \<Rightarrow> lookup_result" where
  "fail_result cfg =
     (if pv_failBehavior cfg = FailClosed then
        zero_lookup\<lparr>lr_Found := False, lr_StatusCode := 503, lr_Reason := ''policy_fetch_failed''\<rparr>
      else
        zero_lookup\<lparr>lr_Found := False, lr_FailOpen := True, lr_Reason := ''policy_fetch_failed_fail_open'',
          lr_Warning := ''policy_fetch_failed_fail_open''\<rparr>)"

text \<open>When the fetch has returned; the entry expires one TTL after the reading under the lock.\<close>

definition lookup_complete ::
  "provider_config \<Rightarrow> string \<Rightarrow> int \<Rightarrow> fetch_error + app \<Rightarrow> 'w provider \<Rightarrow> lookup_result \<times> 'w provider" where
  "lookup_complete cfg host now fetched p =
     (case fetched of
        Inr a \<Rightarrow> (found_app a, pv_store host \<lparr>ce_app = a, ce_expiresAt = now + pv_ttl cfg\<rparr> p)
      | Inl err \<Rightarrow>
          let p1 = count_error p in
          case pv_cached host p1 of
            Some stale \<Rightarrow>
              (zero_lookup\<lparr>lr_App := Some (ce_app stale), lr_Found := True, lr_Stale := True,
                 lr_Warning := ''policy_fetch_failed_using_stale''\<rparr>, p1)
          | None \<Rightarrow> (fail_result cfg, p1))"

definition pv_Lookup ::
  "unicode \<Rightarrow> provider_config \<Rightarrow> ('w \<Rightarrow> int \<times> 'w) \<Rightarrow> (string \<Rightarrow> 'w \<Rightarrow> (fetch_error + app) \<times> 'w)
   \<Rightarrow> string \<Rightarrow> 'w provider \<Rightarrow> lookup_result \<times> 'w provider" where
  "pv_Lookup u cfg clock fetch host0 p0 =
     (let host = NormalizeHost u host0 in
      case lookup_enter clock host p0 of
        (Some r, p1) \<Rightarrow> (r, p1)
      | (None, p1) \<Rightarrow>
          (case lookup_recheck clock host p1 of
             (Inl r, p2) \<Rightarrow> (r, p2)
           | (Inr now, p2) \<Rightarrow>
               let (fetched, w) = fetch host (pv_world p2) in
               lookup_complete cfg host now fetched (p2\<lparr>pv_world := w\<rparr>)))"

end
