(* ===== verification/Audit_Log.thy ===== *)
theory Audit_Log
  imports Go_Http Gateway_Metrics
begin

text \<open>
  Package \<open>audit\<close> of the gateway: the event, the sinks (JSON lines and ClickHouse rows with
  their fixed-width columns) and the dispatcher with its bounded queue. JSON encoding, the
  writer and the HTTP exchange are parameters; a sink is a state transformer over the world it
  writes to. Times are nanoseconds since the Unix epoch.
\<close>

section \<open>Events\<close>

record audit_rate_limit =
  arl_Limit :: int
  arl_Remaining :: int
  arl_ResetAt :: int
  arl_RuleID :: string
  arl_Action :: string

record event =
  ev_Timestamp :: int
  ev_RequestID :: string
  ev_TenantID :: string
  ev_AppID :: string
  ev_PolicyID :: string
  ev_PolicyVersion :: string
  ev_Host :: string
  ev_ClientIP :: string
  ev_Country :: string
  ev_Method :: string
  ev_Path :: string
  ev_QueryRedacted :: string
  ev_UserAgent :: string
  ev_Action :: string
  ev_Mode :: string
  ev_Enforced :: bool
  ev_WouldBlock :: bool
  ev_Status :: int
  ev_Reason :: string
  ev_MatchedRuleID :: string
  ev_MatchedRuleName :: string
  ev_RuleGroup :: string
  ev_Tags :: "string list"
  ev_AnomalyScore :: int
  ev_RateLimit :: "audit_rate_limit option"
  ev_LatencyMS :: int
  ev_OriginStatus :: int
  ev_OriginLatencyMS :: int
  ev_BodyPreview :: string

definition zero_event :: event where
  "zero_event =
     \<lparr>ev_Timestamp = zero_time, ev_RequestID = [], ev_TenantID = [], ev_AppID = [],
      ev_PolicyID = [], ev_PolicyVersion = [], ev_Host = [], ev_ClientIP = [], ev_Country = [],
      ev_Method = [], ev_Path = [], ev_QueryRedacted = [], ev_UserAgent = [], ev_Action = [],
      ev_Mode = [], ev_Enforced = False, ev_WouldBlock = False, ev_Status = 0, ev_Reason = [],
      ev_MatchedRuleID = [], ev_MatchedRuleName = [], ev_RuleGroup = [], ev_Tags = [],
      ev_AnomalyScore = 0, ev_RateLimit = None, ev_LatencyMS = 0, ev_OriginStatus = 0,
      ev_OriginLatencyMS = 0, ev_BodyPreview = []\<rparr>"

text \<open>A sink takes an event and the world and tells whether the write succeeded.\<close>

type_synonym 'w sink = "event \<Rightarrow> 'w \<Rightarrow> bool \<times> 'w"

section \<open>JSON lines\<close>

text \<open>
  \<open>JSONStdoutSink.Write\<close>: a cancelled context is an error, otherwise the encoded event and a
  newline go to the writer.
\<close>

definition json_Write ::
  "(event \<Rightarrow> string) \<Rightarrow> (string \<Rightarrow> 'w \<Rightarrow> bool \<times> 'w) \<Rightarrow> bool \<Rightarrow> 'w sink" where
  "json_Write encode write cancelled event w =
     (if cancelled then (False, w) else write (encode event @ [CHR 0x0A]) w)"

definition json_Log :: "(event \<Rightarrow> string) \<Rightarrow> (string \<Rightarrow> 'w \<Rightarrow> bool \<times> 'w) \<Rightarrow> event \<Rightarrow> 'w \<Rightarrow> 'w" where
  "json_Log encode write event w = snd (json_Write encode write False event w)"

section \<open>ClickHouse rows\<close>

record clickhouse_event =
  ch_Timestamp :: string
  ch_RequestID :: string
  ch_TenantID :: string
  ch_AppID :: string
  ch_PolicyID :: string
  ch_PolicyVersionID :: string
  ch_Host :: string
  ch_ClientIP :: string
  ch_Method :: string
  ch_Path :: string
  ch_Action :: string
  ch_Mode :: string
  ch_Enforced :: bool
  ch_WouldBlock :: bool
  ch_Status :: "16 word"
  ch_Reason :: string
  ch_MatchedRuleID :: string
  ch_MatchedRuleName :: string
  ch_RuleGroup :: string
  ch_Tags :: "string list"
  ch_AnomalyScore :: "32 word"
  ch_UserAgent :: string
  ch_LatencyMS :: "32 word"
  ch_OriginStatus :: "16 word"
  ch_OriginLatencyMS :: "32 word"

definition clampUInt16 :: "int \<Rightarrow> 16 word" where
  "clampUInt16 value =
     (if value < 0 then 0 else if 65535 < value then 65535 else word_of_int value)"

definition clampUInt32 :: "int \<Rightarrow> 32 word" where
  "clampUInt32 value =
     (if value < 0 then 0 else if 2 ^ 32 - 1 < value then 2 ^ 32 - 1 else word_of_int value)"

text \<open>
  \<open>Time.Format("2006-01-02 15:04:05.000")\<close> in UTC: the proleptic Gregorian date of the day
  number, the time of day, and the milliseconds cut off, not rounded.
\<close>

definition civil_of_days :: "int \<Rightarrow> int \<times> int \<times> int" where
  "civil_of_days days =
     (let z = days + 719468;
          era = z div 146097;
          doe = z - era * 146097;
          yoe = (doe - doe div 1460 + doe div 36524 - doe div 146096) div 365;
          doy = doe - (365 * yoe + yoe div 4 - yoe div 100);
          mp = (5 * doy + 2) div 153;
          day = doy - (153 * mp + 2) div 5 + 1;
          month = (if mp < 10 then mp + 3 else mp - 9)
      in (yoe + era * 400 + (if month \<le> 2 then 1 else 0), month, day))"

definition pad :: "nat \<Rightarrow> int \<Rightarrow> string" where
  "pad width v = replicate (width - length (go_Itoa v)) (CHR ''0'') @ go_Itoa v"

definition format_timestamp :: "int \<Rightarrow> string" where
  "format_timestamp ns =
     (let ms = ns div 1000000;
          secs = ms div 1000;
          (year, month, day) = civil_of_days (secs div 86400);
          tod = secs mod 86400
      in pad 4 year @ ''-'' @ pad 2 month @ ''-'' @ pad 2 day @ '' '' @
         pad 2 (tod div 3600) @ '':'' @ pad 2 (tod div 60 mod 60) @ '':'' @ pad 2 (tod mod 60) @
         ''.'' @ pad 3 (ms mod 1000))"

definition clickhouse_row :: "event \<Rightarrow> clickhouse_event" where
  "clickhouse_row event =
     \<lparr>ch_Timestamp = format_timestamp (ev_Timestamp event), ch_RequestID = ev_RequestID event,
      ch_TenantID = ev_TenantID event, ch_AppID = ev_AppID event, ch_PolicyID = ev_PolicyID event,
      ch_PolicyVersionID = ev_PolicyVersion event, ch_Host = ev_Host event,
      ch_ClientIP = ev_ClientIP event, ch_Method = ev_Method event, ch_Path = ev_Path event,
      ch_Action = ev_Action event, ch_Mode = ev_Mode event, ch_Enforced = ev_Enforced event,
      ch_WouldBlock = ev_WouldBlock event, ch_Status = clampUInt16 (ev_Status event),
      ch_Reason = ev_Reason event, ch_MatchedRuleID = ev_MatchedRuleID event,
      ch_MatchedRuleName = ev_MatchedRuleName event, ch_RuleGroup = ev_RuleGroup event,
      ch_Tags = ev_Tags event, ch_AnomalyScore = word_of_int (ev_AnomalyScore event),
      ch_UserAgent = ev_UserAgent event, ch_LatencyMS = clampUInt32 (ev_LatencyMS event),
      ch_OriginStatus = clampUInt16 (ev_OriginStatus event),
      ch_OriginLatencyMS = clampUInt32 (ev_OriginLatencyMS event)\<rparr>"

text \<open>\<open>url.QueryEscape\<close>: letters, digits and four marks stay, a space becomes a plus.\<close>

definition escape_byte :: "char \<Rightarrow> string" where
  "escape_byte c =
     (if is_lower c \<or> is_upper c \<or> is_digit c \<or> c \<in> set ''-_.~'' then [c]
      else if c = CHR '' '' then ''+''
      else [CHR ''%'', upper_hex (byte c div 16), upper_hex (byte c mod 16)])"

definition go_QueryEscape :: "string \<Rightarrow> string" where
  "go_QueryEscape s = concat (map escape_byte s)"

record clickhouse_sink =
  cs_endpoint :: string
  cs_database :: string
  cs_username :: string
  cs_password :: string

record clickhouse_request =
  cq_url :: string
  cq_body :: string
  cq_auth :: "(string \<times> string) option"

text \<open>
  \<open>url.Parse\<close> is a parameter that gives the scheme, the host and the text \<open>URL.String()\<close>.
\<close>

definition NewClickHouseSink ::
  "(string \<Rightarrow> (string \<times> string \<times> string) option) \<Rightarrow> string \<Rightarrow> string \<Rightarrow> string \<Rightarrow> string
   \<Rightarrow> clickhouse_sink option" where
  "NewClickHouseSink parse url database username password =
     (case parse url of
        None \<Rightarrow> None
      | Some (scheme, host, text) \<Rightarrow>
          if scheme = [] \<or> host = [] then None
          else Some \<lparr>cs_endpoint = go_TrimRight text ''/'',
                     cs_database = (if database = [] then ''bedemwaf'' else database),
                     cs_username = username, cs_password = password\<rparr>)"

definition clickhouse_request_of :: "clickhouse_sink \<Rightarrow> string \<Rightarrow> clickhouse_request" where
  "clickhouse_request_of s body =
     \<lparr>cq_url = cs_endpoint s @ ''/?database='' @ go_QueryEscape (cs_database s) @ ''&query='' @
        go_QueryEscape ''INSERT INTO waf_events FORMAT JSONEachRow'',
      cq_body = body,
      cq_auth = (if cs_username s \<noteq> [] \<or> cs_password s \<noteq> []
                 then Some (cs_username s, cs_password s) else None)\<rparr>"

text \<open>The exchange gives the status of the response, or \<open>None\<close> when the request fails.\<close>

definition clickhouse_Write ::
  "(clickhouse_event \<Rightarrow> string) \<Rightarrow> (clickhouse_request \<Rightarrow> 'w \<Rightarrow> int option \<times> 'w)
   \<Rightarrow> clickhouse_sink \<Rightarrow> 'w sink" where
  "clickhouse_Write encode http s event w =
     (case http (clickhouse_request_of s (encode (clickhouse_row event) @ [CHR 0x0A])) w of
        (None, w') \<Rightarrow> (False, w')
      | (Some status, w') \<Rightarrow> (\<not> (status < 200 \<or> 300 \<le> status), w'))"

lemma clampUInt16_value: "int (unat (clampUInt16 v)) = max 0 (min 65535 v)"
  by (auto simp: clampUInt16_def max_def min_def unsigned_of_int take_bit_int_eq_self)

lemma clampUInt32_value: "int (unat (clampUInt32 v)) = max 0 (min (2 ^ 32 - 1) v)"
  by (auto simp: clampUInt32_def max_def min_def unsigned_of_int take_bit_int_eq_self)

lemma AnomalyScore_value:
  "sint (ch_AnomalyScore (clickhouse_row e)) = (ev_AnomalyScore e + 2 ^ 31) mod 2 ^ 32 - 2 ^ 31"
  by (simp add: clickhouse_row_def signed_of_int signed_take_bit_eq_take_bit_shift take_bit_eq_mod)

section \<open>The dispatcher\<close>

text \<open>
  The channel is its contents and whether it is closed; \<open>inflight\<close> is the event the worker
  goroutine holds between receiving and writing it. The four counters are 64-bit atomics; they
  are natural numbers here, since they only ever count calls.
\<close>

record dispatcher =
  queue :: "event list"
  capacity :: nat
  closed :: bool
  inflight :: "event option"
  finished :: bool
  eventsSentTotal :: nat
  eventsDroppedTotal :: nat
  blockedTotal :: nat
  allowedTotal :: nat

datatype dispatcher_error = QueueSizeNotPositive | NoSinks

definition NewDispatcher :: "int \<Rightarrow> 'w sink list \<Rightarrow> dispatcher_error + dispatcher" where
  "NewDispatcher queueSize sinks =
     (if queueSize \<le> 0 then Inl QueueSizeNotPositive
      else if sinks = [] then Inl NoSinks
      else Inr \<lparr>queue = [], capacity = nat queueSize, closed = False, inflight = None,
                finished = False, eventsSentTotal = 0, eventsDroppedTotal = 0, blockedTotal = 0,
                allowedTotal = 0\<rparr>)"

definition stamp :: "int \<Rightarrow> event \<Rightarrow> event" where
  "stamp now e = (if ev_Timestamp e = zero_time then e\<lparr>ev_Timestamp := now\<rparr> else e)"

definition count_action :: "event \<Rightarrow> dispatcher \<Rightarrow> dispatcher" where
  "count_action e d =
     (if ev_Action e = ''block'' \<or> ev_Action e = ''rate_limit''
      then d\<lparr>blockedTotal := blockedTotal d + 1\<rparr> else d\<lparr>allowedTotal := allowedTotal d + 1\<rparr>)"

text \<open>
  \<open>Log\<close>: the send is a \<open>select\<close> with a default branch, so a full queue drops the event at
  once; sending on a closed channel panics. A receive by the waiting worker is the append
  followed by its \<open>take\<close> step.
\<close>

definition disp_Log :: "int \<Rightarrow> event \<Rightarrow> dispatcher \<times> metrics \<Rightarrow> unit outcome \<times> dispatcher \<times> metrics" where
  "disp_Log now event st =
     (let (d0, m) = st; e = stamp now event; d = count_action e d0 in
      if closed d then (Panic, d, m)
      else if length (queue d) < capacity d then (Ret (), d\<lparr>queue := queue d @ [e]\<rparr>, m)
      else (Ret (), d\<lparr>eventsDroppedTotal := eventsDroppedTotal d + 1\<rparr>, IncAuditEventDropped m))"

definition disp_close :: "dispatcher \<Rightarrow> dispatcher" where
  "disp_close d = d\<lparr>closed := True\<rparr>"

text \<open>
  \<open>Shutdown\<close>: close once, then wait. \<open>ctx_done\<close> says that the wait takes the branch of the context,
  which it may do also when the worker has finished; None is a wait that goes on.
\<close>

definition disp_Shutdown :: "bool \<Rightarrow> dispatcher \<Rightarrow> bool option \<times> dispatcher" where
  "disp_Shutdown ctx_done d0 =
     (let d = disp_close d0 in
      (if ctx_done then Some False else if finished d then Some True else None, d))"

text \<open>One iteration of \<open>run\<close>: receive, write to every sink, and stop at a closed empty channel.\<close>

definition worker_take :: "dispatcher \<Rightarrow> dispatcher option" where
  "worker_take d =
     (if finished d \<or> inflight d \<noteq> None then None
      else case queue d of
        e # q \<Rightarrow> Some (d\<lparr>queue := q, inflight := Some e\<rparr>)
      | [] \<Rightarrow> if closed d then Some (d\<lparr>finished := True\<rparr>) else None)"

fun write_sinks :: "'w sink list \<Rightarrow> event \<Rightarrow> 'w \<Rightarrow> bool \<times> 'w" where
  "write_sinks [] e w = (False, w)"
| "write_sinks (sink # sinks) e w =
     (let (ok, w1) = sink e w; (sent, w2) = write_sinks sinks e w1 in (ok \<or> sent, w2))"

definition disp_write :: "'w sink list \<Rightarrow> dispatcher \<times> 'w \<Rightarrow> (dispatcher \<times> 'w) option" where
  "disp_write sinks st =
     (let (d, w) = st in
      case inflight d of
        None \<Rightarrow> None
      | Some e \<Rightarrow>
          let (sent, w') = write_sinks sinks e w; d1 = d\<lparr>inflight := None\<rparr> in
          Some (if sent then d1\<lparr>eventsSentTotal := eventsSentTotal d1 + 1\<rparr> else d1, w'))"

end
