(* ===== verification/Audit_Log_Facts.thy ===== *)
theory Audit_Log_Facts
  imports Audit_Log
begin

text \<open>
  The dispatcher as a state machine: request goroutines log, the worker goroutine takes and
  writes, shutdown closes the queue, in any interleaving. History variables record which events
  were accepted and which were handed to the sinks. The invariant is proved by rule induction;
  the interface the request handler relies on is the locale \<open>event_logger\<close>.
\<close>

section \<open>Steps\<close>

record 'w audit_sys =
  sys_d :: dispatcher
  sys_m :: metrics
  sys_w :: 'w
  accepted :: "event list"
  written :: "event list"
  calls :: nat
  panics :: nat

text \<open>The two moves of the worker.\<close>

inductive worker_step :: "'w sink list \<Rightarrow> 'w audit_sys \<Rightarrow> 'w audit_sys \<Rightarrow> bool" for sinks where
  receive: "worker_take (sys_d s) = Some d' \<Longrightarrow> worker_step sinks s (s\<lparr>sys_d := d'\<rparr>)"
| deliver: "inflight (sys_d s) = Some e \<Longrightarrow> disp_write sinks (sys_d s, sys_w s) = Some (d', w') \<Longrightarrow>
    worker_step sinks s (s\<lparr>sys_d := d', sys_w := w', written := written s @ [e]\<rparr>)"

inductive audit_step :: "'w sink list \<Rightarrow> 'w audit_sys \<Rightarrow> 'w audit_sys \<Rightarrow> bool" for sinks where
  log: "disp_Log now e (sys_d s, sys_m s) = (r, d', m') \<Longrightarrow>
    audit_step sinks s (s\<lparr>sys_d := d', sys_m := m', calls := calls s + 1,
      panics := panics s + (if r = Panic then 1 else 0),
      accepted := (if r \<noteq> Panic \<and> length (queue (sys_d s)) < capacity (sys_d s)
                   then accepted s @ [stamp now e] else accepted s)\<rparr>)"
| work: "worker_step sinks s s' \<Longrightarrow> audit_step sinks s s'"
| close: "audit_step sinks s (s\<lparr>sys_d := disp_close (sys_d s)\<rparr>)"

inductive_cases worker_stepE: "worker_step sinks s s'"
inductive_cases audit_stepE: "audit_step sinks s s'"

definition pending :: "dispatcher \<Rightarrow> event list" where
  "pending d = (case inflight d of None \<Rightarrow> [] | Some e \<Rightarrow> [e]) @ queue d"

definition start_sys :: "dispatcher \<Rightarrow> metrics \<Rightarrow> 'w \<Rightarrow> 'w audit_sys" where
  "start_sys d m w = \<lparr>sys_d = d, sys_m = m, sys_w = w, accepted = [], written = [], calls = 0, panics = 0\<rparr>"

definition audit_reachable :: "'w sink list \<Rightarrow> int \<Rightarrow> metrics \<Rightarrow> 'w \<Rightarrow> 'w audit_sys \<Rightarrow> bool" where
  "audit_reachable sinks qsize m w s \<longleftrightarrow>
     (\<exists>d. NewDispatcher qsize sinks = Inr d \<and> (audit_step sinks)\<^sup>*\<^sup>* (start_sys d m w) s)"

section \<open>The invariant\<close>

definition disp_inv :: "nat \<Rightarrow> nat \<Rightarrow> 'w audit_sys \<Rightarrow> bool" where
  "disp_inv cap dropped0 s \<longleftrightarrow>
     accepted s = written s @ pending (sys_d s) \<and>
     capacity (sys_d s) = cap \<and> length (queue (sys_d s)) \<le> cap \<and>
     blockedTotal (sys_d s) + allowedTotal (sys_d s) = calls s \<and>
     length (accepted s) + eventsDroppedTotal (sys_d s) + panics s = calls s \<and>
     auditEventsDroppedTotal (sys_m s) = dropped0 + eventsDroppedTotal (sys_d s) \<and>
     eventsSentTotal (sys_d s) \<le> length (written s) \<and>
     (finished (sys_d s) \<longrightarrow> closed (sys_d s) \<and> pending (sys_d s) = []) \<and>
     (panics s \<noteq> 0 \<longrightarrow> closed (sys_d s))"

lemma count_action_simps [simp]:
  "queue (count_action e d) = queue d" "capacity (count_action e d) = capacity d"
  "closed (count_action e d) = closed d" "inflight (count_action e d) = inflight d"
  "finished (count_action e d) = finished d" "eventsSentTotal (count_action e d) = eventsSentTotal d"
  "eventsDroppedTotal (count_action e d) = eventsDroppedTotal d"
  "blockedTotal (count_action e d) + allowedTotal (count_action e d) = Suc (blockedTotal d + allowedTotal d)"
  by (simp_all add: count_action_def)

lemma disp_close_simps [simp]:
  "queue (disp_close d) = queue d" "capacity (disp_close d) = capacity d" "closed (disp_close d)"
  "inflight (disp_close d) = inflight d" "finished (disp_close d) = finished d"
  "eventsSentTotal (disp_close d) = eventsSentTotal d"
  "eventsDroppedTotal (disp_close d) = eventsDroppedTotal d"
  "blockedTotal (disp_close d) = blockedTotal d" "allowedTotal (disp_close d) = allowedTotal d"
  "pending (disp_close d) = pending d"
  by (simp_all add: disp_close_def pending_def)

lemma disp_inv_start: "NewDispatcher qsize sinks = Inr d \<Longrightarrow>
    disp_inv (nat qsize) (auditEventsDroppedTotal m) (start_sys d m w)"
  by (auto simp: NewDispatcher_def disp_inv_def start_sys_def pending_def split: if_splits)

lemma disp_inv_log:
  assumes "disp_Log now e (sys_d s, sys_m s) = (r, d', m')" and "disp_inv cap n s"
  shows "disp_inv cap n (s\<lparr>sys_d := d', sys_m := m', calls := calls s + 1,
      panics := panics s + (if r = Panic then 1 else 0),
      accepted := (if r \<noteq> Panic \<and> length (queue (sys_d s)) < capacity (sys_d s)
                   then accepted s @ [stamp now e] else accepted s)\<rparr>)"
proof -
  consider (closed) "closed (sys_d s)" "r = Panic" "d' = count_action (stamp now e) (sys_d s)" "m' = sys_m s"
    | (room) "\<not> closed (sys_d s)" "length (queue (sys_d s)) < capacity (sys_d s)" "r = Ret ()" "m' = sys_m s"
        "d' = count_action (stamp now e) (sys_d s)\<lparr>queue := queue (sys_d s) @ [stamp now e]\<rparr>"
    | (full) "\<not> closed (sys_d s)" "\<not> length (queue (sys_d s)) < capacity (sys_d s)" "r = Ret ()"
        "m' = IncAuditEventDropped (sys_m s)"
        "d' = count_action (stamp now e) (sys_d s)\<lparr>eventsDroppedTotal := eventsDroppedTotal (sys_d s) + 1\<rparr>"
    using assms(1) by (auto simp: disp_Log_def Let_def split: if_splits)
  then show ?thesis
    by cases (use assms(2) in \<open>auto simp: disp_inv_def pending_def IncAuditEventDropped_def\<close>)
qed

lemma disp_inv_worker:
  assumes "worker_step sinks s s'" and "disp_inv cap n s"
  shows "disp_inv cap n s' \<and> accepted s' = accepted s \<and> closed (sys_d s') = closed (sys_d s)"
  using assms
proof (cases rule: worker_step.cases)
  case (receive d')
  then show ?thesis using assms(2)
    by (auto simp: worker_take_def disp_inv_def pending_def split: if_splits list.splits)
next
  case (deliver e d' w')
  then show ?thesis using assms(2)
    by (auto simp: disp_write_def disp_inv_def pending_def Let_def split: prod.splits if_splits)
qed

lemma disp_inv_step: "audit_step sinks s s' \<Longrightarrow> disp_inv cap n s \<Longrightarrow> disp_inv cap n s'"
proof (induction rule: audit_step.induct)
  case (close s)
  then show ?case by (auto simp: disp_inv_def)
qed (use disp_inv_log disp_inv_worker in blast)+

lemma disp_inv_reachable:
  assumes "audit_reachable sinks qsize m w s"
  shows "disp_inv (nat qsize) (auditEventsDroppedTotal m) s"
proof -
  obtain d where d: "NewDispatcher qsize sinks = Inr d" and r: "(audit_step sinks)\<^sup>*\<^sup>* (start_sys d m w) s"
    using assms by (auto simp: audit_reachable_def)
  from r show ?thesis
  proof (induction rule: rtranclp_induct)
    case base
    show ?case by (rule disp_inv_start [OF d])
  next
    case (step s s')
    then show ?case by (blast intro: disp_inv_step)
  qed
qed

section \<open>Shutdown drains the queue\<close>

definition work_left :: "'w audit_sys \<Rightarrow> nat" where
  "work_left s = 2 * length (queue (sys_d s)) + (if inflight (sys_d s) = None then 0 else 1)
     + (if finished (sys_d s) then 0 else 1)"

lemma worker_step_measure: "worker_step sinks s s' \<Longrightarrow> work_left s' < work_left s"
  by (erule worker_stepE)
    (auto simp: work_left_def worker_take_def disp_write_def Let_def split: if_splits list.splits prod.splits)

lemma worker_progress:
  assumes "closed (sys_d s)" "\<not> finished (sys_d s)"
  shows "\<exists>s'. worker_step sinks s s'"
proof (cases "inflight (sys_d s)")
  case None
  then obtain d' where "worker_take (sys_d s) = Some d'"
    using assms by (cases "queue (sys_d s)") (auto simp: worker_take_def)
  then show ?thesis by (blast intro: worker_step.receive)
next
  case (Some e)
  then obtain d' w' where "disp_write sinks (sys_d s, sys_w s) = Some (d', w')"
    by (cases "disp_write sinks (sys_d s, sys_w s)") (auto simp: disp_write_def Let_def split: prod.splits)
  with Some show ?thesis by (blast intro: worker_step.deliver)
qed

lemma worker_drains:
  assumes "disp_inv cap n s" and "closed (sys_d s)"
  shows "\<exists>s'. (worker_step sinks)\<^sup>*\<^sup>* s s' \<and> finished (sys_d s') \<and> accepted s' = accepted s \<and> written s' = accepted s"
  using assms
proof (induction "work_left s" arbitrary: s rule: less_induct)
  case less
  show ?case
  proof (cases "finished (sys_d s)")
    case True
    then have "written s = accepted s" using less.prems by (simp add: disp_inv_def)
    with True show ?thesis by blast
  next
    case False
    obtain s1 where s1: "worker_step sinks s s1" using worker_progress less.prems(2) False by blast
    note I = disp_inv_worker [OF s1 less.prems(1)]
    with less.prems(2) obtain s' where "(worker_step sinks)\<^sup>*\<^sup>* s1 s'" "finished (sys_d s')"
      "accepted s' = accepted s1" "written s' = accepted s1"
      using less.hyps [OF worker_step_measure [OF s1]] by blast
    with s1 I show ?thesis by (metis converse_rtranclp_into_rtranclp)
  qed
qed

section \<open>The logger interface\<close>

text \<open>
  What the request handler relies on: a logger that is ready takes every event without a panic,
  stays ready and has received one more event.
\<close>

locale event_logger =
  fixes log :: "event \<Rightarrow> 'a \<Rightarrow> unit outcome \<times> 'a"
    and ready :: "'a \<Rightarrow> bool"
    and received :: "'a \<Rightarrow> nat"
  assumes log_ready: "ready s \<Longrightarrow> fst (log e s) = Ret () \<and> ready (snd (log e s))"
    and log_received: "ready s \<Longrightarrow> received (snd (log e s)) = received s + 1"
begin

lemma log_many:
  "ready s \<Longrightarrow> ready (fold (\<lambda>e s. snd (log e s)) es s) \<and>
     received (fold (\<lambda>e s. snd (log e s)) es s) = received s + length es"
  by (induction es arbitrary: s) (simp_all add: log_ready log_received)

end

text \<open>The dispatcher is ready until it is shut down.\<close>

interpretation dispatcher: event_logger "disp_Log now"
  "\<lambda>(d, m). \<not> closed d" "\<lambda>(d, m). blockedTotal d + allowedTotal d"
  by unfold_locales (auto simp: disp_Log_def Let_def split: prod.splits)

text \<open>The JSON logger is always ready; it hands every event to its writer, even a failing one.\<close>

definition json_logger ::
  "(event \<Rightarrow> string) \<Rightarrow> (string \<Rightarrow> 'w \<Rightarrow> bool \<times> 'w) \<Rightarrow> event \<Rightarrow> 'w \<times> nat \<Rightarrow> unit outcome \<times> 'w \<times> nat" where
  "json_logger encode write e s = (Ret (), json_Log encode write e (fst s), snd s + 1)"

interpretation json: event_logger "json_logger encode write" "\<lambda>_. True" snd
  by unfold_locales (simp_all add: json_logger_def)

section \<open>Properties\<close>

text \<open>
  C26: In every interleaving of logging, writing and shutdown the accepted events are, in order,
  the ones written to the sinks followed by the ones still pending; the queue never exceeds its
  capacity; every call is counted once as blocked or allowed, and ends in an accepted event, a
  counted drop or a panic; the registry's drop counter agrees; no more events are counted as
  sent than were written; and a finished worker has left nothing behind.
\<close>

theorem dispatcher_conserves_events:
  assumes "audit_reachable sinks qsize m w s"
  shows "accepted s = written s @ pending (sys_d s) \<and> length (queue (sys_d s)) \<le> nat qsize \<and>
    blockedTotal (sys_d s) + allowedTotal (sys_d s) = calls s \<and>
    length (accepted s) + eventsDroppedTotal (sys_d s) + panics s = calls s \<and>
    auditEventsDroppedTotal (sys_m s) = auditEventsDroppedTotal m + eventsDroppedTotal (sys_d s) \<and>
    eventsSentTotal (sys_d s) \<le> length (written s) \<and>
    (finished (sys_d s) \<longrightarrow> closed (sys_d s) \<and> written s = accepted s) \<and>
    (panics s \<noteq> 0 \<longrightarrow> closed (sys_d s))"
  using disp_inv_reachable [OF assms] unfolding disp_inv_def by auto

definition sample_sink :: "event list sink" where
  "sample_sink e w = (True, e # w)"

definition sample_dispatcher :: dispatcher where
  "sample_dispatcher = \<lparr>queue = [], capacity = 1, closed = False, inflight = None, finished = False,
     eventsSentTotal = 0, eventsDroppedTotal = 0, blockedTotal = 0, allowedTotal = 0\<rparr>"

text \<open>Two events logged in a row with room for one: the second is dropped.\<close>

definition sample_sys :: "event list audit_sys" where
  "sample_sys = \<lparr>sys_d = sample_dispatcher\<lparr>queue := [stamp 1 zero_event], allowedTotal := 2, eventsDroppedTotal := 1\<rparr>,
     sys_m = IncAuditEventDropped init_metrics, sys_w = [], accepted = [stamp 1 zero_event], written = [],
     calls = 2, panics = 0\<rparr>"

lemma sample_sys_reachable: "audit_reachable [sample_sink] 1 init_metrics [] sample_sys"
proof -
  let ?s0 = "start_sys sample_dispatcher init_metrics []"
  let ?s1 = "?s0\<lparr>sys_d := sample_dispatcher\<lparr>queue := [stamp 1 zero_event], allowedTotal := 1\<rparr>,
     calls := 1, accepted := [stamp 1 zero_event]\<rparr>"
  have act: "ev_Action (stamp 1 zero_event) = []" by (simp add: stamp_def zero_event_def)
  have L1: "disp_Log 1 zero_event (sys_d ?s0, sys_m ?s0) =
      (Ret (), sample_dispatcher\<lparr>queue := [stamp 1 zero_event], allowedTotal := 1\<rparr>, init_metrics)"
    using act by (simp add: disp_Log_def count_action_def start_sys_def sample_dispatcher_def Let_def)
  have L2: "disp_Log 1 zero_event (sys_d ?s1, sys_m ?s1) =
      (Ret (), sys_d sample_sys, IncAuditEventDropped init_metrics)"
    using act by (simp add: disp_Log_def count_action_def start_sys_def sample_dispatcher_def sample_sys_def Let_def)
  have "audit_step [sample_sink] ?s0 ?s1"
    using audit_step.log [OF L1, of "[sample_sink]"] by (simp add: start_sys_def sample_dispatcher_def)
  moreover have "audit_step [sample_sink] ?s1 sample_sys"
    using audit_step.log [OF L2, of "[sample_sink]"]
    by (simp add: start_sys_def sample_dispatcher_def sample_sys_def numeral_2_eq_2)
  ultimately have "(audit_step [sample_sink])\<^sup>*\<^sup>* ?s0 sample_sys" by (meson r_into_rtranclp rtranclp_trans)
  then show ?thesis
    by (auto simp: audit_reachable_def NewDispatcher_def sample_dispatcher_def)
qed

theorem dispatcher_conserves_events_witness:
  "accepted sample_sys = written sample_sys @ pending (sys_d sample_sys) \<and>
   length (accepted sample_sys) + eventsDroppedTotal (sys_d sample_sys) + panics sample_sys = calls sample_sys"
  using dispatcher_conserves_events [OF sample_sys_reachable] by blast

text \<open>
  C27: Once the queue is closed the worker can always finish, and when it has, every event that
  was ever accepted has been handed to the sinks.
\<close>

theorem shutdown_delivers_accepted_events:
  assumes "audit_reachable sinks qsize m w s" and "closed (sys_d s)"
  shows "\<exists>s'. (worker_step sinks)\<^sup>*\<^sup>* s s' \<and> finished (sys_d s') \<and> written s' = accepted s"
  using worker_drains [OF disp_inv_reachable [OF assms(1)] assms(2)] by blast

theorem shutdown_delivers_accepted_events_witness:
  "\<exists>s'. (worker_step [sample_sink])\<^sup>*\<^sup>* (sample_sys\<lparr>sys_d := disp_close (sys_d sample_sys)\<rparr>) s' \<and>
     finished (sys_d s') \<and> written s' = [stamp 1 zero_event]"
proof -
  let ?s = "sample_sys\<lparr>sys_d := disp_close (sys_d sample_sys)\<rparr>"
  have "audit_reachable [sample_sink] 1 init_metrics [] ?s"
    using sample_sys_reachable audit_step.close [of "[sample_sink]" sample_sys]
    unfolding audit_reachable_def by (meson rtranclp.rtrancl_into_rtrancl)
  from shutdown_delivers_accepted_events [OF this] show ?thesis by (simp add: sample_sys_def)
qed

text \<open>
  C38: The worker cannot run forever without new events: its steps are well founded.
\<close>

theorem worker_terminates: "wf {(s', s). worker_step sinks s s'}"
  by (rule wf_subset [OF wf_measure [of work_left]]) (auto intro: worker_step_measure)

text \<open>
  The fixed-width columns of a stored event hold the clamped values: statuses and latencies
  outside the column's range are cut to its ends and never wrap, while the anomaly score is
  reduced to 32 bits two's complement.
\<close>

theorem clickhouse_columns:
  "int (unat (ch_Status (clickhouse_row e))) = max 0 (min 65535 (ev_Status e)) \<and>
   int (unat (ch_OriginStatus (clickhouse_row e))) = max 0 (min 65535 (ev_OriginStatus e)) \<and>
   int (unat (ch_LatencyMS (clickhouse_row e))) = max 0 (min (2 ^ 32 - 1) (ev_LatencyMS e)) \<and>
   int (unat (ch_OriginLatencyMS (clickhouse_row e))) = max 0 (min (2 ^ 32 - 1) (ev_OriginLatencyMS e)) \<and>
   sint (ch_AnomalyScore (clickhouse_row e)) = (ev_AnomalyScore e + 2 ^ 31) mod 2 ^ 32 - 2 ^ 31"
  using AnomalyScore_value [of e] clampUInt16_value clampUInt32_value by (simp add: clickhouse_row_def)

end
