(* ===== verification/Redaction.thy ===== *)
theory Redaction
  imports Go_Http
begin

text \<open>
  Package \<open>redaction\<close>: the names whose values must not reach the audit log, the redaction of a
  raw query and of a header map. \<open>url.ParseQuery\<close> and \<open>url.Values.Encode\<close> are parameters;
  what lies between them is modelled.
\<close>

definition sensitiveQueryNames :: "string list" where
  "sensitiveQueryNames =
     [''password'', ''pass'', ''token'', ''access_token'', ''refresh_token'', ''secret'',
      ''api_key'', ''key'', ''code'']"


definition redactedValue :: string where
  "redactedValue = ''[REDACTED]''"

definition IsSensitiveQueryName :: "unicode \<Rightarrow> string \<Rightarrow> bool" where
  "IsSensitiveQueryName u name \<longleftrightarrow> go_ToLower u (go_TrimSpace name) \<in> set sensitiveQueryNames"


text \<open>The loop over the parsed values; assigning to a key while ranging keeps the keys.\<close>

definition redact_values :: "unicode \<Rightarrow> values_map \<Rightarrow> values_map" where
  "redact_values u values =
     map (\<lambda>(name, vs). (name, if IsSensitiveQueryName u name then [redactedValue] else vs)) values"




lemma redact_values_names [simp]: "map fst (redact_values u values) = map fst values"
  by (simp add: redact_values_def case_prod_unfold)

lemma redact_values_entry:
  "(name, vs) \<in> set (redact_values u values) \<Longrightarrow>
     IsSensitiveQueryName u name \<and> vs = [redactedValue] \<or>
     \<not> IsSensitiveQueryName u name \<and> (name, vs) \<in> set values"
  by (auto simp: redact_values_def split: if_splits)










section \<open>Properties\<close>






end
