(* ===== verification/Waf.thy ===== *)
theory Waf
  imports Decision Go_Http
begin

text \<open>
  Packages \<open>waf\<close> and \<open>waf/coraza\<close>: the allow-all engine and the engine that drives a Coraza
  transaction. Coraza is a third-party library: the operations of a transaction are the record
  \<open>coraza\<close>, a parameter of the model; the order of the calls, the handling of interruptions and
  errors and the decision made from the matched rules are the code's.
\<close>

record policy_context =
  px_RequestID :: string
  px_AppID :: string
  px_Host :: string
  px_ClientIP :: string
  px_Mode :: mode

text \<open>The allow-all engine.\<close>

definition allow_InspectRequest ::
  "http_request \<Rightarrow> string \<Rightarrow> policy_context \<Rightarrow> 'x \<Rightarrow> (string + decision option) \<times> 'x" where
  "allow_InspectRequest req bodyPreview app x = (Inr (Some d_Allow), x)"

section \<open>Coraza\<close>

record matched_rule =
  mr_ID :: int
  mr_Disruptive :: bool

text \<open>An interruption, as far as the code reads it: the id of the rule.\<close>

type_synonym interruption = int

record 'tx coraza =
  cz_NewTransactionWithID :: "string \<Rightarrow> 'tx"
  cz_ProcessConnection :: "string \<Rightarrow> int \<Rightarrow> string \<Rightarrow> int \<Rightarrow> 'tx \<Rightarrow> 'tx"
  cz_SetServerName :: "string \<Rightarrow> 'tx \<Rightarrow> 'tx"
  cz_ProcessURI :: "string \<Rightarrow> string \<Rightarrow> string \<Rightarrow> 'tx \<Rightarrow> 'tx"
  cz_AddRequestHeader :: "string \<Rightarrow> string \<Rightarrow> 'tx \<Rightarrow> 'tx"
  cz_ProcessRequestHeaders :: "'tx \<Rightarrow> interruption option \<times> 'tx"
  cz_WriteRequestBody :: "string \<Rightarrow> 'tx \<Rightarrow> (string + interruption option) \<times> 'tx"
  cz_ProcessRequestBody :: "'tx \<Rightarrow> (string + interruption option) \<times> 'tx"
  cz_MatchedRules :: "'tx \<Rightarrow> matched_rule list"

definition coraza_directives :: "string \<Rightarrow> int \<Rightarrow> string list" where
  "coraza_directives ruleEngine limit =
     [''SecRuleEngine '' @ ruleEngine, ''SecRequestBodyAccess On'', ''SecResponseBodyAccess Off'',
      ''SecRequestBodyLimit '' @ go_Itoa limit, ''SecRequestBodyLimitAction ProcessPartial'']"

definition coraza_tag :: "decision \<Rightarrow> decision" where
  "coraza_tag d = d\<lparr>RuleGroup := ''coraza'', Tags := [''waf'', ''coraza'']\<rparr>"

definition interruptionDecision :: "interruption \<Rightarrow> decision" where
  "interruptionDecision i =
     coraza_tag (d_Block ''waf_interruption'' (if i \<noteq> 0 then ''coraza:'' @ go_Itoa i else ''coraza''))"

definition addHeaders :: "'tx coraza \<Rightarrow> http_request \<Rightarrow> 'tx \<Rightarrow> 'tx" where
  "addHeaders cz req tx0 =
     fold (\<lambda>(key, values) tx. fold (\<lambda>value tx. cz_AddRequestHeader cz key value tx) values tx)
       (rq_Header req) (cz_AddRequestHeader cz ''Host'' (rq_Host req) tx0)"

text \<open>
  The value \<open>strconv.Atoi\<close> returns beside its error: zero for text that is no number, the
  nearest bound for a number out of range.
\<close>

definition atoi_value :: "string \<Rightarrow> int" where
  "atoi_value s =
     (case go_ParseInt64 s of
        Some n \<Rightarrow> n
      | None \<Rightarrow>
          (case s of
             [] \<Rightarrow> 0
           | c # t \<Rightarrow>
               if c = CHR ''-'' then (if parse_digits t = None then 0 else - (2 ^ 63))
               else if parse_digits (if c = CHR ''+'' then t else s) = None then 0 else 2 ^ 63 - 1))"

definition coraza_clientPort :: "http_request \<Rightarrow> int" where
  "coraza_clientPort req =
     (case go_SplitHostPort (rq_RemoteAddr req) of
        None \<Rightarrow> 0
      | Some (_, port) \<Rightarrow> atoi_value port)"

text \<open>
  The loop over the matched rules: the first disruptive one decides, a match without one is
  counted under the id of the first.
\<close>

definition matches_decision :: "string \<Rightarrow> matched_rule list \<Rightarrow> decision" where
  "matches_decision ruleEngine matches =
     (case matches of
        [] \<Rightarrow> d_Allow
      | first # _ \<Rightarrow>
          (case find mr_Disruptive matches of
             Some m \<Rightarrow>
               if ruleEngine = ''DetectionOnly''
               then coraza_tag (d_Count ''waf_match'' (''coraza:'' @ go_Itoa (mr_ID m)))
               else coraza_tag (d_Block ''waf_match'' (''coraza:'' @ go_Itoa (mr_ID m)))
           | None \<Rightarrow> coraza_tag (d_Count ''waf_match'' (''coraza:'' @ go_Itoa (mr_ID first)))))"

text \<open>
  The processing of the body. The deferred \<open>ProcessLogging\<close> and \<open>Close\<close> run after the result is
  fixed and only act on the library's own state; they are left out.
\<close>

definition coraza_body :: "'tx coraza \<Rightarrow> string \<Rightarrow> 'tx \<Rightarrow> (string + decision option) \<times> 'tx" where
  "coraza_body cz bodyPreview tx0 =
     (case (if bodyPreview \<noteq> [] then cz_WriteRequestBody cz bodyPreview tx0 else (Inr None, tx0)) of
        (Inl err, tx) \<Rightarrow> (Inl err, tx)
      | (Inr (Some i), tx) \<Rightarrow> (Inr (Some (interruptionDecision i)), tx)
      | (Inr None, tx) \<Rightarrow>
          (case cz_ProcessRequestBody cz tx of
             (Inl err, tx') \<Rightarrow> (Inl err, tx')
           | (Inr (Some i), tx') \<Rightarrow> (Inr (Some (interruptionDecision i)), tx')
           | (Inr None, tx') \<Rightarrow> (Inr None, tx')))"

definition coraza_InspectRequest ::
  "'tx coraza \<Rightarrow> string \<Rightarrow> bool \<Rightarrow> http_request \<Rightarrow> string \<Rightarrow> policy_context
   \<Rightarrow> string + decision option" where
  "coraza_InspectRequest cz ruleEngine cancelled req bodyPreview app =
     (if cancelled then Inl ''context''
      else
        let tx = cz_NewTransactionWithID cz (px_RequestID app);
            tx = cz_ProcessConnection cz (px_ClientIP app) (coraza_clientPort req) (px_Host app) 0 tx;
            tx = cz_SetServerName cz (px_Host app) tx;
            tx = cz_ProcessURI cz (rq_RequestURI req) (rq_Method req) (rq_Proto req) tx;
            tx = addHeaders cz req tx
        in case cz_ProcessRequestHeaders cz tx of
             (Some i, _) \<Rightarrow> Inr (Some (interruptionDecision i))
           | (None, tx) \<Rightarrow>
               (case coraza_body cz bodyPreview tx of
                  (Inl err, _) \<Rightarrow> Inl err
                | (Inr (Some d), _) \<Rightarrow> Inr (Some d)
                | (Inr None, tx) \<Rightarrow> Inr (Some (matches_decision ruleEngine (cz_MatchedRules cz tx)))))"

section \<open>What an engine may answer\<close>

text \<open>
  The contract the request handler relies on: a decision of an engine either allows, counts, or
  blocks with status 403; the allow-all engine and Coraza meet it.
\<close>

definition waf_decision_ok :: "decision \<Rightarrow> bool" where
  "waf_decision_ok d \<longleftrightarrow>
     (Action d = ActionAllow \<or> Action d = ActionCount \<or> Action d = ActionBlock \<and> StatusCode d = 403) \<and>
     RateLimit d = None \<and> Reason d \<noteq> ''custom_rule_allow''"

locale waf_engine =
  fixes inspect :: "http_request \<Rightarrow> string \<Rightarrow> policy_context \<Rightarrow> 'x \<Rightarrow> (string + decision option) \<times> 'x"
  assumes inspect_ok: "fst (inspect req b px x) = Inr (Some d) \<Longrightarrow> waf_decision_ok d"

lemma coraza_tag_simps [simp]:
  "Action (coraza_tag d) = Action d" "StatusCode (coraza_tag d) = StatusCode d"
  "RateLimit (coraza_tag d) = RateLimit d" "Reason (coraza_tag d) = Reason d"
  by (simp_all add: coraza_tag_def)

lemma matches_decision_ok: "waf_decision_ok (matches_decision e ms)"
  by (auto simp: matches_decision_def waf_decision_ok_def d_Allow_def d_Count_def zero_decision_def
      split: list.splits option.splits)

lemma interruptionDecision_ok: "waf_decision_ok (interruptionDecision i)"
  by (simp add: interruptionDecision_def waf_decision_ok_def)

lemma coraza_body_ok: "coraza_body cz b tx = (Inr (Some d), tx') \<Longrightarrow> waf_decision_ok d"
  by (auto simp: coraza_body_def interruptionDecision_ok split: prod.splits sum.splits option.splits if_splits)

lemma coraza_InspectRequest_ok:
  "coraza_InspectRequest cz e c req b px = Inr (Some d) \<Longrightarrow> waf_decision_ok d"
  by (auto simp: coraza_InspectRequest_def Let_def interruptionDecision_ok matches_decision_ok
      dest: coraza_body_ok split: prod.splits sum.splits option.splits if_splits)

interpretation allow: waf_engine allow_InspectRequest
  by unfold_locales (auto simp: allow_InspectRequest_def waf_decision_ok_def)

text \<open>Whether the context is cancelled is an input from the environment, the engine's state here.\<close>

definition coraza_engine ::
  "'tx coraza \<Rightarrow> string \<Rightarrow> http_request \<Rightarrow> string \<Rightarrow> policy_context \<Rightarrow> bool \<Rightarrow> (string + decision option) \<times> bool" where
  "coraza_engine cz e req b px cancelled = (coraza_InspectRequest cz e cancelled req b px, cancelled)"

interpretation coraza: waf_engine "coraza_engine cz e"
  by unfold_locales (auto simp: coraza_engine_def intro: coraza_InspectRequest_ok)

text \<open>In detection-only mode a match never blocks by itself; only an interruption does.\<close>

lemma matches_detection_only: "Action (matches_decision ''DetectionOnly'' ms) \<in> {ActionAllow, ActionCount}"
  by (auto simp: matches_decision_def split: list.splits option.splits)

lemma matches_block_iff:
  "Action (matches_decision e ms) = ActionBlock \<longleftrightarrow> e \<noteq> ''DetectionOnly'' \<and> (\<exists>m \<in> set ms. mr_Disruptive m)"
proof (cases ms)
  case (Cons m ms')
  have "find mr_Disruptive ms = None \<longleftrightarrow> \<not> (\<exists>m \<in> set ms. mr_Disruptive m)" by (auto simp: find_None_iff)
  with Cons show ?thesis
    by (cases "find mr_Disruptive ms") (auto simp: matches_decision_def simp del: find.simps)
qed (simp add: matches_decision_def)

end
