(* ===== verification/Gateway.thy ===== *)
theory Gateway
  imports Rate_Limit_Facts Policy_Client_Facts Audit_Log_Facts Redaction Waf
begin

text \<open>
  Package \<open>proxy\<close> of the gateway (\<open>gateway.go\<close>): the request handler with its stages (host,
  policy lookup, request body, IP lists, rate limits, body limit, custom rules, WAF, default
  action, enforcement, forwarding), its deferred audit record and its recovery from panics.

  The components behind Go interfaces are the operations of the record \<open>ops\<close>, each over its
  own state; the forwarding done by \<open>httputil.ReverseProxy\<close> is the operation \<open>op_origin\<close>, which
  gives the origin's reply. The readings of the clock and of the random source are inputs of a
  request (record \<open>readings\<close>).
\<close>

section \<open>The gateway\<close>

datatype origin_reply = OriginFailed | OriginReply int values_map string bool

record ('p, 'l, 'x, 'a, 'o) ops =
  op_lookup :: "string \<Rightarrow> 'p \<Rightarrow> lookup_result \<times> 'p"
  op_check :: "app \<Rightarrow> rl_request \<Rightarrow> rate_limit_rule \<Rightarrow> 'l \<Rightarrow> decision outcome \<times> 'l"
  op_inspect :: "http_request \<Rightarrow> string \<Rightarrow> policy_context \<Rightarrow> 'x \<Rightarrow> (string + decision option) \<times> 'x"
  op_audit :: "(event \<Rightarrow> 'a \<Rightarrow> unit outcome \<times> 'a) option"
  op_origin :: "url \<Rightarrow> http_request \<Rightarrow> 'o \<Rightarrow> origin_reply \<times> 'o"

record ('p, 'l, 'x, 'a, 'o) gw_state =
  gs_prov :: 'p
  gs_limiter :: 'l
  gs_waf :: 'x
  gs_audit :: 'a
  gs_origin :: 'o
  gs_metrics :: metrics

record readings =
  rd_rand :: "string option"
  rd_now_text :: string
  rd_start :: int
  rd_event :: int
  rd_originStart :: int
  rd_originEnd :: int
  rd_originObserved :: int
  rd_end :: int
  rd_observed :: int

record gateway =
  gw_cfg :: config
  gw_trustedProxies :: "prefix_t list"

definition parseTrustedProxies :: "string list \<Rightarrow> string + prefix_t list" where
  "parseTrustedProxies values =
     traverse (\<lambda>value. case ParsePrefix value of None \<Rightarrow> Inl value | Some p \<Rightarrow> Inr (prefix_Masked p)) values"

datatype gateway_error = ProviderRequired | BadTrustedProxy string

datatype component = Given | Default

text \<open>
  \<open>NewGateway\<close>: which of the optional components are given; a missing provider falls back on
  the static policies, a missing limiter and WAF on the ones that allow everything.
\<close>

definition NewGateway ::
  "config \<Rightarrow> bool \<Rightarrow> bool \<Rightarrow> bool \<Rightarrow> bool
   \<Rightarrow> gateway_error + gateway \<times> component \<times> component \<times> component" where
  "NewGateway cfg hasProvider hasPolicies hasLimiter hasWAF =
     (if \<not> hasProvider \<and> \<not> hasPolicies then Inl ProviderRequired
      else
        (case parseTrustedProxies (TrustedProxies (Server cfg)) of
           Inl v \<Rightarrow> Inl (BadTrustedProxy v)
         | Inr trusted \<Rightarrow>
             Inr (\<lparr>gw_cfg = cfg, gw_trustedProxies = trusted\<rparr>,
                  if hasProvider then Given else Default,
                  if hasLimiter then Given else Default,
                  if hasWAF then Given else Default)))"

section \<open>Request helpers\<close>

definition containsAddr :: "prefix_t list \<Rightarrow> addr \<Rightarrow> bool" where
  "containsAddr ps a = list_ex (\<lambda>p. prefix_Contains p a) ps"

definition parseRemoteAddr :: "string \<Rightarrow> addr" where
  "parseRemoteAddr value =
     (let host = (case go_SplitHostPort value of None \<Rightarrow> value | Some (h, _) \<Rightarrow> h) in
      case ParseAddr (go_Trim host ''[]'') of None \<Rightarrow> IPv4Unspecified | Some a \<Rightarrow> a)"

definition clientIP :: "gateway \<Rightarrow> http_request \<Rightarrow> addr" where
  "clientIP g r =
     (let remoteIP = parseRemoteAddr (rq_RemoteAddr r) in
      if gw_trustedProxies g = [] \<or> \<not> containsAddr (gw_trustedProxies g) remoteIP then remoteIP
      else
        let xff = header_Get (rq_Header r) ''X-Forwarded-For'' in
        if xff = [] then remoteIP
        else
          (case ParseAddr (go_TrimSpace (hd (split_on (CHR '','') xff))) of
             Some parsed \<Rightarrow> parsed
           | None \<Rightarrow> remoteIP))"

definition requestID :: "readings \<Rightarrow> string" where
  "requestID rd = (case rd_rand rd of None \<Rightarrow> go_HexEncode (rd_now_text rd) | Some b \<Rightarrow> go_HexEncode b)"

definition schemeForRequest :: "http_request \<Rightarrow> string" where
  "schemeForRequest r = (if rq_TLS r then ''https'' else ''http'')"

definition redactedPreview :: "string \<Rightarrow> int \<Rightarrow> string" where
  "redactedPreview body maxBytes =
     (if maxBytes \<le> 0 then []
      else
        let b = (if maxBytes < int (length body) then take (nat maxBytes) body else body)
        in ''[redacted preview: '' @ go_Itoa (int (length b)) @ '' bytes]'')"

text \<open>
  \<open>prepareRequestBody\<close>: reading is limited to one byte more than the limit, computed in 64
  bits; the error of the reader is met only when its bytes do not fill the limited reader. The
  new body yields the buffered bytes, followed by the rest when the limit is exceeded.
\<close>

definition limited_read :: "int \<Rightarrow> body \<Rightarrow> string \<times> bool" where
  "limited_read n b =
     (if n \<le> 0 then ([], False)
      else (take (nat n) (body_data b), body_err b \<and> int (length (body_data b)) < n))"

definition prepareRequestBody ::
  "gateway \<Rightarrow> http_request \<Rightarrow> (unit + string \<times> bool) \<times> http_request" where
  "prepareRequestBody g r =
     (case rq_Body r of
        None \<Rightarrow> (Inr ([], False), r)
      | Some original \<Rightarrow>
          let limit = RequestBodyLimitBytes (WAF (gw_cfg g)) in
          if limit \<le> 0 then (Inr ([], False), r)
          else
            let (data, failed) = limited_read (wrap64 (limit + 1)) original in
            if failed then (Inl (), r)
            else if limit < int (length data) then
              (Inr (take (nat limit) data, True),
               r\<lparr>rq_Body := Some (original\<lparr>body_data :=
                   data @ drop (length data) (body_data original)\<rparr>)\<rparr>)
            else if body_close_err original then (Inl (), r)
            else (Inr (data, False),
                  r\<lparr>rq_Body := Some \<lparr>body_data = data, body_err = False, body_close_err = False\<rparr>\<rparr>))"

fun evaluateRateLimits ::
  "(app \<Rightarrow> rl_request \<Rightarrow> rate_limit_rule \<Rightarrow> 'l \<Rightarrow> decision outcome \<times> 'l) \<Rightarrow> app \<Rightarrow> rl_request
   \<Rightarrow> rate_limit_rule list \<Rightarrow> 'l \<Rightarrow> decision outcome \<times> 'l" where
  "evaluateRateLimits check a req [] l = (Ret d_Allow, l)"
| "evaluateRateLimits check a req (rule # rules) l =
     (case check a req rule l of
        (Panic, l') \<Rightarrow> (Panic, l')
      | (Ret got, l') \<Rightarrow>
          if Action got \<noteq> ActionAllow then (Ret got, l')
          else evaluateRateLimits check a req rules l')"

definition rl_request_of :: "http_request \<Rightarrow> addr \<Rightarrow> string \<Rightarrow> rl_request" where
  "rl_request_of r ip host =
     \<lparr>rr_ClientIP = addr_String ip, rr_Method = rq_Method r, rr_Host = host, rr_Path = rq_Path r,
      rr_Headers = rq_Header r, rr_Query = rq_Query r\<rparr>"

definition request_context_of :: "http_request \<Rightarrow> addr \<Rightarrow> string \<Rightarrow> request_context" where
  "request_context_of r ip host =
     \<lparr>rc_Method = rq_Method r, rc_Path = rq_Path r, rc_Host = host, rc_Headers = rq_Header r,
      rc_Query = rq_Query r, rc_ClientIP = ip\<rparr>"

section \<open>The decision\<close>

text \<open>
  The stages that turn a request into a decision. The first counting decision met is
  remembered (\<open>rememberCount\<close>) and reported when nothing stronger decides.
\<close>

definition rememberCount :: "decision \<Rightarrow> decision option \<Rightarrow> decision option" where
  "rememberCount got observed =
     (if Action got = ActionCount \<and> observed = None then Some got else observed)"

definition rate_stage ::
  "(app \<Rightarrow> rl_request \<Rightarrow> rate_limit_rule \<Rightarrow> 'l \<Rightarrow> decision outcome \<times> 'l) \<Rightarrow> app \<Rightarrow> rl_request
   \<Rightarrow> decision \<Rightarrow> 'l \<Rightarrow> (decision \<times> decision option) outcome \<times> 'l" where
  "rate_stage check a req final l =
     (if Action final = ActionAllow then
        (case evaluateRateLimits check a req (app_RateLimits a) l of
           (Panic, l') \<Rightarrow> (Panic, l')
         | (Ret got, l') \<Rightarrow>
             if Action got = ActionRateLimit \<or> Action got = ActionBlock \<or> Action got = ActionChallenge
             then (Ret (got, None), l')
             else (Ret (final, rememberCount got None), l'))
      else (Ret (final, None), l))"

definition body_stage :: "bool \<Rightarrow> decision \<Rightarrow> decision" where
  "body_stage exceeded final =
     (if Action final = ActionAllow \<and> exceeded
      then d_Block ''request_body_limit_exceeded'' ''waf:request_body_limit'' else final)"

definition custom_stage ::
  "unicode \<Rightarrow> app \<Rightarrow> request_context \<Rightarrow> decision \<times> decision option \<Rightarrow> decision \<times> decision option" where
  "custom_stage u a ctx st =
     (let (final, observed) = st in
      if Action final = ActionAllow then
        (let got = EvaluateCustomRules u a ctx in
         if Action got = ActionBlock \<or> Reason got = ''custom_rule_allow'' then (got, observed)
         else if Action got = ActionCount then (final, rememberCount got observed)
         else (final, observed))
      else (final, observed))"

definition terminal_allow :: "decision \<Rightarrow> bool" where
  "terminal_allow final \<longleftrightarrow> Action final = ActionAllow \<and> Reason final = ''custom_rule_allow''"

definition waf_stage ::
  "(http_request \<Rightarrow> string \<Rightarrow> policy_context \<Rightarrow> 'x \<Rightarrow> (string + decision option) \<times> 'x)
   \<Rightarrow> http_request \<Rightarrow> string \<Rightarrow> policy_context \<Rightarrow> decision \<times> decision option \<Rightarrow> 'x
   \<Rightarrow> (string + decision \<times> decision option \<times> bool) \<times> 'x" where
  "waf_stage inspect r preview px st x =
     (let (final, observed) = st; terminal = terminal_allow final in
      if Action final = ActionAllow then
        (case inspect r preview px x of
           (Inl err, x') \<Rightarrow> (Inl err, x')
         | (Inr None, x') \<Rightarrow> (Inr (final, observed, terminal), x')
         | (Inr (Some got), x') \<Rightarrow>
             if Action got = ActionBlock \<or> Action got = ActionRateLimit \<or> Action got = ActionChallenge
             then (Inr (got, observed, False), x')
             else (Inr (final, rememberCount got observed, terminal), x'))
      else (Inr (final, observed, terminal), x))"

definition final_stage :: "app \<Rightarrow> decision \<times> decision option \<times> bool \<Rightarrow> decision" where
  "final_stage a st =
     (let (final, observed, terminal) = st;
          f = (if Action final = ActionAllow \<and> \<not> terminal \<and> app_DefaultAction a = ActionBlock
               then d_Block ''default_action'' ''default_action'' else final)
      in if Action f = ActionAllow then (case observed of Some c \<Rightarrow> c | None \<Rightarrow> f) else f)"

definition policy_context_of :: "string \<Rightarrow> app \<Rightarrow> string \<Rightarrow> addr \<Rightarrow> policy_context" where
  "policy_context_of reqID a host ip =
     \<lparr>px_RequestID = reqID, px_AppID = app_ID a, px_Host = host, px_ClientIP = addr_String ip,
      px_Mode = app_Mode a\<rparr>"

text \<open>The composed stages: a panic of the limiter, an error of the WAF, or the final decision.\<close>

definition decide ::
  "('p, 'l, 'x, 'a, 'o) ops \<Rightarrow> unicode \<Rightarrow> app \<Rightarrow> http_request \<Rightarrow> addr \<Rightarrow> string \<Rightarrow> string \<Rightarrow> string \<Rightarrow> bool
   \<Rightarrow> 'l \<Rightarrow> 'x \<Rightarrow> (string + decision) outcome \<times> 'l \<times> 'x" where
  "decide ops u a r ip host reqID preview exceeded l x =
     (case rate_stage (op_check ops) a (rl_request_of r ip host) (EvaluateIP a ip) l of
        (Panic, l') \<Rightarrow> (Panic, l', x)
      | (Ret (final, observed), l') \<Rightarrow>
          (case waf_stage (op_inspect ops) r preview (policy_context_of reqID a host ip)
                  (custom_stage u a (request_context_of r ip host) (body_stage exceeded final, observed)) x of
             (Inl err, x') \<Rightarrow> (Ret (Inl err), l', x')
           | (Inr st, x') \<Rightarrow> (Ret (Inr (final_stage a st)), l', x')))"

section \<open>Responses\<close>

text \<open>The JSON text of the error map: its keys are sorted by the encoder.\<close>

definition json_error :: "string \<Rightarrow> string \<Rightarrow> string" where
  "json_error message reqID =
     ''{\"error\":\"'' @ message @ ''\",\"request_id\":\"'' @ reqID @ ''\"}'' @ [CHR 0x0A]"

text \<open>\<open>writeJSONError\<close> on the server's own response writer.\<close>

definition writeJSONError :: "int \<Rightarrow> string \<Rightarrow> string \<Rightarrow> response \<Rightarrow> response outcome" where
  "writeJSONError status reqID message w =
     (case resp_WriteHeader status (resp_SetHeader ''Content-Type'' ''application/json'' w) of
        Panic \<Rightarrow> Panic
      | Ret w' \<Rightarrow> Ret (resp_Write (json_error message reqID) w'))"

text \<open>
  The state of one run of the handler: the components, the response behind the status recorder,
  the recorder's status, the event under construction and the request, which is updated in place.
\<close>

record ('p, 'l, 'x, 'a, 'o) run = "('p, 'l, 'x, 'a, 'o) gw_state" +
  rn_w :: response
  rn_status :: int
  rn_event :: event
  rn_req :: http_request

text \<open>The recorder stores every status it is given before it passes it on.\<close>

definition rec_WriteHeader :: "int \<Rightarrow> ('p, 'l, 'x, 'a, 'o) run \<Rightarrow> unit outcome \<times> ('p, 'l, 'x, 'a, 'o) run" where
  "rec_WriteHeader status rn =
     (case resp_WriteHeader status (rn_w rn) of
        Panic \<Rightarrow> (Panic, rn\<lparr>rn_status := status\<rparr>)
      | Ret w \<Rightarrow> (Ret (), rn\<lparr>rn_status := status, rn_w := w\<rparr>))"

definition rec_Write :: "string \<Rightarrow> ('p, 'l, 'x, 'a, 'o) run \<Rightarrow> ('p, 'l, 'x, 'a, 'o) run" where
  "rec_Write b rn = rn\<lparr>rn_w := resp_Write b (rn_w rn)\<rparr>"

definition rec_writeJSONError ::
  "int \<Rightarrow> string \<Rightarrow> string \<Rightarrow> ('p, 'l, 'x, 'a, 'o) run \<Rightarrow> unit outcome \<times> ('p, 'l, 'x, 'a, 'o) run" where
  "rec_writeJSONError status reqID message rn =
     (case rec_WriteHeader status
             (rn\<lparr>rn_w := resp_SetHeader ''Content-Type'' ''application/json'' (rn_w rn)\<rparr>) of
        (Panic, rn') \<Rightarrow> (Panic, rn')
      | (Ret _, rn') \<Rightarrow> (Ret (), rec_Write (json_error message reqID) rn'))"

section \<open>Enforcement and forwarding\<close>

definition upd_event :: "(event \<Rightarrow> event) \<Rightarrow> ('p, 'l, 'x, 'a, 'o) run \<Rightarrow> ('p, 'l, 'x, 'a, 'o) run" where
  "upd_event f rn = rn\<lparr>rn_event := f (rn_event rn)\<rparr>"

definition audit_rate_limit_of :: "rate_limit_info \<Rightarrow> audit_rate_limit" where
  "audit_rate_limit_of i =
     \<lparr>arl_Limit = rli_Limit i, arl_Remaining = rli_Remaining i, arl_ResetAt = rli_ResetAt i,
      arl_RuleID = rli_RuleID i, arl_Action = rli_Action i\<rparr>"

definition record_decision :: "app \<Rightarrow> decision \<Rightarrow> ('p, 'l, 'x, 'a, 'o) run \<Rightarrow> ('p, 'l, 'x, 'a, 'o) run" where
  "record_decision a final rn =
     (let rn1 = upd_event (\<lambda>e. e\<lparr>ev_Action := Action final,
                   ev_Enforced := (app_Mode a = ModeBlock \<and> WouldBlock final),
                   ev_WouldBlock := WouldBlock final, ev_Reason := Reason final,
                   ev_MatchedRuleID := MatchedRuleID final,
                   ev_MatchedRuleName := MatchedRuleName final, ev_RuleGroup := RuleGroup final,
                   ev_Tags := Tags final, ev_AnomalyScore := AnomalyScore final\<rparr>) rn
      in case RateLimit final of
           None \<Rightarrow> rn1
         | Some i \<Rightarrow>
             let rn2 = (if Action final = ActionRateLimit
                        then rn1\<lparr>gs_metrics := IncRateLimited (gs_metrics rn1)\<rparr> else rn1)
             in upd_event (\<lambda>e. e\<lparr>ev_RateLimit := Some (audit_rate_limit_of i)\<rparr>) rn2)"

definition add_headers :: "values_map \<Rightarrow> values_map \<Rightarrow> values_map" where
  "add_headers extra h = fold (\<lambda>(k, vs) h. AList.update k (values_of h k @ vs) h) extra h"

definition forwarded_request :: "string \<Rightarrow> http_request \<Rightarrow> http_request" where
  "forwarded_request reqID r =
     (let h1 = header_Set (rq_Header r) ''X-BedemWAF-Request-ID'' reqID;
          h2 = header_Set h1 ''X-Forwarded-Host'' (rq_Host r);
          h3 = header_Set h2 ''X-Forwarded-Proto'' (schemeForRequest r)
      in r\<lparr>rq_Header := h3\<rparr>)"

definition millis_since :: "int \<Rightarrow> int \<Rightarrow> int" where
  "millis_since start now = go_div (now - start) 1000000"

definition observe_origin :: "readings \<Rightarrow> ('p, 'l, 'x, 'a, 'o) run \<Rightarrow> ('p, 'l, 'x, 'a, 'o) run" where
  "observe_origin rd rn =
     (upd_event (\<lambda>e. e\<lparr>ev_OriginLatencyMS := millis_since (rd_originStart rd) (rd_originEnd rd)\<rparr>) rn)
       \<lparr>gs_metrics := ObserveOrigin (rd_originObserved rd - rd_originStart rd) (gs_metrics rn)\<rparr>"

text \<open>
  The reverse proxy, seen from the handler: it copies the origin's headers, status and body to
  the recorder, or calls the error handler; a body that breaks off panics with
  \<open>http.ErrAbortHandler\<close>.
\<close>

definition proxy_origin ::
  "('p, 'l, 'x, 'a, 'o) ops \<Rightarrow> readings \<Rightarrow> string \<Rightarrow> app \<Rightarrow> ('p, 'l, 'x, 'a, 'o) run
   \<Rightarrow> unit outcome \<times> ('p, 'l, 'x, 'a, 'o) run" where
  "proxy_origin ops rd reqID a rn0 =
     (let rn1 = rn0\<lparr>rn_req := forwarded_request reqID (rn_req rn0)\<rparr>;
          (reply, o') = op_origin ops (app_Origin a) (rn_req rn1) (gs_origin rn1);
          rn2 = observe_origin rd (rn1\<lparr>gs_origin := o'\<rparr>)
      in case reply of
           OriginFailed \<Rightarrow> rec_writeJSONError 502 reqID ''origin unavailable'' rn2
         | OriginReply status hdrs body complete \<Rightarrow>
             let rn3 = upd_event (\<lambda>e. e\<lparr>ev_OriginStatus := status\<rparr>) rn2;
                 rn4 = rn3\<lparr>rn_w := (rn_w rn3)\<lparr>resp_header := add_headers hdrs (resp_header (rn_w rn3))\<rparr>\<rparr>
             in case rec_WriteHeader status rn4 of
                  (Panic, rn5) \<Rightarrow> (Panic, rn5)
                | (Ret _, rn5) \<Rightarrow>
                    let rn6 = rec_Write body rn5 in (if complete then Ret () else Panic, rn6))"

definition enforce ::
  "('p, 'l, 'x, 'a, 'o) ops \<Rightarrow> readings \<Rightarrow> string \<Rightarrow> app \<Rightarrow> decision \<Rightarrow> ('p, 'l, 'x, 'a, 'o) run
   \<Rightarrow> unit outcome \<times> ('p, 'l, 'x, 'a, 'o) run" where
  "enforce ops rd reqID a final rn =
     (if EnforcedAction (app_Mode a) final \<noteq> ActionAllow \<and> app_Mode a = ModeBlock \<and> WouldBlock final
      then rec_writeJSONError (if StatusCode final = 0 then 403 else StatusCode final) reqID
             ''request blocked'' rn
      else proxy_origin ops rd reqID a rn)"

section \<open>ServeHTTP\<close>

text \<open>The part of the handler after an app was found.\<close>

definition serve_app ::
  "('p, 'l, 'x, 'a, 'o) ops \<Rightarrow> gateway \<Rightarrow> unicode \<Rightarrow> readings \<Rightarrow> string \<Rightarrow> addr \<Rightarrow> string \<Rightarrow> app
   \<Rightarrow> ('p, 'l, 'x, 'a, 'o) run \<Rightarrow> unit outcome \<times> ('p, 'l, 'x, 'a, 'o) run" where
  "serve_app ops g u rd reqID ip host a rn0 =
     (let rn1 = upd_event (\<lambda>e. e\<lparr>ev_TenantID := app_TenantID a, ev_AppID := app_ID a,
                   ev_PolicyID := app_PolicyID a, ev_PolicyVersion := app_PolicyVersion a,
                   ev_Mode := app_Mode a\<rparr>) rn0;
          (prepared, r) = prepareRequestBody g (rn_req rn1);
          rn2 = rn1\<lparr>rn_req := r\<rparr>
      in case prepared of
           Inl _ \<Rightarrow>
             rec_writeJSONError 400 reqID ''invalid request body''
               (upd_event (\<lambda>e. e\<lparr>ev_Action := ActionBlock, ev_Reason := ''request_body_read_failed''\<rparr>) rn2)
         | Inr (preview, exceeded) \<Rightarrow>
             let rn3 = (if DebugBodyPreview (WAF (gw_cfg g)) \<and> preview \<noteq> []
                        then upd_event (\<lambda>e. e\<lparr>ev_BodyPreview :=
                               redactedPreview preview (BodyPreviewBytes (WAF (gw_cfg g)))\<rparr>) rn2
                        else rn2);
                 (res, l, x) = decide ops u a (rn_req rn3) ip host reqID preview exceeded
                                 (gs_limiter rn3) (gs_waf rn3);
                 rn4 = rn3\<lparr>gs_limiter := l, gs_waf := x\<rparr>
             in case res of
                  Panic \<Rightarrow> (Panic, rn4)
                | Ret (Inl _) \<Rightarrow>
                    rec_writeJSONError 400 reqID ''waf inspection failed''
                      (upd_event (\<lambda>e. e\<lparr>ev_Action := ActionBlock, ev_Reason := ''waf_error''\<rparr>) rn4)
                | Ret (Inr final) \<Rightarrow> enforce ops rd reqID a final (record_decision a final rn4))"

text \<open>The policy lookup; a found result without an app is a nil pointer that is dereferenced.\<close>

definition serve_host ::
  "('p, 'l, 'x, 'a, 'o) ops \<Rightarrow> gateway \<Rightarrow> unicode \<Rightarrow> readings \<Rightarrow> string \<Rightarrow> addr \<Rightarrow> string
   \<Rightarrow> ('p, 'l, 'x, 'a, 'o) run \<Rightarrow> unit outcome \<times> ('p, 'l, 'x, 'a, 'o) run" where
  "serve_host ops g u rd reqID ip host rn0 =
     (let (lookup, p') = op_lookup ops host (gs_prov rn0);
          rn1 = rn0\<lparr>gs_prov := p'\<rparr>;
          rn2 = (if lr_Warning lookup \<noteq> [] then upd_event (\<lambda>e. e\<lparr>ev_Reason := lr_Warning lookup\<rparr>) rn1 else rn1)
      in if lr_FailOpen lookup then
           (Ret (), upd_event (\<lambda>e. e\<lparr>ev_Action := ActionAllow, ev_Reason := lr_Reason lookup\<rparr>) rn2)
         else if \<not> lr_Found lookup then
           let status = (if lr_StatusCode lookup = 0 then 404 else lr_StatusCode lookup) in
           rec_writeJSONError status reqID
             (if status = 503 then ''policy unavailable'' else ''no matching app'')
             (upd_event (\<lambda>e. e\<lparr>ev_Action := ActionBlock, ev_Reason := lr_Reason lookup\<rparr>) rn2)
         else
           (case lr_App lookup of
              None \<Rightarrow> (Panic, rn2)
            | Some a \<Rightarrow> serve_app ops g u rd reqID ip host a rn2))"

text \<open>The deferred function that completes, counts and logs the event.\<close>

definition log_event ::
  "('p, 'l, 'x, 'a, 'o) ops \<Rightarrow> readings \<Rightarrow> ('p, 'l, 'x, 'a, 'o) run
   \<Rightarrow> unit outcome \<times> ('p, 'l, 'x, 'a, 'o) run" where
  "log_event ops rd rn0 =
     (let rn1 = upd_event (\<lambda>e. e\<lparr>ev_Status := rn_status rn0,
                   ev_LatencyMS := millis_since (rd_start rd) (rd_end rd)\<rparr>) rn0;
          e = rn_event rn1;
          rn2 = rn1\<lparr>gs_metrics := ObserveRequest (ev_AppID e) (ev_Host e) (ev_Action e) (ev_Reason e)
                      (ev_Status e) (rd_observed rd - rd_start rd) (gs_metrics rn1)\<rparr>
      in case op_audit ops of
           None \<Rightarrow> (Ret (), rn2)
         | Some log \<Rightarrow> let (res, a') = log e (gs_audit rn2) in (res, rn2\<lparr>gs_audit := a'\<rparr>))"

text \<open>The outermost deferred function: after a panic an error is written to the raw writer.\<close>

definition recover_panic ::
  "unit outcome \<times> ('p, 'l, 'x, 'a, 'o) run \<Rightarrow> ('p, 'l, 'x, 'a, 'o) run" where
  "recover_panic res =
     (case res of
        (Ret _, rn) \<Rightarrow> rn
      | (Panic, rn) \<Rightarrow>
          (case writeJSONError 500 [] ''internal server error'' (rn_w rn) of
             Panic \<Rightarrow> rn
           | Ret w \<Rightarrow> rn\<lparr>rn_w := w\<rparr>))"

definition with_event_log ::
  "('p, 'l, 'x, 'a, 'o) ops \<Rightarrow> readings \<Rightarrow> unit outcome \<times> ('p, 'l, 'x, 'a, 'o) run
   \<Rightarrow> unit outcome \<times> ('p, 'l, 'x, 'a, 'o) run" where
  "with_event_log ops rd res =
     (let (logged, rn) = log_event ops rd (snd res)
      in (if fst res = Panic \<or> logged = Panic then Panic else Ret (), rn))"

definition new_event ::
  "(string \<Rightarrow> string) \<Rightarrow> readings \<Rightarrow> string \<Rightarrow> string \<Rightarrow> addr \<Rightarrow> http_request \<Rightarrow> event" where
  "new_event redactQuery rd reqID host ip r =
     zero_event\<lparr>ev_Timestamp := rd_event rd, ev_RequestID := reqID, ev_Host := host,
       ev_ClientIP := addr_String ip, ev_Country := ''ZZ'', ev_Method := rq_Method r,
       ev_Path := rq_Path r, ev_QueryRedacted := redactQuery (rq_RawQuery r),
       ev_Action := ActionAllow, ev_UserAgent := rq_UserAgent r\<rparr>"

definition start_run ::
  "('p, 'l, 'x, 'a, 'o) gw_state \<Rightarrow> event \<Rightarrow> http_request \<Rightarrow> ('p, 'l, 'x, 'a, 'o) run" where
  "start_run s e r =
     \<lparr>gs_prov = gs_prov s, gs_limiter = gs_limiter s, gs_waf = gs_waf s, gs_audit = gs_audit s,
      gs_origin = gs_origin s, gs_metrics = gs_metrics s, rn_w = new_response, rn_status = 200,
      rn_event = e, rn_req = r\<rparr>"

text \<open>
  The whole handler. \<open>redactQuery\<close> is \<open>redaction.Query\<close> with the library's query codec and
  \<open>scrape\<close> what the Prometheus handler writes for \<open>/metrics\<close>. A request for an invalid host is
  answered before the event and its deferred logging exist.
\<close>

definition ServeHTTP ::
  "('p, 'l, 'x, 'a, 'o) ops \<Rightarrow> gateway \<Rightarrow> unicode \<Rightarrow> (string \<Rightarrow> string) \<Rightarrow> (metrics \<Rightarrow> response)
   \<Rightarrow> readings \<Rightarrow> http_request \<Rightarrow> ('p, 'l, 'x, 'a, 'o) gw_state \<Rightarrow> ('p, 'l, 'x, 'a, 'o) run" where
  "ServeHTTP ops g u redactQuery scrape rd r s =
     (if rq_Path r = ''/healthz'' then
        let rn = start_run s zero_event r;
            w = resp_SetHeader ''Content-Type'' ''application/json'' (rn_w rn)
        in (case resp_WriteHeader 200 w of
              Panic \<Rightarrow> rn
            | Ret w' \<Rightarrow> rn\<lparr>rn_w := resp_Write (''{\"status\":\"ok\"}'' @ [CHR 0x0A]) w'\<rparr>)
      else if rq_Path r = ''/metrics'' then
        (start_run s zero_event r)\<lparr>rn_w := scrape (gs_metrics s)\<rparr>
      else
        let reqID = requestID rd;
            ip = clientIP g r;
            host = NormalizeHost u (rq_Host r)
        in if \<not> ValidHost u host then
             recover_panic (rec_writeJSONError 400 reqID ''invalid host'' (start_run s zero_event r))
           else
             recover_panic (with_event_log ops rd
               (serve_host ops g u rd reqID ip host
                 (start_run s (new_event redactQuery rd reqID host ip r) r))))"

definition NewTarget :: "url_parser \<Rightarrow> string \<Rightarrow> url option" where
  "NewTarget parse rawURL =
     (case parse rawURL of
        None \<Rightarrow> None
      | Some parsed \<Rightarrow> if url_Scheme parsed = [] \<or> url_Host parsed = [] then None else Some parsed)"

end
