(* ===== verification/Gateway_Facts.thy ===== *)
theory Gateway_Facts
  imports Gateway
begin

text \<open>
  What the request handler guarantees: which decisions the stages can reach and in which order
  they win, what a blocked and a forwarded request look like to the client, the origin and the
  audit log, that the request body reaches the origin unchanged, and that well-behaved
  components never make the handler panic.
\<close>

section \<open>The client address\<close>

lemma clientIP_untrusted:
  "\<not> containsAddr (gw_trustedProxies g) (parseRemoteAddr (rq_RemoteAddr r)) \<Longrightarrow>
   clientIP g r = parseRemoteAddr (rq_RemoteAddr r)"
  by (simp add: clientIP_def Let_def)

lemma clientIP_forwarded:
  assumes "containsAddr (gw_trustedProxies g) (parseRemoteAddr (rq_RemoteAddr r))"
    and "header_Get (rq_Header r) ''X-Forwarded-For'' = first @ rest" "CHR '','' \<notin> set first"
    and "rest = [] \<or> hd rest = CHR '',''" "ParseAddr (go_TrimSpace first) = Some a"
  shows "clientIP g r = a"
proof -
  have ne: "gw_trustedProxies g \<noteq> []" using assms(1) by (auto simp: containsAddr_def)
  have "first \<noteq> []" using assms(5) by (auto simp: ParseAddr_def)
  moreover have "hd (split_on (CHR '','') (first @ rest)) = first"
  proof (cases rest)
    case Nil
    then show ?thesis using split_on_single [OF assms(3)] by simp
  next
    case (Cons c t)
    then show ?thesis using split_on_append_sep [OF assms(3), of t] assms(4) by simp
  qed
  ultimately show ?thesis using assms ne by (simp add: clientIP_def Let_def)
qed

section \<open>The request body\<close>

text \<open>Whatever was buffered, the body that is passed on yields the bytes of the original.\<close>

lemma prepareRequestBody_ok:
  assumes "prepareRequestBody g r = (Inr (preview, exceeded), r')" and "rq_Body r = Some b"
    and "RequestBodyLimitBytes (WAF (gw_cfg g)) = limit" "0 < limit" "limit < 2 ^ 63 - 1"
  shows "\<exists>b'. rq_Body r' = Some b' \<and> body_data b' = body_data b"
    and "preview = take (nat limit) (body_data b)"
    and "exceeded \<longleftrightarrow> limit < int (length (body_data b))"
    and "r'\<lparr>rq_Body := rq_Body r\<rparr> = r"
proof -
  have w: "wrap64 (limit + 1) = limit + 1" by (rule wrap64_id) (use assms in auto)
  have n: "nat (limit + 1) = Suc (nat limit)" using assms(4) by simp
  let ?data = "take (Suc (nat limit)) (body_data b)"
  have ex: "limit < int (length ?data) \<longleftrightarrow> limit < int (length (body_data b))"
    using assms(4) by auto
  have short: "\<not> limit < int (length (body_data b)) \<Longrightarrow> ?data = body_data b \<and> take (nat limit) (body_data b) = body_data b"
    by simp
  note P = assms(1) [unfolded prepareRequestBody_def assms(2) option.case Let_def assms(3) limited_read_def w n]
  show "\<exists>b'. rq_Body r' = Some b' \<and> body_data b' = body_data b"
    using P assms(2,4) ex short by (auto split: if_splits)
  show "preview = take (nat limit) (body_data b)"
    using P assms(4) ex short by (auto split: if_splits simp: min_def)
  show "exceeded \<longleftrightarrow> limit < int (length (body_data b))"
    using P assms(4) ex by (auto split: if_splits)
  show "r'\<lparr>rq_Body := rq_Body r\<rparr> = r"
    using P assms(2,4) by (auto split: if_splits)
qed

section \<open>Reachable decisions\<close>

lemma EvaluateIP_actions: "Action (EvaluateIP a ip) = ActionAllow \<or> Action (EvaluateIP a ip) = ActionBlock"
  by (auto simp: EvaluateIP_def split: option.splits)

lemma EvaluateIP_allow: "Action (EvaluateIP a ip) = ActionAllow \<Longrightarrow> EvaluateIP a ip = d_Allow"
  by (auto simp: EvaluateIP_def split: option.splits if_splits)

definition custom_ok :: "decision \<Rightarrow> bool" where
  "custom_ok d \<longleftrightarrow> Action d \<in> {ActionAllow, ActionCount, ActionBlock} \<and>
     (Reason d = ''custom_rule_allow'' \<longrightarrow> Action d = ActionAllow)"

lemma custom_ok_simps [simp]:
  "custom_ok d_Allow"
  "custom_ok (annotate rule t (WithStatus (d_Block ''custom_rule'' i) c))"
  "custom_ok (annotate rule t (d_AllowRule ''custom_rule_allow'' i))"
  "Action (annotate rule t (d_Count ''custom_rule'' i)) = ActionCount"
  "Reason (annotate rule t (d_Count ''custom_rule'' i)) = ''custom_rule''"
  by (simp_all add: custom_ok_def annotate_def)

lemma custom_rules_loop_ok:
  assumes "fc = zero_decision \<or> Action fc = ActionCount \<and> Reason fc = ''custom_rule''"
  shows "custom_ok (custom_rules_loop u ctx ips fc rules)"
  using assms
proof (induction rules arbitrary: fc)
  case Nil
  then show ?case by (auto simp: custom_ok_def)
next
  case (Cons rule rules)
  then show ?case by (simp add: Cons.IH)
qed

lemma EvaluateCustomRules_ok: "custom_ok (EvaluateCustomRules u a ctx)"
  by (simp add: EvaluateCustomRules_def custom_rules_loop_ok)

section \<open>Which decision wins\<close>

lemma rate_stage_skip: "Action final \<noteq> ActionAllow \<Longrightarrow> rate_stage check a req final l = (Ret (final, None), l)"
  by (simp add: rate_stage_def)

lemma rate_stage_allow:
  "evaluateRateLimits check a req (app_RateLimits a) l = (Ret d, l') \<Longrightarrow>
   rate_stage check a req d_Allow l =
     (Ret (if WouldBlock d then (d, None) else (d_Allow, rememberCount d None)), l')"
  by (auto simp: rate_stage_def WouldBlock_def)

lemma custom_stage_skip: "Action final \<noteq> ActionAllow \<Longrightarrow> custom_stage u a ctx (final, ob) = (final, ob)"
  by (simp add: custom_stage_def)

lemma waf_stage_skip:
  "Action final \<noteq> ActionAllow \<Longrightarrow> waf_stage inspect r p px (final, ob) x = (Inr (final, ob, False), x)"
  by (simp add: waf_stage_def terminal_allow_def)

lemma final_stage_blocking: "Action final \<noteq> ActionAllow \<Longrightarrow> final_stage a (final, ob, t) = final"
  by (simp add: final_stage_def Let_def)

lemmas stage_skips = custom_stage_skip waf_stage_skip final_stage_blocking

text \<open>An address that the IP lists block is decided there: nothing else is consulted.\<close>

lemma decide_ip:
  assumes "Action (EvaluateIP a ip) \<noteq> ActionAllow"
  shows "decide ops u a r ip host i p ex l x = (Ret (Inr (EvaluateIP a ip)), l, x)"
  using assms by (simp add: decide_def rate_stage_skip body_stage_def stage_skips)

lemma decide_rate:
  assumes "Action (EvaluateIP a ip) = ActionAllow"
    and "evaluateRateLimits (op_check ops) a (rl_request_of r ip host) (app_RateLimits a) l = (Ret d, l')"
    and "WouldBlock d"
  shows "decide ops u a r ip host i p ex l x = (Ret (Inr d), l', x)"
  using assms WouldBlock_not_allow [OF assms(3)] EvaluateIP_allow [OF assms(1)]
  by (simp add: decide_def rate_stage_allow body_stage_def stage_skips)

lemma decide_body:
  assumes "Action (EvaluateIP a ip) = ActionAllow"
    and "evaluateRateLimits (op_check ops) a (rl_request_of r ip host) (app_RateLimits a) l = (Ret d, l')"
    and "\<not> WouldBlock d"
  shows "decide ops u a r ip host i p True l x =
    (Ret (Inr (d_Block ''request_body_limit_exceeded'' ''waf:request_body_limit'')), l', x)"
  using assms EvaluateIP_allow [OF assms(1)]
  by (simp add: decide_def rate_stage_allow body_stage_def stage_skips)

lemma decide_custom_block:
  assumes "Action (EvaluateIP a ip) = ActionAllow"
    and "evaluateRateLimits (op_check ops) a (rl_request_of r ip host) (app_RateLimits a) l = (Ret d, l')"
    and "\<not> WouldBlock d" "Action (EvaluateCustomRules u a (request_context_of r ip host)) = ActionBlock"
  shows "decide ops u a r ip host i p False l x =
    (Ret (Inr (EvaluateCustomRules u a (request_context_of r ip host))), l', x)"
  using assms EvaluateIP_allow [OF assms(1)]
  by (simp add: decide_def rate_stage_allow body_stage_def custom_stage_def stage_skips)

text \<open>The request passes the lists, the limits and the rules: the WAF and the default decide.\<close>

definition observed_counts :: "decision \<Rightarrow> decision \<Rightarrow> decision option \<Rightarrow> decision option" where
  "observed_counts rate custom waf =
     (let o1 = rememberCount rate None;
          o2 = (if Reason custom = ''custom_rule_allow'' then o1 else rememberCount custom o1)
      in case waf of None \<Rightarrow> o2 | Some w \<Rightarrow> if WouldBlock w then o2 else rememberCount w o2)"

lemma decide_waf:
  assumes ip: "Action (EvaluateIP a ip) = ActionAllow"
    and rate: "evaluateRateLimits (op_check ops) a (rl_request_of r ip host) (app_RateLimits a) l = (Ret d, l')"
    and nb: "\<not> WouldBlock d" "Action (EvaluateCustomRules u a (request_context_of r ip host)) \<noteq> ActionBlock"
    and waf: "op_inspect ops r p (policy_context_of i a host ip) x = (Inr w, x')"
  defines "custom \<equiv> EvaluateCustomRules u a (request_context_of r ip host)"
  shows "decide ops u a r ip host i p False l x =
    (Ret (Inr (case w of Some wd \<Rightarrow>
         if WouldBlock wd then wd
         else final_stage a (if Reason custom = ''custom_rule_allow'' then custom else d_Allow,
                observed_counts d custom w, Reason custom = ''custom_rule_allow'')
       | None \<Rightarrow> final_stage a (if Reason custom = ''custom_rule_allow'' then custom else d_Allow,
                observed_counts d custom w, Reason custom = ''custom_rule_allow''))), l', x')"
proof -
  let ?t = "Reason custom = ''custom_rule_allow''"
  have ok: "Action custom \<in> {ActionAllow, ActionCount}" "?t \<Longrightarrow> Action custom = ActionAllow"
    using EvaluateCustomRules_ok [of u a "request_context_of r ip host"] nb(2)
    by (auto simp: custom_ok_def custom_def)
  have nc: "Action custom \<noteq> ActionCount \<Longrightarrow> rememberCount custom ob = ob" for ob
    by (simp add: rememberCount_def)
  have c: "custom_stage u a (request_context_of r ip host) (d_Allow, rememberCount d None) =
      (if ?t then custom else d_Allow, if ?t then rememberCount d None else rememberCount custom (rememberCount d None))"
    using ok nc by (auto simp: custom_stage_def custom_def [symmetric] Let_def)
  have t: "terminal_allow (if ?t then custom else d_Allow) = ?t"
    "Action (if ?t then custom else d_Allow) = ActionAllow"
    using ok by (auto simp: terminal_allow_def)
  show ?thesis
  proof (cases w)
    case None
    then show ?thesis
      using rate nb EvaluateIP_allow [OF ip] waf t
      by (simp add: decide_def rate_stage_allow body_stage_def c waf_stage_def Let_def observed_counts_def)
  next
    case (Some wd)
    then show ?thesis
      using rate nb EvaluateIP_allow [OF ip] waf t WouldBlock_not_allow [of wd]
      by (auto simp: decide_def rate_stage_allow body_stage_def c waf_stage_def Let_def observed_counts_def
          final_stage_blocking WouldBlock_def [of wd])
  qed
qed

lemma final_stage_passes:
  assumes "Action f = ActionAllow" "\<And>c. ob = Some c \<Longrightarrow> \<not> WouldBlock c"
  shows "WouldBlock (final_stage a (f, ob, t)) \<longleftrightarrow> app_DefaultAction a = ActionBlock \<and> \<not> t"
  using assms by (auto simp: final_stage_def Let_def WouldBlock_def split: option.splits)

lemma observed_counts_harmless: "observed_counts d c w = Some e \<Longrightarrow> \<not> WouldBlock e"
  by (auto simp: observed_counts_def rememberCount_def Let_def WouldBlock_def split: option.splits if_splits)

text \<open>A request is judged harmful exactly when one of the stages says so.\<close>

lemma decide_WouldBlock_iff:
  assumes rate: "evaluateRateLimits (op_check ops) a (rl_request_of r ip host) (app_RateLimits a) l = (Ret d, l')"
    and waf: "op_inspect ops r p (policy_context_of i a host ip) x = (Inr w, x')"
  shows "\<exists>final. fst (decide ops u a r ip host i p ex l x) = Ret (Inr final) \<and>
    (WouldBlock final \<longleftrightarrow>
       WouldBlock (EvaluateIP a ip) \<or> WouldBlock d \<or> ex \<or>
       WouldBlock (EvaluateCustomRules u a (request_context_of r ip host)) \<or>
       (\<exists>wd. w = Some wd \<and> WouldBlock wd) \<or>
       app_DefaultAction a = ActionBlock \<and>
         Reason (EvaluateCustomRules u a (request_context_of r ip host)) \<noteq> ''custom_rule_allow'')"
proof -
  let ?ip = "EvaluateIP a ip" and ?c = "EvaluateCustomRules u a (request_context_of r ip host)"
  let ?f = "if Reason ?c = ''custom_rule_allow'' then ?c else d_Allow"
  have cb: "WouldBlock ?c \<longleftrightarrow> Action ?c = ActionBlock"
    using EvaluateCustomRules_ok [of u a "request_context_of r ip host"] by (auto simp: custom_ok_def WouldBlock_def)
  have ib: "WouldBlock ?ip \<longleftrightarrow> Action ?ip \<noteq> ActionAllow"
    using EvaluateIP_actions [of a ip] by (auto simp: WouldBlock_def)
  have fa: "Action ?f = ActionAllow"
    using EvaluateCustomRules_ok [of u a "request_context_of r ip host"] by (auto simp: custom_ok_def)
  define fin where "fin = final_stage a (?f, observed_counts d ?c w, Reason ?c = ''custom_rule_allow'')"
  have fs: "WouldBlock fin \<longleftrightarrow> app_DefaultAction a = ActionBlock \<and> Reason ?c \<noteq> ''custom_rule_allow''"
    unfolding fin_def by (rule final_stage_passes [OF fa observed_counts_harmless])
  consider "WouldBlock ?ip" | "\<not> WouldBlock ?ip" "WouldBlock d"
    | "\<not> WouldBlock ?ip" "\<not> WouldBlock d" ex
    | "\<not> WouldBlock ?ip" "\<not> WouldBlock d" "\<not> ex" "WouldBlock ?c"
    | "\<not> WouldBlock ?ip" "\<not> WouldBlock d" "\<not> ex" "\<not> WouldBlock ?c" by blast
  then show ?thesis
  proof cases
    case 5
    then have "fst (decide ops u a r ip host i p False l x) =
        Ret (Inr (case w of Some wd \<Rightarrow> if WouldBlock wd then wd else fin | None \<Rightarrow> fin))"
      using decide_waf [OF _ rate _ _ waf] ib cb by (simp only: fin_def fst_conv simp_thms)
    then show ?thesis using 5 fs by (cases w) (simp_all split: if_splits)
  qed (use rate ib cb in \<open>auto simp: decide_ip decide_rate [OF _ rate] decide_body [OF _ rate]
        decide_custom_block [OF _ rate]\<close>)
qed

section \<open>Responses\<close>

lemma upd_event_simps [simp]:
  "rn_w (upd_event f rn) = rn_w rn" "rn_status (upd_event f rn) = rn_status rn"
  "rn_req (upd_event f rn) = rn_req rn" "gs_origin (upd_event f rn) = gs_origin rn"
  "gs_audit (upd_event f rn) = gs_audit rn" "gs_prov (upd_event f rn) = gs_prov rn"
  "gs_limiter (upd_event f rn) = gs_limiter rn" "gs_waf (upd_event f rn) = gs_waf rn"
  "gs_metrics (upd_event f rn) = gs_metrics rn" "rn_event (upd_event f rn) = f (rn_event rn)"
  by (simp_all add: upd_event_def)

lemma record_decision_simps [simp]:
  "rn_w (record_decision a d rn) = rn_w rn" "rn_status (record_decision a d rn) = rn_status rn"
  "rn_req (record_decision a d rn) = rn_req rn" "gs_origin (record_decision a d rn) = gs_origin rn"
  "gs_audit (record_decision a d rn) = gs_audit rn"
  "ev_Action (rn_event (record_decision a d rn)) = Action d"
  "ev_Enforced (rn_event (record_decision a d rn)) \<longleftrightarrow> app_Mode a = ModeBlock \<and> WouldBlock d"
  "ev_WouldBlock (rn_event (record_decision a d rn)) = WouldBlock d"
  "ev_Reason (rn_event (record_decision a d rn)) = Reason d"
  "ev_MatchedRuleID (rn_event (record_decision a d rn)) = MatchedRuleID d"
  "ev_AppID (rn_event (record_decision a d rn)) = ev_AppID (rn_event rn)"
  "ev_Host (rn_event (record_decision a d rn)) = ev_Host (rn_event rn)"
  by (simp_all add: record_decision_def Let_def split: option.split)

definition plain_response :: "int \<Rightarrow> string \<Rightarrow> string \<Rightarrow> response \<Rightarrow> bool" where
  "plain_response status message reqID w \<longleftrightarrow>
     final_status w = status \<and> header_Get (resp_header w) ''Content-Type'' = ''application/json'' \<and>
     (body_allowed status \<longrightarrow> resp_body w = json_error message reqID)"

lemma json_error_not_Nil [simp]: "json_error m i \<noteq> []"
  by (simp add: json_error_def)

lemma header_Get_empty [simp]: "header_Get [] k = []"
  by (simp add: header_Get_def values_of_def)

lemma content_type_only:
  "declared_length (resp_header (resp_SetHeader ''Content-Type'' v new_response)) = None"
proof -
  have "header_Get (header_Set [] ''Content-Type'' v) ''Content-Length'' = header_Get [] ''Content-Length''"
    by (rule header_Get_Set_other) (simp add: go_eval Let_def)
  then show ?thesis
    by (simp add: declared_length_def resp_SetHeader_def new_response_def go_ParseInt64_def)
qed

text \<open>An error written before anything else is what the client receives.\<close>

lemma rec_writeJSONError_fresh:
  assumes "rn_w rn = new_response" and "200 \<le> status" "status \<le> 999"
  obtains w where "rec_writeJSONError status i m rn = (Ret (), rn\<lparr>rn_status := status, rn_w := w\<rparr>)"
    and "plain_response status m i w" and "wrote_header w"
proof -
  let ?w1 = "resp_SetHeader ''Content-Type'' ''application/json'' new_response"
  let ?w = "resp_Write (json_error m i) (fix_status status ?w1)"
  have h: "resp_WriteHeader status ?w1 = Ret (fix_status status ?w1)"
    using assms by (intro WriteHeader_final) (simp_all add: new_response_def)
  have "rec_writeJSONError status i m rn = (Ret (), rn\<lparr>rn_status := status, rn_w := ?w\<rparr>)"
    using h assms(1) by (simp add: rec_writeJSONError_def rec_WriteHeader_def rec_Write_def)
  moreover have "resp_length (fix_status status ?w1) = None" "resp_written (fix_status status ?w1) = 0"
    using content_type_only by (simp_all add: fix_status_def resp_SetHeader_def new_response_def)
  then have "body_allowed status \<Longrightarrow> resp_body ?w = json_error m i"
    by (simp add: resp_Write_def Let_def new_response_def [symmetric])
      (simp add: new_response_def)
  then have "plain_response status m i ?w"
    by (simp add: plain_response_def final_status_def resp_SetHeader_def header_Get_Set)
  ultimately show ?thesis using that by simp
qed

section \<open>Whole requests\<close>

text \<open>A request that reaches the policy of an app.\<close>

definition routed ::
  "('p, 'l, 'x, 'a, 'o) ops \<Rightarrow> unicode \<Rightarrow> http_request \<Rightarrow> ('p, 'l, 'x, 'a, 'o) gw_state \<Rightarrow> app \<Rightarrow> bool" where
  "routed ops u r s a \<longleftrightarrow>
     rq_Path r \<noteq> ''/healthz'' \<and> rq_Path r \<noteq> ''/metrics'' \<and>
     ValidHost u (NormalizeHost u (rq_Host r)) \<and>
     (let lk = fst (op_lookup ops (NormalizeHost u (rq_Host r)) (gs_prov s))
      in lr_Found lk \<and> \<not> lr_FailOpen lk \<and> lr_App lk = Some a)"

text \<open>The decision the handler takes for it.\<close>

definition decision_for ::
  "('p, 'l, 'x, 'a, 'o) ops \<Rightarrow> gateway \<Rightarrow> unicode \<Rightarrow> readings \<Rightarrow> http_request
   \<Rightarrow> ('p, 'l, 'x, 'a, 'o) gw_state \<Rightarrow> app \<Rightarrow> decision option" where
  "decision_for ops g u rd r s a =
     (case prepareRequestBody g r of
        (Inl _, _) \<Rightarrow> None
      | (Inr (preview, exceeded), r') \<Rightarrow>
          (case fst (decide ops u a r' (clientIP g r) (NormalizeHost u (rq_Host r)) (requestID rd)
                       preview exceeded (gs_limiter s) (gs_waf s)) of
             Ret (Inr d) \<Rightarrow> Some d
           | _ \<Rightarrow> None))"

lemma serve_routed:
  assumes "routed ops u r s a" and "decision_for ops g u rd r s a = Some d"
  obtains rn where "ServeHTTP ops g u rq sc rd r s =
      recover_panic (with_event_log ops rd (enforce ops rd (requestID rd) a d (record_decision a d rn)))"
    and "rn_w rn = new_response" "rn_status rn = 200" "gs_origin rn = gs_origin s"
    and "gs_audit rn = gs_audit s" "rn_req rn = snd (prepareRequestBody g r)"
    and "ev_AppID (rn_event rn) = app_ID a" "ev_Host (rn_event rn) = NormalizeHost u (rq_Host r)"
proof -
  let ?host = "NormalizeHost u (rq_Host r)" and ?ip = "clientIP g r" and ?id = "requestID rd"
  obtain lk p' where lk: "op_lookup ops ?host (gs_prov s) = (lk, p')" by fastforce
  have L: "lr_Found lk" "\<not> lr_FailOpen lk" "lr_App lk = Some a" and v: "ValidHost u ?host"
    and path: "rq_Path r \<noteq> ''/healthz''" "rq_Path r \<noteq> ''/metrics''"
    using assms(1) lk by (auto simp: routed_def Let_def)
  define rn0 where "rn0 = start_run s (new_event rq rd ?id ?host ?ip r) r"
  define rn1 where "rn1 = (if lr_Warning lk \<noteq> [] then upd_event (\<lambda>e. e\<lparr>ev_Reason := lr_Warning lk\<rparr>) (rn0\<lparr>gs_prov := p'\<rparr>) else rn0\<lparr>gs_prov := p'\<rparr>)"
  have S: "ServeHTTP ops g u rq sc rd r s =
      recover_panic (with_event_log ops rd (serve_app ops g u rd ?id ?ip ?host a rn1))"
    using path v L lk
    by (simp add: ServeHTTP_def Let_def serve_host_def rn1_def rn0_def start_run_def)
  have rn1: "rn_w rn1 = new_response" "rn_status rn1 = 200" "gs_origin rn1 = gs_origin s"
    "gs_audit rn1 = gs_audit s" "rn_req rn1 = r" "ev_Host (rn_event rn1) = ?host"
    "gs_limiter rn1 = gs_limiter s" "gs_waf rn1 = gs_waf s"
    by (simp_all add: rn1_def rn0_def start_run_def new_event_def)
  from assms(2) obtain preview ex r' where pb: "prepareRequestBody g r = (Inr (preview, ex), r')"
    and D: "fst (decide ops u a r' ?ip ?host ?id preview ex (gs_limiter s) (gs_waf s)) = Ret (Inr d)"
    by (auto simp: decision_for_def split: prod.splits sum.splits outcome.splits)
  obtain l x where D': "decide ops u a r' ?ip ?host ?id preview ex (gs_limiter s) (gs_waf s) = (Ret (Inr d), l, x)"
    using D by (metis prod.collapse)
  define rn2 where "rn2 = (upd_event (\<lambda>e. e\<lparr>ev_TenantID := app_TenantID a, ev_AppID := app_ID a,
                   ev_PolicyID := app_PolicyID a, ev_PolicyVersion := app_PolicyVersion a,
                   ev_Mode := app_Mode a\<rparr>) rn1)\<lparr>rn_req := r'\<rparr>"
  define rn3 where "rn3 = (if DebugBodyPreview (WAF (gw_cfg g)) \<and> preview \<noteq> []
       then upd_event (\<lambda>e. e\<lparr>ev_BodyPreview := redactedPreview preview (BodyPreviewBytes (WAF (gw_cfg g)))\<rparr>) rn2
       else rn2)"
  have rn3: "rn_w rn3 = new_response" "rn_status rn3 = 200" "gs_origin rn3 = gs_origin s"
    "gs_audit rn3 = gs_audit s" "rn_req rn3 = r'" "ev_Host (rn_event rn3) = ?host"
    "ev_AppID (rn_event rn3) = app_ID a" "gs_limiter rn3 = gs_limiter s" "gs_waf rn3 = gs_waf s"
    by (simp_all add: rn3_def rn2_def rn1)
  have A: "serve_app ops g u rd ?id ?ip ?host a rn1 =
      enforce ops rd ?id a d (record_decision a d (rn3\<lparr>gs_limiter := l, gs_waf := x\<rparr>))"
    using pb D' rn1(5,7,8) rn3(5,8,9)
    unfolding serve_app_def upd_event_simps Let_def rn1(5) pb prod.case sum.case
      rn2_def [symmetric] rn3_def [symmetric] by simp
  show ?thesis
    by (rule that [of "rn3\<lparr>gs_limiter := l, gs_waf := x\<rparr>"]) (simp_all add: S A rn3 pb)
qed

text \<open>The auditor takes the event of this request without a panic.\<close>

definition audit_quiet :: "('p, 'l, 'x, 'a, 'o) ops \<Rightarrow> 'a \<Rightarrow> bool" where
  "audit_quiet ops st \<longleftrightarrow> (\<forall>log e. op_audit ops = Some log \<longrightarrow> fst (log e st) = Ret ())"

definition audit_after :: "('p, 'l, 'x, 'a, 'o) ops \<Rightarrow> event \<Rightarrow> 'a \<Rightarrow> 'a" where
  "audit_after ops e st = (case op_audit ops of None \<Rightarrow> st | Some log \<Rightarrow> snd (log e st))"

definition logged_event :: "readings \<Rightarrow> ('p, 'l, 'x, 'a, 'o) run \<Rightarrow> event" where
  "logged_event rd rn = (rn_event rn)\<lparr>ev_Status := rn_status rn,
     ev_LatencyMS := millis_since (rd_start rd) (rd_end rd)\<rparr>"

lemma log_event_quiet:
  assumes "audit_quiet ops (gs_audit rn)"
  obtains rn' where "log_event ops rd rn = (Ret (), rn')" "rn_w rn' = rn_w rn"
    "gs_origin rn' = gs_origin rn" "rn_event rn' = logged_event rd rn" "rn_req rn' = rn_req rn"
    "gs_audit rn' = audit_after ops (logged_event rd rn) (gs_audit rn)"
    "length (requestDuration (gs_metrics rn')) = Suc (length (requestDuration (gs_metrics rn)))"
proof (cases "op_audit ops")
  case None
  then show ?thesis
    using that [of "snd (log_event ops rd rn)"]
    by (simp add: log_event_def Let_def logged_event_def audit_after_def)
next
  case (Some log)
  then have "fst (log (logged_event rd rn) (gs_audit rn)) = Ret ()"
    using assms by (simp add: audit_quiet_def)
  then show ?thesis
    using that [of "snd (log_event ops rd rn)"] Some
    by (simp add: log_event_def Let_def logged_event_def audit_after_def case_prod_unfold)
qed

lemma served_quietly:
  assumes "res = (Ret (), rn)" and "audit_quiet ops (gs_audit rn)"
  obtains rn' where "recover_panic (with_event_log ops rd res) = rn'" "rn_w rn' = rn_w rn"
    "gs_origin rn' = gs_origin rn" "rn_event rn' = logged_event rd rn" "rn_req rn' = rn_req rn"
    "gs_audit rn' = audit_after ops (logged_event rd rn) (gs_audit rn)"
proof (rule log_event_quiet [OF assms(2), of rd])
  fix rn'
  assume "log_event ops rd rn = (Ret (), rn')" "rn_w rn' = rn_w rn" "gs_origin rn' = gs_origin rn"
    "rn_event rn' = logged_event rd rn" "rn_req rn' = rn_req rn"
    "gs_audit rn' = audit_after ops (logged_event rd rn) (gs_audit rn)"
  then show thesis using that [of rn'] assms(1) by (simp add: with_event_log_def recover_panic_def)
qed

text \<open>A harmful request to an app in block mode.\<close>

definition block_status :: "decision \<Rightarrow> int" where
  "block_status d = (if StatusCode d = 0 then 403 else StatusCode d)"

lemma blocked_request:
  assumes "routed ops u r s a" and "decision_for ops g u rd r s a = Some d"
    and "app_Mode a = ModeBlock" "WouldBlock d" "200 \<le> block_status d" "block_status d \<le> 999"
    and "audit_quiet ops (gs_audit s)"
  obtains rn where "ServeHTTP ops g u rq sc rd r s = rn"
    and "plain_response (block_status d) ''request blocked'' (requestID rd) (rn_w rn)"
    and "gs_origin rn = gs_origin s" "gs_audit rn = audit_after ops (rn_event rn) (gs_audit s)"
    and "ev_Status (rn_event rn) = block_status d" "ev_Enforced (rn_event rn)"
    "ev_Action (rn_event rn) = Action d" "ev_Reason (rn_event rn) = Reason d"
    "ev_AppID (rn_event rn) = app_ID a"
proof -
  obtain rn0 where S: "ServeHTTP ops g u rq sc rd r s =
      recover_panic (with_event_log ops rd (enforce ops rd (requestID rd) a d (record_decision a d rn0)))"
    and rn0: "rn_w rn0 = new_response" "gs_origin rn0 = gs_origin s" "gs_audit rn0 = gs_audit s"
      "ev_AppID (rn_event rn0) = app_ID a"
    using serve_routed [OF assms(1,2)] by metis
  let ?rn1 = "record_decision a d rn0"
  have act: "Action d \<noteq> ActionAllow" using assms(4) by (rule WouldBlock_not_allow)
  have "rn_w ?rn1 = new_response" by (simp add: rn0)
  from rec_writeJSONError_fresh [OF this assms(5,6), of "requestID rd" "''request blocked''"]
  obtain w where J: "rec_writeJSONError (block_status d) (requestID rd) ''request blocked'' ?rn1 =
      (Ret (), ?rn1\<lparr>rn_status := block_status d, rn_w := w\<rparr>)"
    and w: "plain_response (block_status d) ''request blocked'' (requestID rd) w" by blast
  have E: "enforce ops rd (requestID rd) a d ?rn1 = (Ret (), ?rn1\<lparr>rn_status := block_status d, rn_w := w\<rparr>)"
    using J assms(3,4) act by (simp add: enforce_def block_status_def)
  have q: "audit_quiet ops (gs_audit (?rn1\<lparr>rn_status := block_status d, rn_w := w\<rparr>))"
    using assms(7) rn0 by simp
  from served_quietly [OF E q, of rd] obtain rn where
    R: "recover_panic (with_event_log ops rd (enforce ops rd (requestID rd) a d ?rn1)) = rn" "rn_w rn = w"
      "gs_origin rn = gs_origin s"
      "rn_event rn = logged_event rd (?rn1\<lparr>rn_status := block_status d, rn_w := w\<rparr>)"
      "gs_audit rn = audit_after ops (rn_event rn) (gs_audit s)"
    using rn0 by auto
  show ?thesis
    by (rule that [of rn]) (use S R w rn0 assms(3,4) in \<open>simp_all add: logged_event_def\<close>)
qed

text \<open>A request that is not blocked: the origin is asked once and its answer is passed on.\<close>

definition body_fits :: "values_map \<Rightarrow> string \<Rightarrow> bool" where
  "body_fits hdrs body \<longleftrightarrow>
     (case declared_length (add_headers hdrs []) of None \<Rightarrow> True | Some n \<Rightarrow> int (length body) \<le> n)"

text \<open>What the origin is told about the request.\<close>

lemma prepared_same_envelope:
  "rq_Host (snd (prepareRequestBody g r)) = rq_Host r" "rq_TLS (snd (prepareRequestBody g r)) = rq_TLS r"
  "rq_Path (snd (prepareRequestBody g r)) = rq_Path r" "rq_Method (snd (prepareRequestBody g r)) = rq_Method r"
  "rq_RawQuery (snd (prepareRequestBody g r)) = rq_RawQuery r"
  by (auto simp: prepareRequestBody_def Let_def split: option.splits prod.splits)

lemma forwarded_headers:
  "header_Get (rq_Header (forwarded_request reqID r)) ''X-BedemWAF-Request-ID'' = reqID"
  "header_Get (rq_Header (forwarded_request reqID r)) ''X-Forwarded-Host'' = rq_Host r"
  "header_Get (rq_Header (forwarded_request reqID r)) ''X-Forwarded-Proto'' = (if rq_TLS r then ''https'' else ''http'')"
proof -
  have k: "go_CanonicalHeaderKey ''X-BedemWAF-Request-ID'' = ''X-Bedemwaf-Request-Id''"
    "go_CanonicalHeaderKey ''X-Forwarded-Host'' = ''X-Forwarded-Host''"
    "go_CanonicalHeaderKey ''X-Forwarded-Proto'' = ''X-Forwarded-Proto''"
    by code_simp+
  show "header_Get (rq_Header (forwarded_request reqID r)) ''X-BedemWAF-Request-ID'' = reqID"
    "header_Get (rq_Header (forwarded_request reqID r)) ''X-Forwarded-Host'' = rq_Host r"
    "header_Get (rq_Header (forwarded_request reqID r)) ''X-Forwarded-Proto'' = (if rq_TLS r then ''https'' else ''http'')"
    by (simp_all add: forwarded_request_def schemeForRequest_def Let_def header_Get_Set header_Get_Set_other k)
qed

lemma forwarded_same_request:
  "rq_Path (forwarded_request reqID r) = rq_Path r" "rq_Method (forwarded_request reqID r) = rq_Method r"
  "rq_RawQuery (forwarded_request reqID r) = rq_RawQuery r" "rq_Body (forwarded_request reqID r) = rq_Body r"
  by (simp_all add: forwarded_request_def Let_def)

lemma forwarded_request_served:
  assumes "routed ops u r s a" and "decision_for ops g u rd r s a = Some d"
    and pass: "app_Mode a \<noteq> ModeBlock \<or> \<not> WouldBlock d"
    and origin: "op_origin ops (app_Origin a) (forwarded_request (requestID rd) (snd (prepareRequestBody g r))) (gs_origin s)
      = (OriginReply st hdrs body True, o')"
    and st: "200 \<le> st" "st \<le> 999" and quiet: "audit_quiet ops (gs_audit s)"
  obtains rn where "ServeHTTP ops g u rq sc rd r s = rn"
    and "final_status (rn_w rn) = st" "resp_header (rn_w rn) = add_headers hdrs []"
    and "body_allowed st \<Longrightarrow> body_fits hdrs body \<Longrightarrow> resp_body (rn_w rn) = body"
    and "gs_origin rn = o'" "gs_audit rn = audit_after ops (rn_event rn) (gs_audit s)"
    and "ev_Status (rn_event rn) = st" "ev_OriginStatus (rn_event rn) = st" "\<not> ev_Enforced (rn_event rn)"
    "ev_Action (rn_event rn) = Action d"
    and "rn_req rn = forwarded_request (requestID rd) (snd (prepareRequestBody g r))"
proof -
  obtain rn0 where S: "ServeHTTP ops g u rq sc rd r s =
      recover_panic (with_event_log ops rd (enforce ops rd (requestID rd) a d (record_decision a d rn0)))"
    and rn0: "rn_w rn0 = new_response" "gs_origin rn0 = gs_origin s" "gs_audit rn0 = gs_audit s"
      "rn_req rn0 = snd (prepareRequestBody g r)"
    using serve_routed [OF assms(1,2)] by metis
  let ?rn1 = "record_decision a d rn0"
  let ?w0 = "new_response\<lparr>resp_header := add_headers hdrs []\<rparr>"
  let ?w1 = "fix_status st ?w0"
  have wh: "resp_WriteHeader st ?w0 = Ret ?w1"
    using st by (intro WriteHeader_final) (simp_all add: new_response_def)
  have hdr0: "resp_header new_response = []" by (simp add: new_response_def)
  let ?rn2 = "observe_origin rd (?rn1\<lparr>rn_req := forwarded_request (requestID rd) (rn_req ?rn1), gs_origin := o'\<rparr>)"
  let ?rn3 = "(upd_event (\<lambda>e. e\<lparr>ev_OriginStatus := st\<rparr>) ?rn2)\<lparr>rn_w := ?w0\<rparr>"
  have E: "enforce ops rd (requestID rd) a d ?rn1 =
      (Ret (), ?rn3\<lparr>rn_status := st, rn_w := resp_Write body ?w1\<rparr>)"
    using pass origin rn0 wh
    by (auto simp: enforce_def proxy_origin_def Let_def rec_WriteHeader_def rec_Write_def observe_origin_def
        upd_event_def hdr0)
  let ?rn4 = "?rn3\<lparr>rn_status := st, rn_w := resp_Write body ?w1\<rparr>"
  have q: "audit_quiet ops (gs_audit ?rn4)" using quiet rn0 by (simp add: observe_origin_def)
  from served_quietly [OF E q, of rd] obtain rn where
    R: "recover_panic (with_event_log ops rd (enforce ops rd (requestID rd) a d ?rn1)) = rn"
      "rn_w rn = resp_Write body ?w1" "gs_origin rn = o'" "rn_event rn = logged_event rd ?rn4"
      "rn_req rn = forwarded_request (requestID rd) (snd (prepareRequestBody g r))"
      "gs_audit rn = audit_after ops (rn_event rn) (gs_audit s)"
    using rn0 by (auto simp: observe_origin_def)
  have b: "resp_body (resp_Write body ?w1) = body" if "body_allowed st" "body_fits hdrs body"
    using that by (auto simp: resp_Write_def Let_def fix_status_def new_response_def body_fits_def split: option.splits)
  show ?thesis
    by (rule that [of rn])
      (use S R b pass in \<open>auto simp: logged_event_def final_status_def observe_origin_def\<close>)
qed

end
