(* ===== verification/Gateway_Safety.thy ===== *)
theory Gateway_Safety
  imports Gateway_Facts
begin

text \<open>
  The handler over components that keep their contracts: it never panics, every request gets a
  final status, the audit log receives one event per routed request and that event carries the
  status the client got. The contracts are gathered in the locale \<open>gateway_env\<close>, which extends
  the interfaces of the policy provider and of the WAF engine, and is interpreted for the static
  gateway (static store, in-memory limiter, allow-all engine, dispatcher) and for the remote one
  (cached control-API policies, no limiter, Coraza, JSON log).
\<close>

section \<open>Status codes\<close>

text \<open>The statuses that reach the client as they are: zero stands for the default 403.\<close>

definition sendable :: "int \<Rightarrow> bool" where
  "sendable code \<longleftrightarrow> code = 0 \<or> 200 \<le> code \<and> code \<le> 999"

definition statuses_ok :: "app \<Rightarrow> bool" where
  "statuses_ok a \<longleftrightarrow>
     list_all (\<lambda>r. sendable (cr_StatusCode r)) (app_CustomRules a) \<and>
     list_all (\<lambda>r. sendable (rl_StatusCode r)) (app_RateLimits a)"

definition sends_ok :: "decision \<Rightarrow> bool" where
  "sends_ok d \<longleftrightarrow> (WouldBlock d \<longrightarrow> 200 \<le> block_status d \<and> block_status d \<le> 999)"

lemma sends_ok_Block [simp]: "sends_ok (d_Block r i)"
  by (simp add: sends_ok_def block_status_def)

lemma sends_ok_Allow [simp]: "\<not> WouldBlock d \<Longrightarrow> sends_ok d"
  by (simp add: sends_ok_def)

lemma sendable_sends_ok: "sendable (StatusCode d) \<Longrightarrow> sends_ok d"
  by (auto simp: sendable_def sends_ok_def block_status_def)

lemma custom_rules_loop_sends_ok:
  assumes "list_all (\<lambda>r. sendable (cr_StatusCode r)) rules" and "fc = zero_decision \<or> Action fc = ActionCount"
  shows "sends_ok (custom_rules_loop u ctx ips fc rules)"
  using assms
proof (induction rules arbitrary: fc)
  case Nil
  then show ?case by (auto simp: sends_ok_def WouldBlock_def)
next
  case (Cons rule rules)
  have "sends_ok (annotate rule t (WithStatus (d_Block ''custom_rule'' i) (cr_StatusCode rule)))" for t i
    using Cons.prems by (intro sendable_sends_ok) (simp add: annotate_def)
  moreover have "sends_ok (annotate rule t (d_AllowRule ''custom_rule_allow'' i))" for t i
    by (intro sends_ok_Allow) (simp add: annotate_def WouldBlock_def)
  ultimately show ?case using Cons by simp
qed

lemma EvaluateIP_sends_ok: "sends_ok (EvaluateIP a ip)"
  by (auto simp: EvaluateIP_def split: option.splits)

definition limiter_ok :: "rate_limit_rule \<Rightarrow> decision \<Rightarrow> bool" where
  "limiter_ok rule d \<longleftrightarrow> Action d \<in> {ActionAllow, limited_action rule} \<and>
     (Action d = limited_action rule \<longrightarrow> StatusCode d = rl_StatusCode rule)"

lemma limiter_ok_sends_ok: "limiter_ok rule d \<Longrightarrow> sendable (rl_StatusCode rule) \<Longrightarrow> sends_ok d"
  by (auto simp: limiter_ok_def sends_ok_def WouldBlock_def block_status_def sendable_def)

lemma waf_decision_sends_ok: "waf_decision_ok d \<Longrightarrow> sends_ok d"
  by (auto simp: waf_decision_ok_def sends_ok_def WouldBlock_def block_status_def)

section \<open>Stages that end well\<close>

text \<open>
  A part of the handler that started with an empty response has ended well: no panic, and the
  recorder holds the status the client will see.
\<close>

definition ended_well :: "unit outcome \<times> ('p, 'l, 'x, 'a, 'o) run \<Rightarrow> bool" where
  "ended_well res \<longleftrightarrow>
     fst res = Ret () \<and> rn_status (snd res) = final_status (rn_w (snd res)) \<and>
     200 \<le> final_status (rn_w (snd res)) \<and> final_status (rn_w (snd res)) \<le> 999"

text \<open>The components other than the origin are left alone.\<close>

definition keeps :: "('p, 'l, 'x, 'a, 'o) run \<Rightarrow> ('p, 'l, 'x, 'a, 'o) run \<Rightarrow> bool" where
  "keeps rn rn' \<longleftrightarrow> gs_prov rn' = gs_prov rn \<and> gs_limiter rn' = gs_limiter rn \<and> gs_audit rn' = gs_audit rn"

lemma error_ends_well:
  assumes "rn_w rn = new_response" "200 \<le> status" "status \<le> 999"
  shows "ended_well (rec_writeJSONError status i m rn)" "keeps rn (snd (rec_writeJSONError status i m rn))"
proof -
  obtain w where J: "rec_writeJSONError status i m rn = (Ret (), rn\<lparr>rn_status := status, rn_w := w\<rparr>)"
    and "plain_response status m i w"
    using rec_writeJSONError_fresh [OF assms] by metis
  then show "ended_well (rec_writeJSONError status i m rn)" "keeps rn (snd (rec_writeJSONError status i m rn))"
    using assms by (simp_all add: ended_well_def keeps_def plain_response_def)
qed

definition origin_ok :: "('p, 'l, 'x, 'a, 'o) ops \<Rightarrow> bool" where
  "origin_ok ops \<longleftrightarrow>
     (\<forall>url r s. case fst (op_origin ops url r s) of
        OriginFailed \<Rightarrow> True
      | OriginReply st hdrs body complete \<Rightarrow> 200 \<le> st \<and> st \<le> 999 \<and> complete)"

lemma proxy_ends_well:
  assumes "origin_ok ops" and "rn_w rn = new_response"
  shows "ended_well (proxy_origin ops rd i a rn)" "keeps rn (snd (proxy_origin ops rd i a rn))"
proof -
  let ?rn1 = "rn\<lparr>rn_req := forwarded_request i (rn_req rn)\<rparr>"
  obtain reply o' where o: "op_origin ops (app_Origin a) (rn_req ?rn1) (gs_origin ?rn1) = (reply, o')" by fastforce
  let ?rn2 = "observe_origin rd (?rn1\<lparr>gs_origin := o'\<rparr>)"
  have k: "keeps rn ?rn2" "rn_w ?rn2 = new_response"
    using assms(2) by (simp_all add: keeps_def observe_origin_def)
  show "ended_well (proxy_origin ops rd i a rn)" "keeps rn (snd (proxy_origin ops rd i a rn))"
  proof (atomize (full), cases reply)
    case OriginFailed
    then have P: "proxy_origin ops rd i a rn = rec_writeJSONError 502 i ''origin unavailable'' ?rn2"
      using o by (simp add: proxy_origin_def)
    show "ended_well (proxy_origin ops rd i a rn) \<and> keeps rn (snd (proxy_origin ops rd i a rn))"
      using error_ends_well [OF k(2), of 502 i "''origin unavailable''"] k(1) by (simp add: P keeps_def)
  next
    case (OriginReply st hdrs body complete)
    have "case fst (op_origin ops (app_Origin a) (rn_req ?rn1) (gs_origin ?rn1)) of OriginFailed \<Rightarrow> True
        | OriginReply st hdrs body complete \<Rightarrow> 200 \<le> st \<and> st \<le> 999 \<and> complete"
      using assms(1) unfolding origin_ok_def by blast
    then have st: "200 \<le> st" "st \<le> 999" complete
      unfolding o fst_conv OriginReply origin_reply.case by blast+
    let ?w0 = "new_response\<lparr>resp_header := add_headers hdrs (resp_header new_response)\<rparr>"
    have "resp_WriteHeader st ?w0 = Ret (fix_status st ?w0)"
      using st by (intro WriteHeader_final) (simp_all add: new_response_def)
    then show "ended_well (proxy_origin ops rd i a rn) \<and> keeps rn (snd (proxy_origin ops rd i a rn))"
      using o OriginReply st k
      by (simp add: proxy_origin_def Let_def rec_WriteHeader_def rec_Write_def ended_well_def keeps_def
          final_status_def)
  qed
qed

lemma enforce_ends_well:
  assumes "origin_ok ops" "rn_w rn = new_response" "sends_ok d"
  shows "ended_well (enforce ops rd i a d rn)" "keeps rn (snd (enforce ops rd i a d rn))"
  using assms proxy_ends_well [OF assms(1,2)] error_ends_well [OF assms(2)]
  by (auto simp: enforce_def sends_ok_def block_status_def)

section \<open>The contracts of the components\<close>

locale gateway_env = policy_provider "op_lookup ops" prov_inv + waf_engine "op_inspect ops"
  for ops :: "('p, 'l, 'x, 'a, 'o) ops" and prov_inv :: "'p \<Rightarrow> bool" +
  fixes lim_inv :: "'l \<Rightarrow> bool"
    and ready :: "'a \<Rightarrow> bool"
    and received :: "'a \<Rightarrow> nat"
  assumes lookup_statuses:
      "prov_inv s \<Longrightarrow> lr_App (fst (op_lookup ops h s)) = Some a \<Longrightarrow> statuses_ok a"
    and check_ok: "lim_inv l \<Longrightarrow> wf_rate_limit ips rule \<Longrightarrow>
      \<exists>d. fst (op_check ops a req rule l) = Ret d \<and> limiter_ok rule d"
    and check_inv: "lim_inv l \<Longrightarrow> lim_inv (snd (op_check ops a req rule l))"
    and audit_contract: "op_audit ops = Some log \<Longrightarrow> event_logger log ready received"
begin

lemma rate_limits_ok:
  assumes "lim_inv l" "list_all (wf_rate_limit ips) rules" "list_all (\<lambda>r. sendable (rl_StatusCode r)) rules"
  shows "\<exists>d. fst (evaluateRateLimits (op_check ops) a req rules l) = Ret d \<and> sends_ok d \<and>
    lim_inv (snd (evaluateRateLimits (op_check ops) a req rules l))"
  using assms
proof (induction rules arbitrary: l)
  case (Cons rule rules)
  obtain res l' where c: "op_check ops a req rule l = (res, l')" by fastforce
  from check_ok [OF Cons.prems(1), of ips rule a req] Cons.prems(2) c
  obtain d where d: "res = Ret d" "limiter_ok rule d" by auto
  have l': "lim_inv l'" using check_inv [OF Cons.prems(1), of a req rule] c by simp
  show ?case
    using c d l' Cons limiter_ok_sends_ok [OF d(2)] by simp
qed simp

lemma decide_ok:
  assumes "lim_inv l" "wf_app a" "statuses_ok a"
  shows "lim_inv (fst (snd (decide ops u a r ip host i p ex l x))) \<and>
    (case fst (decide ops u a r ip host i p ex l x) of
       Panic \<Rightarrow> False | Ret (Inl e) \<Rightarrow> True | Ret (Inr d) \<Rightarrow> sends_ok d)"
proof (cases "Action (EvaluateIP a ip) = ActionAllow")
  case False
  then show ?thesis using assms(1) EvaluateIP_sends_ok by (simp add: decide_ip)
next
  case ip: True
  let ?c = "EvaluateCustomRules u a (request_context_of r ip host)"
  obtain d l' where rate: "evaluateRateLimits (op_check ops) a (rl_request_of r ip host) (app_RateLimits a) l = (Ret d, l')"
    and l': "lim_inv l'" and d: "sends_ok d"
    using rate_limits_ok [OF assms(1), of "app_IPSets a" "app_RateLimits a"] assms(2,3)
    unfolding wf_app_def statuses_ok_def by (metis prod.collapse)
  have c: "sends_ok ?c"
    using custom_rules_loop_sends_ok [of "app_CustomRules a" zero_decision] assms(3)
    by (simp add: EvaluateCustomRules_def statuses_ok_def)
  obtain w x' where waf: "op_inspect ops r p (policy_context_of i a host ip) x = (w, x')" by fastforce
  consider "WouldBlock d" | "\<not> WouldBlock d" ex | "\<not> WouldBlock d" "\<not> ex" "Action ?c = ActionBlock"
    | "\<not> WouldBlock d" "\<not> ex" "Action ?c \<noteq> ActionBlock" by blast
  then show ?thesis
  proof cases
    case 4
    show ?thesis
    proof (cases w)
      case (Inl e)
      have "Action (fst (custom_stage u a (request_context_of r ip host) (d_Allow, rememberCount d None))) = ActionAllow"
        using 4(3) EvaluateCustomRules_ok [of u a "request_context_of r ip host"]
        by (auto simp: custom_stage_def custom_ok_def Let_def)
      then have "decide ops u a r ip host i p False l x = (Ret (Inl e), l', x')"
        using rate 4 EvaluateIP_allow [OF ip] waf Inl
        by (simp add: decide_def rate_stage_allow body_stage_def waf_stage_def case_prod_unfold Let_def)
      then show ?thesis using l' 4 by simp
    next
      case (Inr wo)
      then obtain final where f: "fst (decide ops u a r ip host i p False l x) = Ret (Inr final)"
        and wb: "WouldBlock final \<longleftrightarrow> WouldBlock (EvaluateIP a ip) \<or> WouldBlock d \<or> False \<or> WouldBlock ?c \<or>
          (\<exists>wd. wo = Some wd \<and> WouldBlock wd) \<or> app_DefaultAction a = ActionBlock \<and> Reason ?c \<noteq> ''custom_rule_allow''"
        using decide_WouldBlock_iff [OF rate, of p i x wo x' u False] waf by blast
      have ok: "sends_ok wd" if "wo = Some wd" for wd
        using inspect_ok waf Inr that waf_decision_sends_ok by (metis fst_conv)
      have D: "decide ops u a r ip host i p False l x = (Ret (Inr final), l', x')"
        "final = (case wo of Some wd \<Rightarrow> if WouldBlock wd then wd else
             final_stage a (if Reason ?c = ''custom_rule_allow'' then ?c else d_Allow,
                observed_counts d ?c wo, Reason ?c = ''custom_rule_allow'')
           | None \<Rightarrow> final_stage a (if Reason ?c = ''custom_rule_allow'' then ?c else d_Allow,
                observed_counts d ?c wo, Reason ?c = ''custom_rule_allow''))"
        using decide_waf [OF ip rate 4(1,3), of p i x wo x'] waf Inr f by simp_all
      have fs: "sends_ok (final_stage a (if Reason ?c = ''custom_rule_allow'' then ?c else d_Allow, ob, t))"
        if "\<And>e. ob = Some e \<Longrightarrow> \<not> WouldBlock e" for ob t
        using that c by (auto simp: final_stage_def Let_def split: option.splits)
      have "sends_ok final"
        unfolding D(2) using ok fs [OF observed_counts_harmless]
        by (cases wo) (simp_all only: option.case if_split simp_thms)
      then show ?thesis using D(1) l' 4 by simp
    qed
  qed (use rate ip l' d c in \<open>auto simp: decide_rate [OF ip rate] decide_body [OF ip rate]
        decide_custom_block [OF ip rate]\<close>)
qed

lemma serve_app_ok:
  assumes "origin_ok ops" "rn_w rn = new_response" "wf_app a" "statuses_ok a" "lim_inv (gs_limiter rn)"
  shows "ended_well (serve_app ops g u rd i ip host a rn)"
    and "gs_prov (snd (serve_app ops g u rd i ip host a rn)) = gs_prov rn"
    and "gs_audit (snd (serve_app ops g u rd i ip host a rn)) = gs_audit rn"
    and "lim_inv (gs_limiter (snd (serve_app ops g u rd i ip host a rn)))"
proof -
  define rn1 where "rn1 = upd_event (\<lambda>e. e\<lparr>ev_TenantID := app_TenantID a, ev_AppID := app_ID a,
     ev_PolicyID := app_PolicyID a, ev_PolicyVersion := app_PolicyVersion a, ev_Mode := app_Mode a\<rparr>) rn"
  have rn1: "rn_w rn1 = new_response" "keeps rn rn1" "rn_req rn1 = rn_req rn" "gs_waf rn1 = gs_waf rn"
    using assms(2) by (simp_all add: rn1_def keeps_def)
  obtain pb r' where pb: "prepareRequestBody g (rn_req rn) = (pb, r')" by fastforce
  have "ended_well (serve_app ops g u rd i ip host a rn) \<and>
    gs_prov (snd (serve_app ops g u rd i ip host a rn)) = gs_prov rn \<and>
    gs_audit (snd (serve_app ops g u rd i ip host a rn)) = gs_audit rn \<and>
    lim_inv (gs_limiter (snd (serve_app ops g u rd i ip host a rn)))"
  proof (cases pb)
    case (Inl v)
    let ?rn2 = "upd_event (\<lambda>e. e\<lparr>ev_Action := ActionBlock, ev_Reason := ''request_body_read_failed''\<rparr>) (rn1\<lparr>rn_req := r'\<rparr>)"
    have "serve_app ops g u rd i ip host a rn = rec_writeJSONError 400 i ''invalid request body'' ?rn2"
      unfolding serve_app_def Let_def rn1_def [symmetric] rn1(3) pb prod.case Inl sum.case ..
    then show ?thesis
      using error_ends_well [of ?rn2 400 i "''invalid request body''"] rn1 assms(5) by (simp add: keeps_def)
  next
    case (Inr pe)
    obtain preview ex where pe: "pe = (preview, ex)" by fastforce
    define rn3 where "rn3 = (if DebugBodyPreview (WAF (gw_cfg g)) \<and> preview \<noteq> []
       then upd_event (\<lambda>e. e\<lparr>ev_BodyPreview := redactedPreview preview (BodyPreviewBytes (WAF (gw_cfg g)))\<rparr>) (rn1\<lparr>rn_req := r'\<rparr>)
       else rn1\<lparr>rn_req := r'\<rparr>)"
    have rn3: "rn_w rn3 = new_response" "keeps rn rn3" using rn1 by (simp_all add: rn3_def keeps_def)
    obtain res l x where D: "decide ops u a (rn_req rn3) ip host i preview ex (gs_limiter rn3) (gs_waf rn3) = (res, l, x)"
      by (metis prod_cases3)
    have "lim_inv (gs_limiter rn3)" using assms(5) rn3(2) by (simp add: keeps_def)
    note ok = decide_ok [OF this assms(3,4), of u "rn_req rn3" ip host i preview ex "gs_waf rn3", unfolded D]
    let ?rn4 = "rn3\<lparr>gs_limiter := l, gs_waf := x\<rparr>"
    have S: "serve_app ops g u rd i ip host a rn =
        (case res of Panic \<Rightarrow> (Panic, ?rn4)
         | Ret (Inl _) \<Rightarrow> rec_writeJSONError 400 i ''waf inspection failed''
              (upd_event (\<lambda>e. e\<lparr>ev_Action := ActionBlock, ev_Reason := ''waf_error''\<rparr>) ?rn4)
         | Ret (Inr final) \<Rightarrow> enforce ops rd i a final (record_decision a final ?rn4))"
      unfolding serve_app_def Let_def rn1_def [symmetric] rn1(3) pb prod.case Inr pe sum.case
        rn3_def [symmetric] D ..
    consider e where "res = Ret (Inl e)" | d where "res = Ret (Inr d)" "sends_ok d"
      using ok by (auto split: outcome.splits sum.splits)
    then show ?thesis
    proof cases
      case 1
      let ?rn5 = "upd_event (\<lambda>e. e\<lparr>ev_Action := ActionBlock, ev_Reason := ''waf_error''\<rparr>) ?rn4"
      show ?thesis
        using error_ends_well [of ?rn5 400 i "''waf inspection failed''"] rn3 ok 1 by (simp add: S keeps_def)
    next
      case 2
      let ?rn5 = "record_decision a d ?rn4"
      have k: "gs_prov ?rn5 = gs_prov ?rn4" "gs_limiter ?rn5 = gs_limiter ?rn4"
        by (simp_all add: record_decision_def Let_def split: option.split)
      show ?thesis
        using enforce_ends_well [OF assms(1), of ?rn5 d rd i a] rn3 ok 2 k by (simp add: S keeps_def)
    qed
  qed
  then show "ended_well (serve_app ops g u rd i ip host a rn)"
    "gs_prov (snd (serve_app ops g u rd i ip host a rn)) = gs_prov rn"
    "gs_audit (snd (serve_app ops g u rd i ip host a rn)) = gs_audit rn"
    "lim_inv (gs_limiter (snd (serve_app ops g u rd i ip host a rn)))" by blast+
qed

lemma serve_host_ok:
  assumes "origin_ok ops" "rn_w rn = new_response" "rn_status rn = 200" "prov_inv (gs_prov rn)" "lim_inv (gs_limiter rn)"
  shows "ended_well (serve_host ops g u rd i ip host rn) \<and>
    prov_inv (gs_prov (snd (serve_host ops g u rd i ip host rn))) \<and>
    gs_audit (snd (serve_host ops g u rd i ip host rn)) = gs_audit rn \<and>
    lim_inv (gs_limiter (snd (serve_host ops g u rd i ip host rn)))"
proof -
  obtain lk p' where lk: "op_lookup ops host (gs_prov rn) = (lk, p')" by fastforce
  have p': "prov_inv p'" and wf: "wf_lookup lk"
    using lookup_inv [OF assms(4), of host] lookup_wf [OF assms(4), of host] lk by simp_all
  define rn2 where "rn2 = (if lr_Warning lk \<noteq> [] then upd_event (\<lambda>e. e\<lparr>ev_Reason := lr_Warning lk\<rparr>) (rn\<lparr>gs_prov := p'\<rparr>) else rn\<lparr>gs_prov := p'\<rparr>)"
  have rn2: "rn_w rn2 = new_response" "rn_status rn2 = 200" "gs_prov rn2 = p'" "gs_limiter rn2 = gs_limiter rn"
    "gs_audit rn2 = gs_audit rn"
    using assms by (simp_all add: rn2_def)
  let ?st = "if lr_StatusCode lk = 0 then 404 else lr_StatusCode lk"
  have S: "serve_host ops g u rd i ip host rn =
     (if lr_FailOpen lk then (Ret (), upd_event (\<lambda>e. e\<lparr>ev_Action := ActionAllow, ev_Reason := lr_Reason lk\<rparr>) rn2)
      else if \<not> lr_Found lk then rec_writeJSONError ?st i (if ?st = 503 then ''policy unavailable'' else ''no matching app'')
             (upd_event (\<lambda>e. e\<lparr>ev_Action := ActionBlock, ev_Reason := lr_Reason lk\<rparr>) rn2)
      else (case lr_App lk of None \<Rightarrow> (Panic, rn2) | Some a \<Rightarrow> serve_app ops g u rd i ip host a rn2))"
    unfolding serve_host_def Let_def lk prod.case rn2_def ..
  show ?thesis
  proof (cases "lr_FailOpen lk \<or> \<not> lr_Found lk")
    case True
    let ?rn3 = "upd_event (\<lambda>e. e\<lparr>ev_Action := ActionBlock, ev_Reason := lr_Reason lk\<rparr>) rn2"
    have "200 \<le> ?st" "?st \<le> 999" using wf by (auto simp: wf_lookup_def)
    then show ?thesis
      using True rn2 p' assms(5) error_ends_well [of ?rn3 ?st i]
      by (auto simp: S keeps_def ended_well_def [of "(Ret (), _)"] final_status_def new_response_def)
  next
    case False
    then obtain a where a: "lr_App lk = Some a" "wf_app a" using wf by (auto simp: wf_lookup_def)
    have st: "statuses_ok a" using lookup_statuses [OF assms(4), of host a] lk a by simp
    have "serve_host ops g u rd i ip host rn = serve_app ops g u rd i ip host a rn2"
      using False a by (simp add: S)
    moreover have "lim_inv (gs_limiter rn2)" using assms(5) rn2 by simp
    ultimately show ?thesis
      using serve_app_ok [OF assms(1) rn2(1) a(2) st, of g u rd i ip host] rn2 p' by simp
  qed
qed

text \<open>The whole handler, for every request that is not a scrape of the metrics.\<close>

lemma ServeHTTP_ok:
  assumes "origin_ok ops" "prov_inv (gs_prov s)" "lim_inv (gs_limiter s)" "ready (gs_audit s)"
    and "rq_Path r \<noteq> ''/metrics''"
    and rn_def: "rn = ServeHTTP ops g u rq sc rd r s"
  shows "200 \<le> final_status (rn_w rn) \<and> final_status (rn_w rn) \<le> 999 \<and>
    prov_inv (gs_prov rn) \<and> lim_inv (gs_limiter rn) \<and> ready (gs_audit rn) \<and>
    (rq_Path r \<noteq> ''/healthz'' \<and> ValidHost u (NormalizeHost u (rq_Host r)) \<longrightarrow>
       ev_Status (rn_event rn) = final_status (rn_w rn) \<and>
       (op_audit ops \<noteq> None \<longrightarrow> received (gs_audit rn) = received (gs_audit s) + 1))"
proof -
  let ?host = "NormalizeHost u (rq_Host r)"
  consider (health) "rq_Path r = ''/healthz''" | (bad) "rq_Path r \<noteq> ''/healthz''" "\<not> ValidHost u ?host"
    | (good) "rq_Path r \<noteq> ''/healthz''" "ValidHost u ?host" by blast
  then show ?thesis
  proof cases
    case health
    then show ?thesis
      using assms(2-4)
      by (auto simp: rn_def ServeHTTP_def Let_def start_run_def resp_WriteHeader_def new_response_def
          resp_SetHeader_def final_status_def)
  next
    case bad
    let ?rn0 = "start_run s zero_event r"
    have "rn_w ?rn0 = new_response" by (simp add: start_run_def)
    note E = error_ends_well [OF this, of 400 "requestID rd" "''invalid host''"]
    obtain rn1 where "rec_writeJSONError 400 (requestID rd) ''invalid host'' ?rn0 = (Ret (), rn1)"
      using E(1) by (cases "rec_writeJSONError 400 (requestID rd) ''invalid host'' ?rn0") (auto simp: ended_well_def)
    then show ?thesis
      using bad assms E by (simp add: rn_def ServeHTTP_def Let_def recover_panic_def ended_well_def keeps_def start_run_def)
  next
    case good
    let ?rn0 = "start_run s (new_event rq rd (requestID rd) ?host (clientIP g r) r) r"
    have 0: "rn_w ?rn0 = new_response" "rn_status ?rn0 = 200" "prov_inv (gs_prov ?rn0)" "lim_inv (gs_limiter ?rn0)"
      "gs_audit ?rn0 = gs_audit s"
      using assms by (simp_all add: start_run_def)
    obtain res rn1 where H: "serve_host ops g u rd (requestID rd) (clientIP g r) ?host ?rn0 = (res, rn1)" by fastforce
    note E = serve_host_ok [OF assms(1) 0(1-4), of g u rd "requestID rd" "clientIP g r" ?host, unfolded H]
    have res: "res = Ret ()" and au: "gs_audit rn1 = gs_audit s" using E 0(5) by (auto simp: ended_well_def)
    have quiet: "audit_quiet ops (gs_audit rn1)"
      using audit_contract event_logger.log_ready assms(4) au by (fastforce simp: audit_quiet_def)
    obtain rn2 where L: "log_event ops rd rn1 = (Ret (), rn2)" "rn_w rn2 = rn_w rn1"
      "rn_event rn2 = logged_event rd rn1" "gs_audit rn2 = audit_after ops (logged_event rd rn1) (gs_audit rn1)"
      using log_event_quiet [OF quiet, of rd] by metis
    have keep: "gs_prov rn2 = gs_prov rn1" "gs_limiter rn2 = gs_limiter rn1"
      using L(1) by (auto simp: log_event_def Let_def split: option.splits prod.splits)
    have rn: "rn = rn2"
      using good assms(5) H res L(1)
      by (simp add: rn_def ServeHTTP_def Let_def with_event_log_def recover_panic_def)
    have aud: "ready (gs_audit rn2) \<and> (op_audit ops \<noteq> None \<longrightarrow> received (gs_audit rn2) = received (gs_audit s) + 1)"
      using audit_contract event_logger.log_ready event_logger.log_received assms(4)
      by (fastforce simp: L(4) au audit_after_def split: option.splits)
    show ?thesis
      using E aud by (simp add: rn L(2,3) keep ended_well_def logged_event_def)
  qed
qed

end

section \<open>Two configurations\<close>

lemma Check_limiter_ok:
  assumes "fst (Check u sha incr fc now a req rule s) = Ret d"
  shows "limiter_ok rule d"
proof -
  have "limiter_ok rule d_Allow" "limiter_ok rule (within_limit rule n t)"
    "limiter_ok rule (rateLimitDecision rule n t)" for n t
    by (auto simp: limiter_ok_def)
  then show ?thesis
    using assms by (auto simp: Check_def split: if_splits prod.splits outcome.splits sum.splits)
qed

context fixed_window_store
begin

lemma Check_contract:
  assumes "wf_rate_limit ips rule"
  shows "\<exists>d. fst (Check u sha incr fc now a req rule s) = Ret d \<and> limiter_ok rule d"
proof -
  have "fst (Check u sha incr fc now a req rule s) \<noteq> Panic"
    by (rule Check_no_panic) (use assms in \<open>auto simp: wf_rate_limit_def\<close>)
  then show ?thesis by (cases "fst (Check u sha incr fc now a req rule s)") (auto dest: Check_limiter_ok)
qed

end

definition static_inv :: "store \<Rightarrow> bool" where
  "static_inv s \<longleftrightarrow> wf_store s \<and> (\<forall>h a. byHost s h = Some a \<longrightarrow> statuses_ok a)"

lemma static_provider: "policy_provider (static_lookup u) static_inv"
proof
  show "static_inv s \<Longrightarrow> static_inv (snd (static_lookup u h s))" for s h by (simp add: static_lookup_def)
  show "static_inv s \<Longrightarrow> wf_lookup (fst (static_lookup u h s))" for s h
    using static.lookup_wf by (simp add: static_inv_def)
qed

lemma static_statuses:
  "static_inv s \<Longrightarrow> lr_App (fst (static_lookup u h s)) = Some a \<Longrightarrow> statuses_ok a"
  by (auto simp: static_lookup_def store_Lookup_def static_inv_def MatchHost_def zero_lookup_def split: option.splits)

text \<open>Static policies, the in-memory limiter, the allow-all engine and the audit dispatcher.\<close>

definition limited_ops ::
  "unicode \<Rightarrow> (string \<Rightarrow> string) \<Rightarrow> bool \<Rightarrow> int \<Rightarrow> (url \<Rightarrow> http_request \<Rightarrow> 'o \<Rightarrow> origin_reply \<times> 'o)
   \<Rightarrow> (store, memory_store, unit, dispatcher \<times> metrics, 'o) ops" where
  "limited_ops u sha256 failClosed now origin =
     \<lparr>op_lookup = static_lookup u, op_check = Check u sha256 mem_IncrementFixedWindow failClosed now,
      op_inspect = allow_InspectRequest, op_audit = Some (disp_Log now), op_origin = origin\<rparr>"

interpretation limited: gateway_env "limited_ops u sha256 failClosed now origin" static_inv "\<lambda>_. True"
  "\<lambda>(d, m). \<not> closed d" "\<lambda>(d, m). blockedTotal d + allowedTotal d"
proof (intro gateway_env.intro gateway_env_axioms.intro)
  show "policy_provider (op_lookup (limited_ops u sha256 failClosed now origin)) static_inv"
    by (simp add: limited_ops_def static_provider)
  show "waf_engine (op_inspect (limited_ops u sha256 failClosed now origin))"
    by (simp add: limited_ops_def allow.waf_engine_axioms)
qed (auto simp: limited_ops_def dest: static_statuses intro: memory.Check_contract dispatcher.event_logger_axioms)

text \<open>Static policies, no limiter, Coraza and the JSON log.\<close>

definition coraza_ops ::
  "unicode \<Rightarrow> 'tx coraza \<Rightarrow> string \<Rightarrow> (event \<Rightarrow> string) \<Rightarrow> (string \<Rightarrow> 'w \<Rightarrow> bool \<times> 'w)
   \<Rightarrow> (url \<Rightarrow> http_request \<Rightarrow> 'o \<Rightarrow> origin_reply \<times> 'o) \<Rightarrow> (store, unit, bool, 'w \<times> nat, 'o) ops" where
  "coraza_ops u cz ruleEngine encode write origin =
     \<lparr>op_lookup = static_lookup u, op_check = noop_Check, op_inspect = coraza_engine cz ruleEngine,
      op_audit = Some (json_logger encode write), op_origin = origin\<rparr>"

interpretation coraza_gateway: gateway_env "coraza_ops u cz ruleEngine encode write origin" static_inv "\<lambda>_. True"
  "\<lambda>_. True" snd
proof (intro gateway_env.intro gateway_env_axioms.intro)
  show "policy_provider (op_lookup (coraza_ops u cz ruleEngine encode write origin)) static_inv"
    by (simp add: coraza_ops_def static_provider)
  show "waf_engine (op_inspect (coraza_ops u cz ruleEngine encode write origin))"
    by (simp add: coraza_ops_def coraza.waf_engine_axioms)
qed (auto simp: coraza_ops_def noop_Check_def limiter_ok_def dest: static_statuses intro: json.event_logger_axioms)

end
