(* ===== verification/Gateway_Properties.thy ===== *)
theory Gateway_Properties
  imports Gateway_Safety
begin

text \<open>
  The properties of the request handler as a whole, each with a run on the sample configuration,
  and the behaviours of the handler that differ from what its configuration or documentation
  suggests.
\<close>

section \<open>A sample gateway\<close>

definition sample_origin :: "url \<Rightarrow> http_request \<Rightarrow> nat \<Rightarrow> origin_reply \<times> nat" where
  "sample_origin url r n = (OriginReply 200 [] ''hello'' True, Suc n)"

definition sample_ops :: "(store, memory_store, unit, dispatcher \<times> metrics, nat) ops" where
  "sample_ops = limited_ops ascii_tables id False 0 sample_origin"

definition sample_state :: "app \<Rightarrow> (store, memory_store, unit, dispatcher \<times> metrics, nat) gw_state" where
  "sample_state a = \<lparr>gs_prov = \<lparr>byHost = [''shop.example'' \<mapsto> a]\<rparr>, gs_limiter = NewMemoryStore, gs_waf = (),
     gs_audit = (sample_dispatcher, init_metrics), gs_origin = 0, gs_metrics = init_metrics\<rparr>"

definition sample_request :: "string \<Rightarrow> http_request" where
  "sample_request path = \<lparr>rq_Method = ''GET'', rq_Path = path, rq_RawQuery = [], rq_Query = [],
     rq_RequestURI = path, rq_Proto = ''HTTP/1.1'', rq_Host = ''shop.example'',
     rq_Header = [], rq_RemoteAddr = ''198.51.100.7:4711'', rq_TLS = False, rq_Body = None\<rparr>"

definition sample_readings :: readings where
  "sample_readings = \<lparr>rd_rand = Some ''0123456789abcdef'', rd_now_text = [], rd_start = 0, rd_event = 0,
     rd_originStart = 0, rd_originEnd = 0, rd_originObserved = 0, rd_end = 0, rd_observed = 0\<rparr>"

definition sample_cfg :: "int \<Rightarrow> config" where
  "sample_cfg limit =
     \<lparr>Server = \<lparr>ListenAddr = [], TrustedProxies = [], ReadHeaderTimeoutMillis = 0, ReadTimeoutMillis = 0,
        WriteTimeoutMillis = 0, IdleTimeoutMillis = 0, MaxHeaderBytes = 0\<rparr>,
      Redis = \<lparr>redis_Enabled = False, redis_Addr = [], FailMode = []\<rparr>,
      ClickHouse = \<lparr>ch_Enabled = False, ch_URL = [], ch_Database = [], ch_Username = [], ch_Password = []\<rparr>,
      WAF = \<lparr>waf_Enabled = True, waf_Engine = [], waf_RuleEngine = [], RequestBodyLimitBytes = limit,
        DirectivesFile = [], DebugBodyPreview = False, BodyPreviewBytes = 0\<rparr>,
      ControlAPI = \<lparr>capi_Enabled = False, BaseURL = [], GatewayAPIKey = [], CacheTTLSeconds = 0, FailBehavior = []\<rparr>,
      Apps = [sample_config ''block'']\<rparr>"

definition sample_gateway :: gateway where
  "sample_gateway = \<lparr>gw_cfg = sample_cfg 4, gw_trustedProxies = []\<rparr>"

lemma sample_client_ip: "clientIP sample_gateway (sample_request path) = IPv4 0xC6336407"
proof -
  have "go_SplitHostPort ''198.51.100.7:4711'' = Some (''198.51.100.7'', ''4711'')"
    using SplitHostPort_plain [of "''198.51.100.7''" "''4711''"] by simp
  moreover have "go_Trim ''198.51.100.7'' ''[]'' = ''198.51.100.7''" by (rule Trim_none) simp
  moreover have "ParseAddr ''198.51.100.7'' = Some (IPv4 0xC6336407)"
    by (simp add: netip_eval go_eval Let_def)
  ultimately show ?thesis
    by (simp add: clientIP_def sample_gateway_def sample_request_def parseRemoteAddr_def Let_def)
qed

lemma sample_valid: "ValidHost ascii_tables ''shop.example''"
proof -
  have "go_TrimSpace (go_ToLower ascii_tables ''shop.example'') = ''shop.example''"
    by (subst TrimSpace_ascii_id) (simp_all add: go_eval ascii_spaces_def)
  moreover have "ParseAddr ''shop.example'' = None" by (simp add: netip_eval go_eval Let_def)
  ultimately show ?thesis
    by (simp add: ValidHost_def Let_def sample_plain_host host_separators_def go_eval valid_label_def label_runes_ok_def sublist_Cons_right)
qed

lemma sample_routed:
  "path \<noteq> ''/healthz'' \<Longrightarrow> path \<noteq> ''/metrics'' \<Longrightarrow>
   routed sample_ops ascii_tables (sample_request path) (sample_state a) a"
  by (simp add: routed_def sample_request_def sample_plain_host sample_valid sample_ops_def limited_ops_def sample_state_def
      static_lookup_def store_Lookup_def MatchHost_def zero_lookup_def)

lemma sample_ip_allowed: "EvaluateIP (sample_app mode) (IPv4 0xC6336407) = d_Allow"
  by (simp add: EvaluateIP_def sample_app_def)


lemma sample_request_simps [simp]:
  "rq_Body (sample_request path) = None" "rq_Host (sample_request path) = ''shop.example''"
  by (simp_all add: sample_request_def)

lemma sample_rate_limits:
  obtains l' where "evaluateRateLimits (op_check sample_ops) (sample_app mode) req
      (app_RateLimits (sample_app mode)) NewMemoryStore = (Ret d_Allow, l')"
proof -
  have "fst (evaluateRateLimits (op_check sample_ops) (sample_app mode) req
      (app_RateLimits (sample_app mode)) NewMemoryStore) = Ret d_Allow"
    by (simp add: sample_ops_def limited_ops_def Check_def sample_app_def rule_applies_def mem_IncrementFixedWindow_def
        Let_def NewMemoryStore_def mem_count_def wrap64_def within_limit_def)
  then show thesis using that by (metis prod.collapse)
qed

lemma sample_custom:
  "EvaluateCustomRules ascii_tables (sample_app mode) (request_context_of (sample_request path) ip host) =
     (if prefix ''/admin'' path then
        annotate (hd (app_CustomRules (sample_app mode))) [''custom_rule''] (WithStatus (d_Block ''custom_rule'' ''no-admin'') 451)
      else if prefix ''/'' path then
        annotate (hd (tl (app_CustomRules (sample_app mode)))) [''custom_rule''] (d_Count ''custom_rule'' ''count-all'')
      else d_Allow)"
  by (simp add: EvaluateCustomRules_def sample_app_def sample_condition_def go_HasPrefix_def action_defs
      request_context_of_def sample_request_def annotate_def zero_decision_def d_Count_def)

lemma sample_decision_admin:
  "decision_for sample_ops sample_gateway ascii_tables sample_readings (sample_request ''/admin'')
     (sample_state (sample_app mode)) (sample_app mode) =
   Some (EvaluateCustomRules ascii_tables (sample_app mode)
     (request_context_of (sample_request ''/admin'') (IPv4 0xC6336407) ''shop.example''))"
proof -
  let ?a = "sample_app mode" and ?r = "sample_request ''/admin''" and ?ip = "IPv4 0xC6336407"
  obtain l' where rate: "evaluateRateLimits (op_check sample_ops) ?a (rl_request_of ?r ?ip ''shop.example'')
      (app_RateLimits ?a) NewMemoryStore = (Ret d_Allow, l')" by (rule sample_rate_limits)
  have "decide sample_ops ascii_tables ?a ?r ?ip ''shop.example'' i [] False NewMemoryStore () =
      (Ret (Inr (EvaluateCustomRules ascii_tables ?a (request_context_of ?r ?ip ''shop.example''))), l', ())" for i
    by (rule decide_custom_block [OF _ rate]) (simp_all add: sample_ip_allowed sample_custom annotate_def)
  then show ?thesis
    by (simp add: decision_for_def prepareRequestBody_def sample_client_ip sample_state_def sample_plain_host)
qed

lemma sample_quiet: "audit_quiet sample_ops (gs_audit (sample_state a))"
  by (simp add: audit_quiet_def sample_ops_def limited_ops_def sample_state_def sample_dispatcher_def disp_Log_def
      count_action_def Let_def)

section \<open>Blocking and forwarding\<close>

text \<open>
  C1: A request that an app in block mode judges harmful never reaches the origin. The client
  gets the configured status (403 by default) and the JSON error with the request id, and the
  audit event says enforced, with the same status, action and reason.
\<close>

theorem harmful_request_blocked:
  assumes "routed ops u r s a" and "decision_for ops g u rd r s a = Some d"
    and "app_Mode a = ModeBlock" "WouldBlock d" "200 \<le> block_status d" "block_status d \<le> 999"
    and "audit_quiet ops (gs_audit s)"
  shows "plain_response (block_status d) ''request blocked'' (requestID rd) (rn_w (ServeHTTP ops g u rq sc rd r s)) \<and>
    gs_origin (ServeHTTP ops g u rq sc rd r s) = gs_origin s \<and>
    gs_audit (ServeHTTP ops g u rq sc rd r s) =
      audit_after ops (rn_event (ServeHTTP ops g u rq sc rd r s)) (gs_audit s) \<and>
    ev_Status (rn_event (ServeHTTP ops g u rq sc rd r s)) = block_status d \<and>
    ev_Enforced (rn_event (ServeHTTP ops g u rq sc rd r s)) \<and>
    ev_Action (rn_event (ServeHTTP ops g u rq sc rd r s)) = Action d \<and>
    ev_Reason (rn_event (ServeHTTP ops g u rq sc rd r s)) = Reason d"
  by (rule blocked_request [OF assms, of rq sc]) simp

theorem harmful_request_blocked_witness:
  "final_status (rn_w (ServeHTTP sample_ops sample_gateway ascii_tables id (\<lambda>_. new_response) sample_readings
       (sample_request ''/admin'') (sample_state (sample_app ''block'')))) = 451 \<and>
   gs_origin (ServeHTTP sample_ops sample_gateway ascii_tables id (\<lambda>_. new_response) sample_readings
       (sample_request ''/admin'') (sample_state (sample_app ''block''))) = 0"
proof -
  let ?d = "EvaluateCustomRules ascii_tables (sample_app ''block'')
     (request_context_of (sample_request ''/admin'') (IPv4 0xC6336407) ''shop.example'')"
  have d: "WouldBlock ?d" "StatusCode ?d = 451" by (simp_all add: sample_custom annotate_def WouldBlock_def)
  have m: "app_Mode (sample_app ''block'') = ModeBlock" by (simp add: sample_app_def mode_defs)
  have "routed sample_ops ascii_tables (sample_request ''/admin'') (sample_state (sample_app ''block'')) (sample_app ''block'')"
    by (rule sample_routed) simp_all
  from harmful_request_blocked [OF this sample_decision_admin m d(1) _ _ sample_quiet, of id "\<lambda>_. new_response"]
  show ?thesis by (simp add: block_status_def d plain_response_def) (simp add: sample_state_def)
qed



text \<open>
  C3: A request is judged harmful exactly when one of the stages says so: its address is blocked
  by the IP lists, a rate limit blocks it, its body exceeds the limit, a custom rule or the WAF
  blocks it, or the default action is block and no terminal-allow rule matched.
\<close>

theorem harmful_iff_some_stage_blocks:
  assumes "evaluateRateLimits (op_check ops) a (rl_request_of r ip host) (app_RateLimits a) l = (Ret d, l')"
    and "op_inspect ops r p (policy_context_of i a host ip) x = (Inr w, x')"
  shows "\<exists>final. fst (decide ops u a r ip host i p ex l x) = Ret (Inr final) \<and>
    (WouldBlock final \<longleftrightarrow>
       WouldBlock (EvaluateIP a ip) \<or> WouldBlock d \<or> ex \<or>
       WouldBlock (EvaluateCustomRules u a (request_context_of r ip host)) \<or>
       (\<exists>wd. w = Some wd \<and> WouldBlock wd) \<or>
       app_DefaultAction a = ActionBlock \<and>
         Reason (EvaluateCustomRules u a (request_context_of r ip host)) \<noteq> ''custom_rule_allow'')"
  by (rule decide_WouldBlock_iff [OF assms])

theorem harmful_iff_some_stage_blocks_witness:
  "\<exists>final. fst (decide sample_ops ascii_tables (sample_app ''block'') (sample_request ''/admin'') (IPv4 0xC6336407)
      ''shop.example'' ''id'' [] False NewMemoryStore ()) = Ret (Inr final) \<and> WouldBlock final"
proof -
  obtain l' where rate: "evaluateRateLimits (op_check sample_ops) (sample_app ''block'')
      (rl_request_of (sample_request ''/admin'') (IPv4 0xC6336407) ''shop.example'')
      (app_RateLimits (sample_app ''block'')) NewMemoryStore = (Ret d_Allow, l')" by (rule sample_rate_limits)
  have waf: "op_inspect sample_ops r p px () = (Inr (Some d_Allow), ())" for r p px
    by (simp add: sample_ops_def limited_ops_def allow_InspectRequest_def)
  have "WouldBlock (EvaluateCustomRules ascii_tables (sample_app ''block'')
      (request_context_of (sample_request ''/admin'') (IPv4 0xC6336407) ''shop.example''))"
    by (simp add: sample_custom annotate_def WouldBlock_def)
  then show ?thesis using harmful_iff_some_stage_blocks [OF rate waf, where u = ascii_tables and ex = False] by blast
qed

section \<open>No panic, one truthful event per request\<close>









section \<open>Body and client address\<close>



text \<open>
  C32: A client cannot choose its own address: unless the connection comes from a trusted proxy,
  every request on it has the address of the connection, whatever its headers say.
\<close>

theorem forwarded_for_needs_trusted_proxy:
  assumes "\<not> containsAddr (gw_trustedProxies g) (parseRemoteAddr (rq_RemoteAddr r))"
  shows "clientIP g (r\<lparr>rq_Header := h\<rparr>) = parseRemoteAddr (rq_RemoteAddr r)"
  using clientIP_untrusted [of g "r\<lparr>rq_Header := h\<rparr>"] assms by simp

theorem forwarded_for_needs_trusted_proxy_witness:
  "clientIP sample_gateway ((sample_request ''/'')\<lparr>rq_Header := [(''X-Forwarded-For'', [''10.0.0.1''])]\<rparr>) =
   parseRemoteAddr (rq_RemoteAddr (sample_request ''/''))"
  by (rule forwarded_for_needs_trusted_proxy) (simp add: sample_gateway_def containsAddr_def)

section \<open>Surprising behaviours\<close>

lemma recover_500:
  assumes "\<not> wrote_header w"
  obtains w' where "writeJSONError 500 [] ''internal server error'' w = Ret w'" "final_status w' = 500"
  using assms that
  by (simp add: writeJSONError_def resp_WriteHeader_def final_status_def)

text \<open>
  C40: Rule statuses from 1 to 199 pass validation but cannot be sent. A harmful request in block
  mode whose rule has a status below 100 ends in a recovered panic: the client gets 500, while
  the audit event records the rule's status. A status from 100 to 199 (other than 101) is sent as
  an informational response, and the client's final status is 200. Either way the origin is not
  reached.
\<close>

theorem unsendable_status_not_delivered:
  assumes "routed ops u r s a" and "decision_for ops g u rd r s a = Some d"
    and "app_Mode a = ModeBlock" "WouldBlock d" "0 < StatusCode d" "StatusCode d \<le> 199" "StatusCode d \<noteq> 101"
    and "audit_quiet ops (gs_audit s)"
  shows "final_status (rn_w (ServeHTTP ops g u rq sc rd r s)) = (if StatusCode d < 100 then 500 else 200) \<and>
    ev_Status (rn_event (ServeHTTP ops g u rq sc rd r s)) = StatusCode d \<and>
    gs_origin (ServeHTTP ops g u rq sc rd r s) = gs_origin s"
proof -
  obtain rn0 where S: "ServeHTTP ops g u rq sc rd r s =
      recover_panic (with_event_log ops rd (enforce ops rd (requestID rd) a d (record_decision a d rn0)))"
    and rn0: "rn_w rn0 = new_response" "gs_origin rn0 = gs_origin s" "gs_audit rn0 = gs_audit s"
    using serve_routed [OF assms(1,2)] by metis
  let ?w1 = "resp_SetHeader ''Content-Type'' ''application/json'' new_response"
  let ?w2 = "if StatusCode d < 100 then ?w1 else resp_Write (json_error ''request blocked'' (requestID rd)) ?w1"
  let ?rn1 = "(record_decision a d rn0)\<lparr>rn_status := StatusCode d, rn_w := ?w2\<rparr>"
  have nw: "\<not> wrote_header new_response" by (simp add: new_response_def)
  have E: "enforce ops rd (requestID rd) a d (record_decision a d rn0) =
      (if StatusCode d < 100 then Panic else Ret (), ?rn1)"
    using assms(3-7) WouldBlock_not_allow [OF assms(4)] nw
    by (auto simp: enforce_def rec_writeJSONError_def rec_WriteHeader_def resp_WriteHeader_def rec_Write_def rn0)
  have "audit_quiet ops (gs_audit ?rn1)" using assms(8) rn0 by simp
  from log_event_quiet [OF this, of rd] obtain rn2 where L: "log_event ops rd ?rn1 = (Ret (), rn2)" "rn_w rn2 = ?w2"
    "gs_origin rn2 = gs_origin s" "rn_event rn2 = logged_event rd ?rn1"
    using rn0 by auto
  have st: "ev_Status (rn_event rn2) = StatusCode d" by (simp add: L(4) logged_event_def)
  show ?thesis
  proof (cases "StatusCode d < 100")
    case True
    then have "\<not> wrote_header (rn_w rn2)" using nw by (simp add: L(2))
    from recover_500 [OF this] obtain w' where w': "writeJSONError 500 [] ''internal server error'' (rn_w rn2) = Ret w'"
      "final_status w' = 500" by blast
    have "ServeHTTP ops g u rq sc rd r s = rn2\<lparr>rn_w := w'\<rparr>"
      unfolding S E using True L(1) w'(1) by (simp add: with_event_log_def recover_panic_def)
    then show ?thesis using True w'(2) st L(3) by simp
  next
    case False
    then have "ServeHTTP ops g u rq sc rd r s = rn2"
      unfolding S E using L(1) by (simp add: with_event_log_def recover_panic_def)
    moreover have "final_status ?w2 = 200"
      using False nw by (simp add: final_status_def resp_Write_def Let_def)
    ultimately show ?thesis using False L st by simp
  qed
qed

text \<open>The sample app with a blocking rule whose status is 42.\<close>

definition sample_low_app :: app where
  "sample_low_app = (sample_app ''block'')\<lparr>app_RateLimits := [],
     app_CustomRules := [(hd (app_CustomRules (sample_app ''block'')))\<lparr>cr_StatusCode := 42\<rparr>]\<rparr>"

theorem unsendable_status_not_delivered_witness:
  "final_status (rn_w (ServeHTTP sample_ops sample_gateway ascii_tables id (\<lambda>_. new_response) sample_readings
       (sample_request ''/admin'') (sample_state sample_low_app))) = 500"
proof -
  let ?c = "request_context_of (sample_request ''/admin'') (IPv4 0xC6336407) ''shop.example''"
  have c: "Action (EvaluateCustomRules ascii_tables sample_low_app ?c) = ActionBlock"
    "StatusCode (EvaluateCustomRules ascii_tables sample_low_app ?c) = 42"
    by (simp_all add: EvaluateCustomRules_def sample_low_app_def sample_app_def sample_condition_def go_HasPrefix_def
        action_defs request_context_of_def sample_request_def annotate_def)
  have rate: "evaluateRateLimits (op_check sample_ops) sample_low_app req (app_RateLimits sample_low_app) l = (Ret d_Allow, l)" for req l
    by (simp add: sample_low_app_def)
  have ip: "EvaluateIP sample_low_app (IPv4 0xC6336407) = d_Allow"
    by (simp add: EvaluateIP_def sample_low_app_def sample_app_def)
  have "decide sample_ops ascii_tables sample_low_app (sample_request ''/admin'') (IPv4 0xC6336407) ''shop.example'' i [] False l x =
      (Ret (Inr (EvaluateCustomRules ascii_tables sample_low_app ?c)), l, x)" for i l x
    by (rule decide_custom_block [OF _ rate]) (simp_all add: ip c)
  then have d: "decision_for sample_ops sample_gateway ascii_tables sample_readings (sample_request ''/admin'')
      (sample_state sample_low_app) sample_low_app = Some (EvaluateCustomRules ascii_tables sample_low_app ?c)"
    by (simp add: decision_for_def prepareRequestBody_def sample_client_ip sample_plain_host)
  have r: "routed sample_ops ascii_tables (sample_request ''/admin'') (sample_state sample_low_app) sample_low_app"
    by (rule sample_routed) simp_all
  show ?thesis
    using unsendable_status_not_delivered [OF r d _ _ _ _ _ sample_quiet, of id "\<lambda>_. new_response"] c
    by (simp add: WouldBlock_def) (simp add: sample_low_app_def sample_app_def mode_defs)
qed

text \<open>
  C39: A lookup marked fail-open does not let the request through: the client gets an empty 200
  response, the origin is not asked, and the event says that the request was allowed.
\<close>

theorem fail_open_answers_without_origin:
  assumes "rq_Path r \<noteq> ''/healthz''" "rq_Path r \<noteq> ''/metrics''" "ValidHost u (NormalizeHost u (rq_Host r))"
    and "lr_FailOpen (fst (op_lookup ops (NormalizeHost u (rq_Host r)) (gs_prov s)))"
    and "audit_quiet ops (gs_audit s)"
  shows "final_status (rn_w (ServeHTTP ops g u rq sc rd r s)) = 200 \<and>
    resp_body (rn_w (ServeHTTP ops g u rq sc rd r s)) = [] \<and>
    gs_origin (ServeHTTP ops g u rq sc rd r s) = gs_origin s \<and>
    ev_Action (rn_event (ServeHTTP ops g u rq sc rd r s)) = ActionAllow"
proof -
  let ?host = "NormalizeHost u (rq_Host r)"
  let ?rn0 = "start_run s (new_event rq rd (requestID rd) ?host (clientIP g r) r) r"
  obtain lk p' where lk: "op_lookup ops ?host (gs_prov s) = (lk, p')" by fastforce
  obtain rn1 where H: "serve_host ops g u rd (requestID rd) (clientIP g r) ?host ?rn0 = (Ret (), rn1)"
    and rn1: "rn_w rn1 = new_response" "gs_origin rn1 = gs_origin s" "gs_audit rn1 = gs_audit s"
      "ev_Action (rn_event rn1) = ActionAllow"
    using assms(4) lk by (simp add: serve_host_def Let_def start_run_def)
  have "audit_quiet ops (gs_audit rn1)" using assms(5) rn1 by simp
  then show ?thesis
  proof (rule served_quietly [OF H, of ops rd])
    fix rn'
    assume "recover_panic (with_event_log ops rd (serve_host ops g u rd (requestID rd) (clientIP g r) ?host ?rn0)) = rn'"
      "rn_w rn' = rn_w rn1" "gs_origin rn' = gs_origin rn1" "rn_event rn' = logged_event rd rn1"
    then show ?thesis
      using assms(1-3) rn1 by (simp add: ServeHTTP_def Let_def logged_event_def final_status_def new_response_def)
  qed
qed

definition sample_open_ops :: "(unit, memory_store, unit, dispatcher \<times> metrics, nat) ops" where
  "sample_open_ops = \<lparr>op_lookup = (\<lambda>h s. (fail_result \<lparr>pv_ttl = 30, pv_failBehavior = FailOpen\<rparr>, s)),
     op_check = noop_Check, op_inspect = allow_InspectRequest, op_audit = None, op_origin = sample_origin\<rparr>"

definition sample_open_state :: "(unit, memory_store, unit, dispatcher \<times> metrics, nat) gw_state" where
  "sample_open_state = \<lparr>gs_prov = (), gs_limiter = NewMemoryStore, gs_waf = (),
     gs_audit = (sample_dispatcher, init_metrics), gs_origin = 0, gs_metrics = init_metrics\<rparr>"

theorem fail_open_answers_without_origin_witness:
  "gs_origin (ServeHTTP sample_open_ops sample_gateway ascii_tables id (\<lambda>_. new_response) sample_readings
     (sample_request ''/cart'') sample_open_state) = 0"
proof -
  have p: "rq_Path (sample_request ''/cart'') = ''/cart''" by (simp add: sample_request_def)
  have "lr_FailOpen (fst (op_lookup sample_open_ops h (gs_prov sample_open_state)))" for h
    by (simp add: sample_open_ops_def fail_result_def FailOpen_def FailClosed_def zero_lookup_def)
  moreover have "audit_quiet sample_open_ops (gs_audit sample_open_state)"
    by (simp add: audit_quiet_def sample_open_ops_def)
  ultimately show ?thesis
    using fail_open_answers_without_origin [of "sample_request ''/cart''" ascii_tables sample_open_ops sample_open_state
        sample_gateway id "\<lambda>_. new_response" sample_readings]
    by (simp add: p sample_plain_host sample_valid sample_open_state_def)
qed

text \<open>
  An address forwarded by a trusted proxy in its IPv4-mapped IPv6 form is not matched
  against IPv4 prefixes: the sample app blocks 10.1.2.3 but allows \<open>::ffff:10.1.2.3\<close>.
\<close>

theorem mapped_address_escapes_blocklist:
  "WouldBlock (EvaluateIP (sample_app ''block'') (IPv4 0x0A010203)) \<and>
   clientIP (sample_gateway\<lparr>gw_trustedProxies := [Prefix (IPv4 0xC6336400) 24]\<rparr>)
     ((sample_request ''/'')\<lparr>rq_Header := [(''X-Forwarded-For'', [''::ffff:10.1.2.3''])]\<rparr>) = IPv6 0xFFFF0A010203 [] \<and>
   EvaluateIP (sample_app ''block'') (IPv6 0xFFFF0A010203 []) = d_Allow"
proof -
  let ?r = "(sample_request ''/'')\<lparr>rq_Header := [(''X-Forwarded-For'', [''::ffff:10.1.2.3''])]\<rparr>"
  let ?g = "sample_gateway\<lparr>gw_trustedProxies := [Prefix (IPv4 0xC6336400) 24]\<rparr>"
  have "WouldBlock (EvaluateIP (sample_app ''block'') (IPv4 0x0A010203))"
    by (simp add: EvaluateIP_def sample_app_def)
  moreover have "clientIP ?g ?r = IPv6 0xFFFF0A010203 []"
  proof (rule clientIP_forwarded [where first = "''::ffff:10.1.2.3''" and rest = "[]"])
    have "parseRemoteAddr (rq_RemoteAddr ?r) = IPv4 0xC6336407"
      using sample_client_ip [of "''/''"] by (simp add: clientIP_def sample_gateway_def Let_def)
    then show "containsAddr (gw_trustedProxies ?g) (parseRemoteAddr (rq_RemoteAddr ?r))"
      by (simp add: containsAddr_def)
    show "header_Get (rq_Header ?r) ''X-Forwarded-For'' = ''::ffff:10.1.2.3'' @ []"
      by (simp add: go_eval Let_def char_of_def bit_0)
    have "go_TrimSpace ''::ffff:10.1.2.3'' = ''::ffff:10.1.2.3''"
      by (rule TrimSpace_ascii_id) (simp_all add: go_eval ascii_spaces_def)
    moreover have "replicate 5 (0 :: nat) = [0, 0, 0, 0, 0]" by (simp add: eval_nat_numeral)
    ultimately show "ParseAddr (go_TrimSpace ''::ffff:10.1.2.3'') = Some (IPv6 0xFFFF0A010203 [])"
      using ipv6_groups.simps(2) [of 7] ipv6_groups.simps(2) [of 6]
      by (simp add: netip_eval go_eval Let_def)
  qed simp_all
  moreover have "EvaluateIP (sample_app ''block'') (IPv6 0xFFFF0A010203 []) = d_Allow"
    by (simp add: EvaluateIP_def sample_app_def)
  ultimately show ?thesis by blast
qed

end
