(* ===== verification/Gateway_Main.thy ===== *)
theory Gateway_Main
  imports Gateway_Properties
begin

text \<open>
  The gateway's \<open>main.go\<close>: the choice of provider and WAF engine, the timeouts and the start-up
  sequence up to the point where the server listens; what follows is in \<open>Gateway_Process\<close>.
\<close>

section \<open>Helpers\<close>

definition durationMillis :: "int \<Rightarrow> int" where
  "durationMillis value = (if value \<le> 0 then 0 else wrap64 (value * 1000000))"

definition defaultConfigPath :: "string \<Rightarrow> string" where
  "defaultConfigPath env = (if env \<noteq> [] then env else ''config.example.yaml'')"

datatype provider_kind = RemoteProvider client provider_config | StaticProvider store

datatype waf_kind = AllowAll | Coraza string "string list" string

datatype startup_error =
    LoadConfigFailed load_error
  | ControlClientInvalid
  | StoreFailed app_error
  | CorazaFailed
  | WAFEngineUnsupported string
  | ClickHouseSinkFailed
  | DispatcherFailed dispatcher_error
  | GatewayFailed gateway_error

definition buildPolicyProvider :: "unicode \<Rightarrow> url_parser \<Rightarrow> config \<Rightarrow> startup_error + provider_kind" where
  "buildPolicyProvider u parse cfg =
     (if capi_Enabled (ControlAPI cfg) then
        (case NewClient parse (ControlAPI cfg) of
           None \<Rightarrow> Inl ControlClientInvalid
         | Some c \<Rightarrow> Inr (RemoteProvider c (NewProvider (ControlAPI cfg))))
      else
        (case NewStore u parse (Apps cfg) of
           Inl e \<Rightarrow> Inl (StoreFailed e)
         | Inr s \<Rightarrow> Inr (StaticProvider s)))"

text \<open>\<open>load\<close> is \<open>coraza.NewWAF\<close>: whether the library accepts the directives and the file.\<close>

definition buildWAF :: "(string list \<Rightarrow> string \<Rightarrow> bool) \<Rightarrow> config \<Rightarrow> startup_error + waf_kind" where
  "buildWAF load cfg =
     (let w = WAF cfg; ds = coraza_directives (waf_RuleEngine w) (RequestBodyLimitBytes w) in
      if \<not> waf_Enabled w then Inr AllowAll
      else if waf_Engine w = ''coraza'' then
        (if load ds (DirectivesFile w) then Inr (Coraza (waf_RuleEngine w) ds (DirectivesFile w))
         else Inl CorazaFailed)
      else Inl (WAFEngineUnsupported (waf_Engine w)))"

record started =
  st_config :: config
  st_provider :: provider_kind
  st_limiter :: limiter_kind
  st_waf :: waf_kind
  st_clickhouse :: "clickhouse_sink option"
  st_dispatcher :: dispatcher
  st_gateway :: gateway
  st_readHeaderTimeout :: int
  st_readTimeout :: int
  st_writeTimeout :: int
  st_idleTimeout :: int

definition build_clickhouse ::
  "(string \<Rightarrow> (string \<times> string \<times> string) option) \<Rightarrow> clickhouse_config \<Rightarrow> startup_error + clickhouse_sink option" where
  "build_clickhouse parseText c =
     (if ch_Enabled c then
        (case NewClickHouseSink parseText (ch_URL c) (ch_Database c) (ch_Username c) (ch_Password c) of
           None \<Rightarrow> Inl ClickHouseSinkFailed
         | Some s \<Rightarrow> Inr (Some s))
      else Inr None)"

text \<open>
  The start-up sequence after the configuration is loaded; \<open>sinks\<close> are the JSON sink and, when
  enabled, the ClickHouse sink.
\<close>

definition start_gateway ::
  "unicode \<Rightarrow> url_parser \<Rightarrow> (string \<Rightarrow> (string \<times> string \<times> string) option) \<Rightarrow> (string list \<Rightarrow> string \<Rightarrow> bool)
   \<Rightarrow> (clickhouse_sink option \<Rightarrow> 'w sink list) \<Rightarrow> config \<Rightarrow> startup_error + started" where
  "start_gateway u parse parseText load sinks cfg =
     (case buildPolicyProvider u parse cfg of Inl e \<Rightarrow> Inl e | Inr provider \<Rightarrow>
     (case buildWAF load cfg of Inl e \<Rightarrow> Inl e | Inr wafEngine \<Rightarrow>
     (case build_clickhouse parseText (ClickHouse cfg) of Inl e \<Rightarrow> Inl e | Inr clickHouse \<Rightarrow>
     (case NewDispatcher 1024 (sinks clickHouse) of Inl e \<Rightarrow> Inl (DispatcherFailed e) | Inr d \<Rightarrow>
     (case NewGateway cfg True True True True of Inl e \<Rightarrow> Inl (GatewayFailed e) | Inr (g, _) \<Rightarrow>
        Inr \<lparr>st_config = cfg, st_provider = provider, st_limiter = FromConfig (Redis cfg),
             st_waf = wafEngine, st_clickhouse = clickHouse, st_dispatcher = d, st_gateway = g,
             st_readHeaderTimeout = durationMillis (ReadHeaderTimeoutMillis (Server cfg)),
             st_readTimeout = durationMillis (ReadTimeoutMillis (Server cfg)),
             st_writeTimeout = durationMillis (WriteTimeoutMillis (Server cfg)),
             st_idleTimeout = durationMillis (IdleTimeoutMillis (Server cfg))\<rparr>)))))"

definition main_start ::
  "unicode \<Rightarrow> url_parser \<Rightarrow> (string \<Rightarrow> (string \<times> string \<times> string) option) \<Rightarrow> (string list \<Rightarrow> string \<Rightarrow> bool)
   \<Rightarrow> (clickhouse_sink option \<Rightarrow> 'w sink list) \<Rightarrow> (string \<Rightarrow> string option) \<Rightarrow> (string \<Rightarrow> string)
   \<Rightarrow> (string \<Rightarrow> config option) \<Rightarrow> string \<Rightarrow> startup_error + started" where
  "main_start u parse parseText load sinks read expand decode path =
     (case LoadFile parse read expand decode path of
        Inl e \<Rightarrow> Inl (LoadConfigFailed e)
      | Inr cfg \<Rightarrow> start_gateway u parse parseText load sinks cfg)"

section \<open>Facts\<close>

lemma LoadFile_Inr:
  assumes "LoadFile parse read expand decode path = Inr cfg"
  shows "validate parse cfg = None" "applyDefaults cfg = cfg"
  using assms applyDefaults_idem
  by (auto simp: LoadFile_def Let_def split: option.splits)

lemma valid_waf_builds:
  assumes "validate parse cfg = None"
  shows "(\<exists>w. buildWAF load cfg = Inr w) \<longleftrightarrow>
    (waf_Enabled (WAF cfg) \<longrightarrow>
       load (coraza_directives (waf_RuleEngine (WAF cfg)) (RequestBodyLimitBytes (WAF cfg))) (DirectivesFile (WAF cfg)))"
  using assms by (auto simp: validate_None_iff buildWAF_def Let_def validate_waf_def split: if_splits)

lemma trusted_parse:
  "(\<exists>ps. parseTrustedProxies vs = Inr ps) \<longleftrightarrow> list_all (\<lambda>v. ParsePrefix v \<noteq> None) vs"
  by (induction vs) (auto simp: parseTrustedProxies_def split: option.splits sum.splits)

text \<open>What a started gateway has in hand.\<close>

lemma start_gateway_Inr:
  assumes "start_gateway u parse parseText load sinks cfg = Inr st"
  shows "buildPolicyProvider u parse cfg = Inr (st_provider st)" "st_config st = cfg"
    "parseTrustedProxies (TrustedProxies (Server cfg)) = Inr (gw_trustedProxies (st_gateway st))"
    "gw_cfg (st_gateway st) = cfg" "\<not> closed (st_dispatcher st)" "capacity (st_dispatcher st) = 1024"
    "buildWAF load cfg = Inr (st_waf st)"
  using assms
  by (auto simp: start_gateway_def NewGateway_def NewDispatcher_def split: sum.splits if_splits prod.splits)

lemma static_provider_wf:
  "buildPolicyProvider u parse cfg = Inr (StaticProvider s) \<Longrightarrow> wf_store s"
  by (auto simp: buildPolicyProvider_def NewStore_wf split: if_splits option.splits sum.splits)

section \<open>Properties\<close>

text \<open>
  C29: A gateway that starts from a configuration file runs a configuration that passed
  validation and is a fixed point of the defaults: every app has an id, a host name and mode
  count or block; with static policies every app in the host table is well formed; the trusted
  proxies are the configured prefixes; and the audit dispatcher is open with room for 1024 events.
\<close>

theorem started_gateway_sound:
  assumes "main_start u parse parseText load sinks read expand decode path = Inr st"
  shows "validate parse (st_config st) = None \<and> applyDefaults (st_config st) = st_config st \<and>
    list_all (\<lambda>a. ac_ID a \<noteq> [] \<and> ac_Hostnames a \<noteq> [] \<and> pc_Mode (ac_Policy a) \<in> {ModeCount, ModeBlock})
      (Apps (st_config st)) \<and>
    (\<forall>s. st_provider st = StaticProvider s \<longrightarrow> wf_store s) \<and>
    parseTrustedProxies (TrustedProxies (Server (st_config st))) = Inr (gw_trustedProxies (st_gateway st)) \<and>
    \<not> closed (st_dispatcher st) \<and> capacity (st_dispatcher st) = 1024"
proof -
  from assms obtain cfg where L: "LoadFile parse read expand decode path = Inr cfg"
    and S: "start_gateway u parse parseText load sinks cfg = Inr st"
    by (auto simp: main_start_def split: sum.splits)
  note I = start_gateway_Inr [OF S] and V = LoadFile_Inr [OF L]
  have "list_all (\<lambda>a. ac_ID a \<noteq> [] \<and> ac_Hostnames a \<noteq> [] \<and> pc_Mode (ac_Policy a) \<in> {ModeCount, ModeBlock}) (Apps cfg)"
    using V(1) by (auto simp: validate_None_iff list_all_iff validate_app_def Let_def mode_defs split: if_splits)
  then show ?thesis using I V static_provider_wf [of u parse cfg] by auto
qed

text \<open>The sample configuration starts.\<close>

definition sample_file :: "string \<Rightarrow> config option" where
  "sample_file s = (if s = ''sample'' then Some (sample_cfg 0) else None)"

lemma sample_valid_config: "validate sample_parse (applyDefaults (sample_cfg 0)) = None"
  by (simp add: validate_None_iff applyDefaults_def sample_cfg_def default_defs or_default_def int_default_def
      validate_app_def validate_server_def validate_waf_def sample_config_def sample_policy_def sample_parse_def bad_url_def Let_def)

lemma sample_newApp_defaults:
  "newApp sample_parse (default_app (sample_config ''block'')) =
    Inr ((sample_app ''block'')\<lparr>app_CustomRules :=
      [hd (app_CustomRules (sample_app ''block'')), (hd (tl (app_CustomRules (sample_app ''block''))))\<lparr>cr_StatusCode := 403\<rparr>]\<rparr>)"
  by (simp add: newApp_def sample_config_def sample_policy_def sample_parse_def Let_def parseIPSets_def default_defs
      or_default_def int_default_def
      parseCustomRules_def sample_rule_def parse_custom_rule_def action_defs parseRateLimitRules_def
      sample_limit_def parse_rate_limit_def rate_key_types_def parse_match_expression_def hasCondition_def
      operators_set_def empty_condition_config_def build_app_def sample_app_def)

lemma sample_starts:
  "\<exists>st. main_start ascii_tables sample_parse (\<lambda>_. None) (\<lambda>_ _. True) (\<lambda>_. [sample_sink]) (\<lambda>p. Some p) id sample_file ''sample'' = Inr st"
proof -
  let ?cfg = "applyDefaults (sample_cfg 0)"
  have L: "LoadFile sample_parse (\<lambda>p. Some p) id sample_file ''sample'' = Inr ?cfg"
    using sample_valid_config by (simp add: LoadFile_def sample_file_def Let_def)
  have apps: "Apps ?cfg = [default_app (sample_config ''block'')]" by (simp add: applyDefaults_def sample_cfg_def)
  have "cfg_hosts ascii_tables (default_app (sample_config ''block'')) = [''shop.example'']"
    by (simp add: cfg_hosts_def default_app_def sample_config_def sample_host)
  then obtain s where "NewStore ascii_tables sample_parse (Apps ?cfg) = Inr s"
    using NewStore_Inr_iff [of ascii_tables sample_parse "Apps ?cfg"] sample_newApp_defaults apps by auto
  moreover have "\<not> capi_Enabled (ControlAPI ?cfg)" "\<not> ch_Enabled (ClickHouse ?cfg)" "TrustedProxies (Server ?cfg) = []"
    "waf_Engine (WAF ?cfg) = ''coraza''"
    by (simp_all add: applyDefaults_def sample_cfg_def default_defs or_default_def)
  ultimately show ?thesis
    by (simp add: main_start_def L start_gateway_def buildPolicyProvider_def buildWAF_def Let_def build_clickhouse_def
        NewDispatcher_def NewGateway_def parseTrustedProxies_def)
qed

theorem started_gateway_sound_witness:
  "\<exists>st. main_start ascii_tables sample_parse (\<lambda>_. None) (\<lambda>_ _. True) (\<lambda>_. [sample_sink]) (\<lambda>p. Some p) id sample_file ''sample''
      = Inr st \<and> validate sample_parse (st_config st) = None"
  using sample_starts started_gateway_sound by blast

end
