(* ===== verification/Service_Lifecycle.thy ===== *)
theory Service_Lifecycle
  imports Go_Prelude
begin

text \<open>
  The life of a service process, common to the three \<open>main\<close> functions: serve until a signal
  arrives, let \<open>http.Server.Shutdown\<close> wait for the running requests, flush what the service
  buffers, and exit. What a service does meanwhile is given by a record of its own steps; the
  locale \<open>graceful_service\<close> states what they have to satisfy and derives what a process that
  exits with status 0 has done, and that it can always get there.
\<close>

section \<open>Processes\<close>

datatype phase = Serving | Draining | Flushing | Exited int

text \<open>
  \<open>sv_accept\<close> starts a request; \<open>sv_work\<close> is a step of a goroutine that is already running;
  \<open>sv_idle\<close> says that no request is running; \<open>sv_close\<close> is what \<open>main\<close> begins once the server has
  shut down, if anything, and \<open>sv_flushed\<close> says that it has come to its end.
\<close>

record 's service =
  sv_accept :: "'s \<Rightarrow> 's \<Rightarrow> bool"
  sv_work :: "'s \<Rightarrow> 's \<Rightarrow> bool"
  sv_idle :: "'s \<Rightarrow> bool"
  sv_close :: "('s \<Rightarrow> 's) option"
  sv_flushed :: "'s \<Rightarrow> bool"

text \<open>
  The documented behaviour of \<open>net/http\<close>: \<open>Shutdown\<close> returns no error once every request has been
  answered, also those that arrived on open connections in the meantime, and an error when its
  context ends first. \<open>ListenAndServe\<close> may fail at any time before the server has shut down.
\<close>

inductive process_step :: "'s service \<Rightarrow> phase \<times> 's \<Rightarrow> phase \<times> 's \<Rightarrow> bool" for S where
  accept: "ph \<in> {Serving, Draining} \<Longrightarrow> sv_accept S s s' \<Longrightarrow> process_step S (ph, s) (ph, s')"
| work: "ph \<in> {Serving, Draining, Flushing} \<Longrightarrow> sv_work S s s' \<Longrightarrow> process_step S (ph, s) (ph, s')"
| listen_failed: "ph \<in> {Serving, Draining} \<Longrightarrow> process_step S (ph, s) (Exited 1, s)"
| signal: "process_step S (Serving, s) (Draining, s)"
| drained: "sv_idle S s \<Longrightarrow> sv_close S = Some close \<Longrightarrow> process_step S (Draining, s) (Flushing, close s)"
| drained_exit: "sv_idle S s \<Longrightarrow> sv_close S = None \<Longrightarrow> process_step S (Draining, s) (Exited 0, s)"
| drain_timeout: "process_step S (Draining, s) (Exited 1, s)"
| flushed: "sv_flushed S s \<Longrightarrow> process_step S (Flushing, s) (Exited 0, s)"
| flush_timeout: "process_step S (Flushing, s) (Exited 1, s)"

inductive_cases process_stepE: "process_step S p q"
inductive_simps exited_step [simp]: "process_step S (Exited c, s) q"

abbreviation process_run :: "'s service \<Rightarrow> phase \<times> 's \<Rightarrow> phase \<times> 's \<Rightarrow> bool" where
  "process_run S \<equiv> (process_step S)\<^sup>*\<^sup>*"

text \<open>An exit is final.\<close>

lemma exited_final: "process_run S (Exited c, s) q \<Longrightarrow> q = (Exited c, s)"
  by (erule converse_rtranclpE) auto

section \<open>Services that shut down gracefully\<close>

text \<open>
  No request starts while the service is closing. A running request can always finish, closing leaves no request behind, and once the service is
  closing its goroutines can always bring the flush to its end; \<open>rank\<close> bounds how long that takes.
\<close>

locale graceful_service =
  fixes S :: "'s service" and inv closing :: "'s \<Rightarrow> bool" and rank :: "'s \<Rightarrow> nat"
  assumes accept_inv: "inv s \<Longrightarrow> \<not> closing s \<Longrightarrow> sv_accept S s s' \<Longrightarrow> inv s' \<and> \<not> closing s'"
    and work_inv: "inv s \<Longrightarrow> sv_work S s s' \<Longrightarrow> inv s'"
    and work_idle: "inv s \<Longrightarrow> sv_idle S s \<Longrightarrow> sv_work S s s' \<Longrightarrow> sv_idle S s'"
    and work_closing: "inv s \<Longrightarrow> sv_work S s s' \<Longrightarrow> closing s' = closing s"
    and close_laws: "inv s \<Longrightarrow> sv_idle S s \<Longrightarrow> sv_close S = Some close \<Longrightarrow>
      inv (close s) \<and> sv_idle S (close s) \<and> closing (close s)"
    and request_finishes: "inv s \<Longrightarrow> \<not> sv_idle S s \<Longrightarrow> \<exists>s'. sv_work S s s' \<and> rank s' < rank s"
    and flush_proceeds: "inv s \<Longrightarrow> closing s \<Longrightarrow> \<not> sv_flushed S s \<Longrightarrow> \<exists>s'. sv_work S s s' \<and> rank s' < rank s"
begin

definition phase_inv :: "phase \<times> 's \<Rightarrow> bool" where
  "phase_inv p \<longleftrightarrow> inv (snd p) \<and> (fst p \<in> {Serving, Draining} \<longrightarrow> \<not> closing (snd p)) \<and>
     (fst p = Flushing \<longrightarrow> sv_idle S (snd p) \<and> closing (snd p)) \<and>
     (fst p = Exited 0 \<longrightarrow> sv_idle S (snd p) \<and> (sv_close S \<noteq> None \<longrightarrow> closing (snd p) \<and> sv_flushed S (snd p)))"

lemma phase_inv_step: "process_step S p q \<Longrightarrow> phase_inv p \<Longrightarrow> phase_inv q"
  by (erule process_stepE)
    (auto simp: phase_inv_def dest: accept_inv work_inv work_idle work_closing close_laws)

lemma phase_inv_run: "process_run S p q \<Longrightarrow> phase_inv p \<Longrightarrow> phase_inv q"
  by (induction rule: rtranclp_induct) (auto intro: phase_inv_step)

lemma clean_exit:
  assumes "process_run S (Serving, s0) (Exited 0, s)" "inv s0" "\<not> closing s0"
  shows "inv s \<and> sv_idle S s \<and> (sv_close S \<noteq> None \<longrightarrow> closing s \<and> sv_flushed S s)"
  using phase_inv_run [OF assms(1)] assms(2,3) by (simp add: phase_inv_def)

lemma exit_codes:
  assumes "process_run S (Serving, s0) (Exited c, s)"
  shows "c \<in> {0, 1}"
proof -
  have "process_run S p q \<Longrightarrow> fst p = Serving \<Longrightarrow> fst q \<in> {Serving, Draining, Flushing, Exited 0, Exited 1}" for p q
    by (induction rule: rtranclp_induct) (auto elim: process_step.cases)
  from this [OF assms] show ?thesis by auto
qed

text \<open>Goroutines that proceed until a condition holds.\<close>

lemma run_until:
  assumes "\<And>s. inv s \<Longrightarrow> P s \<Longrightarrow> \<not> Q s \<Longrightarrow> \<exists>s'. sv_work S s s' \<and> rank s' < rank s"
    and "\<And>s s'. inv s \<Longrightarrow> P s \<Longrightarrow> sv_work S s s' \<Longrightarrow> P s'" and "ph \<in> {Serving, Draining, Flushing}"
  shows "inv s \<Longrightarrow> P s \<Longrightarrow> \<exists>s'. process_run S (ph, s) (ph, s') \<and> inv s' \<and> P s' \<and> Q s'"
proof (induction "rank s" arbitrary: s rule: less_induct)
  case less
  show ?case
  proof (cases "Q s")
    case False
    then obtain s1 where s1: "sv_work S s s1" "rank s1 < rank s" using assms(1) less.prems by blast
    then obtain s' where "process_run S (ph, s1) (ph, s')" "inv s' \<and> P s' \<and> Q s'"
      using less.hyps [OF s1(2)] work_inv assms(2) less.prems by blast
    moreover have "process_step S (ph, s) (ph, s1)" using assms(3) s1(1) by (rule process_step.work)
    ultimately show ?thesis by (meson converse_rtranclp_into_rtranclp)
  qed (use less.prems in blast)
qed

lemma can_stop:
  assumes "inv s" "ph \<in> {Serving, Draining}"
  shows "\<exists>s'. process_run S (ph, s) (Exited 0, s')"
proof -
  have start: "process_run S (ph, s) (Draining, s)" using assms(2) by (auto intro: process_step.signal)
  obtain s1 where s1: "process_run S (Draining, s) (Draining, s1)" "inv s1" "sv_idle S s1"
    using run_until [of "\<lambda>_. True" "sv_idle S" Draining s] request_finishes assms(1) by blast
  show ?thesis
  proof (cases "sv_close S")
    case None
    then have "process_step S (Draining, s1) (Exited 0, s1)" using s1(3) by (simp add: process_step.drained_exit)
    then show ?thesis using start s1(1) by (meson rtranclp.rtrancl_into_rtrancl rtranclp_trans)
  next
    case (Some close)
    note c = close_laws [OF s1(2,3) Some]
    have "process_step S (Draining, s1) (Flushing, close s1)" using s1(3) Some by (rule process_step.drained)
    moreover obtain s2 where s2: "process_run S (Flushing, close s1) (Flushing, s2)" "sv_flushed S s2"
      using run_until [of closing "sv_flushed S" Flushing "close s1"] flush_proceeds work_closing c by blast
    moreover have "process_step S (Flushing, s2) (Exited 0, s2)" using s2(2) by (rule process_step.flushed)
    ultimately show ?thesis using start s1(1)
      by (meson converse_rtranclp_into_rtranclp rtranclp.rtrancl_into_rtrancl rtranclp_trans)
  qed
qed

end

end
