(* ===== verification/Gateway_Process.thy ===== *)
theory Gateway_Process
  imports Gateway_Main Service_Lifecycle
begin

text \<open>
  The gateway as a process (\<open>main.go\<close>): request goroutines that end with a call of \<open>Log\<close>, the
  worker goroutine of the audit dispatcher, and the shutdown sequence of \<open>main\<close>, which waits for
  the requests before it closes the dispatcher's queue. No handler takes over its connection (the
  recorder that \<open>ServeHTTP\<close> hands to the reverse proxy cannot be hijacked), so \<open>Shutdown\<close> waits for
  all of them.
\<close>

section \<open>Steps\<close>

record 'w gateway_process =
  gpr_active :: nat
  gpr_audit :: "'w audit_sys"

text \<open>A call of \<open>Log\<close> and what it leaves behind, with the history of the dispatcher.\<close>

definition log_call :: "int \<Rightarrow> event \<Rightarrow> 'w audit_sys \<Rightarrow> 'w audit_sys" where
  "log_call now e s =
     (let (r, d', m') = disp_Log now e (sys_d s, sys_m s) in
      s\<lparr>sys_d := d', sys_m := m', calls := calls s + 1, panics := panics s + (if r = Panic then 1 else 0),
        accepted := (if r \<noteq> Panic \<and> length (queue (sys_d s)) < capacity (sys_d s)
                     then accepted s @ [stamp now e] else accepted s)\<rparr>)"

text \<open>
  A request ends with one call of \<open>Log\<close>, or without one when it asks for the health check or the
  metrics or names no valid host.
\<close>

inductive gateway_work :: "'w sink list \<Rightarrow> 'w gateway_process \<Rightarrow> 'w gateway_process \<Rightarrow> bool" for sinks where
  logged: "0 < gpr_active p \<Longrightarrow>
    gateway_work sinks p (p\<lparr>gpr_active := gpr_active p - 1, gpr_audit := log_call now e (gpr_audit p)\<rparr>)"
| unlogged: "0 < gpr_active p \<Longrightarrow> gateway_work sinks p (p\<lparr>gpr_active := gpr_active p - 1\<rparr>)"
| deliver: "worker_step sinks (gpr_audit p) a \<Longrightarrow> gateway_work sinks p (p\<lparr>gpr_audit := a\<rparr>)"

inductive_cases gateway_workE: "gateway_work sinks p q"

definition gateway_service :: "'w sink list \<Rightarrow> 'w gateway_process service" where
  "gateway_service sinks =
     \<lparr>sv_accept = (\<lambda>p q. q = p\<lparr>gpr_active := gpr_active p + 1\<rparr>),
      sv_work = gateway_work sinks,
      sv_idle = (\<lambda>p. gpr_active p = 0),
      sv_close = Some (\<lambda>p. p\<lparr>gpr_audit := (gpr_audit p)\<lparr>sys_d := snd (disp_Shutdown False (sys_d (gpr_audit p)))\<rparr>\<rparr>),
      sv_flushed = (\<lambda>p. fst (disp_Shutdown False (sys_d (gpr_audit p))) = Some True)\<rparr>"

text \<open>
  \<open>main\<close>: with the flag \<open>version\<close> it prints and returns, a start-up error ends it with status 1,
  and otherwise it serves with the dispatcher that the start-up made.
\<close>

definition gateway_main ::
  "bool \<Rightarrow> startup_error + started \<Rightarrow> metrics \<Rightarrow> 'w \<Rightarrow> phase \<times> 'w gateway_process option" where
  "gateway_main showVersion start m w =
     (if showVersion then (Exited 0, None)
      else case start of
             Inl _ \<Rightarrow> (Exited 1, None)
           | Inr st \<Rightarrow> (Serving, Some \<lparr>gpr_active = 0, gpr_audit = start_sys (st_dispatcher st) m w\<rparr>))"

section \<open>The invariant\<close>

text \<open>The queue is closed only after the last request, so no call of \<open>Log\<close> finds it closed.\<close>

definition process_inv :: "nat \<Rightarrow> nat \<Rightarrow> 'w gateway_process \<Rightarrow> bool" where
  "process_inv cap dropped p \<longleftrightarrow> disp_inv cap dropped (gpr_audit p) \<and> panics (gpr_audit p) = 0 \<and>
     (0 < gpr_active p \<longrightarrow> \<not> closed (sys_d (gpr_audit p)))"

lemma log_call_step: "audit_step sinks s (log_call now e s)"
  by (cases "disp_Log now e (sys_d s, sys_m s)")
    (use audit_step.log [of now e s _ _ _ sinks] in \<open>simp add: log_call_def\<close>)

lemma log_call_open:
  assumes "\<not> closed (sys_d s)"
  shows "panics (log_call now e s) = panics s" "\<not> closed (sys_d (log_call now e s))"
    "work_left (log_call now e s) \<le> work_left s + 2"
  using assms by (auto simp: log_call_def disp_Log_def Let_def work_left_def)

lemma worker_step_keeps:
  "worker_step sinks s s' \<Longrightarrow> closed (sys_d s') = closed (sys_d s) \<and> panics s' = panics s"
  by (erule worker_stepE)
    (auto simp: worker_take_def disp_write_def Let_def split: if_splits list.splits prod.splits)

lemma Shutdown_waiting [simp]:
  "snd (disp_Shutdown False d) = disp_close d" "fst (disp_Shutdown False d) = Some True \<longleftrightarrow> finished d"
  by (simp_all add: disp_Shutdown_def Let_def)

lemma process_inv_work:
  assumes "gateway_work sinks p q" "process_inv cap n p"
  shows "process_inv cap n q"
  using assms(1)
proof (cases rule: gateway_work.cases)
  case (logged now e)
  then show ?thesis
    using assms(2) log_call_open [of "gpr_audit p" now e] disp_inv_step [OF log_call_step, of cap n "gpr_audit p" now e]
    by (simp add: process_inv_def)
next
  case unlogged
  then show ?thesis using assms(2) by (simp add: process_inv_def)
next
  case (deliver a)
  then show ?thesis
    using assms(2) disp_inv_worker [OF deliver(2), of cap n] worker_step_keeps [OF deliver(2)]
    by (simp add: process_inv_def)
qed

lemma gateway_drain:
  assumes "closed (sys_d (gpr_audit p))" "\<not> finished (sys_d (gpr_audit p))"
  shows "\<exists>q. gateway_work sinks p q \<and> 3 * gpr_active q + work_left (gpr_audit q) < 3 * gpr_active p + work_left (gpr_audit p)"
proof -
  obtain a where a: "worker_step sinks (gpr_audit p) a" using worker_progress [OF assms] by blast
  then show ?thesis using gateway_work.deliver [OF a] worker_step_measure [OF a]
    by (intro exI [of _ "p\<lparr>gpr_audit := a\<rparr>"]) simp
qed

lemma gateway_finish:
  assumes "process_inv cap n p" "gpr_active p \<noteq> 0"
  shows "\<exists>q. gateway_work sinks p q \<and> 3 * gpr_active q + work_left (gpr_audit q) < 3 * gpr_active p + work_left (gpr_audit p)"
proof -
  let ?q = "p\<lparr>gpr_active := gpr_active p - 1, gpr_audit := log_call 0 zero_event (gpr_audit p)\<rparr>"
  have "\<not> closed (sys_d (gpr_audit p))" using assms by (simp add: process_inv_def)
  from log_call_open(3) [OF this, of 0 zero_event]
  have "3 * gpr_active ?q + work_left (gpr_audit ?q) < 3 * gpr_active p + work_left (gpr_audit p)"
    using assms(2) by (cases "gpr_active p") auto
  moreover have "gateway_work sinks p ?q" using assms(2) by (intro gateway_work.logged) simp
  ultimately show ?thesis by blast
qed

lemma gateway_service_simps [simp]:
  "sv_accept (gateway_service sinks) p q \<longleftrightarrow> q = p\<lparr>gpr_active := gpr_active p + 1\<rparr>"
  "sv_work (gateway_service sinks) = gateway_work sinks"
  "sv_idle (gateway_service sinks) p \<longleftrightarrow> gpr_active p = 0"
  "sv_flushed (gateway_service sinks) p \<longleftrightarrow> finished (sys_d (gpr_audit p))"
  "sv_close (gateway_service sinks) = Some (\<lambda>p. p\<lparr>gpr_audit := (gpr_audit p)\<lparr>sys_d := disp_close (sys_d (gpr_audit p))\<rparr>\<rparr>)"
  by (simp_all add: gateway_service_def)

interpretation gateway: graceful_service "gateway_service sinks" "process_inv cap n"
  "\<lambda>p. closed (sys_d (gpr_audit p))" "\<lambda>p. 3 * gpr_active p + work_left (gpr_audit p)"
  for sinks :: "'w sink list" and cap n
proof
  fix p q :: "'w gateway_process" and close
  show "process_inv cap n p \<Longrightarrow> \<not> closed (sys_d (gpr_audit p)) \<Longrightarrow> sv_accept (gateway_service sinks) p q \<Longrightarrow>
      process_inv cap n q \<and> \<not> closed (sys_d (gpr_audit q))"
    by (simp add: process_inv_def)
  show "process_inv cap n p \<Longrightarrow> sv_work (gateway_service sinks) p q \<Longrightarrow> process_inv cap n q"
    by (simp add: process_inv_work)
  show "sv_idle (gateway_service sinks) p \<Longrightarrow> sv_work (gateway_service sinks) p q \<Longrightarrow> sv_idle (gateway_service sinks) q"
    by (simp, erule gateway_workE) simp_all
  show "process_inv cap n p \<Longrightarrow> sv_work (gateway_service sinks) p q \<Longrightarrow>
      closed (sys_d (gpr_audit q)) = closed (sys_d (gpr_audit p))"
    by (simp, erule gateway_workE) (simp_all add: process_inv_def log_call_open worker_step_keeps)
  show "process_inv cap n p \<Longrightarrow> sv_idle (gateway_service sinks) p \<Longrightarrow> sv_close (gateway_service sinks) = Some close \<Longrightarrow>
      process_inv cap n (close p) \<and> sv_idle (gateway_service sinks) (close p) \<and> closed (sys_d (gpr_audit (close p)))"
    using disp_inv_step [OF audit_step.close, of cap n "gpr_audit p"] by (clarsimp simp: process_inv_def)
  show "process_inv cap n p \<Longrightarrow> \<not> sv_idle (gateway_service sinks) p \<Longrightarrow>
      \<exists>q. sv_work (gateway_service sinks) p q \<and>
        3 * gpr_active q + work_left (gpr_audit q) < 3 * gpr_active p + work_left (gpr_audit p)"
    using gateway_finish [of cap n p sinks] by simp
  show "closed (sys_d (gpr_audit p)) \<Longrightarrow> \<not> sv_flushed (gateway_service sinks) p \<Longrightarrow>
      \<exists>q. sv_work (gateway_service sinks) p q \<and>
        3 * gpr_active q + work_left (gpr_audit q) < 3 * gpr_active p + work_left (gpr_audit p)"
    using gateway_drain [of p sinks] by simp
qed

section \<open>Properties\<close>

lemma started_process:
  assumes "start_gateway u parse parseText load sinks cfg = Inr st"
    and "gateway_main False (Inr st) m w = (Serving, Some p0)"
  shows "process_inv 1024 (auditEventsDroppedTotal m) p0" "\<not> closed (sys_d (gpr_audit p0))"
proof -
  obtain c where d: "NewDispatcher 1024 (sinks c) = Inr (st_dispatcher st)"
    using assms(1) by (auto simp: start_gateway_def split: sum.splits)
  have p0: "p0 = \<lparr>gpr_active = 0, gpr_audit = start_sys (st_dispatcher st) m w\<rparr>"
    using assms(2) by (simp add: gateway_main_def)
  show "process_inv 1024 (auditEventsDroppedTotal m) p0"
    using disp_inv_start [OF d, of m w] by (simp add: p0 process_inv_def start_sys_def)
  show "\<not> closed (sys_d (gpr_audit p0))"
    using start_gateway_Inr(5) [OF assms(1)] by (simp add: p0 start_sys_def)
qed

text \<open>
  C28: A gateway process that was started and ends with status 0 has finished every request it
  took, and every audit event that one of them logged has either been handed to the sinks or was
  counted as dropped; no handler found the queue closed. Such an end can be reached from every
  state of a serving or draining process.
\<close>

theorem clean_exit_delivers_audit:
  assumes "start_gateway u parse parseText load sinks cfg = Inr st"
    and "gateway_main False (Inr st) m w = (Serving, Some p0)"
    and "process_run (gateway_service (sinks (st_clickhouse st))) (Serving, p0) (ph, p)"
  shows "(ph = Exited 0 \<longrightarrow> gpr_active p = 0 \<and> written (gpr_audit p) = accepted (gpr_audit p) \<and>
      length (written (gpr_audit p)) + eventsDroppedTotal (sys_d (gpr_audit p)) = calls (gpr_audit p) \<and>
      panics (gpr_audit p) = 0) \<and>
    (ph \<in> {Serving, Draining} \<longrightarrow> (\<exists>q. process_run (gateway_service (sinks (st_clickhouse st))) (ph, p) (Exited 0, q)))"
proof -
  note I = started_process [OF assms(1,2)]
  have inv: "gateway.phase_inv (sinks (st_clickhouse st)) 1024 (auditEventsDroppedTotal m) (ph, p)"
    using gateway.phase_inv_run [OF assms(3)] I by (simp add: gateway.phase_inv_def)
  then have P: "process_inv 1024 (auditEventsDroppedTotal m) p" by (simp add: gateway.phase_inv_def)
  have "gpr_active p = 0 \<and> finished (sys_d (gpr_audit p))" if "ph = Exited 0"
    using inv that by (simp add: gateway.phase_inv_def)
  then show ?thesis using P gateway.can_stop [OF P, of ph "sinks (st_clickhouse st)"] by (auto simp: process_inv_def disp_inv_def)
qed

lemma sample_start_gateway:
  "\<exists>st. start_gateway ascii_tables sample_parse (\<lambda>_. None) (\<lambda>_ _. True) (\<lambda>_. [sample_sink])
     (applyDefaults (sample_cfg 0)) = Inr st"
  using sample_starts sample_valid_config by (simp add: main_start_def LoadFile_def sample_file_def Let_def)

theorem clean_exit_delivers_audit_witness:
  "\<exists>(st :: started) p. process_run (gateway_service [sample_sink]) (Serving, \<lparr>gpr_active = 0, gpr_audit = start_sys (st_dispatcher st) init_metrics []\<rparr>)
     (Exited 0, p) \<and> written (gpr_audit p) = accepted (gpr_audit p) \<and> panics (gpr_audit p) = 0"
proof -
  obtain st where st: "start_gateway ascii_tables sample_parse (\<lambda>_. None) (\<lambda>_ _. True) (\<lambda>_. [sample_sink])
     (applyDefaults (sample_cfg 0)) = Inr st" using sample_start_gateway by blast
  let ?p0 = "\<lparr>gpr_active = 0, gpr_audit = start_sys (st_dispatcher st) init_metrics []\<rparr>"
  have main: "gateway_main False (Inr st) init_metrics [] = (Serving, Some ?p0)" by (simp add: gateway_main_def)
  note clean = clean_exit_delivers_audit [OF st main]
  obtain p where p: "process_run (gateway_service [sample_sink]) (Serving, ?p0) (Exited 0, p)"
    using clean [OF rtranclp.rtrancl_refl] by auto
  then show ?thesis using clean [OF p] by (intro exI [of _ st] exI [of _ p]) simp
qed

end
