(* ===== verification/Go_Json.thy ===== *)
theory Go_Json
  imports Go_Numbers
begin

text \<open>
  Package \<open>encoding/json\<close>, from parsed values on: the values of JSON and the rules by which
  \<open>json.Unmarshal\<close> stores a value into a Go variable that already holds something. Splitting
  text into tokens and printing it is a parameter of the theories that use it. A type mismatch
  anywhere makes the whole call fail, which is \<open>None\<close>; the services then drop the result.

  Number literals are kept as text. An object keeps its members in the order of the text, since a
  later member overwrites what an earlier one with the same name has stored.
\<close>

datatype json =
    JNull
  | JBool bool
  | JNum string
  | JStr string
  | JArr "json list"
  | JObj "(string \<times> json) list"

text \<open>Decoding into a variable of type \<open>'a\<close> that has the given old value.\<close>

type_synonym 'a into = "json \<Rightarrow> 'a \<Rightarrow> 'a option"

fun into_string :: "string into" where
  "into_string JNull old = Some old"
| "into_string (JStr s) old = Some s"
| "into_string _ old = None"

fun into_bool :: "bool into" where
  "into_bool JNull old = Some old"
| "into_bool (JBool b) old = Some b"
| "into_bool _ old = None"

text \<open>A number stored into an \<open>int\<close> has to be an integer literal in range.\<close>

fun into_int :: "int into" where
  "into_int JNull old = Some old"
| "into_int (JNum n) old = go_ParseInt64 n"
| "into_int _ old = None"

definition json_elems :: "json \<Rightarrow> json list" where
  "json_elems j = (case j of JArr js \<Rightarrow> js | _ \<Rightarrow> [])"

definition json_members :: "json \<Rightarrow> (string \<times> json) list" where
  "json_members j = (case j of JObj kvs \<Rightarrow> kvs | _ \<Rightarrow> [])"

text \<open>Slices and maps: \<open>null\<close> makes them nil; the elements start from the zero value.\<close>

fun those_map :: "('a \<Rightarrow> 'b option) \<Rightarrow> 'a list \<Rightarrow> 'b list option" where
  "those_map f [] = Some []"
| "those_map f (x # xs) =
     (case f x of None \<Rightarrow> None
      | Some y \<Rightarrow> (case those_map f xs of None \<Rightarrow> None | Some ys \<Rightarrow> Some (y # ys)))"

definition into_slice :: "'a \<Rightarrow> 'a into \<Rightarrow> 'a list into" where
  "into_slice zero elem j old =
     (case j of
        JNull \<Rightarrow> Some []
      | JArr js \<Rightarrow> those_map (\<lambda>x. elem x zero) (json_elems j)
      | _ \<Rightarrow> None)"

fun into_members :: "(string \<Rightarrow> 'a into) \<Rightarrow> (string \<times> json) list \<Rightarrow> 'a \<Rightarrow> 'a option" where
  "into_members step [] old = Some old"
| "into_members step ((k, j) # kvs) old =
     (case step k j old of None \<Rightarrow> None | Some a \<Rightarrow> into_members step kvs a)"

definition into_map :: "'a \<Rightarrow> 'a into \<Rightarrow> (string \<times> 'a) list into" where
  "into_map zero elem j old =
     (case j of
        JNull \<Rightarrow> Some []
      | JObj kvs \<Rightarrow>
          into_members (\<lambda>k v m. map_option (\<lambda>x. AList.update k x m) (elem v zero)) (json_members j) old
      | _ \<Rightarrow> None)"

definition into_ptr :: "'a \<Rightarrow> 'a into \<Rightarrow> 'a option into" where
  "into_ptr zero dec j old =
     (if j = JNull then Some None
      else map_option Some (dec j (case old of None \<Rightarrow> zero | Some a \<Rightarrow> a)))"

text \<open>
  Structs: a member is stored into the field whose tag equals its name, or else into the first
  one that equals it up to letter case; other members are skipped, or refused when the decoder
  disallows unknown fields.
\<close>

definition field_for :: "unicode \<Rightarrow> string list \<Rightarrow> string \<Rightarrow> string option" where
  "field_for u tags k = (if k \<in> set tags then Some k else find (\<lambda>t. go_EqualFold u t k) tags)"

definition into_object :: "(string \<Rightarrow> 'a into) \<Rightarrow> 'a into" where
  "into_object step j old =
     (case j of
        JNull \<Rightarrow> Some old
      | JObj kvs \<Rightarrow> into_members step (json_members j) old
      | _ \<Rightarrow> None)"

definition into_struct :: "unicode \<Rightarrow> bool \<Rightarrow> (string \<times> 'a into) list \<Rightarrow> 'a into" where
  "into_struct u strict fs =
     into_object (\<lambda>k v a.
       case field_for u (map fst fs) k of
         None \<Rightarrow> if strict then None else Some a
       | Some t \<Rightarrow> (case map_of fs t of None \<Rightarrow> Some a | Some dec \<Rightarrow> dec v a))"

text \<open>A field of a record, by its selector and its update function.\<close>

definition at_field :: "('a \<Rightarrow> 'b) \<Rightarrow> (('b \<Rightarrow> 'b) \<Rightarrow> 'a \<Rightarrow> 'a) \<Rightarrow> 'b into \<Rightarrow> 'a into" where
  "at_field get upd dec j a = map_option (\<lambda>x. upd (\<lambda>_. x) a) (dec j (get a))"

section \<open>Facts\<close>

lemma those_map_cong [fundef_cong]:
  "xs = ys \<Longrightarrow> (\<And>x. x \<in> set ys \<Longrightarrow> f x = g x) \<Longrightarrow> those_map f xs = those_map g ys"
  by (induction xs arbitrary: ys) (auto split: option.splits)

lemma into_members_cong [fundef_cong]:
  "kvs = kvs' \<Longrightarrow> old = old' \<Longrightarrow> (\<And>k j a. (k, j) \<in> set kvs' \<Longrightarrow> step k j a = step' k j a) \<Longrightarrow>
   into_members step kvs old = into_members step' kvs' old'"
proof (induction kvs arbitrary: kvs' old old')
  case (Cons x kvs)
  obtain k j where x: "x = (k, j)" by force
  have "step k j old = step' k j old" using Cons.prems x by auto
  moreover have "into_members step kvs a = into_members step' kvs a" for a
    by (rule Cons.IH) (use Cons.prems in auto)
  ultimately show ?case using Cons.prems x by (auto split: option.splits)
qed simp

lemma into_slice_cong [fundef_cong]:
  "j = j' \<Longrightarrow> (\<And>x. x \<in> set (json_elems j') \<Longrightarrow> elem x zero = elem' x zero) \<Longrightarrow>
   into_slice zero elem j old = into_slice zero elem' j' old'"
  by (auto simp: into_slice_def json_elems_def split: json.splits intro: those_map_cong)

lemma into_object_cong [fundef_cong]:
  "j = j' \<Longrightarrow> old = old' \<Longrightarrow> (\<And>k v a. (k, v) \<in> set (json_members j') \<Longrightarrow> step k v a = step' k v a) \<Longrightarrow>
   into_object step j old = into_object step' j' old'"
  by (auto simp: into_object_def json_members_def split: json.splits intro: into_members_cong)

lemma size_json_elem: "x \<in> set (json_elems j) \<Longrightarrow> size x < size j"
  by (cases j) (auto simp: json_elems_def dest: size_list_estimation' [where f = size, OF _ order_refl])

lemma size_json_member: "(k, v) \<in> set (json_members j) \<Longrightarrow> size v < size j"
proof (cases j)
  case (JObj kvs)
  assume "(k, v) \<in> set (json_members j)"
  then have "(k, v) \<in> set kvs" using JObj by (simp add: json_members_def)
  then have "size_prod (\<lambda>_. 0) size (k, v) \<le> size_list (size_prod (\<lambda>_. 0) size) kvs"
    by (rule size_list_estimation') simp
  then show ?thesis using JObj by simp
qed (auto simp: json_members_def)

lemma those_map_Some_iff: "those_map f xs = Some ys \<longleftrightarrow> list_all2 (\<lambda>x y. f x = Some y) xs ys"
proof (induction xs arbitrary: ys)
  case (Cons x xs)
  then show ?case by (cases "f x"; cases "those_map f xs") (auto simp: list_all2_Cons1)
qed auto

lemmas [go_eval] = json_elems_def json_members_def into_slice_def into_map_def into_ptr_def
  field_for_def into_object_def into_struct_def at_field_def

end
