(* ===== verification/Control_Models.thy ===== *)
theory Control_Models
  imports Go_Json
begin

text \<open>
  Package \<open>models\<close> of the control API: the rows and requests that its layers exchange, and the
  decoding of request bodies. A \<open>json.RawMessage\<close> is \<open>None\<close> when it is empty and otherwise the
  value it holds; a pointer field is an option; times are nanoseconds since 1970.
\<close>

record tenant =
  tn_ID :: string
  tn_Name :: string
  tn_Slug :: string
  tn_Status :: string
  tn_Metadata :: json
  tn_CreatedAt :: int
  tn_UpdatedAt :: int

record create_tenant_request =
  ctr_Name :: string
  ctr_Slug :: string
  ctr_Metadata :: "json option"

record origin_model =
  or_ID :: string
  or_Name :: string
  or_Scheme :: string
  or_Host :: string
  or_Port :: int
  or_URL :: string

record app_model =
  am_ID :: string
  am_TenantID :: string
  am_Name :: string
  am_Slug :: string
  am_Hostnames :: "string list"
  am_Status :: string
  am_Origins :: "origin_model list"
  am_Metadata :: json
  am_CreatedAt :: int
  am_UpdatedAt :: int

record create_app_request =
  car_TenantID :: string
  car_Name :: string
  car_Slug :: string
  car_Hostnames :: "string list"
  car_OriginURL :: string
  car_Metadata :: "json option"

record update_app_request =
  uar_Name :: "string option"
  uar_Hostnames :: "string list"
  uar_OriginURL :: "string option"
  uar_Status :: "string option"
  uar_Metadata :: "json option"

record policy_model =
  pm_ID :: string
  pm_TenantID :: string
  pm_AppID :: string
  pm_Name :: string
  pm_Mode :: string
  pm_Enabled :: bool
  pm_ActiveVersionID :: string
  pm_Snapshot :: "json option"
  pm_CreatedAt :: int
  pm_UpdatedAt :: int

record create_policy_request =
  cpr_Name :: string
  cpr_Mode :: string
  cpr_Snapshot :: "json option"

record update_policy_request =
  upr_Name :: "string option"
  upr_Mode :: "string option"
  upr_Enabled :: "bool option"
  upr_Snapshot :: "json option"
  upr_ExpectedUpdatedAt :: int

record publish_policy_response =
  pr_PolicyID :: string
  pr_PolicyVersionID :: string
  pr_Version :: int
  pr_PublishedAt :: int

record gateway_policy_model =
  gm_TenantID :: string
  gm_AppID :: string
  gm_PolicyID :: string
  gm_PolicyVersionID :: string
  gm_Mode :: string
  gm_Origin :: origin_model
  gm_IPSets :: json
  gm_CustomRules :: json
  gm_RateLimits :: json
  gm_WAF :: json
  gm_PublishedAt :: int

record managed_rule_set =
  ms_ID :: string
  ms_Name :: string
  ms_Provider :: string
  ms_Source :: string
  ms_Description :: string
  ms_LocalPath :: string
  ms_Enabled :: bool
  ms_Metadata :: json
  ms_CreatedAt :: int
  ms_UpdatedAt :: int

record managed_rule_version =
  mv_ID :: string
  mv_ManagedRuleSetID :: string
  mv_Version :: string
  mv_SourceURI :: string
  mv_LocalPath :: string
  mv_ChecksumSHA256 :: string
  mv_RulesetSnapshot :: json
  mv_ReleasedAt :: "int option"
  mv_CreatedAt :: int

record activate_response =
  ar_ManagedRuleSetID :: string
  ar_ManagedRuleVersionID :: string
  ar_Status :: string
  ar_Message :: string

record event_ref =
  er_ID :: string
  er_TenantID :: string
  er_AppID :: string
  er_PolicyID :: string
  er_EventID :: string
  er_RequestID :: string
  er_SourceIP :: string
  er_Host :: string
  er_Path :: string
  er_Action :: string
  er_OccurredAt :: int
  er_Metadata :: json

section \<open>Request bodies\<close>

text \<open>
  A \<open>json.RawMessage\<close> takes the value as it is, \<open>null\<close> included. A time is a string in RFC 3339
  format; the parser of package \<open>time\<close> is a parameter.
\<close>

definition into_raw :: "json option into" where
  "into_raw j old = Some (Some j)"

definition into_time :: "(string \<Rightarrow> int option) \<Rightarrow> int into" where
  "into_time parse_time j old =
     (case j of JNull \<Rightarrow> Some old | JStr s \<Rightarrow> parse_time s | _ \<Rightarrow> None)"

text \<open>The handlers disallow unknown fields.\<close>

definition into_create_tenant :: "unicode \<Rightarrow> create_tenant_request into" where
  "into_create_tenant u = into_struct u True
     [(''name'', at_field ctr_Name ctr_Name_update into_string),
      (''slug'', at_field ctr_Slug ctr_Slug_update into_string),
      (''metadata'', at_field ctr_Metadata ctr_Metadata_update into_raw)]"

definition into_create_app :: "unicode \<Rightarrow> create_app_request into" where
  "into_create_app u = into_struct u True
     [(''tenant_id'', at_field car_TenantID car_TenantID_update into_string),
      (''name'', at_field car_Name car_Name_update into_string),
      (''slug'', at_field car_Slug car_Slug_update into_string),
      (''hostnames'', at_field car_Hostnames car_Hostnames_update (into_slice [] into_string)),
      (''origin_url'', at_field car_OriginURL car_OriginURL_update into_string),
      (''metadata'', at_field car_Metadata car_Metadata_update into_raw)]"

definition into_update_app :: "unicode \<Rightarrow> update_app_request into" where
  "into_update_app u = into_struct u True
     [(''name'', at_field uar_Name uar_Name_update (into_ptr [] into_string)),
      (''hostnames'', at_field uar_Hostnames uar_Hostnames_update (into_slice [] into_string)),
      (''origin_url'', at_field uar_OriginURL uar_OriginURL_update (into_ptr [] into_string)),
      (''status'', at_field uar_Status uar_Status_update (into_ptr [] into_string)),
      (''metadata'', at_field uar_Metadata uar_Metadata_update into_raw)]"

definition into_create_policy :: "unicode \<Rightarrow> create_policy_request into" where
  "into_create_policy u = into_struct u True
     [(''name'', at_field cpr_Name cpr_Name_update into_string),
      (''mode'', at_field cpr_Mode cpr_Mode_update into_string),
      (''snapshot'', at_field cpr_Snapshot cpr_Snapshot_update into_raw)]"

definition into_update_policy :: "unicode \<Rightarrow> (string \<Rightarrow> int option) \<Rightarrow> update_policy_request into" where
  "into_update_policy u parse_time = into_struct u True
     [(''name'', at_field upr_Name upr_Name_update (into_ptr [] into_string)),
      (''mode'', at_field upr_Mode upr_Mode_update (into_ptr [] into_string)),
      (''enabled'', at_field upr_Enabled upr_Enabled_update (into_ptr False into_bool)),
      (''snapshot'', at_field upr_Snapshot upr_Snapshot_update into_raw),
      (''expected_updated_at'',
         at_field upr_ExpectedUpdatedAt upr_ExpectedUpdatedAt_update (into_time parse_time))]"

definition zero_create_tenant :: create_tenant_request where
  "zero_create_tenant = \<lparr>ctr_Name = [], ctr_Slug = [], ctr_Metadata = None\<rparr>"

definition zero_create_app :: create_app_request where
  "zero_create_app = \<lparr>car_TenantID = [], car_Name = [], car_Slug = [], car_Hostnames = [],
     car_OriginURL = [], car_Metadata = None\<rparr>"

definition zero_update_app :: update_app_request where
  "zero_update_app = \<lparr>uar_Name = None, uar_Hostnames = [], uar_OriginURL = None, uar_Status = None,
     uar_Metadata = None\<rparr>"

definition zero_create_policy :: create_policy_request where
  "zero_create_policy = \<lparr>cpr_Name = [], cpr_Mode = [], cpr_Snapshot = None\<rparr>"

definition zero_update_policy :: update_policy_request where
  "zero_update_policy = \<lparr>upr_Name = None, upr_Mode = None, upr_Enabled = None, upr_Snapshot = None,
     upr_ExpectedUpdatedAt = zero_time\<rparr>"

end
