(* ===== verification/Control_Validation.thy ===== *)
theory Control_Validation
  imports Control_Models Gateway_Config Policy
begin

text \<open>
  The checks of package \<open>httpapi\<close> on slugs, host names, origin URLs, modes, actions, prefixes and
  policy snapshots (\<open>validation.go\<close> and the snapshot part of \<open>server.go\<close>). A check returns the
  error it reports, if any. The texts of the errors are the constructors of \<open>validation_error\<close>.
\<close>

datatype validation_error =
    SlugInvalid string
  | HostnamesEmpty
  | HostnameEmpty
  | HostnameHasPath string
  | HostnamePortSyntax string
  | HostnameIsAddress string
  | HostnameDuplicated string
  | NameTooLong string
  | NameLabel string
  | NameHyphen string
  | NameCharacters string
  | OriginUnparsable
  | OriginScheme
  | OriginNoHost
  | OriginQueryOrFragment
  | OriginPortInvalid
  | ModeInvalid
  | ActionInvalid
  | InvalidCIDR string
  | SnapshotDecodeFailed
  | RuleIDRequired
  | RuleNameRequired
  | RuleActionInvalid
  | LimitIDRequired
  | LimitNameRequired
  | LimitActionInvalid
  | LimitNotPositive
  | LimitKeyTypeInvalid
  | LimitKeyHeaderRequired
  | ConditionInvalid condition_error

section \<open>validation.go\<close>

text \<open>The pattern \<open>^[a-z0-9][a-z0-9-]{0,62}$\<close>.\<close>

definition slug_char :: "char \<Rightarrow> bool" where
  "slug_char c \<longleftrightarrow> is_lower c \<or> is_digit c"

definition slugPattern :: "string \<Rightarrow> bool" where
  "slugPattern s \<longleftrightarrow>
     s \<noteq> [] \<and> length s \<le> 63 \<and> slug_char (hd s) \<and> list_all (\<lambda>c. slug_char c \<or> c = CHR ''-'') (tl s)"

definition validateSlug :: "string \<Rightarrow> string \<Rightarrow> validation_error option" where
  "validateSlug field value = (if \<not> slugPattern value then Some (SlugInvalid field) else None)"

definition validateDNSLabel :: "string \<Rightarrow> string \<Rightarrow> validation_error option" where
  "validateDNSLabel host label =
     (if label = [] \<or> 63 < length label then Some (NameLabel host)
      else if go_HasPrefix label ''-'' \<or> go_HasSuffix label ''-'' then Some (NameHyphen host)
      else if \<not> list_all (\<lambda>r. slug_char r \<or> r = CHR ''-'') label then Some (NameCharacters host)
      else None)"

definition validateDNSName :: "string \<Rightarrow> validation_error option" where
  "validateDNSName host =
     (if 253 < length host then Some (NameTooLong host)
      else first_error (validateDNSLabel host) (split_on (CHR ''.'') host))"

text \<open>One round of the loop over the host names: the name that is compared, or the error.\<close>

definition normal_hostname :: "unicode \<Rightarrow> string \<Rightarrow> validation_error + string" where
  "normal_hostname u value =
     (let host = go_TrimSpace (go_ToLower u value) in
      if host = [] then Inl HostnameEmpty
      else if go_Contains host ''://'' \<or> go_ContainsAny host ''/?#'' then Inl (HostnameHasPath value)
      else
        (case (if go_Contains host '':'' then map_option fst (go_SplitHostPort host) else Some host) of
           None \<Rightarrow> Inl (HostnamePortSyntax value)
         | Some h \<Rightarrow>
             if ParseAddr h \<noteq> None then Inl (HostnameIsAddress value)
             else (case validateDNSName h of Some e \<Rightarrow> Inl e | None \<Rightarrow> Inr h)))"

fun validate_hostnames_loop :: "unicode \<Rightarrow> string set \<Rightarrow> string list \<Rightarrow> validation_error option" where
  "validate_hostnames_loop u seen [] = None"
| "validate_hostnames_loop u seen (value # values) =
     (case normal_hostname u value of
        Inl e \<Rightarrow> Some e
      | Inr host \<Rightarrow>
          if host \<in> seen then Some (HostnameDuplicated value)
          else validate_hostnames_loop u (insert host seen) values)"

definition validateHostnames :: "unicode \<Rightarrow> string list \<Rightarrow> validation_error option" where
  "validateHostnames u values =
     (if values = [] then Some HostnamesEmpty else validate_hostnames_loop u {} values)"

text \<open>
  \<open>URL.Hostname\<close> and \<open>URL.Port\<close>: the port is what follows the last colon of the host when it is
  empty or all digits, and brackets around the rest are removed.
\<close>

definition url_hostport :: "url \<Rightarrow> string \<times> string" where
  "url_hostport v =
     (let hp = url_Host v;
          (host, port) =
            (case last_index_of (CHR '':'') hp of
               Some i \<Rightarrow> if list_all is_digit (drop (Suc i) hp) then (take i hp, drop (Suc i) hp) else (hp, [])
             | None \<Rightarrow> (hp, []))
      in (if go_HasPrefix host ''['' \<and> go_HasSuffix host '']'' then (butlast (tl host), port) else (host, port)))"

definition url_Hostname :: "url \<Rightarrow> string" where
  "url_Hostname v = fst (url_hostport v)"

definition url_Port :: "url \<Rightarrow> string" where
  "url_Port v = snd (url_hostport v)"

text \<open>\<open>net.LookupPort\<close> on a text of digits: the number has to fit in 16 bits.\<close>

definition port_ok :: "string \<Rightarrow> bool" where
  "port_ok port \<longleftrightarrow> digits_val port \<le> 65535"

definition parseOriginURL :: "url_parser \<Rightarrow> string \<Rightarrow> validation_error + url" where
  "parseOriginURL parse raw =
     (case parse (go_TrimSpace raw) of
        None \<Rightarrow> Inl OriginUnparsable
      | Some parsed \<Rightarrow>
          if url_Scheme parsed \<noteq> ''http'' \<and> url_Scheme parsed \<noteq> ''https'' then Inl OriginScheme
          else if url_Hostname parsed = [] then Inl OriginNoHost
          else if url_RawQuery parsed \<noteq> [] \<or> url_Fragment parsed \<noteq> [] then Inl OriginQueryOrFragment
          else if url_Port parsed \<noteq> [] \<and> \<not> port_ok (url_Port parsed) then Inl OriginPortInvalid
          else Inr parsed)"

definition validateMode :: "string \<Rightarrow> validation_error option" where
  "validateMode m = (if m = ''count'' \<or> m = ''block'' then None else Some ModeInvalid)"

definition validateAction :: "string \<Rightarrow> validation_error option" where
  "validateAction a =
     (if a \<in> {''allow'', ''count'', ''block'', ''rate_limit''} then None else Some ActionInvalid)"

definition validateCIDR :: "string \<Rightarrow> validation_error option" where
  "validateCIDR value = (if ParsePrefix value = None then Some (InvalidCIDR value) else None)"

text \<open>
  \<open>validateJSON\<close> has no definition here: it accepts what \<open>json.Valid\<close> accepts, and every raw
  message the handlers give it is a value that a decoder has cut out of a body or that the database
  has returned from a \<open>jsonb\<close> column.
\<close>

end
