(* ===== verification/Control_Db.thy ===== *)
theory Control_Db
  imports Control_Validation
begin

text \<open>
  Package \<open>db\<close> of the control API: the repository on PostgreSQL. The tables its statements touch
  are lists of rows, with the defaults, checks, keys and references of
  \<open>migrations/000001_init.up.sql\<close>; every method is a function on the tables that runs its
  statements in the order of the code. A method that fails inside a transaction leaves the tables
  as they were, which is the deferred rollback.

  What the server contributes is the record \<open>pg_env\<close>: its clock, the identifiers it generates, how
  it reads a UUID, \<open>lower\<close>, and for each statement of a call (counted from 0, \<open>BEGIN\<close> and \<open>COMMIT\<close>
  included) whether it is carried out at all; a commit that fails has not happened. \<open>jsonb\<close> columns
  hold JSON values. Rows with equal sort keys come in table order.
\<close>

datatype db_error = NotFound | Conflict | DbFailed

record tenant_row = tenant +
  tn_deleted :: "int option"

record app_row =
  ap_id :: string
  ap_tenant :: string
  ap_name :: string
  ap_slug :: string
  ap_hostnames :: "string list"
  ap_status :: string
  ap_metadata :: json
  ap_created :: int
  ap_updated :: int
  ap_deleted :: "int option"

record origin_row =
  og_id :: string
  og_tenant :: string
  og_app :: string
  og_name :: string
  og_scheme :: string
  og_host :: string
  og_port :: int
  og_enabled :: bool
  og_created :: int
  og_updated :: int
  og_deleted :: "int option"

record policy_row =
  po_id :: string
  po_tenant :: string
  po_app :: string
  po_name :: string
  po_mode :: string
  po_active :: "string option"
  po_enabled :: bool
  po_metadata :: json
  po_created :: int
  po_updated :: int
  po_deleted :: "int option"

record version_row =
  ve_id :: string
  ve_tenant :: string
  ve_app :: string
  ve_policy :: string
  ve_version :: int
  ve_mode :: string
  ve_snapshot :: json
  ve_sha256 :: string
  ve_created :: int

record deployment_row =
  dp_tenant :: string
  dp_app :: string
  dp_policy :: string
  dp_version :: string
  dp_node :: string
  dp_status :: string
  dp_deployed :: int
  dp_last_seen :: "int option"
  dp_updated :: int

record rule_set_row =
  rs_id :: string
  rs_name :: string
  rs_provider :: string
  rs_source :: string
  rs_description :: "string option"
  rs_local_path :: "string option"
  rs_enabled :: bool
  rs_metadata :: json
  rs_created :: int
  rs_updated :: int
  rs_deleted :: "int option"

record rule_version_row =
  rv_id :: string
  rv_set :: string
  rv_version :: string
  rv_source_uri :: "string option"
  rv_local_path :: "string option"
  rv_checksum :: "string option"
  rv_snapshot :: json
  rv_released :: "int option"
  rv_created :: int

record event_ref_row =
  ev_row_id :: string
  ev_row_tenant :: string
  ev_row_app :: "string option"
  ev_row_policy :: "string option"
  ev_row_event :: string
  ev_row_request :: string
  ev_row_ip :: "string option"
  ev_row_host :: "string option"
  ev_row_path :: "string option"
  ev_row_action :: string
  ev_row_occurred :: int
  ev_row_metadata :: json

record database =
  tenants :: "tenant_row list"
  apps :: "app_row list"
  origins :: "origin_row list"
  policies :: "policy_row list"
  versions :: "version_row list"
  deployments :: "deployment_row list"
  rule_sets :: "rule_set_row list"
  rule_versions :: "rule_version_row list"
  event_refs :: "event_ref_row list"

record pg_env =
  pg_now :: int
  pg_id :: "nat \<Rightarrow> string"
  pg_uuid :: "string \<Rightarrow> string option"
  pg_lower :: "string \<Rightarrow> string"
  pg_up :: "nat \<Rightarrow> bool"

section \<open>Statements\<close>

definition newest_first :: "('r \<Rightarrow> int) \<Rightarrow> 'r list \<Rightarrow> 'r list" where
  "newest_first key rows = sort_key (\<lambda>r. - key r) rows"

definition limit_1 :: "'r list \<Rightarrow> 'r option" where
  "limit_1 rows = (case rows of [] \<Rightarrow> None | r # _ \<Rightarrow> Some r)"

definition coalesce :: "string option \<Rightarrow> string" where
  "coalesce c = (case c of None \<Rightarrow> [] | Some s \<Rightarrow> s)"

text \<open>The operator \<open>->\<close> of \<open>jsonb\<close> and \<open>COALESCE(metadata->'snapshot', '{}')\<close>.\<close>

definition snapshot_column :: "json \<Rightarrow> json" where
  "snapshot_column metadata =
     (case metadata of
        JObj kvs \<Rightarrow> (case map_of kvs ''snapshot'' of None \<Rightarrow> JObj [] | Some v \<Rightarrow> v)
      | _ \<Rightarrow> JObj [])"

definition defaultRaw :: "json option \<Rightarrow> json \<Rightarrow> json" where
  "defaultRaw value fallback =
     (case value of None \<Rightarrow> fallback | Some v \<Rightarrow> if v = JNull then fallback else v)"

text \<open>Both callers pass no existing metadata.\<close>

definition metadataWithSnapshot :: "json option \<Rightarrow> json" where
  "metadataWithSnapshot snapshot = JObj [(''snapshot'', defaultRaw snapshot (JObj []))]"

definition metadata_or_empty :: "json option \<Rightarrow> json" where
  "metadata_or_empty m = (case m of None \<Rightarrow> JObj [] | Some v \<Rightarrow> v)"

definition app_of :: "app_row \<Rightarrow> origin_model list \<Rightarrow> app_model" where
  "app_of r os =
     \<lparr>am_ID = ap_id r, am_TenantID = ap_tenant r, am_Name = ap_name r, am_Slug = ap_slug r,
      am_Hostnames = ap_hostnames r, am_Status = ap_status r, am_Origins = os,
      am_Metadata = ap_metadata r, am_CreatedAt = ap_created r, am_UpdatedAt = ap_updated r\<rparr>"

definition origin_url_of :: "origin_row \<Rightarrow> string" where
  "origin_url_of r = og_scheme r @ ''://'' @ og_host r @ '':'' @ go_Itoa (og_port r)"

definition origin_of :: "origin_row \<Rightarrow> string \<Rightarrow> origin_model" where
  "origin_of r u =
     \<lparr>or_ID = og_id r, or_Name = og_name r, or_Scheme = og_scheme r, or_Host = og_host r,
      or_Port = og_port r, or_URL = u\<rparr>"

definition policy_of :: "policy_row \<Rightarrow> json option \<Rightarrow> policy_model" where
  "policy_of r s =
     \<lparr>pm_ID = po_id r, pm_TenantID = po_tenant r, pm_AppID = po_app r, pm_Name = po_name r,
      pm_Mode = po_mode r, pm_Enabled = po_enabled r, pm_ActiveVersionID = coalesce (po_active r),
      pm_Snapshot = s, pm_CreatedAt = po_created r, pm_UpdatedAt = po_updated r\<rparr>"

section \<open>Tenants\<close>

text \<open>\<open>connect\<close> makes the pool and pings the server; the pool is closed again when the ping fails.\<close>

definition OpenPool :: "(string \<Rightarrow> bool) \<Rightarrow> string \<Rightarrow> db_error + unit" where
  "OpenPool connect databaseURL =
     (if databaseURL = [] then Inl DbFailed else if connect databaseURL then Inr () else Inl DbFailed)"

definition Ping :: "pg_env \<Rightarrow> database \<Rightarrow> db_error + unit" where
  "Ping env db = (if pg_up env 0 then Inr () else Inl DbFailed)"

definition ListTenants :: "pg_env \<Rightarrow> database \<Rightarrow> db_error + tenant list" where
  "ListTenants env db =
     (if pg_up env 0
      then Inr (map tenant.truncate (newest_first tn_CreatedAt (filter (\<lambda>r. tn_deleted r = None) (tenants db))))
      else Inl DbFailed)"

definition CreateTenant :: "pg_env \<Rightarrow> create_tenant_request \<Rightarrow> database \<Rightarrow> (db_error + tenant) \<times> database" where
  "CreateTenant env req db =
     (let r = \<lparr>tn_ID = pg_id env 0, tn_Name = ctr_Name req, tn_Slug = ctr_Slug req, tn_Status = ''active'',
               tn_Metadata = metadata_or_empty (ctr_Metadata req), tn_CreatedAt = pg_now env,
               tn_UpdatedAt = pg_now env, tn_deleted = None\<rparr>
      in if \<not> pg_up env 0 \<or> ctr_Slug req \<in> tn_Slug ` set (tenants db) then (Inl DbFailed, db)
         else (Inr (tenant.truncate r), db\<lparr>tenants := tenants db @ [r]\<rparr>))"

section \<open>Apps and origins\<close>

definition ListApps :: "pg_env \<Rightarrow> string \<Rightarrow> database \<Rightarrow> db_error + app_model list" where
  "ListApps env tenantID db =
     (case pg_uuid env tenantID of
        None \<Rightarrow> Inl DbFailed
      | Some t \<Rightarrow>
          if pg_up env 0
          then Inr (map (\<lambda>r. app_of r [])
                 (newest_first ap_created (filter (\<lambda>r. ap_tenant r = t \<and> ap_deleted r = None) (apps db))))
          else Inl DbFailed)"

text \<open>The statement that lists the origins of an app; the port is never 0 in the table.\<close>

definition listOrigins :: "string \<Rightarrow> database \<Rightarrow> origin_model list" where
  "listOrigins appID db =
     map (\<lambda>r. origin_of r (if 0 < og_port r then origin_url_of r else og_scheme r @ ''://'' @ og_host r))
       (sort_key og_created (filter (\<lambda>r. og_app r = appID \<and> og_deleted r = None) (origins db)))"

text \<open>
  \<open>insertOrigin\<close>: the port defaults to the scheme's; the row is refused when the app already has
  an origin of that name, deleted or not, or when a check on scheme or port fails.
\<close>

definition origin_port :: "url \<Rightarrow> string" where
  "origin_port v =
     (if url_Port v = [] then (if url_Scheme v = ''https'' then ''443'' else ''80'') else url_Port v)"

definition insertOrigin ::
  "unicode \<Rightarrow> pg_env \<Rightarrow> string \<Rightarrow> string \<Rightarrow> string \<Rightarrow> url \<Rightarrow> database \<Rightarrow> db_error + origin_model \<times> database" where
  "insertOrigin u env newID tenantID appID originURL db =
     (case go_ParseInt64 (origin_port originURL) of
        None \<Rightarrow> Inl DbFailed
      | Some port \<Rightarrow>
          let r = \<lparr>og_id = newID, og_tenant = tenantID, og_app = appID, og_name = ''primary'',
                   og_scheme = url_Scheme originURL, og_host = go_ToLower u (url_Hostname originURL),
                   og_port = port, og_enabled = True, og_created = pg_now env, og_updated = pg_now env,
                   og_deleted = None\<rparr>
          in if url_Scheme originURL \<notin> {''http'', ''https''} \<or> port < 1 \<or> 65535 < port
                \<or> (\<exists>x \<in> set (origins db). og_app x = appID \<and> og_name x = ''primary'')
             then Inl DbFailed
             else Inr (origin_of r (origin_url_of r), db\<lparr>origins := origins db @ [r]\<rparr>))"

definition CreateApp ::
  "unicode \<Rightarrow> pg_env \<Rightarrow> create_app_request \<Rightarrow> url \<Rightarrow> database \<Rightarrow> (db_error + app_model) \<times> database" where
  "CreateApp u env req originURL db =
     (case pg_uuid env (car_TenantID req) of
        None \<Rightarrow> (Inl DbFailed, db)
      | Some t \<Rightarrow>
          let r = \<lparr>ap_id = pg_id env 0, ap_tenant = t, ap_name = car_Name req, ap_slug = car_Slug req,
                   ap_hostnames = car_Hostnames req, ap_status = ''active'',
                   ap_metadata = metadata_or_empty (car_Metadata req), ap_created = pg_now env,
                   ap_updated = pg_now env, ap_deleted = None\<rparr>
          in if \<not> (pg_up env 0 \<and> pg_up env 1) \<or> t \<notin> tn_ID ` set (tenants db)
                \<or> (\<exists>x \<in> set (apps db). ap_tenant x = t \<and> ap_slug x = car_Slug req)
             then (Inl DbFailed, db)
             else
               (case insertOrigin u env (pg_id env 1) t (ap_id r) originURL (db\<lparr>apps := apps db @ [r]\<rparr>) of
                  Inl e \<Rightarrow> (Inl e, db)
                | Inr (origin, db') \<Rightarrow>
                    if pg_up env 2 \<and> pg_up env 3 then (Inr (app_of r [origin]), db') else (Inl DbFailed, db)))"

definition app_where :: "string \<Rightarrow> string \<Rightarrow> app_row \<Rightarrow> bool" where
  "app_where t i r \<longleftrightarrow> ap_tenant r = t \<and> ap_id r = i \<and> ap_deleted r = None"

text \<open>\<open>GetApp\<close> runs two statements, counted from \<open>k\<close>.\<close>

definition GetApp_at :: "nat \<Rightarrow> pg_env \<Rightarrow> string \<Rightarrow> string \<Rightarrow> database \<Rightarrow> db_error + app_model" where
  "GetApp_at k env tenantID i db =
     (case (pg_uuid env tenantID, pg_uuid env i) of
        (Some t, Some a) \<Rightarrow>
          if \<not> pg_up env k then Inl DbFailed
          else (case find (app_where t a) (apps db) of
                  None \<Rightarrow> Inl NotFound
                | Some r \<Rightarrow>
                    if pg_up env (Suc k) then Inr (app_of r (listOrigins (ap_id r) db)) else Inl DbFailed)
      | _ \<Rightarrow> Inl DbFailed)"

definition GetApp :: "pg_env \<Rightarrow> string \<Rightarrow> string \<Rightarrow> database \<Rightarrow> db_error + app_model" where
  "GetApp = GetApp_at 0"

text \<open>The row that \<open>UpdateApp\<close> writes, from the app it has read and the request.\<close>

definition patch_app :: "pg_env \<Rightarrow> update_app_request \<Rightarrow> app_model \<Rightarrow> app_row \<Rightarrow> app_row" where
  "patch_app env req current r =
     r\<lparr>ap_name := (case uar_Name req of Some n \<Rightarrow> n | None \<Rightarrow> am_Name current),
       ap_hostnames := (if uar_Hostnames req \<noteq> [] then uar_Hostnames req else am_Hostnames current),
       ap_status := (case uar_Status req of Some s \<Rightarrow> s | None \<Rightarrow> am_Status current),
       ap_metadata := (case uar_Metadata req of Some m \<Rightarrow> m | None \<Rightarrow> am_Metadata current),
       ap_updated := pg_now env\<rparr>"

definition delete_origins :: "pg_env \<Rightarrow> string \<Rightarrow> string \<Rightarrow> database \<Rightarrow> database" where
  "delete_origins env t a db =
     db\<lparr>origins := map (\<lambda>r. if og_tenant r = t \<and> og_app r = a \<and> og_deleted r = None
                             then r\<lparr>og_deleted := Some (pg_now env), og_updated := pg_now env\<rparr> else r) (origins db)\<rparr>"

text \<open>
  The transaction of \<open>UpdateApp\<close>, on the tables as they are when it starts; \<open>current\<close> was read
  before. Without a new origin the origins are read after the commit.
\<close>

definition update_app_tx ::
  "unicode \<Rightarrow> pg_env \<Rightarrow> string \<Rightarrow> string \<Rightarrow> update_app_request \<Rightarrow> url option \<Rightarrow> app_model \<Rightarrow> database
   \<Rightarrow> (db_error + app_model) \<times> database" where
  "update_app_tx u env t a req originURL current db =
     (if \<not> (pg_up env 2 \<and> pg_up env 3) then (Inl DbFailed, db)
      else
        (case find (app_where t a) (apps db) of
           None \<Rightarrow> (Inl NotFound, db)
         | Some r \<Rightarrow>
             let r' = patch_app env req current r;
                 db1 = db\<lparr>apps := map (\<lambda>x. if app_where t a x then patch_app env req current x else x) (apps db)\<rparr>
             in if ap_status r' \<notin> {''active'', ''disabled''} then (Inl DbFailed, db)
                else
                (case originURL of
                   Some v \<Rightarrow>
                     if \<not> (pg_up env 4 \<and> pg_up env 5) then (Inl DbFailed, db)
                     else (case insertOrigin u env (pg_id env 0) t a v (delete_origins env t a db1) of
                             Inl e \<Rightarrow> (Inl e, db)
                           | Inr (origin, db2) \<Rightarrow>
                               if pg_up env 6 then (Inr (app_of r' [origin]), db2) else (Inl DbFailed, db))
                 | None \<Rightarrow>
                     if \<not> pg_up env 6 then (Inl DbFailed, db)
                     else if pg_up env 7 then (Inr (app_of r' (listOrigins (ap_id r') db1)), db1)
                     else (Inl DbFailed, db1))))"

definition UpdateApp ::
  "unicode \<Rightarrow> pg_env \<Rightarrow> string \<Rightarrow> string \<Rightarrow> update_app_request \<Rightarrow> url option \<Rightarrow> database
   \<Rightarrow> (db_error + app_model) \<times> database" where
  "UpdateApp u env tenantID i req originURL db =
     (case GetApp env tenantID i db of
        Inl e \<Rightarrow> (Inl e, db)
      | Inr current \<Rightarrow> update_app_tx u env (am_TenantID current) (am_ID current) req originURL current db)"

section \<open>Policies\<close>

definition policy_where :: "string \<Rightarrow> string \<Rightarrow> policy_row \<Rightarrow> bool" where
  "policy_where t i r \<longleftrightarrow> po_tenant r = t \<and> po_id r = i \<and> po_deleted r = None"

definition ListPoliciesByApp :: "pg_env \<Rightarrow> string \<Rightarrow> string \<Rightarrow> database \<Rightarrow> db_error + policy_model list" where
  "ListPoliciesByApp env tenantID appID db =
     (case (pg_uuid env tenantID, pg_uuid env appID) of
        (Some t, Some a) \<Rightarrow>
          if pg_up env 0
          then Inr (map (\<lambda>r. policy_of r None)
                 (newest_first po_created
                   (filter (\<lambda>r. po_tenant r = t \<and> po_app r = a \<and> po_deleted r = None) (policies db))))
          else Inl DbFailed
      | _ \<Rightarrow> Inl DbFailed)"

definition CreatePolicy ::
  "pg_env \<Rightarrow> string \<Rightarrow> string \<Rightarrow> create_policy_request \<Rightarrow> database \<Rightarrow> (db_error + policy_model) \<times> database" where
  "CreatePolicy env tenantID appID req db =
     (case GetApp env tenantID appID db of
        Inl e \<Rightarrow> (Inl e, db)
      | Inr app \<Rightarrow>
          let snapshot = metadata_or_empty (cpr_Snapshot req);
              r = \<lparr>po_id = pg_id env 0, po_tenant = am_TenantID app, po_app = am_ID app, po_name = cpr_Name req,
                   po_mode = cpr_Mode req, po_active = None, po_enabled = True,
                   po_metadata = metadataWithSnapshot (Some snapshot), po_created = pg_now env,
                   po_updated = pg_now env, po_deleted = None\<rparr>
          in if \<not> pg_up env 2 \<or> cpr_Mode req \<notin> {''count'', ''block''}
                \<or> (\<exists>x \<in> set (policies db). po_app x = am_ID app \<and> po_name x = cpr_Name req)
             then (Inl DbFailed, db)
             else (Inr (policy_of r (Some snapshot)), db\<lparr>policies := policies db @ [r]\<rparr>))"

definition GetPolicy :: "pg_env \<Rightarrow> string \<Rightarrow> string \<Rightarrow> database \<Rightarrow> db_error + policy_model" where
  "GetPolicy env tenantID i db =
     (case (pg_uuid env tenantID, pg_uuid env i) of
        (Some t, Some p) \<Rightarrow>
          if \<not> pg_up env 0 then Inl DbFailed
          else (case find (policy_where t p) (policies db) of
                  None \<Rightarrow> Inl NotFound
                | Some r \<Rightarrow> Inr (policy_of r (Some (snapshot_column (po_metadata r)))))
      | _ \<Rightarrow> Inl DbFailed)"

text \<open>\<open>getPolicyForUpdate\<close> locks the row, so the rest of the transaction works on the row it returns.\<close>

definition getPolicyForUpdate :: "pg_env \<Rightarrow> string \<Rightarrow> string \<Rightarrow> database \<Rightarrow> db_error + policy_row" where
  "getPolicyForUpdate env tenantID i db =
     (case (pg_uuid env tenantID, pg_uuid env i) of
        (Some t, Some p) \<Rightarrow>
          if \<not> (pg_up env 0 \<and> pg_up env 1) then Inl DbFailed
          else (case find (policy_where t p) (policies db) of None \<Rightarrow> Inl NotFound | Some r \<Rightarrow> Inr r)
      | _ \<Rightarrow> Inl DbFailed)"

definition patch_policy :: "pg_env \<Rightarrow> update_policy_request \<Rightarrow> policy_row \<Rightarrow> policy_row" where
  "patch_policy env req r =
     r\<lparr>po_name := (case upr_Name req of Some n \<Rightarrow> n | None \<Rightarrow> po_name r),
       po_mode := (case upr_Mode req of Some m \<Rightarrow> m | None \<Rightarrow> po_mode r),
       po_enabled := (case upr_Enabled req of Some b \<Rightarrow> b | None \<Rightarrow> po_enabled r),
       po_metadata := metadataWithSnapshot
         (Some (case upr_Snapshot req of Some s \<Rightarrow> s | None \<Rightarrow> snapshot_column (po_metadata r))),
       po_updated := pg_now env\<rparr>"

definition put_policy :: "policy_row \<Rightarrow> database \<Rightarrow> database" where
  "put_policy r db =
     db\<lparr>policies := map (\<lambda>x. if policy_where (po_tenant r) (po_id r) x then r else x) (policies db)\<rparr>"

definition UpdatePolicy ::
  "pg_env \<Rightarrow> string \<Rightarrow> string \<Rightarrow> update_policy_request \<Rightarrow> database \<Rightarrow> (db_error + policy_model) \<times> database" where
  "UpdatePolicy env tenantID i req db =
     (case getPolicyForUpdate env tenantID i db of
        Inl e \<Rightarrow> (Inl e, db)
      | Inr current \<Rightarrow>
          if po_updated current \<noteq> upr_ExpectedUpdatedAt req then (Inl Conflict, db)
          else
            let r = patch_policy env req current in
            if \<not> (pg_up env 2 \<and> pg_up env 3) \<or> po_mode r \<notin> {''count'', ''block''}
               \<or> (\<exists>x \<in> set (policies db). po_id x \<noteq> po_id r \<and> po_app x = po_app r \<and> po_name x = po_name r)
            then (Inl DbFailed, db)
            else (Inr (policy_of r (Some (snapshot_column (po_metadata r)))), put_policy r db))"

end
