(* ===== verification/Control_Publish.thy ===== *)
theory Control_Publish
  imports Control_Db
begin

text \<open>
  The second half of package \<open>db\<close>: publishing a policy (compiling the draft into the snapshot that
  gateways fetch, numbering the version, deploying it), the two reads of deployed snapshots, managed
  rule sets and event references. \<open>json.Marshal\<close> of a \<open>GatewayPolicy\<close> is written out on JSON values;
  the text of a time and the SHA-256 digest of a snapshot's text are parameters.
\<close>

section \<open>The snapshot of a published policy\<close>

definition omit_empty :: "string \<Rightarrow> string \<Rightarrow> (string \<times> json) list" where
  "omit_empty tag s = (if s = [] then [] else [(tag, JStr s)])"

definition json_of_origin :: "origin_model \<Rightarrow> json" where
  "json_of_origin r =
     JObj (omit_empty ''id'' (or_ID r) @
       [(''name'', JStr (or_Name r)), (''scheme'', JStr (or_Scheme r)), (''host'', JStr (or_Host r)),
        (''port'', JNum (go_Itoa (or_Port r)))] @ omit_empty ''url'' (or_URL r))"

definition json_of_gateway_policy :: "(int \<Rightarrow> string) \<Rightarrow> gateway_policy_model \<Rightarrow> json" where
  "json_of_gateway_policy fmt_time p =
     JObj
       [(''tenant_id'', JStr (gm_TenantID p)), (''app_id'', JStr (gm_AppID p)),
        (''policy_id'', JStr (gm_PolicyID p)), (''policy_version_id'', JStr (gm_PolicyVersionID p)),
        (''mode'', JStr (gm_Mode p)), (''origin'', json_of_origin (gm_Origin p)),
        (''ip_sets'', gm_IPSets p), (''custom_rules'', gm_CustomRules p),
        (''rate_limits'', gm_RateLimits p), (''waf'', gm_WAF p),
        (''published_at'', JStr (fmt_time (gm_PublishedAt p)))]"

definition zero_origin :: origin_model where
  "zero_origin = \<lparr>or_ID = [], or_Name = [], or_Scheme = [], or_Host = [], or_Port = 0, or_URL = []\<rparr>"

definition into_origin :: "unicode \<Rightarrow> origin_model into" where
  "into_origin u = into_struct u False
     [(''id'', at_field or_ID or_ID_update into_string),
      (''name'', at_field or_Name or_Name_update into_string),
      (''scheme'', at_field or_Scheme or_Scheme_update into_string),
      (''host'', at_field or_Host or_Host_update into_string),
      (''port'', at_field or_Port or_Port_update into_int),
      (''url'', at_field or_URL or_URL_update into_string)]"

text \<open>A raw message that is absent stays empty and is later printed as \<open>null\<close>.\<close>

definition into_value :: "json into" where
  "into_value j old = Some j"

definition zero_gateway_policy :: gateway_policy_model where
  "zero_gateway_policy =
     \<lparr>gm_TenantID = [], gm_AppID = [], gm_PolicyID = [], gm_PolicyVersionID = [], gm_Mode = [],
      gm_Origin = zero_origin, gm_IPSets = JNull, gm_CustomRules = JNull, gm_RateLimits = JNull,
      gm_WAF = JNull, gm_PublishedAt = zero_time\<rparr>"

definition into_gateway_policy :: "unicode \<Rightarrow> (string \<Rightarrow> int option) \<Rightarrow> gateway_policy_model into" where
  "into_gateway_policy u parse_time = into_struct u False
     [(''tenant_id'', at_field gm_TenantID gm_TenantID_update into_string),
      (''app_id'', at_field gm_AppID gm_AppID_update into_string),
      (''policy_id'', at_field gm_PolicyID gm_PolicyID_update into_string),
      (''policy_version_id'', at_field gm_PolicyVersionID gm_PolicyVersionID_update into_string),
      (''mode'', at_field gm_Mode gm_Mode_update into_string),
      (''origin'', at_field gm_Origin gm_Origin_update (into_origin u)),
      (''ip_sets'', at_field gm_IPSets gm_IPSets_update into_value),
      (''custom_rules'', at_field gm_CustomRules gm_CustomRules_update into_value),
      (''rate_limits'', at_field gm_RateLimits gm_RateLimits_update into_value),
      (''waf'', at_field gm_WAF gm_WAF_update into_value),
      (''published_at'', at_field gm_PublishedAt gm_PublishedAt_update (into_time parse_time))]"

definition decodeGatewayPolicy ::
  "unicode \<Rightarrow> (string \<Rightarrow> int option) \<Rightarrow> json \<Rightarrow> db_error + gateway_policy_model" where
  "decodeGatewayPolicy u parse_time snapshot =
     (case into_gateway_policy u parse_time snapshot zero_gateway_policy of
        None \<Rightarrow> Inl DbFailed
      | Some p \<Rightarrow> Inr p)"

section \<open>Compiling a draft\<close>

record policy_draft =
  pd_Mode :: string
  pd_IPSets :: "json option"
  pd_CustomRules :: "json option"
  pd_RateLimits :: "json option"
  pd_WAF :: "json option"

definition zero_draft :: policy_draft where
  "zero_draft = \<lparr>pd_Mode = [], pd_IPSets = None, pd_CustomRules = None, pd_RateLimits = None, pd_WAF = None\<rparr>"

definition into_draft :: "unicode \<Rightarrow> policy_draft into" where
  "into_draft u = into_struct u False
     [(''mode'', at_field pd_Mode pd_Mode_update into_string),
      (''ip_sets'', at_field pd_IPSets pd_IPSets_update into_raw),
      (''custom_rules'', at_field pd_CustomRules pd_CustomRules_update into_raw),
      (''rate_limits'', at_field pd_RateLimits pd_RateLimits_update into_raw),
      (''waf'', at_field pd_WAF pd_WAF_update into_raw)]"

definition decodeDraft :: "unicode \<Rightarrow> json option \<Rightarrow> policy_draft option" where
  "decodeDraft u snapshot =
     (case snapshot of None \<Rightarrow> Some zero_draft | Some v \<Rightarrow> into_draft u v zero_draft)"

text \<open>\<open>ORDER BY name = 'primary' DESC, created_at LIMIT 1\<close> over the enabled origins of the app.\<close>

definition getPrimaryOrigin :: "string \<Rightarrow> database \<Rightarrow> origin_model option" where
  "getPrimaryOrigin appID db =
     map_option (\<lambda>r. origin_of r (origin_url_of r))
       (limit_1 (sort_key (\<lambda>r. if og_name r = ''primary'' then 0 else 1 :: nat)
         (sort_key og_created
           (filter (\<lambda>r. og_app r = appID \<and> og_deleted r = None \<and> og_enabled r) (origins db)))))"

definition compileGatewayPolicy ::
  "unicode \<Rightarrow> policy_row \<Rightarrow> string \<Rightarrow> database \<Rightarrow> db_error + gateway_policy_model" where
  "compileGatewayPolicy u policy versionID db =
     (case getPrimaryOrigin (po_app policy) db of
        None \<Rightarrow> Inl NotFound
      | Some origin \<Rightarrow>
          (case decodeDraft u (Some (snapshot_column (po_metadata policy))) of
             None \<Rightarrow> Inl DbFailed
           | Some draft \<Rightarrow>
               Inr \<lparr>gm_TenantID = po_tenant policy, gm_AppID = po_app policy, gm_PolicyID = po_id policy,
                    gm_PolicyVersionID = versionID,
                    gm_Mode = (if pd_Mode draft \<noteq> [] then pd_Mode draft else po_mode policy),
                    gm_Origin = origin, gm_IPSets = defaultRaw (pd_IPSets draft) (JObj []),
                    gm_CustomRules = defaultRaw (pd_CustomRules draft) (JArr []),
                    gm_RateLimits = defaultRaw (pd_RateLimits draft) (JArr []),
                    gm_WAF = defaultRaw (pd_WAF draft) (JObj []), gm_PublishedAt = zero_time\<rparr>))"

section \<open>Publishing\<close>

definition next_version :: "string \<Rightarrow> database \<Rightarrow> int" where
  "next_version p db = foldr max (map ve_version (filter (\<lambda>v. ve_policy v = p) (versions db))) 0 + 1"

text \<open>
  The upsert of the deployment: on a conflict the version, status and times of the existing row
  are replaced.
\<close>

definition upsert_deployment :: "pg_env \<Rightarrow> policy_row \<Rightarrow> string \<Rightarrow> database \<Rightarrow> database" where
  "upsert_deployment env policy versionID db =
     (if \<exists>d \<in> set (deployments db). dp_policy d = po_id policy \<and> dp_node d = ''default''
      then db\<lparr>deployments := map (\<lambda>d. if dp_policy d = po_id policy \<and> dp_node d = ''default''
             then d\<lparr>dp_version := versionID, dp_status := ''active'', dp_deployed := pg_now env,
                    dp_updated := pg_now env\<rparr> else d) (deployments db)\<rparr>
      else db\<lparr>deployments := deployments db @
             [\<lparr>dp_tenant = po_tenant policy, dp_app = po_app policy, dp_policy = po_id policy,
               dp_version = versionID, dp_node = ''default'', dp_status = ''active'',
               dp_deployed = pg_now env, dp_last_seen = Some (pg_now env), dp_updated = pg_now env\<rparr>]\<rparr>)"

definition activate_version :: "pg_env \<Rightarrow> policy_row \<Rightarrow> string \<Rightarrow> database \<Rightarrow> database" where
  "activate_version env policy versionID db =
     db\<lparr>policies := map (\<lambda>r. if po_tenant r = po_tenant policy \<and> po_id r = po_id policy
          then r\<lparr>po_active := Some versionID, po_updated := pg_now env\<rparr> else r) (policies db)\<rparr>"

text \<open>
  Statements: begin, lock the policy, the version number, the new id and the time, the primary
  origin, the insert, the update, the deployment, the commit.
\<close>

definition PublishPolicy ::
  "unicode \<Rightarrow> (int \<Rightarrow> string) \<Rightarrow> (json \<Rightarrow> string) \<Rightarrow> pg_env \<Rightarrow> string \<Rightarrow> string \<Rightarrow> database
   \<Rightarrow> (db_error + publish_policy_response) \<times> database" where
  "PublishPolicy u fmt_time digest env tenantID i db =
     (case getPolicyForUpdate env tenantID i db of
        Inl e \<Rightarrow> (Inl e, db)
      | Inr policy \<Rightarrow>
          if \<not> (pg_up env 2 \<and> pg_up env 3 \<and> pg_up env 4) then (Inl DbFailed, db)
          else
            (case compileGatewayPolicy u policy (pg_id env 0) db of
               Inl e \<Rightarrow> (Inl e, db)
             | Inr compiled0 \<Rightarrow>
                 let versionID = pg_id env 0;
                     version = next_version (po_id policy) db;
                     compiled = compiled0\<lparr>gm_PublishedAt := pg_now env\<rparr>;
                     snapshot = json_of_gateway_policy fmt_time compiled;
                     row = \<lparr>ve_id = versionID, ve_tenant = po_tenant policy, ve_app = po_app policy,
                            ve_policy = po_id policy, ve_version = version, ve_mode = po_mode policy,
                            ve_snapshot = snapshot, ve_sha256 = digest snapshot, ve_created = pg_now env\<rparr>;
                     db1 = db\<lparr>versions := versions db @ [row]\<rparr>;
                     db2 = activate_version env policy versionID db1;
                     db3 = upsert_deployment env policy versionID db2
                 in if pg_up env 5 \<and> pg_up env 6 \<and> pg_up env 7 \<and> pg_up env 8
                    then (Inr \<lparr>pr_PolicyID = po_id policy, pr_PolicyVersionID = versionID,
                               pr_Version = version, pr_PublishedAt = pg_now env\<rparr>, db3)
                    else (Inl DbFailed, db)))"

section \<open>Reading what is deployed\<close>

text \<open>
  The joins of a deployment with its policy and its version; the condition on the policy and, for a
  host name, on the app.
\<close>

definition policy_live :: "database \<Rightarrow> deployment_row \<Rightarrow> bool" where
  "policy_live db d \<longleftrightarrow>
     list_ex (\<lambda>p. po_id p = dp_policy d \<and> po_deleted p = None \<and> po_enabled p) (policies db)"

definition deployed_snapshot :: "database \<Rightarrow> deployment_row \<Rightarrow> json option" where
  "deployed_snapshot db d = map_option ve_snapshot (find (\<lambda>v. ve_id v = dp_version d) (versions db))"

definition default_active :: "deployment_row \<Rightarrow> bool" where
  "default_active d \<longleftrightarrow> dp_node d = ''default'' \<and> dp_status d = ''active''"

definition app_serves :: "pg_env \<Rightarrow> string \<Rightarrow> app_row \<Rightarrow> bool" where
  "app_serves env hostname a \<longleftrightarrow>
     list_ex (\<lambda>h. pg_lower env h = pg_lower env hostname) (ap_hostnames a) \<and> ap_deleted a = None \<and>
     ap_status a = ''active''"

definition newest_snapshot :: "database \<Rightarrow> (deployment_row \<Rightarrow> bool) \<Rightarrow> json option" where
  "newest_snapshot db cond =
     (case limit_1 (newest_first dp_deployed
        (filter (\<lambda>d. cond d \<and> default_active d \<and> policy_live db d \<and> deployed_snapshot db d \<noteq> None) (deployments db))) of
        None \<Rightarrow> None
      | Some d \<Rightarrow> deployed_snapshot db d)"

definition GetActivePolicyByApp ::
  "unicode \<Rightarrow> (string \<Rightarrow> int option) \<Rightarrow> pg_env \<Rightarrow> string \<Rightarrow> string \<Rightarrow> database
   \<Rightarrow> db_error + gateway_policy_model" where
  "GetActivePolicyByApp u parse_time env tenantID appID db =
     (case (pg_uuid env tenantID, pg_uuid env appID) of
        (Some t, Some a) \<Rightarrow>
          if \<not> pg_up env 0 then Inl DbFailed
          else (case newest_snapshot db (\<lambda>d. dp_tenant d = t \<and> dp_app d = a) of
                  None \<Rightarrow> Inl NotFound
                | Some s \<Rightarrow> decodeGatewayPolicy u parse_time s)
      | _ \<Rightarrow> Inl DbFailed)"

definition GetGatewayPolicyByHostname ::
  "unicode \<Rightarrow> (string \<Rightarrow> int option) \<Rightarrow> pg_env \<Rightarrow> string \<Rightarrow> database
   \<Rightarrow> db_error + gateway_policy_model" where
  "GetGatewayPolicyByHostname u parse_time env hostname db =
     (if \<not> pg_up env 0 then Inl DbFailed
      else (case newest_snapshot db (\<lambda>d. list_ex (\<lambda>a. ap_id a = dp_app d \<and> app_serves env hostname a) (apps db)) of
              None \<Rightarrow> Inl NotFound
            | Some s \<Rightarrow> decodeGatewayPolicy u parse_time s))"

section \<open>Managed rule sets and event references\<close>

definition rule_set_of :: "rule_set_row \<Rightarrow> managed_rule_set" where
  "rule_set_of r =
     \<lparr>ms_ID = rs_id r, ms_Name = rs_name r, ms_Provider = rs_provider r, ms_Source = rs_source r,
      ms_Description = coalesce (rs_description r), ms_LocalPath = coalesce (rs_local_path r),
      ms_Enabled = rs_enabled r, ms_Metadata = rs_metadata r, ms_CreatedAt = rs_created r,
      ms_UpdatedAt = rs_updated r\<rparr>"

definition rule_version_of :: "rule_version_row \<Rightarrow> managed_rule_version" where
  "rule_version_of r =
     \<lparr>mv_ID = rv_id r, mv_ManagedRuleSetID = rv_set r, mv_Version = rv_version r,
      mv_SourceURI = coalesce (rv_source_uri r), mv_LocalPath = coalesce (rv_local_path r),
      mv_ChecksumSHA256 = coalesce (rv_checksum r), mv_RulesetSnapshot = rv_snapshot r,
      mv_ReleasedAt = rv_released r, mv_CreatedAt = rv_created r\<rparr>"

definition event_ref_of :: "event_ref_row \<Rightarrow> event_ref" where
  "event_ref_of r =
     \<lparr>er_ID = ev_row_id r, er_TenantID = ev_row_tenant r, er_AppID = coalesce (ev_row_app r),
      er_PolicyID = coalesce (ev_row_policy r), er_EventID = ev_row_event r,
      er_RequestID = ev_row_request r, er_SourceIP = coalesce (ev_row_ip r),
      er_Host = coalesce (ev_row_host r), er_Path = coalesce (ev_row_path r),
      er_Action = ev_row_action r, er_OccurredAt = ev_row_occurred r,
      er_Metadata = ev_row_metadata r\<rparr>"

text \<open>\<open>ORDER BY name\<close> follows the collation of the database, here a rank of texts.\<close>

definition ListManagedRuleSets :: "(string \<Rightarrow> nat) \<Rightarrow> pg_env \<Rightarrow> database \<Rightarrow> db_error + managed_rule_set list" where
  "ListManagedRuleSets collate env db =
     (if pg_up env 0
      then Inr (map rule_set_of (sort_key (\<lambda>r. collate (rs_name r)) (filter (\<lambda>r. rs_deleted r = None) (rule_sets db))))
      else Inl DbFailed)"

definition ListManagedRuleVersions :: "pg_env \<Rightarrow> string \<Rightarrow> database \<Rightarrow> db_error + managed_rule_version list" where
  "ListManagedRuleVersions env ruleSetID db =
     (case pg_uuid env ruleSetID of
        None \<Rightarrow> Inl DbFailed
      | Some s \<Rightarrow>
          if pg_up env 0
          then Inr (map rule_version_of (newest_first rv_created (filter (\<lambda>r. rv_set r = s) (rule_versions db))))
          else Inl DbFailed)"

definition ActivateManagedRuleVersion ::
  "pg_env \<Rightarrow> string \<Rightarrow> string \<Rightarrow> database \<Rightarrow> db_error + activate_response" where
  "ActivateManagedRuleVersion env ruleSetID versionID db =
     (case (pg_uuid env ruleSetID, pg_uuid env versionID) of
        (Some s, Some v) \<Rightarrow>
          if \<not> pg_up env 0 then Inl DbFailed
          else if \<not> list_ex (\<lambda>r. rv_id r = v \<and> rv_set r = s) (rule_versions db) then Inl NotFound
          else Inr \<lparr>ar_ManagedRuleSetID = ruleSetID, ar_ManagedRuleVersionID = versionID,
                    ar_Status = ''manual_policy_publish_required'',
                    ar_Message = ''managed rule versions are not activated automatically; publish a policy referencing this version''\<rparr>
      | _ \<Rightarrow> Inl DbFailed)"

definition ListEvents :: "pg_env \<Rightarrow> string \<Rightarrow> int \<Rightarrow> database \<Rightarrow> db_error + event_ref list" where
  "ListEvents env tenantID limit db =
     (case pg_uuid env tenantID of
        None \<Rightarrow> Inl DbFailed
      | Some t \<Rightarrow>
          if \<not> pg_up env 0 \<or> limit < 0 then Inl DbFailed
          else Inr (map event_ref_of (take (nat limit)
                 (newest_first ev_row_occurred (filter (\<lambda>r. ev_row_tenant r = t) (event_refs db))))))"

definition GetEvent :: "pg_env \<Rightarrow> string \<Rightarrow> string \<Rightarrow> database \<Rightarrow> db_error + event_ref" where
  "GetEvent env tenantID eventID db =
     (case pg_uuid env tenantID of
        None \<Rightarrow> Inl DbFailed
      | Some t \<Rightarrow>
          if \<not> pg_up env 0 then Inl DbFailed
          else (case find (\<lambda>r. ev_row_tenant r = t \<and> ev_row_event r = eventID) (event_refs db) of
                  None \<Rightarrow> Inl NotFound
                | Some r \<Rightarrow> Inr (event_ref_of r)))"

end
