(* ===== verification/Control_Snapshot.thy ===== *)
theory Control_Snapshot
  imports Control_Validation
begin

text \<open>
  Policy snapshots in the control API: the shape \<open>validatePolicySnapshot\<close> decodes
  (\<open>policySnapshot\<close> and its parts, \<open>server.go\<close>) and the checks it makes. The struct
  \<open>policyConditionSnapshot\<close> has the fields and tags of the gateway's \<open>config.ConditionConfig\<close>, so
  both share one datatype and one decoder.
\<close>

section \<open>Decoding conditions\<close>

definition condition_tags :: "string list" where
  "condition_tags =
     [''all'', ''any'', ''method_equals'', ''path_equals'', ''path_starts_with'', ''host_equals'',
      ''header_contains'', ''header_equals'', ''query_parameter_contains'', ''client_ip_in_ip_set'',
      ''client_ip_not_in_ip_set'']"

definition into_header_match :: "unicode \<Rightarrow> header_match into" where
  "into_header_match u = into_struct u False
     [(''name'', at_field hm_Name hm_Name_update into_string),
      (''value'', at_field hm_Value hm_Value_update into_string)]"

definition into_query_match :: "unicode \<Rightarrow> query_param_match into" where
  "into_query_match u = into_struct u False
     [(''name'', at_field qm_Name qm_Name_update into_string),
      (''value'', at_field qm_Value qm_Value_update into_string)]"

definition zero_header_match :: header_match where
  "zero_header_match = \<lparr>hm_Name = [], hm_Value = []\<rparr>"

definition zero_query_match :: query_param_match where
  "zero_query_match = \<lparr>qm_Name = [], qm_Value = []\<rparr>"

text \<open>Storing a member that is not a list of conditions.\<close>

definition into_condition_leaf :: "unicode \<Rightarrow> string \<Rightarrow> condition_config into" where
  "into_condition_leaf u tag v c =
     (case c of ConditionConfig all any meth path pathPrefix host hdrContains hdrEquals query inSet notInSet \<Rightarrow>
        if tag = ''method_equals'' then
          map_option (\<lambda>x. ConditionConfig all any x path pathPrefix host hdrContains hdrEquals query inSet notInSet)
            (into_string v meth)
        else if tag = ''path_equals'' then
          map_option (\<lambda>x. ConditionConfig all any meth x pathPrefix host hdrContains hdrEquals query inSet notInSet)
            (into_string v path)
        else if tag = ''path_starts_with'' then
          map_option (\<lambda>x. ConditionConfig all any meth path x host hdrContains hdrEquals query inSet notInSet)
            (into_string v pathPrefix)
        else if tag = ''host_equals'' then
          map_option (\<lambda>x. ConditionConfig all any meth path pathPrefix x hdrContains hdrEquals query inSet notInSet)
            (into_string v host)
        else if tag = ''header_contains'' then
          map_option (\<lambda>x. ConditionConfig all any meth path pathPrefix host x hdrEquals query inSet notInSet)
            (into_ptr zero_header_match (into_header_match u) v hdrContains)
        else if tag = ''header_equals'' then
          map_option (\<lambda>x. ConditionConfig all any meth path pathPrefix host hdrContains x query inSet notInSet)
            (into_ptr zero_header_match (into_header_match u) v hdrEquals)
        else if tag = ''query_parameter_contains'' then
          map_option (\<lambda>x. ConditionConfig all any meth path pathPrefix host hdrContains hdrEquals x inSet notInSet)
            (into_ptr zero_query_match (into_query_match u) v query)
        else if tag = ''client_ip_in_ip_set'' then
          map_option (\<lambda>x. ConditionConfig all any meth path pathPrefix host hdrContains hdrEquals query x notInSet)
            (into_string v inSet)
        else if tag = ''client_ip_not_in_ip_set'' then
          map_option (\<lambda>x. ConditionConfig all any meth path pathPrefix host hdrContains hdrEquals query inSet x)
            (into_string v notInSet)
        else Some c)"

definition set_all :: "condition_config list \<Rightarrow> condition_config \<Rightarrow> condition_config" where
  "set_all xs c = (case c of ConditionConfig all any meth path pathPrefix host hc he q i n \<Rightarrow>
     ConditionConfig xs any meth path pathPrefix host hc he q i n)"

definition set_any :: "condition_config list \<Rightarrow> condition_config \<Rightarrow> condition_config" where
  "set_any xs c = (case c of ConditionConfig all any meth path pathPrefix host hc he q i n \<Rightarrow>
     ConditionConfig all xs meth path pathPrefix host hc he q i n)"

function into_condition :: "unicode \<Rightarrow> json \<Rightarrow> condition_config \<Rightarrow> condition_config option" where
  "into_condition u j old =
     into_object (\<lambda>k v c.
       case field_for u condition_tags k of
         None \<Rightarrow> Some c
       | Some tag \<Rightarrow>
           if tag = ''all'' then
             map_option (\<lambda>xs. set_all xs c) (into_slice empty_condition_config (into_condition u) v (cc_All c))
           else if tag = ''any'' then
             map_option (\<lambda>xs. set_any xs c) (into_slice empty_condition_config (into_condition u) v (cc_Any c))
           else into_condition_leaf u tag v c) j old"
  by pat_completeness auto
termination
  by (relation "measure (\<lambda>(u, j, old). size j)")
    (auto dest!: size_json_elem size_json_member)

declare into_condition.simps [simp del]

section \<open>Decoding snapshots\<close>

record policy_custom_rule_snapshot =
  pcs_ID :: string
  pcs_Name :: string
  pcs_Action :: string
  pcs_When :: condition_config

record policy_rate_limit_snapshot =
  prs_ID :: string
  prs_Name :: string
  prs_Match :: condition_config
  prs_KeyType :: string
  prs_KeyHeader :: string
  prs_Limit :: int
  prs_WindowSeconds :: int
  prs_Action :: string

record policy_snapshot =
  ps_Mode :: string
  ps_Rules :: "(string \<times> string) list list"
  ps_IPBlocks :: "string list"
  ps_IPSets :: "(string \<times> string list) list"
  ps_CustomRules :: "policy_custom_rule_snapshot list"
  ps_RateLimits :: "policy_rate_limit_snapshot list"

definition zero_custom_rule_snapshot :: policy_custom_rule_snapshot where
  "zero_custom_rule_snapshot = \<lparr>pcs_ID = [], pcs_Name = [], pcs_Action = [], pcs_When = empty_condition_config\<rparr>"

definition zero_rate_limit_snapshot :: policy_rate_limit_snapshot where
  "zero_rate_limit_snapshot = \<lparr>prs_ID = [], prs_Name = [], prs_Match = empty_condition_config,
     prs_KeyType = [], prs_KeyHeader = [], prs_Limit = 0, prs_WindowSeconds = 0, prs_Action = []\<rparr>"

definition zero_snapshot :: policy_snapshot where
  "zero_snapshot = \<lparr>ps_Mode = [], ps_Rules = [], ps_IPBlocks = [], ps_IPSets = [], ps_CustomRules = [],
     ps_RateLimits = []\<rparr>"

definition into_custom_rule_snapshot :: "unicode \<Rightarrow> policy_custom_rule_snapshot into" where
  "into_custom_rule_snapshot u = into_struct u False
     [(''id'', at_field pcs_ID pcs_ID_update into_string),
      (''name'', at_field pcs_Name pcs_Name_update into_string),
      (''action'', at_field pcs_Action pcs_Action_update into_string),
      (''when'', at_field pcs_When pcs_When_update (into_condition u))]"

definition into_rate_limit_snapshot :: "unicode \<Rightarrow> policy_rate_limit_snapshot into" where
  "into_rate_limit_snapshot u = into_struct u False
     [(''id'', at_field prs_ID prs_ID_update into_string),
      (''name'', at_field prs_Name prs_Name_update into_string),
      (''match'', at_field prs_Match prs_Match_update (into_condition u)),
      (''key_type'', at_field prs_KeyType prs_KeyType_update into_string),
      (''key_header'', at_field prs_KeyHeader prs_KeyHeader_update into_string),
      (''limit'', at_field prs_Limit prs_Limit_update into_int),
      (''window_seconds'', at_field prs_WindowSeconds prs_WindowSeconds_update into_int),
      (''action'', at_field prs_Action prs_Action_update into_string)]"

definition into_ip_sets :: "(string \<times> string list) list into" where
  "into_ip_sets = into_map [] (into_slice [] into_string)"

definition into_snapshot :: "unicode \<Rightarrow> policy_snapshot into" where
  "into_snapshot u = into_struct u False
     [(''mode'', at_field ps_Mode ps_Mode_update into_string),
      (''rules'', at_field ps_Rules ps_Rules_update (into_slice [] (into_map [] into_string))),
      (''ip_blocklist'', at_field ps_IPBlocks ps_IPBlocks_update (into_slice [] into_string)),
      (''ip_sets'', at_field ps_IPSets ps_IPSets_update into_ip_sets),
      (''custom_rules'', at_field ps_CustomRules ps_CustomRules_update
         (into_slice zero_custom_rule_snapshot (into_custom_rule_snapshot u))),
      (''rate_limits'', at_field ps_RateLimits ps_RateLimits_update
         (into_slice zero_rate_limit_snapshot (into_rate_limit_snapshot u)))]"

section \<open>Checking snapshots\<close>

text \<open>The value a Go map gives for a key: the zero value when the key is absent.\<close>

definition map_index :: "(string \<times> string) list \<Rightarrow> string \<Rightarrow> string" where
  "map_index m k = (case map_of m k of None \<Rightarrow> [] | Some v \<Rightarrow> v)"

definition blank_header :: "header_match option \<Rightarrow> bool" where
  "blank_header m = (case m of None \<Rightarrow> False | Some h \<Rightarrow> go_TrimSpace (hm_Name h) = [] \<or> hm_Value h = [])"

definition blank_query :: "query_param_match option \<Rightarrow> bool" where
  "blank_query m = (case m of None \<Rightarrow> False | Some q \<Rightarrow> go_TrimSpace (qm_Name q) = [] \<or> qm_Value q = [])"

text \<open>The checks after those of the children, and the whole recursive check.\<close>

definition condition_leaf_error :: "(string \<times> string list) list \<Rightarrow> condition_config \<Rightarrow> condition_error option" where
  "condition_leaf_error ipSets value =
     (if blank_header (cc_HeaderContains value) then Some HeaderContainsIncomplete
      else if blank_header (cc_HeaderEquals value) then Some HeaderEqualsIncomplete
      else if blank_query (cc_QueryParamContains value) then Some QueryParamIncomplete
      else if cc_ClientIPInIPSet value \<noteq> [] \<and> map_of ipSets (cc_ClientIPInIPSet value) = None
        then Some (UnknownIPSet (cc_ClientIPInIPSet value))
      else if cc_ClientIPNotInIPSet value \<noteq> [] \<and> map_of ipSets (cc_ClientIPNotInIPSet value) = None
        then Some (UnknownIPSet (cc_ClientIPNotInIPSet value))
      else None)"

lemma first_error_cong [fundef_cong]:
  "xs = ys \<Longrightarrow> (\<And>x. x \<in> set ys \<Longrightarrow> f x = g x) \<Longrightarrow> first_error f xs = first_error g ys"
  by (induction xs arbitrary: ys) (auto split: option.splits)

fun validatePolicyCondition :: "(string \<times> string list) list \<Rightarrow> condition_config \<Rightarrow> condition_error option" where
  "validatePolicyCondition ipSets
     (ConditionConfig all any meth path pathPrefix host hdrContains hdrEquals query inSet notInSet) =
     (let value = ConditionConfig all any meth path pathPrefix host hdrContains hdrEquals query inSet notInSet in
      if operator_count value \<noteq> 1 then Some (OperatorCount (operator_count value))
      else (case first_error (validatePolicyCondition ipSets) all of
              Some e \<Rightarrow> Some e
            | None \<Rightarrow>
                (case first_error (validatePolicyCondition ipSets) any of
                   Some e \<Rightarrow> Some e
                 | None \<Rightarrow> condition_leaf_error ipSets value)))"

definition hasPolicyCondition :: "condition_config \<Rightarrow> bool" where
  "hasPolicyCondition value \<longleftrightarrow> list_ex id (operators_set value)"

definition validate_rule_action :: "(string \<times> string) list \<Rightarrow> validation_error option" where
  "validate_rule_action rule =
     (if map_index rule ''action'' \<noteq> [] then validateAction (map_index rule ''action'') else None)"

definition validate_custom_rule :: "(string \<times> string list) list \<Rightarrow> policy_custom_rule_snapshot \<Rightarrow> validation_error option" where
  "validate_custom_rule ipSets rule =
     (if go_TrimSpace (pcs_ID rule) = [] then Some RuleIDRequired
      else if go_TrimSpace (pcs_Name rule) = [] then Some RuleNameRequired
      else if pcs_Action rule \<notin> {''allow'', ''count'', ''block''} then Some RuleActionInvalid
      else map_option ConditionInvalid (validatePolicyCondition ipSets (pcs_When rule)))"

definition validate_rate_limit :: "(string \<times> string list) list \<Rightarrow> policy_rate_limit_snapshot \<Rightarrow> validation_error option" where
  "validate_rate_limit ipSets rule =
     (if go_TrimSpace (prs_ID rule) = [] then Some LimitIDRequired
      else if go_TrimSpace (prs_Name rule) = [] then Some LimitNameRequired
      else if prs_Action rule \<notin> {''count'', ''block''} then Some LimitActionInvalid
      else if prs_Limit rule \<le> 0 \<or> prs_WindowSeconds rule \<le> 0 then Some LimitNotPositive
      else if prs_KeyType rule \<notin> {''ip'', ''host'', ''path'', ''header'', ''api_key_placeholder''}
        then Some LimitKeyTypeInvalid
      else if prs_KeyType rule = ''header'' \<and> go_TrimSpace (prs_KeyHeader rule) = []
        then Some LimitKeyHeaderRequired
      else if hasPolicyCondition (prs_Match rule)
        then map_option ConditionInvalid (validatePolicyCondition ipSets (prs_Match rule))
      else None)"

definition check_snapshot :: "policy_snapshot \<Rightarrow> validation_error option" where
  "check_snapshot decoded =
     checks
       [if ps_Mode decoded \<noteq> [] then validateMode (ps_Mode decoded) else None,
        first_error validateCIDR (ps_IPBlocks decoded),
        first_error (\<lambda>(name, cidrs). first_error validateCIDR cidrs) (ps_IPSets decoded),
        first_error validate_rule_action (ps_Rules decoded),
        first_error (validate_custom_rule (ps_IPSets decoded)) (ps_CustomRules decoded),
        first_error (validate_rate_limit (ps_IPSets decoded)) (ps_RateLimits decoded)]"

definition validatePolicySnapshot :: "unicode \<Rightarrow> json option \<Rightarrow> validation_error option" where
  "validatePolicySnapshot u snapshot =
     (case snapshot of
        None \<Rightarrow> None
      | Some v \<Rightarrow>
          (case into_snapshot u v zero_snapshot of
             None \<Rightarrow> Some SnapshotDecodeFailed
           | Some decoded \<Rightarrow> check_snapshot decoded))"

end
