(* ===== verification/Control_Events.thy ===== *)
theory Control_Events
  imports Control_Models Gateway_Config "HOL-Library.List_Lexorder" "HOL-Library.Char_ord"
    "HOL-Library.Product_Lexorder"
begin

text \<open>
  Package \<open>events\<close> of the control API: the search over stored events in ClickHouse and the
  summary of what a policy in count mode would have blocked. The exchange with ClickHouse, the text
  of a time and the parser of JSON text are parameters; times are nanoseconds since 1970 and the
  zero time is \<open>zero_time\<close>. Go visits the entries of a map in no fixed order: the order is a
  parameter of the definitions that range over one.
\<close>

record search_filters =
  sf_TenantID :: string
  sf_AppID :: string
  sf_PolicyID :: string
  sf_Host :: string
  sf_Action :: string
  sf_ClientIP :: string
  sf_MatchedRuleID :: string
  sf_From :: int
  sf_To :: int
  sf_Limit :: int

definition zero_filters :: search_filters where
  "zero_filters = \<lparr>sf_TenantID = [], sf_AppID = [], sf_PolicyID = [], sf_Host = [], sf_Action = [],
     sf_ClientIP = [], sf_MatchedRuleID = [], sf_From = zero_time, sf_To = zero_time, sf_Limit = 0\<rparr>"

definition DefaultLimit :: int where "DefaultLimit = 100"
definition MaxLimit :: int where "MaxLimit = 1000"

record stored_event =
  se_Timestamp :: int
  se_RequestID :: string
  se_TenantID :: string
  se_AppID :: string
  se_PolicyID :: string
  se_PolicyVersionID :: string
  se_Host :: string
  se_ClientIP :: string
  se_Method :: string
  se_Path :: string
  se_Action :: string
  se_Mode :: string
  se_Enforced :: bool
  se_WouldBlock :: bool
  se_Status :: int
  se_Reason :: string
  se_MatchedRuleID :: string
  se_MatchedRuleName :: string
  se_RuleGroup :: string
  se_Tags :: "string list"
  se_AnomalyScore :: int
  se_UserAgent :: string
  se_LatencyMS :: int
  se_OriginStatus :: int
  se_OriginLatencyMS :: int

definition zero_stored_event :: stored_event where
  "zero_stored_event =
     \<lparr>se_Timestamp = zero_time, se_RequestID = [], se_TenantID = [], se_AppID = [], se_PolicyID = [],
      se_PolicyVersionID = [], se_Host = [], se_ClientIP = [], se_Method = [], se_Path = [],
      se_Action = [], se_Mode = [], se_Enforced = False, se_WouldBlock = False, se_Status = 0,
      se_Reason = [], se_MatchedRuleID = [], se_MatchedRuleName = [], se_RuleGroup = [], se_Tags = [],
      se_AnomalyScore = 0, se_UserAgent = [], se_LatencyMS = 0, se_OriginStatus = 0,
      se_OriginLatencyMS = 0\<rparr>"

text \<open>Integers of a fixed width: a literal out of range makes the decoding fail.\<close>

definition into_ranged :: "int \<Rightarrow> int \<Rightarrow> int into" where
  "into_ranged lo hi j old =
     (case into_int j old of None \<Rightarrow> None | Some i \<Rightarrow> if lo \<le> i \<and> i \<le> hi then Some i else None)"

definition into_uint16 :: "int into" where "into_uint16 = into_ranged 0 65535"
definition into_uint32 :: "int into" where "into_uint32 = into_ranged 0 4294967295"
definition into_int32 :: "int into" where "into_int32 = into_ranged (- 2147483648) 2147483647"

definition into_stored_event :: "unicode \<Rightarrow> (string \<Rightarrow> int option) \<Rightarrow> stored_event into" where
  "into_stored_event u parse_time = into_struct u False
     [(''timestamp'', at_field se_Timestamp se_Timestamp_update (into_time parse_time)),
      (''request_id'', at_field se_RequestID se_RequestID_update into_string),
      (''tenant_id'', at_field se_TenantID se_TenantID_update into_string),
      (''app_id'', at_field se_AppID se_AppID_update into_string),
      (''policy_id'', at_field se_PolicyID se_PolicyID_update into_string),
      (''policy_version_id'', at_field se_PolicyVersionID se_PolicyVersionID_update into_string),
      (''host'', at_field se_Host se_Host_update into_string),
      (''client_ip'', at_field se_ClientIP se_ClientIP_update into_string),
      (''method'', at_field se_Method se_Method_update into_string),
      (''path'', at_field se_Path se_Path_update into_string),
      (''action'', at_field se_Action se_Action_update into_string),
      (''mode'', at_field se_Mode se_Mode_update into_string),
      (''enforced'', at_field se_Enforced se_Enforced_update into_bool),
      (''would_block'', at_field se_WouldBlock se_WouldBlock_update into_bool),
      (''status'', at_field se_Status se_Status_update into_uint16),
      (''reason'', at_field se_Reason se_Reason_update into_string),
      (''matched_rule_id'', at_field se_MatchedRuleID se_MatchedRuleID_update into_string),
      (''matched_rule_name'', at_field se_MatchedRuleName se_MatchedRuleName_update into_string),
      (''rule_group'', at_field se_RuleGroup se_RuleGroup_update into_string),
      (''tags'', at_field se_Tags se_Tags_update (into_slice [] into_string)),
      (''anomaly_score'', at_field se_AnomalyScore se_AnomalyScore_update into_int32),
      (''user_agent'', at_field se_UserAgent se_UserAgent_update into_string),
      (''latency_ms'', at_field se_LatencyMS se_LatencyMS_update into_uint32),
      (''origin_status'', at_field se_OriginStatus se_OriginStatus_update into_uint16),
      (''origin_latency_ms'', at_field se_OriginLatencyMS se_OriginLatencyMS_update into_uint32)]"

datatype event_store_error =
    InvalidClickHouseURL
  | LimitOutOfRange
  | FromAfterTo
  | StoreTenantRequired
  | StoreRequestIDRequired
  | ExchangeFailed
  | QueryFailed int
  | LineTooLong
  | EventUndecodable
  | EventNotFound

section \<open>The query\<close>

definition newline :: char where "newline = CHR 0x0A"

definition select_columns :: "string list" where
  "select_columns =
     [''request_id'', ''tenant_id'', ''app_id'', ''policy_id'', ''policy_version_id'', ''host'', ''client_ip'',
      ''method'', ''path'', ''action'', ''mode'', ''enforced'', ''would_block'', ''status'', ''reason'',
      ''matched_rule_id'', ''matched_rule_name'', ''rule_group'', ''tags'', ''anomaly_score'', ''user_agent'',
      ''latency_ms'', ''origin_status'', ''origin_latency_ms'']"

definition selectFields :: string where
  "selectFields =
     ''SELECT'' @ [newline] @
     ''formatDateTime(timestamp, '' @ [CHR 0x27] @ ''%Y-%m-%dT%H:%i:%S.%fZ'' @ [CHR 0x27] @ '', '' @
       [CHR 0x27] @ ''UTC'' @ [CHR 0x27] @ '') AS timestamp,'' @ [newline] @
     go_Join select_columns ('','' @ [newline]) @ [newline]"

type_synonym query_parts = "string list \<times> (string \<times> string) list"

text \<open>The closure \<open>addStringFilter\<close>; its field and its name are the same text in every call.\<close>

definition addStringFilter :: "string \<Rightarrow> string \<Rightarrow> query_parts \<Rightarrow> query_parts" where
  "addStringFilter name value0 parts =
     (let value = go_TrimSpace value0; (clauses, params) = parts in
      if value = [] then parts
      else (clauses @ [name @ '' = {'' @ name @ '':String}''], AList.update name value params))"

definition addTimeFilter ::
  "(int \<Rightarrow> string) \<Rightarrow> string \<Rightarrow> string \<Rightarrow> int \<Rightarrow> query_parts \<Rightarrow> query_parts" where
  "addTimeFilter fmt_nano op name t parts =
     (let (clauses, params) = parts in
      if t = zero_time then parts
      else (clauses @ [''timestamp '' @ op @ '' parseDateTime64BestEffort({'' @ name @ '':String}, 3)''],
            AList.update name (fmt_nano t) params))"

definition search_parts :: "(int \<Rightarrow> string) \<Rightarrow> search_filters \<Rightarrow> query_parts" where
  "search_parts fmt_nano f =
     (addTimeFilter fmt_nano ''<='' ''to'' (sf_To f) \<circ>
      addTimeFilter fmt_nano ''>='' ''from'' (sf_From f) \<circ>
      addStringFilter ''matched_rule_id'' (sf_MatchedRuleID f) \<circ>
      addStringFilter ''client_ip'' (sf_ClientIP f) \<circ>
      addStringFilter ''action'' (sf_Action f) \<circ>
      addStringFilter ''host'' (sf_Host f) \<circ>
      addStringFilter ''policy_id'' (sf_PolicyID f) \<circ>
      addStringFilter ''app_id'' (sf_AppID f) \<circ>
      addStringFilter ''tenant_id'' (sf_TenantID f))
     ([''1 = 1''], [(''limit'', go_Itoa (sf_Limit f))])"

definition search_text :: "string list \<Rightarrow> string" where
  "search_text clauses =
     selectFields @ [newline] @ ''FROM waf_events'' @ [newline] @ ''WHERE '' @ go_Join clauses '' AND '' @
     [newline] @ ''ORDER BY timestamp DESC'' @ [newline] @ ''LIMIT {limit:UInt32}'' @ [newline] @
     ''FORMAT JSONEachRow''"

definition BuildSearchQuery ::
  "(int \<Rightarrow> string) \<Rightarrow> search_filters \<Rightarrow> event_store_error + string \<times> (string \<times> string) list" where
  "BuildSearchQuery fmt_nano filters0 =
     (let filters = (if sf_Limit filters0 = 0 then filters0\<lparr>sf_Limit := DefaultLimit\<rparr> else filters0) in
      if sf_Limit filters < 1 \<or> MaxLimit < sf_Limit filters then Inl LimitOutOfRange
      else if sf_From filters \<noteq> zero_time \<and> sf_To filters \<noteq> zero_time \<and> sf_To filters < sf_From filters
        then Inl FromAfterTo
      else let (clauses, params) = search_parts fmt_nano filters in Inr (search_text clauses, params))"

section \<open>The store\<close>

record http_store =
  hs_endpoint :: string
  hs_database :: string
  hs_username :: string
  hs_password :: string

record store_config =
  sc_URL :: string
  sc_Database :: string
  sc_Username :: string
  sc_Password :: string

definition NewHTTPStore :: "url_parser \<Rightarrow> (url \<Rightarrow> string) \<Rightarrow> store_config \<Rightarrow> event_store_error + http_store" where
  "NewHTTPStore parse url_String cfg =
     (case parse (sc_URL cfg) of
        None \<Rightarrow> Inl InvalidClickHouseURL
      | Some parsed \<Rightarrow>
          if url_Scheme parsed = [] \<or> url_Host parsed = [] then Inl InvalidClickHouseURL
          else Inr \<lparr>hs_endpoint = go_TrimRight (url_String parsed) ''/'',
                    hs_database = (if sc_Database cfg = [] then ''bedemwaf'' else sc_Database cfg),
                    hs_username = sc_Username cfg, hs_password = sc_Password cfg\<rparr>)"

text \<open>
  The request of \<open>query\<close>: the values are encoded into its URL, sorted by name, by \<open>url.Values\<close>.
  The exchange gives the status, the bytes of the body, and whether reading them failed.
\<close>

record store_request =
  sr_endpoint :: string
  sr_values :: "(string \<times> string) list"
  sr_basic_auth :: "(string \<times> string) option"

type_synonym 'w store_exchange = "store_request \<Rightarrow> 'w \<Rightarrow> (int \<times> string \<times> bool) option \<times> 'w"

definition store_request_of :: "http_store \<Rightarrow> string \<Rightarrow> (string \<times> string) list \<Rightarrow> store_request" where
  "store_request_of s query params =
     \<lparr>sr_endpoint = hs_endpoint s @ ''/?'',
      sr_values = fold (\<lambda>(name, value) vs. AList.update (''param_'' @ name) value vs) params
        [(''database'', hs_database s), (''query'', query)],
      sr_basic_auth = (if hs_username s \<noteq> [] \<or> hs_password s \<noteq> [] then Some (hs_username s, hs_password s) else None)\<rparr>"

definition store_query ::
  "'w store_exchange \<Rightarrow> http_store \<Rightarrow> string \<Rightarrow> (string \<times> string) list \<Rightarrow> 'w \<Rightarrow> (event_store_error + string) \<times> 'w" where
  "store_query http s query params w =
     (case http (store_request_of s query params) w of
        (None, w') \<Rightarrow> (Inl ExchangeFailed, w')
      | (Some (status, body, failed), w') \<Rightarrow>
          if failed then (Inl ExchangeFailed, w')
          else if status < 200 \<or> 300 \<le> status then (Inl (QueryFailed status), w')
          else (Inr (take 10485760 body), w'))"

text \<open>
  \<open>decodeEvents\<close>: \<open>bufio.Scanner\<close> yields the lines, without a carriage return at their end, and
  fails at a line of 65536 bytes or more.
\<close>

definition drop_cr :: "string \<Rightarrow> string" where
  "drop_cr line = go_TrimSuffix line [CHR 0x0D]"

fun decode_lines ::
  "unicode \<Rightarrow> (string \<Rightarrow> int option) \<Rightarrow> (string \<Rightarrow> json option) \<Rightarrow> string list \<Rightarrow> event_store_error + stored_event list" where
  "decode_lines u parse_time parse_json [] = Inr []"
| "decode_lines u parse_time parse_json (raw # raws) =
     (if 65536 \<le> length raw then Inl LineTooLong
      else
        let line = go_TrimSpace (drop_cr raw) in
        if line = [] then decode_lines u parse_time parse_json raws
        else
          (case parse_json line of
             None \<Rightarrow> Inl EventUndecodable
           | Some j \<Rightarrow>
               (case into_stored_event u parse_time j zero_stored_event of
                  None \<Rightarrow> Inl EventUndecodable
                | Some event \<Rightarrow>
                    (case decode_lines u parse_time parse_json raws of
                       Inl e \<Rightarrow> Inl e
                     | Inr events \<Rightarrow> Inr (event # events)))))"

definition decodeEvents ::
  "unicode \<Rightarrow> (string \<Rightarrow> int option) \<Rightarrow> (string \<Rightarrow> json option) \<Rightarrow> string \<Rightarrow> event_store_error + stored_event list" where
  "decodeEvents u parse_time parse_json data = decode_lines u parse_time parse_json (split_on newline data)"

record 'w store_env =
  sv_unicode :: unicode
  sv_parse_time :: "string \<Rightarrow> int option"
  sv_fmt_nano :: "int \<Rightarrow> string"
  sv_parse_json :: "string \<Rightarrow> json option"
  sv_http :: "'w store_exchange"

definition query_events ::
  "'w store_env \<Rightarrow> http_store \<Rightarrow> string \<Rightarrow> (string \<times> string) list \<Rightarrow> 'w \<Rightarrow> (event_store_error + stored_event list) \<times> 'w" where
  "query_events e s query params w =
     (case store_query (sv_http e) s query params w of
        (Inl err, w') \<Rightarrow> (Inl err, w')
      | (Inr data, w') \<Rightarrow> (decodeEvents (sv_unicode e) (sv_parse_time e) (sv_parse_json e) data, w'))"

definition store_Search ::
  "'w store_env \<Rightarrow> http_store \<Rightarrow> search_filters \<Rightarrow> 'w \<Rightarrow> (event_store_error + stored_event list) \<times> 'w" where
  "store_Search e s filters w =
     (case BuildSearchQuery (sv_fmt_nano e) filters of
        Inl err \<Rightarrow> (Inl err, w)
      | Inr (query, params) \<Rightarrow> query_events e s query params w)"

definition get_query :: string where
  "get_query =
     selectFields @ [newline] @ ''FROM waf_events'' @ [newline] @ ''WHERE tenant_id = {tenant_id:String}'' @ [newline] @
     ''  AND request_id = {request_id:String}'' @ [newline] @ ''ORDER BY timestamp DESC'' @ [newline] @ ''LIMIT 1'' @
     [newline] @ ''FORMAT JSONEachRow''"

definition store_GetByRequestID ::
  "'w store_env \<Rightarrow> http_store \<Rightarrow> string \<Rightarrow> string \<Rightarrow> 'w \<Rightarrow> (event_store_error + stored_event) \<times> 'w" where
  "store_GetByRequestID e s tenantID0 requestID0 w =
     (let tenantID = go_TrimSpace tenantID0; requestID = go_TrimSpace requestID0 in
      if tenantID = [] then (Inl StoreTenantRequired, w)
      else if requestID = [] then (Inl StoreRequestIDRequired, w)
      else
        (case query_events e s get_query [(''tenant_id'', tenantID), (''request_id'', requestID)] w of
           (Inl err, w') \<Rightarrow> (Inl err, w')
         | (Inr [], w') \<Rightarrow> (Inl EventNotFound, w')
         | (Inr (event # _), w') \<Rightarrow> (Inr event, w')))"

section \<open>The simulation summary\<close>

record accumulator =
  ac_ruleName :: string
  ac_count :: int
  ac_ips :: "string list"
  ac_paths :: "(string \<times> int) list"
  ac_samples :: "string list"

record simulation_rule_summary =
  ss_RuleID :: string
  ss_RuleName :: string
  ss_WouldBlockCount :: int
  ss_UniqueIPs :: int
  ss_TopPaths :: "string list"
  ss_SampleRequestIDs :: "string list"

definition topPaths :: "((string \<times> int) list \<Rightarrow> (string \<times> int) list) \<Rightarrow> (string \<times> int) list \<Rightarrow> nat \<Rightarrow> string list" where
  "topPaths visit counts limit = map fst (take limit (sort_key (\<lambda>(path, count). (- count, path)) (visit counts)))"

definition count_path :: "string \<Rightarrow> (string \<times> int) list \<Rightarrow> (string \<times> int) list" where
  "count_path path paths = AList.update path ((case map_of paths path of None \<Rightarrow> 0 | Some n \<Rightarrow> n) + 1) paths"

definition accumulate :: "stored_event \<Rightarrow> accumulator \<Rightarrow> accumulator" where
  "accumulate event got =
     \<lparr>ac_ruleName = ac_ruleName got, ac_count = ac_count got + 1,
      ac_ips = (if se_ClientIP event \<noteq> [] then List.insert (se_ClientIP event) (ac_ips got) else ac_ips got),
      ac_paths = (if se_Path event \<noteq> [] then count_path (se_Path event) (ac_paths got) else ac_paths got),
      ac_samples = (if se_RequestID event \<noteq> [] \<and> length (ac_samples got) < 5
                    then ac_samples got @ [se_RequestID event] else ac_samples got)\<rparr>"

definition new_accumulator :: "stored_event \<Rightarrow> accumulator" where
  "new_accumulator event =
     \<lparr>ac_ruleName = se_MatchedRuleName event, ac_count = 0, ac_ips = [], ac_paths = [], ac_samples = []\<rparr>"

definition summary_rule_id :: "stored_event \<Rightarrow> string" where
  "summary_rule_id event =
     (let ruleID = go_TrimSpace (se_MatchedRuleID event) in if ruleID = [] then ''unknown'' else ruleID)"

definition summary_step :: "stored_event \<Rightarrow> (string \<times> accumulator) list \<Rightarrow> (string \<times> accumulator) list" where
  "summary_step event byRule =
     (if \<not> se_WouldBlock event then byRule
      else
        let ruleID = summary_rule_id event;
            got = (case map_of byRule ruleID of None \<Rightarrow> new_accumulator event | Some got \<Rightarrow> got)
        in AList.update ruleID (accumulate event got) byRule)"

definition summary_of ::
  "((string \<times> int) list \<Rightarrow> (string \<times> int) list) \<Rightarrow> string \<times> accumulator \<Rightarrow> simulation_rule_summary" where
  "summary_of visit_paths entry =
     (let (ruleID, got) = entry in
      \<lparr>ss_RuleID = ruleID, ss_RuleName = ac_ruleName got, ss_WouldBlockCount = ac_count got,
       ss_UniqueIPs = int (length (ac_ips got)), ss_TopPaths = topPaths visit_paths (ac_paths got) 5,
       ss_SampleRequestIDs = ac_samples got\<rparr>)"

definition BuildSimulationSummary ::
  "((string \<times> accumulator) list \<Rightarrow> (string \<times> accumulator) list)
   \<Rightarrow> ((string \<times> int) list \<Rightarrow> (string \<times> int) list) \<Rightarrow> stored_event list \<Rightarrow> simulation_rule_summary list" where
  "BuildSimulationSummary visit_rules visit_paths input =
     sort_key (\<lambda>s. (- ss_WouldBlockCount s, ss_RuleID s))
       (map (summary_of visit_paths) (visit_rules (fold summary_step input [])))"

end
