(* ===== verification/Control_Config.thy ===== *)
theory Control_Config
  imports Go_Http
begin

text \<open>
  Packages \<open>config\<close> and \<open>auth\<close> of the control API: the settings read from the environment and the
  static bearer tokens. The environment is a function from names to values; \<open>os.Getenv\<close> gives the
  empty text for a name that is not set. The loops over runes act on single bytes, since they only
  look for ASCII characters, which never occur inside another rune.
\<close>

section \<open>The environment\<close>

type_synonym environ = "string \<Rightarrow> string"

definition getenv :: "environ \<Rightarrow> string \<Rightarrow> string \<Rightarrow> string" where
  "getenv env name fallback = (if env name \<noteq> [] then env name else fallback)"

text \<open>The loop of \<open>getenvInt64\<close>, with the wrap-around of \<open>int64\<close>; \<open>None\<close> is the early return.\<close>

fun parse_int64_loop :: "int \<Rightarrow> string \<Rightarrow> int option" where
  "parse_int64_loop parsed [] = Some parsed"
| "parse_int64_loop parsed (r # rs) =
     (if \<not> is_digit r then None
      else parse_int64_loop (wrap64 (wrap64 (parsed * 10) + int (digit_val r))) rs)"

definition getenvInt64 :: "environ \<Rightarrow> string \<Rightarrow> int \<Rightarrow> int" where
  "getenvInt64 env name fallback =
     (let value = env name in
      if value = [] then fallback
      else (case parse_int64_loop 0 value of
              None \<Rightarrow> fallback
            | Some parsed \<Rightarrow> if parsed \<le> 0 then fallback else parsed))"

section \<open>Comma-separated lists\<close>

definition csv_space :: "char \<Rightarrow> bool" where
  "csv_space c \<longleftrightarrow> byte c \<in> {32, 9, 10, 13}"

text \<open>\<open>value[start:i]\<close>\<close>

definition slice :: "string \<Rightarrow> nat \<Rightarrow> nat \<Rightarrow> string" where
  "slice value start i = drop start (take i value)"

function trim_start :: "string \<Rightarrow> nat \<Rightarrow> nat \<Rightarrow> nat" where
  "trim_start value start stop =
     (if start < stop \<and> csv_space (value ! start) then trim_start value (Suc start) stop else start)"
  by pat_completeness auto
termination by (relation "measure (\<lambda>(value, start, stop). stop - start)") auto

fun trim_stop :: "string \<Rightarrow> nat \<Rightarrow> nat \<Rightarrow> nat" where
  "trim_stop value start 0 = 0"
| "trim_stop value start (Suc stop) =
     (if start < Suc stop \<and> csv_space (value ! stop) then trim_stop value start stop else Suc stop)"

definition trimSpace :: "string \<Rightarrow> string" where
  "trimSpace value =
     (let start = trim_start value 0 (length value) in slice value start (trim_stop value start (length value)))"

text \<open>The loop of \<open>splitCSV\<close> at position \<open>i\<close>, with what is left of the text.\<close>

fun csv_loop :: "string \<Rightarrow> nat \<Rightarrow> nat \<Rightarrow> string \<Rightarrow> string list \<Rightarrow> string list" where
  "csv_loop value start i [] out =
     (let item = trimSpace (drop start value) in if item \<noteq> [] then out @ [item] else out)"
| "csv_loop value start i (r # rs) out =
     (if r \<noteq> CHR '','' then csv_loop value start (Suc i) rs out
      else
        let item = trimSpace (slice value start i) in
        csv_loop value (Suc i) (Suc i) rs (if item \<noteq> [] then out @ [item] else out))"

definition splitCSV :: "string \<Rightarrow> string list" where
  "splitCSV value = (if value = [] then [] else csv_loop value 0 0 value [])"

section \<open>The configuration\<close>

record control_config =
  cc_ListenAddr :: string
  cc_DatabaseURL :: string
  cc_AdminAPIKey :: string
  cc_GatewayAPIKey :: string
  cc_CORSAllowedOrigins :: "string list"
  cc_RequestBodyLimit :: int
  cc_ClickHouseURL :: string
  cc_ClickHouseDatabase :: string
  cc_ClickHouseUsername :: string
  cc_ClickHousePassword :: string
  cc_DBPingTimeout :: int

definition Load :: "environ \<Rightarrow> control_config" where
  "Load env =
     (let cfg =
        \<lparr>cc_ListenAddr = getenv env ''BEDEMWAF_CONTROL_API_ADDR'' '':8081'',
         cc_DatabaseURL = env ''BEDEMWAF_DATABASE_URL'',
         cc_AdminAPIKey = env ''BEDEMWAF_ADMIN_API_KEY'',
         cc_GatewayAPIKey = env ''BEDEMWAF_GATEWAY_API_KEY'',
         cc_CORSAllowedOrigins = splitCSV (getenv env ''BEDEMWAF_CORS_ALLOWED_ORIGINS''
           ''http://localhost:3000,http://127.0.0.1:3000''),
         cc_RequestBodyLimit = getenvInt64 env ''BEDEMWAF_REQUEST_BODY_LIMIT_BYTES'' 1048576,
         cc_ClickHouseURL = getenv env ''BEDEMWAF_CLICKHOUSE_URL'' ''http://localhost:8123'',
         cc_ClickHouseDatabase = getenv env ''BEDEMWAF_CLICKHOUSE_DATABASE'' ''bedemwaf'',
         cc_ClickHouseUsername = env ''BEDEMWAF_CLICKHOUSE_USERNAME'',
         cc_ClickHousePassword = env ''BEDEMWAF_CLICKHOUSE_PASSWORD'',
         cc_DBPingTimeout = 2 * 1000000000\<rparr>
      in if cc_DatabaseURL cfg = [] then cfg\<lparr>cc_DatabaseURL := env ''DATABASE_URL''\<rparr> else cfg)"

section \<open>Bearer tokens\<close>

record static_bearer =
  sb_token :: string

definition NewStaticBearer :: "string \<Rightarrow> static_bearer" where
  "NewStaticBearer token = \<lparr>sb_token = token\<rparr>"

definition Enabled :: "static_bearer \<Rightarrow> bool" where
  "Enabled a \<longleftrightarrow> sb_token a \<noteq> []"

definition Authorized :: "static_bearer \<Rightarrow> values_map \<Rightarrow> bool" where
  "Authorized a header \<longleftrightarrow>
     (if sb_token a = [] then False
      else
        let value = header_Get header ''Authorization'' in
        if \<not> go_HasPrefix value ''Bearer '' then False
        else go_TrimSpace (go_TrimPrefix value ''Bearer '') = sb_token a)"

section \<open>Facts\<close>

lemma wrap64_step: "wrap64 (wrap64 (wrap64 x * 10) + d) = wrap64 (x * 10 + d)"
proof -
  have w: "wrap64 y mod 2 ^ 64 = y mod 2 ^ 64" for y by (simp add: wrap64_def mod_simps)
  have c: "a mod 2 ^ 64 = b mod 2 ^ 64 \<Longrightarrow> wrap64 a = wrap64 b" for a b
    unfolding wrap64_def by (metis mod_add_left_eq)
  have "(wrap64 (wrap64 x * 10) + d) mod 2 ^ 64 = (x * 10 + d) mod 2 ^ 64"
    by (metis mod_add_left_eq mod_mult_left_eq w)
  then show ?thesis by (rule c)
qed

lemma parse_int64_loop_val:
  "parse_int64_loop (wrap64 (int v)) s =
     (if list_all is_digit s then Some (wrap64 (int (foldl (\<lambda>v c. v * 10 + digit_val c) v s))) else None)"
proof (induction s arbitrary: v)
  case (Cons r rs)
  have "parse_int64_loop (wrap64 (int v)) (r # rs) =
      (if \<not> is_digit r then None else parse_int64_loop (wrap64 (int (v * 10 + digit_val r))) rs)"
    by (simp add: wrap64_step)
  then show ?case by (simp only: Cons.IH) simp
qed simp

text \<open>
  C21: An integer setting is read as the value of its decimal digits wrapped to 64 bits: it is used
  when it is positive after the wrap, and otherwise, or when the text is empty or has another
  character, the default is used. In particular a value of 2^63 or more is not refused: it can
  come out as a different, smaller limit.
\<close>

theorem int64_setting_wraps:
  "getenvInt64 env name fallback =
     (let value = env name; n = wrap64 (int (digits_val value)) in
      if value \<noteq> [] \<and> list_all is_digit value \<and> 0 < n then n else fallback)"
proof -
  have "wrap64 (int 0) = 0" by (simp add: wrap64_def)
  then show ?thesis
    using parse_int64_loop_val [of 0 "env name"]
    by (auto simp: getenvInt64_def Let_def digits_val_def)
qed

declare trim_start.simps [simp del]

lemma trim_start_drop: "start \<le> length value \<Longrightarrow>
  drop (trim_start value start (length value)) value = dropWhile csv_space (drop start value) \<and>
  trim_start value start (length value) \<le> length value"
proof (induction "length value - start" arbitrary: start)
  case 0
  then show ?case by (simp add: trim_start.simps)
next
  case (Suc n)
  then have "drop start value = value ! start # drop (Suc start) value" by (metis Cons_nth_drop_Suc diff_is_0_eq' nat.distinct(1) not_less)
  moreover have "start < length value" using Suc by simp
  ultimately show ?case using Suc.hyps(1) [of "Suc start"] Suc.hyps(2)
    by (auto simp: trim_start.simps [of "value" start])
qed

lemma trim_stop_slice:
  "start \<le> stop \<Longrightarrow> stop \<le> length value \<Longrightarrow>
   slice value start (trim_stop value start stop) = rev (dropWhile csv_space (rev (slice value start stop)))"
proof (induction stop)
  case (Suc stop)
  show ?case
  proof (cases "start = Suc stop")
    case False
    then have "slice value start (Suc stop) = slice value start stop @ [value ! stop]"
      using Suc.prems by (simp add: slice_def take_Suc_conv_app_nth)
    then show ?thesis using Suc False by (auto simp: slice_def)
  qed (simp add: slice_def)
qed (simp add: slice_def)

text \<open>Both ends stripped of spaces, tabs and line breaks.\<close>

definition csv_trim :: "string \<Rightarrow> string" where
  "csv_trim s = rev (dropWhile csv_space (rev (dropWhile csv_space s)))"

lemma trimSpace_eq: "trimSpace s = csv_trim s"
  using trim_start_drop [of 0 s] trim_stop_slice [of "trim_start s 0 (length s)" "length s" s]
  by (simp add: trimSpace_def csv_trim_def slice_def Let_def)

definition csv_items :: "string list \<Rightarrow> string list" where
  "csv_items ws = filter (\<lambda>w. w \<noteq> []) (map csv_trim ws)"

lemma csv_items_simps:
  "csv_items [] = []" "csv_items (w # ws) = (if csv_trim w \<noteq> [] then csv_trim w # csv_items ws else csv_items ws)"
  by (simp_all add: csv_items_def)

lemma csv_loop_eq:
  "start \<le> i \<Longrightarrow> value = take i value @ rest \<Longrightarrow> i + length rest = length value \<Longrightarrow> CHR '','' \<notin> set (slice value start i) \<Longrightarrow>
   csv_loop value start i rest out = out @ csv_items (split_on (CHR '','') (drop start value))"
proof (induction rest arbitrary: start i out)
  case Nil
  then have "CHR '','' \<notin> set (drop start value)" by (simp add: slice_def)
  then show ?case by (simp add: split_on_single trimSpace_eq csv_items_simps Let_def)
next
  case (Cons r rs)
  let ?v = "take i value @ r # rs"
  have i: "i < length value" using Cons.prems(3) by simp
  have r: "value ! i = r" using Cons.prems(2) i by (metis length_take min.absorb4 nth_append_length)
  have take: "take (Suc i) value = take i value @ [r]" using i r by (simp add: take_Suc_conv_app_nth)
  then have rest: "value = take (Suc i) value @ rs" using Cons.prems(2) by simp
  show ?case
  proof (cases "r = CHR '',''")
    case False
    have "slice value start (Suc i) = slice value start i @ [r]" using take Cons.prems(1) i by (simp add: slice_def)
    then have "CHR '','' \<notin> set (slice value start (Suc i))" using Cons.prems(4) False by simp
    then show ?thesis using False Cons.IH [of start "Suc i" out] rest Cons.prems by simp
  next
    case True
    have "drop start value = slice value start i @ r # drop (Suc i) value"
      using Cons.prems(1) i r by (metis append_take_drop_id Cons_nth_drop_Suc drop_take slice_def drop_drop le_add_diff_inverse2)
    then have split: "split_on (CHR '','') (drop start value) = slice value start i # split_on (CHR '','') (drop (Suc i) value)"
      using True Cons.prems(4) by (simp add: split_on_append_sep)
    have "slice value (Suc i) (Suc i) = []" by (simp add: slice_def)
    then show ?thesis
      using True Cons.IH [of "Suc i" "Suc i"] rest Cons.prems split
      by (simp add: trimSpace_eq csv_items_simps Let_def)
  qed
qed

text \<open>
  The index loops of \<open>splitCSV\<close> compute what the library functions would: the text split at commas,
  each piece stripped of spaces, tabs and line breaks, the empty ones left out.
\<close>

theorem split_csv_reference: "splitCSV value = csv_items (split_on (CHR '','') value)"
  using csv_loop_eq [of 0 0 "value" "value" "[]"]
  by (simp add: splitCSV_def slice_def csv_items_simps csv_trim_def)

end
