(* ===== verification/Control_Server.thy ===== *)
theory Control_Server
  imports Control_Publish Control_Snapshot Control_Events Control_Config Gateway_Metrics
begin

text \<open>
  Package \<open>httpapi\<close> of the control API: the middlewares, the guards, the handlers and the routes
  (\<open>server.go\<close>, \<open>middleware.go\<close>), with the metrics of package \<open>metrics\<close>. A request reaches its
  handler with the segments of its path as \<open>http.ServeMux\<close> compares them (cleaned and unescaped
  one by one); for a path that is not clean the multiplexer answers with a redirect and no handler
  runs. The body of a response is the value that the handler gives to the JSON encoder.

  No handler of the model panics, so \<open>recoveryMiddleware\<close> passes every response on and has no
  definition.
\<close>

section \<open>Metrics\<close>

record control_metrics =
  cm_requestsTotal :: "string \<times> string \<Rightarrow> nat"
  cm_requestDuration :: "int list"
  cm_errorsTotal :: "string \<Rightarrow> nat"

definition control_ObserveRequest :: "string \<Rightarrow> int \<Rightarrow> int \<Rightarrow> control_metrics \<Rightarrow> control_metrics" where
  "control_ObserveRequest meth status duration m =
     (let statusValue = go_Itoa status;
          m1 = m\<lparr>cm_requestsTotal := bump (meth, statusValue) (cm_requestsTotal m),
                 cm_requestDuration := duration # cm_requestDuration m\<rparr>
      in if 400 \<le> status then m1\<lparr>cm_errorsTotal := bump statusValue (cm_errorsTotal m1)\<rparr> else m1)"

section \<open>The server\<close>

record api_server =
  as_adminAuth :: static_bearer
  as_gatewayAuth :: static_bearer
  as_requestBodyLimitBytes :: int
  as_corsAllowedOrigins :: "string list"

record security_config =
  sec_RequestBodyLimitBytes :: int
  sec_CORSAllowedOrigins :: "string list"

definition ConfigureSecurity :: "security_config \<Rightarrow> api_server \<Rightarrow> api_server" where
  "ConfigureSecurity cfg s =
     (let s1 = (if 0 < sec_RequestBodyLimitBytes cfg
                then s\<lparr>as_requestBodyLimitBytes := sec_RequestBodyLimitBytes cfg\<rparr> else s)
      in if sec_CORSAllowedOrigins cfg \<noteq> []
         then s1\<lparr>as_corsAllowedOrigins :=
                filter (\<lambda>origin. origin \<noteq> [] \<and> origin \<noteq> ''*'') (map go_TrimSpace (sec_CORSAllowedOrigins cfg))\<rparr>
         else s1)"

definition NewServer :: "static_bearer \<Rightarrow> static_bearer \<Rightarrow> api_server" where
  "NewServer adminAuth gatewayAuth =
     ConfigureSecurity
       \<lparr>sec_RequestBodyLimitBytes = 0,
        sec_CORSAllowedOrigins = [''http://localhost:3000'', ''http://127.0.0.1:3000'']\<rparr>
       \<lparr>as_adminAuth = adminAuth, as_gatewayAuth = gatewayAuth, as_requestBodyLimitBytes = 1048576,
        as_corsAllowedOrigins = []\<rparr>"

record api_request = http_request +
  rq_Segments :: "string list"

text \<open>What the context of a request carries; a value that was not put there reads as the empty text.\<close>

record request_ctx =
  cx_RequestID :: string
  cx_TenantID :: string

text \<open>
  What a request depends on beyond the server and the tables: the database server at each
  repository call of the request, the parsers, the event store and the time the request takes.
  \<open>ae_first_value\<close> is the JSON decoder: the first value of a text and what follows it, where the
  flag says whether the text is all of the body.
\<close>

record 'w api_env =
  ae_unicode :: unicode
  ae_pg :: "nat \<Rightarrow> pg_env"
  ae_collate :: "string \<Rightarrow> nat"
  ae_first_value :: "bool \<Rightarrow> string \<Rightarrow> (json \<times> string) option"
  ae_parse_time :: "string \<Rightarrow> int option"
  ae_parse_rfc3339 :: "string \<Rightarrow> int option"
  ae_fmt_time :: "int \<Rightarrow> string"
  ae_digest :: "json \<Rightarrow> string"
  ae_url :: url_parser
  ae_rand :: "string option"
  ae_now_text :: string
  ae_store_env :: "'w store_env"
  ae_store :: http_store
  ae_visit_rules :: "(string \<times> accumulator) list \<Rightarrow> (string \<times> accumulator) list"
  ae_visit_paths :: "(string \<times> int) list \<Rightarrow> (string \<times> int) list"
  ae_elapsed :: int

record 'w api_state =
  ws_db :: database
  ws_world :: 'w
  ws_metrics :: control_metrics

section \<open>Responses\<close>

datatype api_message = Text string | Invalid validation_error | StoreMessage event_store_error

datatype reply =
    ErrorReply string api_message string
  | StatusReply string
  | MetricsReply
  | TenantsReply "tenant list"
  | TenantReply tenant
  | AppsReply "app_model list"
  | AppReply app_model
  | PoliciesReply "policy_model list"
  | PolicyReply policy_model
  | PublishedReply publish_policy_response
  | GatewayPolicyReply gateway_policy_model
  | SimulationReply string int int "simulation_rule_summary list"
  | RuleSetsReply "managed_rule_set list"
  | RuleVersionsReply "managed_rule_version list"
  | ActivateReply activate_response
  | EventsReply "stored_event list"
  | EventReply stored_event

record api_response =
  rp_Status :: int
  rp_Header :: values_map
  rp_Body :: "reply option"

definition writeJSON :: "values_map \<Rightarrow> int \<Rightarrow> reply \<Rightarrow> api_response" where
  "writeJSON h status body =
     \<lparr>rp_Status = status, rp_Header = header_Set h ''Content-Type'' ''application/json'', rp_Body = Some body\<rparr>"

definition writeError :: "request_ctx \<Rightarrow> values_map \<Rightarrow> int \<Rightarrow> string \<Rightarrow> api_message \<Rightarrow> api_response" where
  "writeError cx h status code message = writeJSON h status (ErrorReply code message (cx_RequestID cx))"

definition internalError :: "request_ctx \<Rightarrow> values_map \<Rightarrow> api_response" where
  "internalError cx h = writeError cx h 500 ''internal_error'' (Text ''internal server error'')"

definition handleReadError :: "request_ctx \<Rightarrow> values_map \<Rightarrow> db_error \<Rightarrow> api_response" where
  "handleReadError cx h err =
     (case err of
        NotFound \<Rightarrow> writeError cx h 404 ''not_found'' (Text ''resource not found'')
      | Conflict \<Rightarrow> writeError cx h 409 ''conflict'' (Text ''resource was modified; refresh and retry'')
      | DbFailed \<Rightarrow> internalError cx h)"

definition badRequest :: "request_ctx \<Rightarrow> values_map \<Rightarrow> api_message \<Rightarrow> api_response" where
  "badRequest cx h message = writeError cx h 400 ''invalid_request'' message"

text \<open>
  \<open>http.MaxBytesReader\<close>: at most \<open>limit\<close> bytes are read, and a longer body ends in an error instead of
  the end of input. (The reader also asks the server to close the connection afterwards.)
  \<open>decodeJSON\<close> puts a limit of 1 MiB on what the server's own limit lets through.
\<close>

definition MaxBytesReader :: "int \<Rightarrow> body \<Rightarrow> body" where
  "MaxBytesReader limit b =
     b\<lparr>body_data := take (nat limit) (body_data b), body_err := (body_err b \<or> limit < int (length (body_data b)))\<rparr>"

definition json_space :: "char \<Rightarrow> bool" where
  "json_space c \<longleftrightarrow> byte c \<in> {32, 9, 10, 13}"

text \<open>A request that arrives without a body has one with nothing in it.\<close>

definition request_body :: "api_request \<Rightarrow> body" where
  "request_body r =
     (case rq_Body r of None \<Rightarrow> \<lparr>body_data = [], body_err = False, body_close_err = False\<rparr> | Some b \<Rightarrow> b)"

definition decodeJSON ::
  "'w api_env \<Rightarrow> (json \<Rightarrow> 'a option) \<Rightarrow> api_request \<Rightarrow> api_message + 'a" where
  "decodeJSON e dec r =
     (let b = MaxBytesReader 1048576 (request_body r); complete = (\<not> body_err b)
      in case ae_first_value e complete (body_data b) of
           None \<Rightarrow> Inl (Text ''request body must be valid JSON'')
         | Some (j, rest) \<Rightarrow>
             (case dec j of
                None \<Rightarrow> Inl (Text ''request body must be valid JSON'')
              | Some v \<Rightarrow>
                  if complete \<and> list_all json_space rest then Inr v
                  else Inl (Text ''request body must contain a single JSON object'')))"

definition badJSON :: "request_ctx \<Rightarrow> values_map \<Rightarrow> api_message \<Rightarrow> api_response" where
  "badJSON cx h message = writeError cx h 400 ''invalid_json'' message"

section \<open>Handlers\<close>

type_synonym 'w handler = "request_ctx \<Rightarrow> api_request \<Rightarrow> values_map \<Rightarrow> 'w api_state \<Rightarrow> api_response \<times> 'w api_state"

definition healthz :: "'w handler" where
  "healthz cx r h st = (writeJSON h 200 (StatusReply ''ok''), st)"

definition readyz :: "'w api_env \<Rightarrow> 'w handler" where
  "readyz e cx r h st =
     (case Ping (ae_pg e 0) (ws_db st) of
        Inl err \<Rightarrow> (writeError cx h 503 ''not_ready'' (Text ''database is unavailable''), st)
      | Inr _ \<Rightarrow> (writeJSON h 200 (StatusReply ''ready''), st))"

subsection \<open>Tenants\<close>

definition listTenants :: "'w api_env \<Rightarrow> 'w handler" where
  "listTenants e cx r h st =
     (case ListTenants (ae_pg e 0) (ws_db st) of
        Inl err \<Rightarrow> (internalError cx h, st)
      | Inr found \<Rightarrow> (writeJSON h 200 (TenantsReply found), st))"

definition createTenant :: "'w api_env \<Rightarrow> 'w handler" where
  "createTenant e cx r h st =
     (case decodeJSON e (\<lambda>j. into_create_tenant (ae_unicode e) j zero_create_tenant) r of
        Inl m \<Rightarrow> (badJSON cx h m, st)
      | Inr req0 \<Rightarrow>
          let req = req0\<lparr>ctr_Name := go_TrimSpace (ctr_Name req0), ctr_Slug := go_TrimSpace (ctr_Slug req0)\<rparr> in
          if ctr_Name req = [] then (badRequest cx h (Text ''name is required''), st)
          else
            (case validateSlug ''slug'' (ctr_Slug req) of
               Some err \<Rightarrow> (badRequest cx h (Invalid err), st)
             | None \<Rightarrow>
                 (case CreateTenant (ae_pg e 0) req (ws_db st) of
                    (Inl err, db) \<Rightarrow> (internalError cx h, st\<lparr>ws_db := db\<rparr>)
                  | (Inr tenant, db) \<Rightarrow> (writeJSON h 201 (TenantReply tenant), st\<lparr>ws_db := db\<rparr>))))"

subsection \<open>Apps\<close>

definition listApps :: "'w api_env \<Rightarrow> 'w handler" where
  "listApps e cx r h st =
     (case ListApps (ae_pg e 0) (cx_TenantID cx) (ws_db st) of
        Inl err \<Rightarrow> (internalError cx h, st)
      | Inr found \<Rightarrow> (writeJSON h 200 (AppsReply found), st))"

definition validateCreateApp ::
  "'w api_env \<Rightarrow> create_app_request \<Rightarrow> api_message + create_app_request \<times> url" where
  "validateCreateApp e req0 =
     (let req = req0\<lparr>car_TenantID := go_TrimSpace (car_TenantID req0), car_Name := go_TrimSpace (car_Name req0),
                     car_Slug := go_TrimSpace (car_Slug req0)\<rparr>
      in if car_TenantID req = [] \<or> car_Name req = [] then Inl (Text ''tenant_id and name are required'')
         else
           (case validateSlug ''slug'' (car_Slug req) of
              Some err \<Rightarrow> Inl (Invalid err)
            | None \<Rightarrow>
                (case validateHostnames (ae_unicode e) (car_Hostnames req) of
                   Some err \<Rightarrow> Inl (Invalid err)
                 | None \<Rightarrow>
                     (case parseOriginURL (ae_url e) (car_OriginURL req) of
                        Inl err \<Rightarrow> Inl (Invalid err)
                      | Inr originURL \<Rightarrow> Inr (req, originURL)))))"

definition createApp :: "'w api_env \<Rightarrow> 'w handler" where
  "createApp e cx r h st =
     (case decodeJSON e (\<lambda>j. into_create_app (ae_unicode e) j zero_create_app) r of
        Inl m \<Rightarrow> (badJSON cx h m, st)
      | Inr req0 \<Rightarrow>
          let tenantID = cx_TenantID cx; given = go_TrimSpace (car_TenantID req0) in
          if given \<noteq> [] \<and> given \<noteq> tenantID
          then (badRequest cx h (Text ''tenant_id must match tenant context''), st)
          else
            (case validateCreateApp e (req0\<lparr>car_TenantID := (if given = [] then tenantID else given)\<rparr>) of
               Inl m \<Rightarrow> (badRequest cx h m, st)
             | Inr (req, originURL) \<Rightarrow>
                 (case CreateApp (ae_unicode e) (ae_pg e 0) req originURL (ws_db st) of
                    (Inl err, db) \<Rightarrow> (internalError cx h, st\<lparr>ws_db := db\<rparr>)
                  | (Inr app, db) \<Rightarrow> (writeJSON h 201 (AppReply app), st\<lparr>ws_db := db\<rparr>))))"

definition getApp :: "'w api_env \<Rightarrow> string \<Rightarrow> 'w handler" where
  "getApp e app_id cx r h st =
     (case GetApp (ae_pg e 0) (cx_TenantID cx) app_id (ws_db st) of
        Inl err \<Rightarrow> (handleReadError cx h err, st)
      | Inr app \<Rightarrow> (writeJSON h 200 (AppReply app), st))"

definition validatePatchApp ::
  "'w api_env \<Rightarrow> update_app_request \<Rightarrow> api_message + update_app_request \<times> url option" where
  "validatePatchApp e req0 =
     (let req = req0\<lparr>uar_Name := map_option go_TrimSpace (uar_Name req0)\<rparr> in
      if uar_Name req = Some [] then Inl (Text ''name cannot be empty'')
      else
        (case (if uar_Hostnames req \<noteq> [] then validateHostnames (ae_unicode e) (uar_Hostnames req) else None) of
           Some err \<Rightarrow> Inl (Invalid err)
         | None \<Rightarrow>
             if uar_Status req \<notin> {None, Some ''active'', Some ''disabled''}
             then Inl (Text ''status must be active or disabled'')
             else
               (case uar_OriginURL req of
                  None \<Rightarrow> Inr (req, None)
                | Some raw \<Rightarrow>
                    (case parseOriginURL (ae_url e) raw of
                       Inl err \<Rightarrow> Inl (Invalid err)
                     | Inr parsed \<Rightarrow> Inr (req, Some parsed)))))"

definition patchApp :: "'w api_env \<Rightarrow> string \<Rightarrow> 'w handler" where
  "patchApp e app_id cx r h st =
     (case decodeJSON e (\<lambda>j. into_update_app (ae_unicode e) j zero_update_app) r of
        Inl m \<Rightarrow> (badJSON cx h m, st)
      | Inr req0 \<Rightarrow>
          (case validatePatchApp e req0 of
             Inl m \<Rightarrow> (badRequest cx h m, st)
           | Inr (req, parsedOrigin) \<Rightarrow>
               (case UpdateApp (ae_unicode e) (ae_pg e 0) (cx_TenantID cx) app_id req parsedOrigin (ws_db st) of
                  (Inl err, db) \<Rightarrow> (handleReadError cx h err, st\<lparr>ws_db := db\<rparr>)
                | (Inr app, db) \<Rightarrow> (writeJSON h 200 (AppReply app), st\<lparr>ws_db := db\<rparr>))))"

subsection \<open>Policies\<close>

definition listPolicies :: "'w api_env \<Rightarrow> string \<Rightarrow> 'w handler" where
  "listPolicies e app_id cx r h st =
     (case ListPoliciesByApp (ae_pg e 0) (cx_TenantID cx) app_id (ws_db st) of
        Inl err \<Rightarrow> (internalError cx h, st)
      | Inr found \<Rightarrow> (writeJSON h 200 (PoliciesReply found), st))"

definition createPolicy :: "'w api_env \<Rightarrow> string \<Rightarrow> 'w handler" where
  "createPolicy e app_id cx r h st =
     (case decodeJSON e (\<lambda>j. into_create_policy (ae_unicode e) j zero_create_policy) r of
        Inl m \<Rightarrow> (badJSON cx h m, st)
      | Inr req0 \<Rightarrow>
          let req = req0\<lparr>cpr_Name := go_TrimSpace (cpr_Name req0),
                         cpr_Mode := (if cpr_Mode req0 = [] then ''count'' else cpr_Mode req0)\<rparr>
          in if cpr_Name req = [] then (badRequest cx h (Text ''name is required''), st)
             else
               (case checks [validateMode (cpr_Mode req), validatePolicySnapshot (ae_unicode e) (cpr_Snapshot req)] of
                  Some err \<Rightarrow> (badRequest cx h (Invalid err), st)
                | None \<Rightarrow>
                    (case CreatePolicy (ae_pg e 0) (cx_TenantID cx) app_id req (ws_db st) of
                       (Inl err, db) \<Rightarrow> (handleReadError cx h err, st\<lparr>ws_db := db\<rparr>)
                     | (Inr policy, db) \<Rightarrow> (writeJSON h 201 (PolicyReply policy), st\<lparr>ws_db := db\<rparr>))))"

definition getPolicy :: "'w api_env \<Rightarrow> string \<Rightarrow> 'w handler" where
  "getPolicy e policy_id cx r h st =
     (case GetPolicy (ae_pg e 0) (cx_TenantID cx) policy_id (ws_db st) of
        Inl err \<Rightarrow> (handleReadError cx h err, st)
      | Inr policy \<Rightarrow> (writeJSON h 200 (PolicyReply policy), st))"

definition validateUpdatePolicy ::
  "'w api_env \<Rightarrow> update_policy_request \<Rightarrow> api_message + update_policy_request" where
  "validateUpdatePolicy e req0 =
     (let req = req0\<lparr>upr_Name := map_option go_TrimSpace (upr_Name req0)\<rparr> in
      if upr_ExpectedUpdatedAt req0 = zero_time
        then Inl (Text ''expected_updated_at is required for optimistic locking'')
      else if upr_Name req = Some [] then Inl (Text ''name cannot be empty'')
      else
        (case checks [case upr_Mode req of None \<Rightarrow> None | Some m \<Rightarrow> validateMode m,
                      validatePolicySnapshot (ae_unicode e) (upr_Snapshot req)] of
           Some err \<Rightarrow> Inl (Invalid err)
         | None \<Rightarrow> Inr req))"

definition patchPolicy :: "'w api_env \<Rightarrow> string \<Rightarrow> 'w handler" where
  "patchPolicy e policy_id cx r h st =
     (case decodeJSON e (\<lambda>j. into_update_policy (ae_unicode e) (ae_parse_time e) j zero_update_policy) r of
        Inl m \<Rightarrow> (badJSON cx h m, st)
      | Inr req0 \<Rightarrow>
          (case validateUpdatePolicy e req0 of
             Inl m \<Rightarrow> (badRequest cx h m, st)
           | Inr req \<Rightarrow>
               (case UpdatePolicy (ae_pg e 0) (cx_TenantID cx) policy_id req (ws_db st) of
                  (Inl err, db) \<Rightarrow> (handleReadError cx h err, st\<lparr>ws_db := db\<rparr>)
                | (Inr policy, db) \<Rightarrow> (writeJSON h 200 (PolicyReply policy), st\<lparr>ws_db := db\<rparr>))))"

definition publishPolicy :: "'w api_env \<Rightarrow> string \<Rightarrow> 'w handler" where
  "publishPolicy e policy_id cx r h st =
     (case GetPolicy (ae_pg e 0) (cx_TenantID cx) policy_id (ws_db st) of
        Inl err \<Rightarrow> (handleReadError cx h err, st)
      | Inr policy \<Rightarrow>
          (case validatePolicySnapshot (ae_unicode e) (pm_Snapshot policy) of
             Some err \<Rightarrow> (writeError cx h 400 ''invalid_policy'' (Invalid err), st)
           | None \<Rightarrow>
               (case PublishPolicy (ae_unicode e) (ae_fmt_time e) (ae_digest e) (ae_pg e 1) (cx_TenantID cx)
                       policy_id (ws_db st) of
                  (Inl err, db) \<Rightarrow> (handleReadError cx h err, st\<lparr>ws_db := db\<rparr>)
                | (Inr published, db) \<Rightarrow> (writeJSON h 201 (PublishedReply published), st\<lparr>ws_db := db\<rparr>))))"

definition getActivePolicy :: "'w api_env \<Rightarrow> string \<Rightarrow> 'w handler" where
  "getActivePolicy e app_id cx r h st =
     (case GetActivePolicyByApp (ae_unicode e) (ae_parse_time e) (ae_pg e 0) (cx_TenantID cx) app_id (ws_db st) of
        Inl err \<Rightarrow> (handleReadError cx h err, st)
      | Inr policy \<Rightarrow> (writeJSON h 200 (GatewayPolicyReply policy), st))"

definition getGatewayPolicy :: "'w api_env \<Rightarrow> string \<Rightarrow> 'w handler" where
  "getGatewayPolicy e hostname0 cx r h st =
     (let hostname = go_TrimSpace (go_ToLower (ae_unicode e) hostname0) in
      case validateDNSName hostname of
        Some err \<Rightarrow> (badRequest cx h (Text ''hostname is invalid''), st)
      | None \<Rightarrow>
          (case GetGatewayPolicyByHostname (ae_unicode e) (ae_parse_time e) (ae_pg e 0) hostname (ws_db st) of
             Inl err \<Rightarrow> (handleReadError cx h err, st)
           | Inr policy \<Rightarrow> (writeJSON h 200 (GatewayPolicyReply policy), st)))"

subsection \<open>Managed rule sets\<close>

definition listManagedRuleSets :: "'w api_env \<Rightarrow> 'w handler" where
  "listManagedRuleSets e cx r h st =
     (case ListManagedRuleSets (ae_collate e) (ae_pg e 0) (ws_db st) of
        Inl err \<Rightarrow> (internalError cx h, st)
      | Inr sets \<Rightarrow> (writeJSON h 200 (RuleSetsReply sets), st))"

definition listManagedRuleVersions :: "'w api_env \<Rightarrow> string \<Rightarrow> 'w handler" where
  "listManagedRuleVersions e i cx r h st =
     (case ListManagedRuleVersions (ae_pg e 0) i (ws_db st) of
        Inl err \<Rightarrow> (internalError cx h, st)
      | Inr found \<Rightarrow> (writeJSON h 200 (RuleVersionsReply found), st))"

definition activateManagedRuleVersion :: "'w api_env \<Rightarrow> string \<Rightarrow> string \<Rightarrow> 'w handler" where
  "activateManagedRuleVersion e i version_id cx r h st =
     (case ActivateManagedRuleVersion (ae_pg e 0) i version_id (ws_db st) of
        Inl err \<Rightarrow> (handleReadError cx h err, st)
      | Inr response \<Rightarrow> (writeJSON h 202 (ActivateReply response), st))"

subsection \<open>Events\<close>

text \<open>The \<open>from\<close> and \<open>to\<close> parameters, read in the same way by both handlers.\<close>

definition parse_time_range :: "'w api_env \<Rightarrow> api_request \<Rightarrow> search_filters \<Rightarrow> api_message + search_filters" where
  "parse_time_range e r f =
     (let read = (\<lambda>name old. let raw = query_Get (rq_Query r) name in
                    if raw \<noteq> [] then ae_parse_rfc3339 e raw else Some old)
      in case read ''from'' (sf_From f) of
           None \<Rightarrow> Inl (Text ''from must be RFC3339'')
         | Some from_time \<Rightarrow>
             (case read ''to'' (sf_To f) of
                None \<Rightarrow> Inl (Text ''to must be RFC3339'')
              | Some to_time \<Rightarrow>
                  if from_time \<noteq> zero_time \<and> to_time \<noteq> zero_time \<and> to_time < from_time
                  then Inl (Text ''from must be before to'')
                  else Inr (f\<lparr>sf_From := from_time, sf_To := to_time\<rparr>)))"

definition parseSimulationFilters ::
  "'w api_env \<Rightarrow> api_request \<Rightarrow> string \<Rightarrow> string \<Rightarrow> api_message + search_filters" where
  "parseSimulationFilters e r tenantID policyID0 =
     (let policyID = go_TrimSpace policyID0 in
      if policyID = [] then Inl (Text ''policy_id is required'')
      else parse_time_range e r (zero_filters\<lparr>sf_TenantID := tenantID, sf_PolicyID := policyID, sf_Limit := MaxLimit\<rparr>))"

definition parse_limit :: "api_request \<Rightarrow> int option" where
  "parse_limit r =
     (let raw = query_Get (rq_Query r) ''limit'' in
      if raw = [] then Some DefaultLimit
      else (case go_ParseInt64 raw of
              None \<Rightarrow> None
            | Some parsed \<Rightarrow> if parsed < 1 \<or> MaxLimit < parsed then None else Some parsed))"

definition parseEventFilters :: "'w api_env \<Rightarrow> api_request \<Rightarrow> string \<Rightarrow> api_message + search_filters" where
  "parseEventFilters e r tenantID =
     (let q = query_Get (rq_Query r); queryTenant = go_TrimSpace (q ''tenant_id'') in
      if queryTenant \<noteq> [] \<and> queryTenant \<noteq> tenantID
        then Inl (Text ''tenant_id query parameter must match tenant context'')
      else
        (case parse_limit r of
           None \<Rightarrow> Inl (Text ''limit must be between 1 and 1000'')
         | Some limit \<Rightarrow>
             parse_time_range e r
               (zero_filters\<lparr>sf_TenantID := tenantID, sf_AppID := q ''app_id'', sf_Host := q ''host'',
                  sf_Action := q ''action'', sf_ClientIP := q ''client_ip'',
                  sf_MatchedRuleID := q ''matched_rule_id'', sf_Limit := limit\<rparr>)))"

definition getPolicySimulationSummary :: "'w api_env \<Rightarrow> string \<Rightarrow> 'w handler" where
  "getPolicySimulationSummary e policy_id cx r h st =
     (case parseSimulationFilters e r (cx_TenantID cx) policy_id of
        Inl m \<Rightarrow> (badRequest cx h m, st)
      | Inr filters \<Rightarrow>
          (case store_Search (ae_store_env e) (ae_store e) filters (ws_world st) of
             (Inl err, w) \<Rightarrow> (badRequest cx h (StoreMessage err), st\<lparr>ws_world := w\<rparr>)
           | (Inr found, w) \<Rightarrow>
               (writeJSON h 200 (SimulationReply (sf_PolicyID filters) (sf_From filters) (sf_To filters)
                  (BuildSimulationSummary (ae_visit_rules e) (ae_visit_paths e) found)), st\<lparr>ws_world := w\<rparr>)))"

definition listEvents :: "'w api_env \<Rightarrow> 'w handler" where
  "listEvents e cx r h st =
     (case parseEventFilters e r (cx_TenantID cx) of
        Inl m \<Rightarrow> (badRequest cx h m, st)
      | Inr filters \<Rightarrow>
          (case store_Search (ae_store_env e) (ae_store e) filters (ws_world st) of
             (Inl err, w) \<Rightarrow> (badRequest cx h (StoreMessage err), st\<lparr>ws_world := w\<rparr>)
           | (Inr events, w) \<Rightarrow> (writeJSON h 200 (EventsReply events), st\<lparr>ws_world := w\<rparr>)))"

definition getEvent :: "'w api_env \<Rightarrow> string \<Rightarrow> 'w handler" where
  "getEvent e event_id cx r h st =
     (case store_GetByRequestID (ae_store_env e) (ae_store e) (cx_TenantID cx) event_id (ws_world st) of
        (Inl EventNotFound, w) \<Rightarrow> (writeError cx h 404 ''not_found'' (Text ''event not found''), st\<lparr>ws_world := w\<rparr>)
      | (Inl err, w) \<Rightarrow> (internalError cx h, st\<lparr>ws_world := w\<rparr>)
      | (Inr event, w) \<Rightarrow> (writeJSON h 200 (EventReply event), st\<lparr>ws_world := w\<rparr>))"

section \<open>Guards\<close>

definition requireAuth :: "api_server \<Rightarrow> 'w handler \<Rightarrow> 'w handler" where
  "requireAuth s next_handler cx r h st =
     (if \<not> Authorized (as_adminAuth s) (rq_Header r)
      then (writeError cx h 401 ''unauthorized'' (Text ''missing or invalid bearer token''), st)
      else next_handler cx r h st)"

definition requireTenant :: "'w handler \<Rightarrow> 'w handler" where
  "requireTenant next_handler cx r h st =
     (let headerTenantID = go_TrimSpace (header_Get (rq_Header r) ''X-Bedem-Tenant-ID'');
          queryTenantID = go_TrimSpace (query_Get (rq_Query r) ''tenant_id'');
          tenantID = (if headerTenantID = [] then queryTenantID else headerTenantID)
      in if headerTenantID \<noteq> [] \<and> queryTenantID \<noteq> [] \<and> headerTenantID \<noteq> queryTenantID
           then (badRequest cx h (Text ''tenant_id query parameter must match tenant context''), st)
         else if tenantID = []
           then (writeError cx h 400 ''tenant_required'' (Text ''tenant context is required''), st)
         else next_handler (cx\<lparr>cx_TenantID := tenantID\<rparr>) r h st)"

definition requireGatewayAuth :: "api_server \<Rightarrow> 'w handler \<Rightarrow> 'w handler" where
  "requireGatewayAuth s next_handler cx r h st =
     (if \<not> Authorized (as_gatewayAuth s) (rq_Header r)
      then (writeError cx h 401 ''unauthorized'' (Text ''missing or invalid gateway bearer token''), st)
      else next_handler cx r h st)"

section \<open>Routes\<close>

text \<open>A pattern is a list of literal segments and wildcards; a wildcard takes a segment that is not empty.\<close>

fun match_path :: "string option list \<Rightarrow> string list \<Rightarrow> string list option" where
  "match_path [] [] = Some []"
| "match_path (Some l # ps) (x # xs) = (if l = x then match_path ps xs else None)"
| "match_path (None # ps) (x # xs) = (if x = [] then None else map_option (Cons x) (match_path ps xs))"
| "match_path _ _ = None"

datatype endpoint =
    RHealthz | RReadyz | RMetrics | RListTenants | RCreateTenant | RListApps | RCreateApp | RGetApp | RPatchApp
  | RListPolicies | RCreatePolicy | RGetActivePolicy | RGetPolicy | RPatchPolicy | RPublishPolicy
  | RSimulationSummary | RListRuleSets | RListRuleVersions | RActivateRuleVersion | RGatewayPolicy
  | RListEvents | RGetEvent

definition routes :: "(string \<times> string option list \<times> endpoint) list" where
  "routes =
     [(''GET'', [Some ''healthz''], RHealthz),
      (''GET'', [Some ''readyz''], RReadyz),
      (''GET'', [Some ''metrics''], RMetrics),
      (''GET'', [Some ''v1'', Some ''tenants''], RListTenants),
      (''POST'', [Some ''v1'', Some ''tenants''], RCreateTenant),
      (''GET'', [Some ''v1'', Some ''apps''], RListApps),
      (''POST'', [Some ''v1'', Some ''apps''], RCreateApp),
      (''GET'', [Some ''v1'', Some ''apps'', None], RGetApp),
      (''PATCH'', [Some ''v1'', Some ''apps'', None], RPatchApp),
      (''GET'', [Some ''v1'', Some ''apps'', None, Some ''policies''], RListPolicies),
      (''POST'', [Some ''v1'', Some ''apps'', None, Some ''policies''], RCreatePolicy),
      (''GET'', [Some ''v1'', Some ''apps'', None, Some ''active-policy''], RGetActivePolicy),
      (''GET'', [Some ''v1'', Some ''policies'', None], RGetPolicy),
      (''PATCH'', [Some ''v1'', Some ''policies'', None], RPatchPolicy),
      (''POST'', [Some ''v1'', Some ''policies'', None, Some ''publish''], RPublishPolicy),
      (''GET'', [Some ''v1'', Some ''policies'', None, Some ''simulation-summary''], RSimulationSummary),
      (''GET'', [Some ''v1'', Some ''managed-rule-sets''], RListRuleSets),
      (''GET'', [Some ''v1'', Some ''managed-rule-sets'', None, Some ''versions''], RListRuleVersions),
      (''POST'', [Some ''v1'', Some ''managed-rule-sets'', None, Some ''versions'', None, Some ''activate''],
        RActivateRuleVersion),
      (''GET'', [Some ''v1'', Some ''gateway'', Some ''apps'', None, Some ''policy''], RGatewayPolicy),
      (''GET'', [Some ''v1'', Some ''events''], RListEvents),
      (''GET'', [Some ''v1'', Some ''events'', None], RGetEvent)]"

text \<open>A pattern for GET also matches HEAD; no two patterns match the same request.\<close>

definition method_matches :: "string \<Rightarrow> string \<Rightarrow> bool" where
  "method_matches want got \<longleftrightarrow> got = want \<or> want = ''GET'' \<and> got = ''HEAD''"

fun find_route :: "(string \<times> string option list \<times> endpoint) list \<Rightarrow> string \<Rightarrow> string list \<Rightarrow> (endpoint \<times> string list) option" where
  "find_route [] m path = None"
| "find_route ((want, pattern, ep) # rs) m path =
     (if method_matches want m
      then (case match_path pattern path of Some vs \<Rightarrow> Some (ep, vs) | None \<Rightarrow> find_route rs m path)
      else find_route rs m path)"

definition adminGlobal :: "api_server \<Rightarrow> 'w handler \<Rightarrow> 'w handler" where
  "adminGlobal s handler = requireAuth s handler"

definition adminTenant :: "api_server \<Rightarrow> 'w handler \<Rightarrow> 'w handler" where
  "adminTenant s handler = requireAuth s (requireTenant handler)"

definition endpoint_handler :: "'w api_env \<Rightarrow> api_server \<Rightarrow> endpoint \<Rightarrow> string list \<Rightarrow> 'w handler" where
  "endpoint_handler e s ep vs =
     (case ep of
        RHealthz \<Rightarrow> healthz
      | RReadyz \<Rightarrow> readyz e
      | RMetrics \<Rightarrow> (\<lambda>cx r h st. (\<lparr>rp_Status = 200, rp_Header = h, rp_Body = Some MetricsReply\<rparr>, st))
      | RListTenants \<Rightarrow> adminGlobal s (listTenants e)
      | RCreateTenant \<Rightarrow> adminGlobal s (createTenant e)
      | RListApps \<Rightarrow> adminTenant s (listApps e)
      | RCreateApp \<Rightarrow> adminTenant s (createApp e)
      | RGetApp \<Rightarrow> adminTenant s (getApp e (vs ! 0))
      | RPatchApp \<Rightarrow> adminTenant s (patchApp e (vs ! 0))
      | RListPolicies \<Rightarrow> adminTenant s (listPolicies e (vs ! 0))
      | RCreatePolicy \<Rightarrow> adminTenant s (createPolicy e (vs ! 0))
      | RGetActivePolicy \<Rightarrow> adminTenant s (getActivePolicy e (vs ! 0))
      | RGetPolicy \<Rightarrow> adminTenant s (getPolicy e (vs ! 0))
      | RPatchPolicy \<Rightarrow> adminTenant s (patchPolicy e (vs ! 0))
      | RPublishPolicy \<Rightarrow> adminTenant s (publishPolicy e (vs ! 0))
      | RSimulationSummary \<Rightarrow> adminTenant s (getPolicySimulationSummary e (vs ! 0))
      | RListRuleSets \<Rightarrow> adminGlobal s (listManagedRuleSets e)
      | RListRuleVersions \<Rightarrow> adminGlobal s (listManagedRuleVersions e (vs ! 0))
      | RActivateRuleVersion \<Rightarrow> adminGlobal s (activateManagedRuleVersion e (vs ! 0) (vs ! 1))
      | RGatewayPolicy \<Rightarrow> requireGatewayAuth s (getGatewayPolicy e (vs ! 0))
      | RListEvents \<Rightarrow> adminTenant s (listEvents e)
      | RGetEvent \<Rightarrow> adminTenant s (getEvent e (vs ! 0)))"

definition mux :: "'w api_env \<Rightarrow> api_server \<Rightarrow> 'w handler" where
  "mux e s cx r h st =
     (case find_route routes (rq_Method r) (rq_Segments r) of
        None \<Rightarrow> (writeError cx h 404 ''not_found'' (Text ''route not found''), st)
      | Some (ep, vs) \<Rightarrow> endpoint_handler e s ep vs cx r h st)"

section \<open>Middlewares\<close>

text \<open>\<open>ae_rand\<close> is the 16 random bytes, or None when the random source fails; \<open>ae_now_text\<close> is the time as text.\<close>

definition newRequestID :: "'w api_env \<Rightarrow> string" where
  "newRequestID e = (case ae_rand e of None \<Rightarrow> go_HexEncode (ae_now_text e) | Some b \<Rightarrow> go_HexEncode b)"

definition requestIDMiddleware :: "'w api_env \<Rightarrow> 'w handler \<Rightarrow> 'w handler" where
  "requestIDMiddleware e next_handler cx r h st =
     (let given = go_TrimSpace (header_Get (rq_Header r) ''X-Request-ID'');
          requestID = (if given = [] then newRequestID e else given)
      in next_handler (cx\<lparr>cx_RequestID := requestID\<rparr>) r (header_Set h ''X-Request-ID'' requestID) st)"

definition loggingMiddleware :: "'w api_env \<Rightarrow> 'w handler \<Rightarrow> 'w handler" where
  "loggingMiddleware e next_handler cx r h st =
     (let (resp, st') = next_handler cx r h st
      in (resp, st'\<lparr>ws_metrics := control_ObserveRequest (rq_Method r) (rp_Status resp) (ae_elapsed e) (ws_metrics st')\<rparr>))"

definition secureHeaders :: "'w handler \<Rightarrow> 'w handler" where
  "secureHeaders next_handler cx r h st =
     next_handler cx r
       (header_Set (header_Set (header_Set h ''X-Content-Type-Options'' ''nosniff'') ''X-Frame-Options'' ''DENY'')
          ''Referrer-Policy'' ''no-referrer'') st"

definition requestSizeLimitMiddleware :: "int \<Rightarrow> 'w handler \<Rightarrow> 'w handler" where
  "requestSizeLimitMiddleware limit next_handler cx r h st =
     next_handler cx
       (if 0 < limit then r\<lparr>rq_Body := map_option (MaxBytesReader limit) (rq_Body r)\<rparr> else r) h st"

definition cors_headers :: "string \<Rightarrow> values_map \<Rightarrow> values_map" where
  "cors_headers origin h =
     header_Set (header_Set (header_Set (header_Set h ''Access-Control-Allow-Origin'' origin) ''Vary'' ''Origin'')
       ''Access-Control-Allow-Headers'' ''Authorization, Content-Type, X-Request-ID, X-Bedem-Tenant-ID'')
       ''Access-Control-Allow-Methods'' ''GET, POST, PATCH, OPTIONS''"

definition corsMiddleware :: "api_server \<Rightarrow> 'w handler \<Rightarrow> 'w handler" where
  "corsMiddleware s next_handler cx r h st =
     (let origin = header_Get (rq_Header r) ''Origin'';
          h1 = (if origin \<in> set (as_corsAllowedOrigins s) then cors_headers origin h else h)
      in if rq_Method r = ''OPTIONS'' then (\<lparr>rp_Status = 204, rp_Header = h1, rp_Body = None\<rparr>, st)
         else next_handler cx r h1 st)"

definition empty_ctx :: request_ctx where
  "empty_ctx = \<lparr>cx_RequestID = [], cx_TenantID = []\<rparr>"

definition Routes :: "'w api_env \<Rightarrow> api_server \<Rightarrow> api_request \<Rightarrow> 'w api_state \<Rightarrow> api_response \<times> 'w api_state" where
  "Routes e s r st =
     requestIDMiddleware e (loggingMiddleware e (corsMiddleware s (secureHeaders
       (requestSizeLimitMiddleware (as_requestBodyLimitBytes s) (mux e s))))) empty_ctx r [] st"

section \<open>Starting the server\<close>

datatype start_error = AdminKeyRequired | GatewayKeyRequired | DatabaseConnectFailed | EventStoreFailed event_store_error

text \<open>\<open>main\<close> up to the point where the server listens.\<close>

definition control_main ::
  "environ \<Rightarrow> (string \<Rightarrow> bool) \<Rightarrow> url_parser \<Rightarrow> (url \<Rightarrow> string) \<Rightarrow> start_error + api_server \<times> http_store" where
  "control_main env connect parse url_String =
     (let cfg = Load env in
      if cc_AdminAPIKey cfg = [] then Inl AdminKeyRequired
      else if cc_GatewayAPIKey cfg = [] then Inl GatewayKeyRequired
      else if OpenPool connect (cc_DatabaseURL cfg) \<noteq> Inr () then Inl DatabaseConnectFailed
      else
        (case NewHTTPStore parse url_String
                \<lparr>sc_URL = cc_ClickHouseURL cfg, sc_Database = cc_ClickHouseDatabase cfg,
                 sc_Username = cc_ClickHouseUsername cfg, sc_Password = cc_ClickHousePassword cfg\<rparr> of
           Inl err \<Rightarrow> Inl (EventStoreFailed err)
         | Inr store \<Rightarrow>
             Inr (ConfigureSecurity
                    \<lparr>sec_RequestBodyLimitBytes = cc_RequestBodyLimit cfg,
                     sec_CORSAllowedOrigins = cc_CORSAllowedOrigins cfg\<rparr>
                    (NewServer (NewStaticBearer (cc_AdminAPIKey cfg)) (NewStaticBearer (cc_GatewayAPIKey cfg))),
                  store)))"

end
