(* ===== verification/Control_Db_Facts.thy ===== *)
theory Control_Db_Facts
  imports Control_Publish
begin

text \<open>
  Facts about the repository: the consistency of the tables under every sequence of calls, the
  isolation of tenants, optimistic locking, and what publishing makes visible. A call of
  \<open>UpdateApp\<close> reads before its transaction, so its transaction may run on tables that other calls
  have changed in between.
\<close>

section \<open>Consistency of the tables\<close>

definition row_ids :: "database \<Rightarrow> string set" where
  "row_ids db = tn_ID ` set (tenants db) \<union> ap_id ` set (apps db) \<union> og_id ` set (origins db) \<union>
     po_id ` set (policies db) \<union> ve_id ` set (versions db)"

definition fresh_ids :: "pg_env \<Rightarrow> database \<Rightarrow> bool" where
  "fresh_ids env db \<longleftrightarrow> pg_id env 0 \<noteq> pg_id env 1 \<and> pg_id env 0 \<notin> row_ids db \<and> pg_id env 1 \<notin> row_ids db"

text \<open>The keys that the schema declares.\<close>

definition keys_ok :: "database \<Rightarrow> bool" where
  "keys_ok db \<longleftrightarrow>
     distinct (map tn_ID (tenants db)) \<and> distinct (map tn_Slug (tenants db)) \<and>
     distinct (map ap_id (apps db)) \<and> distinct (map (\<lambda>a. (ap_tenant a, ap_slug a)) (apps db)) \<and>
     distinct (map og_id (origins db)) \<and> distinct (map (\<lambda>r. (og_app r, og_name r)) (origins db)) \<and>
     distinct (map po_id (policies db)) \<and> distinct (map (\<lambda>p. (po_app p, po_name p)) (policies db)) \<and>
     distinct (map ve_id (versions db)) \<and> distinct (map (\<lambda>v. (ve_policy v, ve_version v)) (versions db)) \<and>
     distinct (map (\<lambda>d. (dp_policy d, dp_node d)) (deployments db))"

text \<open>
  Every row belongs to the tenant of the row it refers to, and the deployed version is the active one.
\<close>

definition app_ref :: "database \<Rightarrow> string \<Rightarrow> string \<Rightarrow> bool" where
  "app_ref db t a \<longleftrightarrow> (t, a) \<in> (\<lambda>r. (ap_tenant r, ap_id r)) ` set (apps db)"

definition policy_ref :: "database \<Rightarrow> string \<Rightarrow> string \<Rightarrow> string \<Rightarrow> bool" where
  "policy_ref db t a p \<longleftrightarrow> (t, a, p) \<in> (\<lambda>r. (po_tenant r, po_app r, po_id r)) ` set (policies db)"

definition version_ref :: "database \<Rightarrow> string \<Rightarrow> string \<Rightarrow> string \<Rightarrow> string \<Rightarrow> bool" where
  "version_ref db t a p v \<longleftrightarrow>
     (t, a, p, v) \<in> (\<lambda>r. (ve_tenant r, ve_app r, ve_policy r, ve_id r)) ` set (versions db)"

definition refs_ok :: "database \<Rightarrow> bool" where
  "refs_ok db \<longleftrightarrow>
     (\<forall>r \<in> set (apps db). ap_tenant r \<in> tn_ID ` set (tenants db)) \<and>
     (\<forall>r \<in> set (origins db). app_ref db (og_tenant r) (og_app r)) \<and>
     (\<forall>r \<in> set (policies db). app_ref db (po_tenant r) (po_app r)) \<and>
     (\<forall>r \<in> set (versions db). policy_ref db (ve_tenant r) (ve_app r) (ve_policy r)) \<and>
     (\<forall>d \<in> set (deployments db). version_ref db (dp_tenant d) (dp_app d) (dp_policy d) (dp_version d)) \<and>
     (\<forall>d \<in> set (deployments db). dp_node d = ''default'' \<and> dp_status d = ''active'' \<and>
        (\<forall>p \<in> set (policies db). po_id p = dp_policy d \<longrightarrow> po_active p = Some (dp_version d)))"

text \<open>Values that the checks of the schema allow, and versions that carry a compiled policy of their own.\<close>

definition values_ok :: "(int \<Rightarrow> string) \<Rightarrow> database \<Rightarrow> bool" where
  "values_ok fmt_time db \<longleftrightarrow>
     (\<forall>r \<in> set (apps db). ap_status r \<in> {''active'', ''disabled''}) \<and>
     (\<forall>r \<in> set (origins db). og_scheme r \<in> {''http'', ''https''} \<and> 1 \<le> og_port r \<and> og_port r \<le> 65535) \<and>
     (\<forall>r \<in> set (policies db). po_mode r \<in> {''count'', ''block''}) \<and>
     (\<forall>r \<in> set (versions db). 0 < ve_version r \<and>
        (\<exists>g. ve_snapshot r = json_of_gateway_policy fmt_time g \<and> gm_TenantID g = ve_tenant r \<and>
             gm_AppID g = ve_app r \<and> gm_PolicyID g = ve_policy r \<and> gm_PolicyVersionID g = ve_id r))"

definition db_ok :: "(int \<Rightarrow> string) \<Rightarrow> database \<Rightarrow> bool" where
  "db_ok fmt_time db \<longleftrightarrow> keys_ok db \<and> refs_ok db \<and> values_ok fmt_time db"

definition empty_db :: database where
  "empty_db = \<lparr>tenants = [], apps = [], origins = [], policies = [], versions = [], deployments = [],
     rule_sets = [], rule_versions = [], event_refs = []\<rparr>"

lemma db_ok_empty: "db_ok fmt_time empty_db"
  by (simp add: db_ok_def keys_ok_def refs_ok_def values_ok_def empty_db_def)

lemmas db_defs = db_ok_def keys_ok_def refs_ok_def values_ok_def app_ref_def policy_ref_def version_ref_def
  row_ids_def fresh_ids_def

lemma find_row: "find P xs = Some r \<Longrightarrow> r \<in> set xs \<and> P r"
  by (auto simp: find_Some_iff)

subsection \<open>Each statement keeps the tables consistent\<close>

lemma CreateTenant_cases:
  assumes "CreateTenant env req db = (res, db')"
  obtains (failed) "db' = db" "res = Inl DbFailed"
  | (created) r where "db' = db\<lparr>tenants := tenants db @ [r]\<rparr>" "tn_ID r = pg_id env 0"
      "tn_Slug r \<notin> tn_Slug ` set (tenants db)" "res = Inr (tenant.truncate r)" "tn_Name r = ctr_Name req"
      "tn_Slug r = ctr_Slug req"
  using assms by (auto simp: CreateTenant_def Let_def split: if_splits)

lemma CreateTenant_ok:
  assumes "db_ok f db" "fresh_ids env db"
  shows "db_ok f (snd (CreateTenant env req db))"
proof (rule CreateTenant_cases [OF surjective_pairing, of env req db])
  fix r assume "snd (CreateTenant env req db) = db\<lparr>tenants := tenants db @ [r]\<rparr>" "tn_ID r = pg_id env 0"
    "tn_Slug r \<notin> tn_Slug ` set (tenants db)"
  with assms show ?thesis by (auto simp: db_defs)
qed (use assms in simp)

lemma insertOrigin_Inr:
  assumes "insertOrigin u env n t a v db = Inr (m, db')"
  obtains r where "db' = db\<lparr>origins := origins db @ [r]\<rparr>" "og_id r = n" "og_tenant r = t" "og_app r = a"
    "og_name r = ''primary''" "\<forall>x \<in> set (origins db). (og_app x, og_name x) \<noteq> (a, ''primary'')"
    "og_scheme r \<in> {''http'', ''https''}" "1 \<le> og_port r" "og_port r \<le> 65535" "og_enabled r"
    "og_deleted r = None" "m = origin_of r (origin_url_of r)"
  using assms by (auto simp: insertOrigin_def Let_def split: option.splits if_splits)

lemma CreateApp_cases:
  assumes "CreateApp u env req v db = (res, db')"
  obtains (failed) e where "db' = db" "res = Inl e"
  | (created) r og where "db' = db\<lparr>apps := apps db @ [r], origins := origins db @ [og]\<rparr>"
      "pg_uuid env (car_TenantID req) = Some (ap_tenant r)" "ap_id r = pg_id env 0" "ap_status r = ''active''"
      "ap_hostnames r = car_Hostnames req" "ap_deleted r = None" "ap_slug r = car_Slug req"
      "ap_tenant r \<in> tn_ID ` set (tenants db)"
      "\<forall>x \<in> set (apps db). (ap_tenant x, ap_slug x) \<noteq> (ap_tenant r, ap_slug r)"
      "og_id og = pg_id env 1" "og_tenant og = ap_tenant r" "og_app og = ap_id r" "og_name og = ''primary''"
      "\<forall>x \<in> set (origins db). (og_app x, og_name x) \<noteq> (og_app og, og_name og)"
      "og_scheme og \<in> {''http'', ''https''}" "1 \<le> og_port og" "og_port og \<le> 65535" "og_enabled og" "og_deleted og = None"
      "res = Inr (app_of r [origin_of og (origin_url_of og)])"
proof (cases res)
  case (Inl e)
  then show thesis using assms failed by (auto simp: CreateApp_def Let_def split: option.splits if_splits sum.splits)
next
  case (Inr am)
  define r where "r = (\<lambda>t. \<lparr>ap_id = pg_id env 0, ap_tenant = t, ap_name = car_Name req, ap_slug = car_Slug req,
     ap_hostnames = car_Hostnames req, ap_status = ''active'', ap_metadata = metadata_or_empty (car_Metadata req),
     ap_created = pg_now env, ap_updated = pg_now env, ap_deleted = None\<rparr>)"
  from assms Inr obtain t m where t: "pg_uuid env (car_TenantID req) = Some t" "t \<in> tn_ID ` set (tenants db)"
    "\<forall>x \<in> set (apps db). (ap_tenant x, ap_slug x) \<noteq> (t, car_Slug req)"
    and i: "insertOrigin u env (pg_id env 1) t (pg_id env 0) v (db\<lparr>apps := apps db @ [r t]\<rparr>) = Inr (m, db')"
    and res: "res = Inr (app_of (r t) [m])"
    by (auto simp: CreateApp_def Let_def r_def split: option.splits if_splits sum.splits)
  from insertOrigin_Inr [OF i] show thesis
  proof cases
    case (1 og)
    then show thesis by (intro created [where r = "r t" and og = og]) (use t res in \<open>auto simp: r_def\<close>)
  qed
qed

lemma CreateApp_ok:
  assumes "db_ok f db" "fresh_ids env db"
  shows "db_ok f (snd (CreateApp u env req v db))"
proof (rule CreateApp_cases [OF surjective_pairing, of u env req v db])
  fix r og
  assume a: "snd (CreateApp u env req v db) = db\<lparr>apps := apps db @ [r], origins := origins db @ [og]\<rparr>"
    "ap_id r = pg_id env 0" "ap_status r = ''active''" "ap_tenant r \<in> tn_ID ` set (tenants db)"
    "\<forall>x \<in> set (apps db). (ap_tenant x, ap_slug x) \<noteq> (ap_tenant r, ap_slug r)"
    "og_id og = pg_id env 1" "og_tenant og = ap_tenant r" "og_app og = ap_id r" "og_name og = ''primary''"
    "\<forall>x \<in> set (origins db). (og_app x, og_name x) \<noteq> (og_app og, og_name og)"
    "og_scheme og \<in> {''http'', ''https''}" "1 \<le> og_port og" "og_port og \<le> 65535"
  have "keys_ok (db\<lparr>apps := apps db @ [r], origins := origins db @ [og]\<rparr>)"
    using assms a by (auto simp: db_defs)
  moreover have "refs_ok (db\<lparr>apps := apps db @ [r], origins := origins db @ [og]\<rparr>)"
    using assms a by (auto simp: db_defs)
  moreover have "values_ok f (db\<lparr>apps := apps db @ [r], origins := origins db @ [og]\<rparr>)"
    using assms a by (auto simp: db_defs)
  ultimately show ?thesis using a(1) by (simp add: db_ok_def)
qed (use assms in simp)

text \<open>Updates in place keep the identifying columns.\<close>

lemma patch_app_keys [simp]:
  "ap_id (patch_app env req c r) = ap_id r" "ap_tenant (patch_app env req c r) = ap_tenant r"
  "ap_slug (patch_app env req c r) = ap_slug r" "ap_deleted (patch_app env req c r) = ap_deleted r"
  by (simp_all add: patch_app_def)

lemma patch_policy_keys [simp]:
  "po_id (patch_policy env req r) = po_id r" "po_tenant (patch_policy env req r) = po_tenant r"
  "po_app (patch_policy env req r) = po_app r" "po_active (patch_policy env req r) = po_active r"
  "po_deleted (patch_policy env req r) = po_deleted r" "po_updated (patch_policy env req r) = pg_now env"
  by (simp_all add: patch_policy_def)

definition patch_apps :: "pg_env \<Rightarrow> string \<Rightarrow> string \<Rightarrow> update_app_request \<Rightarrow> app_model \<Rightarrow> database \<Rightarrow> database" where
  "patch_apps env t a req current db =
     db\<lparr>apps := map (\<lambda>x. if app_where t a x then patch_app env req current x else x) (apps db)\<rparr>"

lemma map_patch_keys:
  "map ap_id (map (\<lambda>x. if P x then patch_app env req c x else x) xs) = map ap_id xs"
  "map (\<lambda>x. (ap_tenant x, ap_slug x)) (map (\<lambda>x. if P x then patch_app env req c x else x) xs) =
   map (\<lambda>x. (ap_tenant x, ap_slug x)) xs"
  by auto

lemma map_patch_refs:
  "(\<lambda>x. (ap_tenant x, ap_id x)) ` set (map (\<lambda>x. if P x then patch_app env req c x else x) xs) =
   (\<lambda>x. (ap_tenant x, ap_id x)) ` set xs"
  unfolding set_map image_image by (rule image_cong) auto

lemma patch_apps_ok:
  assumes "db_ok f db" "\<And>r. r \<in> set (apps db) \<Longrightarrow> app_where t a r \<Longrightarrow>
    ap_status (patch_app env req current r) \<in> {''active'', ''disabled''}"
  shows "db_ok f (patch_apps env t a req current db)"
proof -
  let ?xs = "map (\<lambda>x. if app_where t a x then patch_app env req current x else x) (apps db)"
  have "keys_ok (patch_apps env t a req current db)"
    using assms(1) map_patch_keys by (simp add: db_ok_def keys_ok_def patch_apps_def del: map_map)
  moreover have "refs_ok (patch_apps env t a req current db)"
  proof -
    have "\<forall>r \<in> set ?xs. ap_tenant r \<in> tn_ID ` set (tenants db)" using assms(1) by (auto simp: db_ok_def refs_ok_def)
    then show ?thesis
      using assms(1) by (simp add: db_ok_def refs_ok_def app_ref_def policy_ref_def version_ref_def patch_apps_def
          map_patch_refs del: set_map)
  qed
  moreover have "values_ok f (patch_apps env t a req current db)"
    using assms by (auto simp: db_ok_def values_ok_def patch_apps_def)
  ultimately show ?thesis by (simp add: db_ok_def)
qed

lemma delete_origins_ok:
  assumes "db_ok f db"
  shows "db_ok f (delete_origins env t a db)"
proof -
  let ?g = "\<lambda>r. if og_tenant r = t \<and> og_app r = a \<and> og_deleted r = None
    then r\<lparr>og_deleted := Some (pg_now env), og_updated := pg_now env\<rparr> else r"
  have k: "map og_id (map ?g xs) = map og_id xs"
    "map (\<lambda>r. (og_app r, og_name r)) (map ?g xs) = map (\<lambda>r. (og_app r, og_name r)) xs" for xs :: "origin_row list"
    by auto
  have "keys_ok (delete_origins env t a db)"
    using assms k by (simp add: db_ok_def keys_ok_def delete_origins_def del: map_map)
  moreover have "refs_ok (delete_origins env t a db)" "values_ok f (delete_origins env t a db)"
    using assms by (auto simp: db_defs delete_origins_def)
  ultimately show ?thesis by (simp add: db_ok_def)
qed

lemma add_origin_ok:
  assumes "db_ok f db" "insertOrigin u env n t a v db = Inr (m, db')" "n \<notin> row_ids db" "app_ref db t a"
  shows "db_ok f db'"
  using insertOrigin_Inr [OF assms(2)]
proof cases
  case (1 r)
  have "keys_ok db'" using assms 1 by (auto simp: db_defs)
  moreover have "refs_ok db'" using assms 1 by (auto simp: db_defs)
  moreover have "values_ok f db'" using assms 1 by (auto simp: db_defs)
  ultimately show ?thesis by (simp add: db_ok_def)
qed

text \<open>The outcomes of the transaction of \<open>UpdateApp\<close>.\<close>

lemma update_app_tx_cases:
  assumes "update_app_tx u env t a req v current db = (res, db')"
  obtains (failed) e where "db' = db" "res = Inl e"
  | (patched) r where "v = None" "r \<in> set (apps db)" "app_where t a r"
      "ap_status (patch_app env req current r) \<in> {''active'', ''disabled''}"
      "db' = patch_apps env t a req current db"
      "res = Inl DbFailed \<or> res = Inr (app_of (patch_app env req current r) (listOrigins (ap_id r) db'))"
  | (moved) r o' m where "v = Some o'" "r \<in> set (apps db)" "app_where t a r"
      "ap_status (patch_app env req current r) \<in> {''active'', ''disabled''}"
      "insertOrigin u env (pg_id env 0) t a o' (delete_origins env t a (patch_apps env t a req current db)) = Inr (m, db')"
      "res = Inr (app_of (patch_app env req current r) [m])"
proof (cases "find (app_where t a) (apps db)")
  case None
  then show thesis using assms failed by (auto simp: update_app_tx_def split: if_splits)
next
  case (Some r)
  then have r: "r \<in> set (apps db)" "app_where t a r" using find_row by fast+
  show thesis
  proof (cases "db' = db \<and> (\<exists>e. res = Inl e)")
    case True
    then show thesis using failed by blast
  next
    case False
    then have st: "ap_status (patch_app env req current r) \<in> {''active'', ''disabled''}"
      using assms Some by (auto simp: update_app_tx_def Let_def split: if_splits)
    show thesis
    proof (cases v)
      case None
      with assms Some st False have "db' = patch_apps env t a req current db"
        "res = Inl DbFailed \<or> res = Inr (app_of (patch_app env req current r) (listOrigins (ap_id r) db'))"
        by (auto simp: update_app_tx_def patch_apps_def Let_def split: if_splits)
      then show thesis by (rule patched [OF None r st])
    next
      case (Some o')
      with assms \<open>find (app_where t a) (apps db) = Some r\<close> st False obtain m where
        "insertOrigin u env (pg_id env 0) t a o' (delete_origins env t a (patch_apps env t a req current db)) = Inr (m, db')"
        "res = Inr (app_of (patch_app env req current r) [m])"
        by (auto simp: update_app_tx_def patch_apps_def Let_def split: if_splits sum.splits)
      then show thesis by (rule moved [OF Some r st])
    qed
  qed
qed

lemma ids_after_patch:
  "row_ids (delete_origins env t a (patch_apps env t a req current db)) = row_ids db"
proof -
  have "ap_id ` set (map (\<lambda>x. if P x then patch_app env req current x else x) xs) = ap_id ` set xs" for P xs
    unfolding set_map image_image by (rule image_cong) auto
  moreover have "og_id ` set (map (\<lambda>r. if P r then r\<lparr>og_deleted := d, og_updated := n\<rparr> else r) xs) = og_id ` set xs"
    for P d n and xs :: "origin_row list"
    unfolding set_map image_image by (rule image_cong) auto
  ultimately show ?thesis by (simp add: row_ids_def delete_origins_def patch_apps_def del: set_map)
qed

lemma app_ref_after_patch:
  "app_ref (delete_origins env t a (patch_apps env t a req current db)) t' a' = app_ref db t' a'"
  by (simp add: app_ref_def delete_origins_def patch_apps_def map_patch_refs del: set_map)

lemma update_app_tx_ok:
  assumes "db_ok f db" "fresh_ids env db"
  shows "db_ok f (snd (update_app_tx u env t a req v current db))"
proof (rule update_app_tx_cases [OF surjective_pairing, of u env t a req v current db])
  fix r
  assume r: "r \<in> set (apps db)" "app_where t a r"
    "ap_status (patch_app env req current r) \<in> {''active'', ''disabled''}"
  have "r' = r" if "r' \<in> set (apps db)" "app_where t a r'" for r'
    using that r assms(1) by (auto simp: db_ok_def keys_ok_def app_where_def distinct_map dest: inj_onD)
  then have p: "db_ok f (patch_apps env t a req current db)"
    using patch_apps_ok [OF assms(1)] r(3) by metis
  show ?thesis if "snd (update_app_tx u env t a req v current db) = patch_apps env t a req current db"
    using p that by simp
  fix o' m
  assume i: "insertOrigin u env (pg_id env 0) t a o' (delete_origins env t a (patch_apps env t a req current db)) =
    Inr (m, snd (update_app_tx u env t a req v current db))"
  have "app_ref (delete_origins env t a (patch_apps env t a req current db)) t a"
    unfolding app_ref_after_patch using r by (auto simp: app_ref_def app_where_def)
  with add_origin_ok [OF delete_origins_ok [OF p] i] assms(2) show ?thesis
    by (simp add: ids_after_patch fresh_ids_def)
qed (use assms in auto)

text \<open>Policies.\<close>

lemma GetApp_Inr:
  assumes "GetApp env tenantID i db = Inr am"
  obtains r where "r \<in> set (apps db)" "ap_deleted r = None" "pg_uuid env tenantID = Some (ap_tenant r)"
    "pg_uuid env i = Some (ap_id r)" "am = app_of r (listOrigins (ap_id r) db)"
proof -
  obtain t a r where r: "pg_uuid env tenantID = Some t" "pg_uuid env i = Some a"
    "find (app_where t a) (apps db) = Some r" "am = app_of r (listOrigins (ap_id r) db)"
    using assms by (auto simp: GetApp_def GetApp_at_def split: option.splits if_splits)
  then have "r \<in> set (apps db)" "app_where t a r" using find_row by fast+
  with r show thesis by (intro that [of r]) (auto simp: app_where_def)
qed

lemma getPolicyForUpdate_Inr:
  assumes "getPolicyForUpdate env tenantID i db = Inr r"
  shows "r \<in> set (policies db)" "po_deleted r = None" "pg_uuid env tenantID = Some (po_tenant r)"
    "pg_uuid env i = Some (po_id r)"
proof -
  obtain t p where tp: "pg_uuid env tenantID = Some t" "pg_uuid env i = Some p"
    "find (policy_where t p) (policies db) = Some r"
    using assms by (auto simp: getPolicyForUpdate_def split: option.splits if_splits)
  then have "r \<in> set (policies db)" "policy_where t p r" using find_row by fast+
  with tp show "r \<in> set (policies db)" "po_deleted r = None" "pg_uuid env tenantID = Some (po_tenant r)"
    "pg_uuid env i = Some (po_id r)" by (auto simp: policy_where_def)
qed

lemma CreatePolicy_cases:
  assumes "CreatePolicy env tenantID appID req db = (res, db')"
  obtains (failed) e where "db' = db" "res = Inl e"
  | (created) r a where "db' = db\<lparr>policies := policies db @ [r]\<rparr>" "po_id r = pg_id env 0" "a \<in> set (apps db)"
      "po_app r = ap_id a" "po_tenant r = ap_tenant a" "pg_uuid env tenantID = Some (po_tenant r)"
      "po_active r = None" "po_updated r = pg_now env" "po_mode r \<in> {''count'', ''block''}" "po_mode r = cpr_Mode req" "po_name r = cpr_Name req"
      "\<forall>x \<in> set (policies db). (po_app x, po_name x) \<noteq> (po_app r, po_name r)"
      "snapshot_column (po_metadata r) = defaultRaw (cpr_Snapshot req) (JObj [])"
      "res = Inr (policy_of r (Some (metadata_or_empty (cpr_Snapshot req))))"
proof (cases "GetApp env tenantID appID db")
  case (Inl e)
  then show thesis using assms failed by (auto simp: CreatePolicy_def)
next
  case (Inr am)
  then obtain a where a: "a \<in> set (apps db)" "pg_uuid env tenantID = Some (ap_tenant a)"
    "am = app_of a (listOrigins (ap_id a) db)" by (rule GetApp_Inr)
  define r where "r = \<lparr>po_id = pg_id env 0, po_tenant = ap_tenant a, po_app = ap_id a, po_name = cpr_Name req,
     po_mode = cpr_Mode req, po_active = None, po_enabled = True,
     po_metadata = metadataWithSnapshot (Some (metadata_or_empty (cpr_Snapshot req))), po_created = pg_now env,
     po_updated = pg_now env, po_deleted = None\<rparr>"
  have s: "snapshot_column (po_metadata r) = defaultRaw (cpr_Snapshot req) (JObj [])"
    by (simp add: r_def snapshot_column_def metadataWithSnapshot_def defaultRaw_def metadata_or_empty_def split: option.splits)
  show thesis
  proof (cases "db' = db \<and> (\<exists>e. res = Inl e)")
    case False
    with assms Inr a(3) have "db' = db\<lparr>policies := policies db @ [r]\<rparr>" "cpr_Mode req \<in> {''count'', ''block''}"
      "\<forall>x \<in> set (policies db). (po_app x, po_name x) \<noteq> (ap_id a, cpr_Name req)"
      "res = Inr (policy_of r (Some (metadata_or_empty (cpr_Snapshot req))))"
      by (auto simp: CreatePolicy_def Let_def app_of_def r_def split: if_splits)
    with a s show thesis by (intro created [where r = r and a = a]) (auto simp: r_def)
  qed (use failed in blast)
qed

lemma version_policy:
  assumes "refs_ok db" "v \<in> set (versions db)"
  obtains p where "p \<in> set (policies db)" "po_id p = ve_policy v" "po_tenant p = ve_tenant v" "po_app p = ve_app v"
  using assms by (auto simp: refs_ok_def policy_ref_def image_iff)

lemma deployment_version:
  assumes "refs_ok db" "d \<in> set (deployments db)"
  obtains v where "v \<in> set (versions db)" "ve_id v = dp_version d" "ve_policy v = dp_policy d"
    "ve_tenant v = dp_tenant d" "ve_app v = dp_app d"
proof -
  have "version_ref db (dp_tenant d) (dp_app d) (dp_policy d) (dp_version d)"
    using assms by (simp add: refs_ok_def)
  then show thesis using that by (auto simp: version_ref_def)
qed

lemma deployment_policy:
  assumes "refs_ok db" "d \<in> set (deployments db)"
  obtains p where "p \<in> set (policies db)" "po_id p = dp_policy d" "po_tenant p = dp_tenant d" "po_app p = dp_app d"
    "po_active p = Some (dp_version d)"
proof -
  obtain v where v: "v \<in> set (versions db)" "ve_policy v = dp_policy d" "ve_tenant v = dp_tenant d" "ve_app v = dp_app d"
    using deployment_version [OF assms] by metis
  obtain p where p: "p \<in> set (policies db)" "po_id p = ve_policy v" "po_tenant p = ve_tenant v" "po_app p = ve_app v"
    using version_policy [OF assms(1) v(1)] by metis
  then have "po_active p = Some (dp_version d)" using assms v by (simp add: refs_ok_def)
  with p v show thesis using that by metis
qed

lemma CreatePolicy_ok:
  assumes "db_ok f db" "fresh_ids env db"
  shows "db_ok f (snd (CreatePolicy env tenantID appID req db))"
proof (rule CreatePolicy_cases [OF surjective_pairing, of env tenantID appID req db])
  fix r a
  assume a: "snd (CreatePolicy env tenantID appID req db) = db\<lparr>policies := policies db @ [r]\<rparr>" "po_id r = pg_id env 0"
    "a \<in> set (apps db)" "po_app r = ap_id a" "po_tenant r = ap_tenant a" "po_mode r \<in> {''count'', ''block''}"
    "\<forall>x \<in> set (policies db). (po_app x, po_name x) \<noteq> (po_app r, po_name r)"
  have d: "dp_policy d \<noteq> pg_id env 0" if "d \<in> set (deployments db)" for d
    using deployment_policy [OF _ that] assms by (metis db_ok_def fresh_ids_def row_ids_def UnI1 UnI2 imageI)
  let ?db = "db\<lparr>policies := policies db @ [r]\<rparr>"
  have "keys_ok ?db" using assms a by (auto simp: db_defs)
  moreover have "refs_ok ?db" using assms a d by (auto simp: db_defs)
  moreover have "values_ok f ?db" using assms a by (auto simp: db_defs)
  ultimately show ?thesis using a(1) by (simp add: db_ok_def)
qed (use assms in simp)

lemma distinct_map_replace:
  assumes "distinct (map k xs)" "\<And>x. x \<in> set xs \<Longrightarrow> P x \<longleftrightarrow> k x = a" "distinct (map f xs)"
    "\<And>x. x \<in> set xs \<Longrightarrow> k x \<noteq> a \<Longrightarrow> f x \<noteq> f r"
  shows "distinct (map f (map (\<lambda>x. if P x then r else x) xs))"
  using assms
proof (induction xs)
  case (Cons y xs)
  have IH: "distinct (map f (map (\<lambda>x. if P x then r else x) xs))"
    by (rule Cons.IH) (use Cons.prems in auto)
  show ?case
  proof (cases "k y = a")
    case True
    have "k x \<noteq> a" if "x \<in> set xs" for x using that Cons.prems(1) True by (auto simp: image_iff)
    then have n: "\<not> P x" "f x \<noteq> f r" if "x \<in> set xs" for x using that Cons.prems(2,4) [of x] by auto
    then have "map (\<lambda>x. if P x then r else x) xs = xs" by (simp add: map_idI)
    moreover have "f r \<notin> f ` set xs" using n(2) by (metis imageE)
    ultimately show ?thesis using IH True Cons.prems(2) [of y] by auto
  next
    case False
    then have "\<not> P y" "f y \<noteq> f r" using Cons.prems(2,4) [of y] by auto
    then show ?thesis using IH Cons.prems(3) by (auto split: if_splits)
  qed
qed simp

lemma policy_key_eq:
  assumes "keys_ok db" "c \<in> set (policies db)" "x \<in> set (policies db)" "po_id x = po_id c"
  shows "x = c"
proof -
  have "inj_on po_id (set (policies db))" using assms(1) by (simp add: keys_ok_def distinct_map)
  then show ?thesis using assms(2-4) by (simp add: inj_on_def)
qed

lemma policy_key:
  assumes "keys_ok db" "c \<in> set (policies db)" "po_deleted c = None" "x \<in> set (policies db)"
  shows "policy_where (po_tenant c) (po_id c) x \<longleftrightarrow> po_id x = po_id c"
  using policy_key_eq [OF assms(1,2,4)] assms(3) by (auto simp: policy_where_def)

text \<open>Replacing one policy row by another with the same identity.\<close>

lemma put_policy_ok:
  assumes ok: "db_ok f db" and c: "c \<in> set (policies db)" "po_deleted c = None"
    and r: "po_id r = po_id c" "po_tenant r = po_tenant c" "po_app r = po_app c" "po_active r = po_active c"
    and n: "\<forall>x \<in> set (policies db). po_id x \<noteq> po_id c \<longrightarrow> (po_app x, po_name x) \<noteq> (po_app r, po_name r)"
    and m: "po_mode r \<in> {''count'', ''block''}"
  shows "db_ok f (put_policy r db)"
proof -
  have k: "keys_ok db" using ok by (simp add: db_ok_def)
  let ?P = "policy_where (po_tenant r) (po_id r)"
  let ?xs = "map (\<lambda>x. if ?P x then r else x) (policies db)"
  have P: "?P x \<longleftrightarrow> x = c" if "x \<in> set (policies db)" for x
    using policy_key [OF k c that] policy_key_eq [OF k c(1) that] r by auto
  have ids: "map po_id ?xs = map po_id (policies db)" using P r(1) by (auto simp: o_def)
  have "distinct (map (\<lambda>p. (po_app p, po_name p)) ?xs)"
    by (rule distinct_map_replace [where k = po_id and a = "po_id c"])
      (use k n P policy_key_eq [OF k c(1)] in \<open>auto simp: keys_ok_def\<close>)
  then have keys: "keys_ok (put_policy r db)"
    using k ids by (simp add: keys_ok_def put_policy_def del: map_map)
  have refs: "(\<lambda>x. (po_tenant x, po_app x, po_id x)) ` set ?xs =
      (\<lambda>x. (po_tenant x, po_app x, po_id x)) ` set (policies db)"
    unfolding set_map image_image by (rule image_cong) (use P r in auto)
  have rows: "x \<in> set ?xs \<Longrightarrow> x \<in> set (policies db) \<or> x = r" for x by (auto split: if_splits)
  have old: "\<forall>x \<in> set (policies db). app_ref db (po_tenant x) (po_app x)"
    "\<forall>d \<in> set (deployments db). \<forall>p \<in> set (policies db). po_id p = dp_policy d \<longrightarrow> po_active p = Some (dp_version d)"
    using ok by (simp_all add: db_ok_def refs_ok_def)
  have "app_ref db (po_tenant x) (po_app x)" if "x \<in> set ?xs" for x
    using rows [OF that] old(1) c(1) r(2,3) by fastforce
  moreover have "po_active p = Some (dp_version d)" if "p \<in> set ?xs" "d \<in> set (deployments db)" "po_id p = dp_policy d" for p d
    using rows [OF that(1)] old(2) c(1) r(1,4) that(2,3) by fastforce
  ultimately have "refs_ok (put_policy r db)"
    using ok refs by (simp add: db_ok_def refs_ok_def put_policy_def app_ref_def policy_ref_def version_ref_def del: set_map)
  moreover have "values_ok f (put_policy r db)"
    using ok rows m by (auto simp: db_ok_def values_ok_def put_policy_def)
  ultimately show ?thesis using keys by (simp add: db_ok_def)
qed

lemma UpdatePolicy_cases:
  assumes "UpdatePolicy env tenantID i req db = (res, db')"
  obtains (failed) e where "db' = db" "res = Inl e"
  | (updated) c where "c \<in> set (policies db)" "po_deleted c = None" "pg_uuid env tenantID = Some (po_tenant c)"
      "pg_uuid env i = Some (po_id c)" "po_updated c = upr_ExpectedUpdatedAt req"
      "db' = put_policy (patch_policy env req c) db" "po_mode (patch_policy env req c) \<in> {''count'', ''block''}"
      "\<forall>x \<in> set (policies db). po_id x \<noteq> po_id c \<longrightarrow>
         (po_app x, po_name x) \<noteq> (po_app c, po_name (patch_policy env req c))"
      "res = Inr (policy_of (patch_policy env req c) (Some (snapshot_column (po_metadata (patch_policy env req c)))))"
proof (cases "getPolicyForUpdate env tenantID i db")
  case (Inl e)
  then show thesis using assms failed by (auto simp: UpdatePolicy_def)
next
  case (Inr c)
  show thesis
  proof (cases "db' = db \<and> (\<exists>e. res = Inl e)")
    case False
    show thesis
      by (rule updated [OF getPolicyForUpdate_Inr [OF Inr]])
        (use False assms Inr in \<open>auto simp: UpdatePolicy_def Let_def split: if_splits\<close>)
  qed (use failed in blast)
qed

lemma UpdatePolicy_ok:
  assumes "db_ok f db"
  shows "db_ok f (snd (UpdatePolicy env tenantID i req db))"
proof (rule UpdatePolicy_cases [OF surjective_pairing, of env tenantID i req db])
  fix c
  assume c: "c \<in> set (policies db)" "po_deleted c = None"
    "snd (UpdatePolicy env tenantID i req db) = put_policy (patch_policy env req c) db"
    "po_mode (patch_policy env req c) \<in> {''count'', ''block''}"
    "\<forall>x \<in> set (policies db). po_id x \<noteq> po_id c \<longrightarrow>
       (po_app x, po_name x) \<noteq> (po_app c, po_name (patch_policy env req c))"
  show ?thesis unfolding c(3) by (rule put_policy_ok [OF assms c(1,2)]) (use c in simp_all)
qed (use assms in simp)

text \<open>Publishing.\<close>

definition publish_db :: "(int \<Rightarrow> string) \<Rightarrow> (json \<Rightarrow> string) \<Rightarrow> pg_env \<Rightarrow> policy_row \<Rightarrow> gateway_policy_model \<Rightarrow> database \<Rightarrow> database" where
  "publish_db fmt_time digest env c g db =
     (let s = json_of_gateway_policy fmt_time g;
          row = \<lparr>ve_id = pg_id env 0, ve_tenant = po_tenant c, ve_app = po_app c, ve_policy = po_id c,
                 ve_version = next_version (po_id c) db, ve_mode = po_mode c, ve_snapshot = s,
                 ve_sha256 = digest s, ve_created = pg_now env\<rparr>
      in upsert_deployment env c (pg_id env 0)
           (activate_version env c (pg_id env 0) (db\<lparr>versions := versions db @ [row]\<rparr>)))"

lemma compile_ids:
  assumes "compileGatewayPolicy u c v db = Inr g"
  shows "gm_TenantID g = po_tenant c" "gm_AppID g = po_app c" "gm_PolicyID g = po_id c" "gm_PolicyVersionID g = v"
  using assms by (auto simp: compileGatewayPolicy_def split: option.splits)

lemma PublishPolicy_cases:
  assumes "PublishPolicy u fmt_time digest env tenantID i db = (res, db')"
  obtains (failed) e where "db' = db" "res = Inl e"
  | (published) c g where "c \<in> set (policies db)" "po_deleted c = None" "pg_uuid env tenantID = Some (po_tenant c)"
      "pg_uuid env i = Some (po_id c)" "compileGatewayPolicy u c (pg_id env 0) db = Inr g"
      "db' = publish_db fmt_time digest env c (g\<lparr>gm_PublishedAt := pg_now env\<rparr>) db"
      "res = Inr \<lparr>pr_PolicyID = po_id c, pr_PolicyVersionID = pg_id env 0, pr_Version = next_version (po_id c) db,
         pr_PublishedAt = pg_now env\<rparr>"
proof (cases "getPolicyForUpdate env tenantID i db")
  case (Inl e)
  then show thesis using assms failed by (auto simp: PublishPolicy_def)
next
  case (Inr c)
  show thesis
  proof (cases "db' = db \<and> (\<exists>e. res = Inl e)")
    case False
    then obtain g where "compileGatewayPolicy u c (pg_id env 0) db = Inr g"
      using assms Inr by (auto simp: PublishPolicy_def split: if_splits sum.splits)
    then show thesis
      by (intro published [OF getPolicyForUpdate_Inr [OF Inr]])
        (use False assms Inr in \<open>auto simp: PublishPolicy_def publish_db_def Let_def split: if_splits\<close>)
  qed (use failed in blast)
qed

lemma foldr_max_bound: "x \<in> set xs \<Longrightarrow> x \<le> foldr max xs (a :: int)"
  by (induction xs) (auto simp: le_max_iff_disj)

lemma foldr_max_start: "a \<le> foldr max xs (a :: int)"
  by (induction xs) (auto simp: le_max_iff_disj)

lemma next_version_new:
  "v \<in> set (versions db) \<Longrightarrow> ve_policy v = p \<Longrightarrow> ve_version v < next_version p db"
  using foldr_max_bound [of "ve_version v" "map ve_version (filter (\<lambda>v. ve_policy v = p) (versions db))" 0]
  by (force simp: next_version_def)

lemma next_version_pos: "0 < next_version p db"
  using foldr_max_start [of 0] by (simp add: next_version_def zless_add1_eq le_less [symmetric])

lemma publish_db_tables:
  "tenants (publish_db f digest env c g db) = tenants db" "apps (publish_db f digest env c g db) = apps db"
  "origins (publish_db f digest env c g db) = origins db"
  "policies (publish_db f digest env c g db) =
     map (\<lambda>r. if po_tenant r = po_tenant c \<and> po_id r = po_id c
              then r\<lparr>po_active := Some (pg_id env 0), po_updated := pg_now env\<rparr> else r) (policies db)"
  "versions (publish_db f digest env c g db) = versions db @
     [\<lparr>ve_id = pg_id env 0, ve_tenant = po_tenant c, ve_app = po_app c, ve_policy = po_id c,
       ve_version = next_version (po_id c) db, ve_mode = po_mode c, ve_snapshot = json_of_gateway_policy f g,
       ve_sha256 = digest (json_of_gateway_policy f g), ve_created = pg_now env\<rparr>]"
  by (simp_all add: publish_db_def Let_def upsert_deployment_def activate_version_def)

definition redeploy :: "pg_env \<Rightarrow> deployment_row \<Rightarrow> deployment_row" where
  "redeploy env d = d\<lparr>dp_version := pg_id env 0, dp_status := ''active'', dp_deployed := pg_now env, dp_updated := pg_now env\<rparr>"

lemma publish_db_deployments:
  "deployments (publish_db f digest env c g db) =
     (if \<exists>d \<in> set (deployments db). dp_policy d = po_id c \<and> dp_node d = ''default''
      then map (\<lambda>d. if dp_policy d = po_id c \<and> dp_node d = ''default'' then redeploy env d else d) (deployments db)
      else deployments db @ [\<lparr>dp_tenant = po_tenant c, dp_app = po_app c, dp_policy = po_id c,
        dp_version = pg_id env 0, dp_node = ''default'', dp_status = ''active'', dp_deployed = pg_now env,
        dp_last_seen = Some (pg_now env), dp_updated = pg_now env\<rparr>])"
  by (simp add: publish_db_def Let_def upsert_deployment_def activate_version_def redeploy_def)

text \<open>A deployment after publishing is the one of the published policy or an old one of another policy.\<close>

lemma published_deployment:
  assumes "refs_ok db" "keys_ok db" "c \<in> set (policies db)" "d \<in> set (deployments (publish_db f digest env c g db))"
  obtains (new) "dp_policy d = po_id c" "dp_tenant d = po_tenant c" "dp_app d = po_app c" "dp_version d = pg_id env 0"
      "dp_node d = ''default''" "dp_status d = ''active''" "dp_deployed d = pg_now env"
  | (old) "d \<in> set (deployments db)" "dp_policy d \<noteq> po_id c"
proof (cases "dp_policy d = po_id c")
  case True
  show thesis
  proof (cases "d \<in> redeploy env ` set (deployments db)")
    case True
    then obtain d0 where d0: "d0 \<in> set (deployments db)" "d = redeploy env d0" by auto
    from deployment_policy [OF assms(1) d0(1)] obtain p where
      p: "p \<in> set (policies db)" "po_id p = dp_policy d0" "po_tenant p = dp_tenant d0" "po_app p = dp_app d0" by metis
    have "p = c" using policy_key_eq [OF assms(2,3) p(1)] p(2) d0 \<open>dp_policy d = po_id c\<close> by (simp add: redeploy_def)
    moreover have "dp_node d0 = ''default''" using assms(1) d0(1) by (simp add: refs_ok_def)
    ultimately show thesis using new p d0 by (simp add: redeploy_def)
  next
    case False
    have "dp_node d0 = ''default''" if "d0 \<in> set (deployments db)" for d0 using assms(1) that by (simp add: refs_ok_def)
    then show thesis using assms(4) False True new
      by (auto simp: publish_db_deployments split: if_splits)
  qed
next
  case False
  then show thesis using assms(4) old
    by (auto simp: publish_db_deployments redeploy_def split: if_splits)
qed

lemma publish_ok:
  assumes ok: "db_ok f db" and c: "c \<in> set (policies db)" and fresh: "fresh_ids env db"
    and g: "gm_TenantID g = po_tenant c" "gm_AppID g = po_app c" "gm_PolicyID g = po_id c" "gm_PolicyVersionID g = pg_id env 0"
  shows "db_ok f (publish_db f digest env c g db)"
proof -
  let ?db = "publish_db f digest env c g db"
  have k: "keys_ok db" and r: "refs_ok db" and v: "values_ok f db" using ok by (simp_all add: db_ok_def)
  let ?h = "\<lambda>r. if po_tenant r = po_tenant c \<and> po_id r = po_id c
              then r\<lparr>po_active := Some (pg_id env 0), po_updated := pg_now env\<rparr> else r"
  have pk: "map po_id (map ?h ps) = map po_id ps"
    "map (\<lambda>p. (po_app p, po_name p)) (map ?h ps) = map (\<lambda>p. (po_app p, po_name p)) ps" for ps :: "policy_row list"
    by auto
  have pr: "(\<lambda>x. (po_tenant x, po_app x, po_id x)) ` set (map ?h ps) = (\<lambda>x. (po_tenant x, po_app x, po_id x)) ` set ps"
    for ps :: "policy_row list"
    unfolding set_map image_image by (rule image_cong) auto
  have dk: "distinct (map (\<lambda>d. (dp_policy d, dp_node d)) (deployments ?db))"
  proof (cases "\<exists>d \<in> set (deployments db). dp_policy d = po_id c \<and> dp_node d = ''default''")
    case True
    have "map (\<lambda>d. (dp_policy d, dp_node d)) (deployments ?db) = map (\<lambda>d. (dp_policy d, dp_node d)) (deployments db)"
      using True by (simp add: publish_db_deployments redeploy_def)
    then show ?thesis using k by (simp add: keys_ok_def)
  next
    case False
    then show ?thesis using k by (auto simp: publish_db_deployments keys_ok_def)
  qed
  have vk: "(po_id c, next_version (po_id c) db) \<notin> (\<lambda>v. (ve_policy v, ve_version v)) ` set (versions db)"
    using next_version_new [of _ db "po_id c"] by fastforce
  have "keys_ok ?db"
    using k dk pk fresh vk
    by (simp add: keys_ok_def publish_db_tables fresh_ids_def row_ids_def del: map_map)
  moreover have "refs_ok ?db"
    unfolding refs_ok_def app_ref_def publish_db_tables(1,2,3)
  proof (intro conjI ballI impI)
    fix x assume "x \<in> set (policies ?db)"
    then obtain x0 where "x0 \<in> set (policies db)" "po_tenant x = po_tenant x0" "po_app x = po_app x0"
      by (auto simp: publish_db_tables(4))
    then show "(po_tenant x, po_app x) \<in> (\<lambda>r. (ap_tenant r, ap_id r)) ` set (apps db)"
      using r by (simp add: refs_ok_def app_ref_def)
  next
    fix x assume x: "x \<in> set (versions ?db)"
    have "(po_tenant c, po_app c, po_id c) \<in> (\<lambda>x. (po_tenant x, po_app x, po_id x)) ` set (policies db)"
      using c by blast
    then show "policy_ref ?db (ve_tenant x) (ve_app x) (ve_policy x)"
      unfolding policy_ref_def publish_db_tables(4) pr
      using x r by (auto simp: publish_db_tables(5) refs_ok_def policy_ref_def)
  next
    fix d assume d: "d \<in> set (deployments ?db)"
    then show "version_ref ?db (dp_tenant d) (dp_app d) (dp_policy d) (dp_version d)"
      using r by (cases rule: published_deployment [OF r k c d])
        (auto simp: version_ref_def publish_db_tables(5) refs_ok_def)
  next
    fix d assume d: "d \<in> set (deployments ?db)"
    then show "dp_node d = ''default''" "dp_status d = ''active''"
      using r by (cases rule: published_deployment [OF r k c d]; simp add: refs_ok_def)+
  next
    fix d p assume d: "d \<in> set (deployments ?db)" and p: "p \<in> set (policies ?db)" "po_id p = dp_policy d"
    from p(1) obtain p0 where p0: "p0 \<in> set (policies db)" "p = ?h p0" by (auto simp: publish_db_tables(4))
    show "po_active p = Some (dp_version d)"
      using published_deployment [OF r k c d]
    proof cases
      case 1
      then have "p0 = c" using policy_key_eq [OF k c p0(1)] p0(2) p(2) by (simp split: if_splits)
      then show ?thesis using 1 p0 by simp
    next
      case 2
      then have "p = p0" using p0 p(2) by (auto split: if_splits)
      then show ?thesis using r 2 p0(1) p(2) by (simp add: refs_ok_def)
    qed
  qed (use r in \<open>auto simp: refs_ok_def app_ref_def\<close>)
  moreover have "values_ok f ?db"
    using v g next_version_pos by (auto simp: values_ok_def publish_db_tables)
  ultimately show ?thesis by (simp add: db_ok_def)
qed

lemma PublishPolicy_ok:
  assumes "db_ok f db" "fresh_ids env db"
  shows "db_ok f (snd (PublishPolicy u f digest env tenantID i db))"
proof (rule PublishPolicy_cases [OF surjective_pairing, of u f digest env tenantID i db])
  fix c g
  assume "c \<in> set (policies db)" and g: "compileGatewayPolicy u c (pg_id env 0) db = Inr g"
    and s: "snd (PublishPolicy u f digest env tenantID i db) = publish_db f digest env c (g\<lparr>gm_PublishedAt := pg_now env\<rparr>) db"
  then show ?thesis unfolding s by (intro publish_ok assms) (simp_all add: compile_ids [OF g])
qed (use assms in simp)

section \<open>Sequences of calls\<close>

text \<open>
  The calls that change the tables, each with what the server contributes to it. The transaction of
  an app update carries the tenant, the app and the row that was read before.
\<close>

datatype call =
    NewTenant pg_env create_tenant_request
  | NewApp pg_env create_app_request url
  | PatchApp pg_env string string update_app_request "url option" app_model
  | NewPolicy pg_env string string create_policy_request
  | PatchPolicy pg_env string string update_policy_request
  | Publish pg_env string string

fun call_env :: "call \<Rightarrow> pg_env" where
  "call_env (NewTenant env req) = env"
| "call_env (NewApp env req v) = env"
| "call_env (PatchApp env t a req v current) = env"
| "call_env (NewPolicy env t a req) = env"
| "call_env (PatchPolicy env t i req) = env"
| "call_env (Publish env t i) = env"

text \<open>The tenant a call acts for.\<close>

fun call_tenant :: "call \<Rightarrow> string option" where
  "call_tenant (NewTenant env req) = None"
| "call_tenant (NewApp env req v) = pg_uuid env (car_TenantID req)"
| "call_tenant (PatchApp env t a req v current) = Some t"
| "call_tenant (NewPolicy env t a req) = pg_uuid env t"
| "call_tenant (PatchPolicy env t i req) = pg_uuid env t"
| "call_tenant (Publish env t i) = pg_uuid env t"

fun run_call :: "unicode \<Rightarrow> (int \<Rightarrow> string) \<Rightarrow> (json \<Rightarrow> string) \<Rightarrow> call \<Rightarrow> database \<Rightarrow> database" where
  "run_call u f digest (NewTenant env req) db = snd (CreateTenant env req db)"
| "run_call u f digest (NewApp env req v) db = snd (CreateApp u env req v db)"
| "run_call u f digest (PatchApp env t a req v current) db = snd (update_app_tx u env t a req v current db)"
| "run_call u f digest (NewPolicy env t a req) db = snd (CreatePolicy env t a req db)"
| "run_call u f digest (PatchPolicy env t i req) db = snd (UpdatePolicy env t i req db)"
| "run_call u f digest (Publish env t i) db = snd (PublishPolicy u f digest env t i db)"

inductive db_run :: "unicode \<Rightarrow> (int \<Rightarrow> string) \<Rightarrow> (json \<Rightarrow> string) \<Rightarrow> call list \<Rightarrow> database \<Rightarrow> database \<Rightarrow> bool"
  for u f digest where
  start: "db_run u f digest [] db db"
| step: "db_run u f digest cs db db' \<Longrightarrow> fresh_ids (call_env c) db' \<Longrightarrow>
    db_run u f digest (cs @ [c]) db (run_call u f digest c db')"

lemma run_call_ok: "db_ok f db \<Longrightarrow> fresh_ids (call_env c) db \<Longrightarrow> db_ok f (run_call u f digest c db)"
  by (cases c) (auto intro: CreateTenant_ok CreateApp_ok update_app_tx_ok CreatePolicy_ok UpdatePolicy_ok PublishPolicy_ok)

lemma db_run_ok: "db_run u f digest cs db db' \<Longrightarrow> db_ok f db \<Longrightarrow> db_ok f db'"
  by (induction rule: db_run.induct) (auto intro: run_call_ok)

text \<open>An app update is its read followed by its transaction.\<close>

lemma UpdateApp_run:
  "snd (UpdateApp u env tenantID i req v db) =
     (case GetApp env tenantID i db of
        Inl e \<Rightarrow> db
      | Inr current \<Rightarrow> run_call u f digest (PatchApp env (am_TenantID current) (am_ID current) req v current) db)"
  by (simp add: UpdateApp_def split: sum.splits)

section \<open>Tenants do not reach each other's rows\<close>

record tenant_view =
  tv_apps :: "app_row list"
  tv_origins :: "origin_row list"
  tv_policies :: "policy_row list"
  tv_versions :: "version_row list"
  tv_deployments :: "deployment_row list"

definition view :: "string \<Rightarrow> database \<Rightarrow> tenant_view" where
  "view t db =
     \<lparr>tv_apps = filter (\<lambda>r. ap_tenant r = t) (apps db), tv_origins = filter (\<lambda>r. og_tenant r = t) (origins db),
      tv_policies = filter (\<lambda>r. po_tenant r = t) (policies db), tv_versions = filter (\<lambda>r. ve_tenant r = t) (versions db),
      tv_deployments = filter (\<lambda>r. dp_tenant r = t) (deployments db)\<rparr>"

lemma filter_map_other:
  assumes "\<And>x. x \<in> set xs \<Longrightarrow> g x = x \<or> \<not> P x \<and> \<not> P (g x)"
  shows "filter P (map g xs) = filter P xs"
  using assms
proof (induction xs)
  case (Cons x xs)
  have "filter P (map g xs) = filter P xs" by (rule Cons.IH) (use Cons.prems in simp)
  with Cons.prems [of x] show ?case by auto
qed simp

lemma view_patch_apps: "t \<noteq> t' \<Longrightarrow> view t' (patch_apps env t a req current db) = view t' db"
  by (simp add: view_def patch_apps_def) (rule filter_map_other, auto simp: app_where_def)

lemma view_delete_origins: "t \<noteq> t' \<Longrightarrow> view t' (delete_origins env t a db) = view t' db"
  by (simp add: view_def delete_origins_def) (rule filter_map_other, auto)

lemma view_insertOrigin:
  assumes "insertOrigin u env n t a v db = Inr (m, db')" "t \<noteq> t'"
  shows "view t' db' = view t' db"
  using insertOrigin_Inr [OF assms(1)]
proof cases
  case (1 r)
  show ?thesis unfolding 1(1) using 1(3) assms(2) by (simp add: view_def)
qed

lemma view_publish:
  assumes "db_ok f db" "c \<in> set (policies db)" "po_tenant c \<noteq> t'"
  shows "view t' (publish_db f digest env c g db) = view t' db"
proof -
  have r: "refs_ok db" and k: "keys_ok db" using assms(1) by (simp_all add: db_ok_def)
  have t: "dp_tenant d = po_tenant c" if "d \<in> set (deployments db)" "dp_policy d = po_id c" for d
    using deployment_policy [OF r that(1)] policy_key_eq [OF k assms(2)] that(2) by metis
  have "filter (\<lambda>r. dp_tenant r = t') (map (\<lambda>d. if dp_policy d = po_id c \<and> dp_node d = ''default'' then redeploy env d else d)
      (deployments db)) = filter (\<lambda>r. dp_tenant r = t') (deployments db)"
    by (rule filter_map_other) (use t assms(3) in \<open>auto simp: redeploy_def\<close>)
  then have "filter (\<lambda>r. dp_tenant r = t') (deployments (publish_db f digest env c g db)) =
      filter (\<lambda>r. dp_tenant r = t') (deployments db)"
    using assms(3) by (simp add: publish_db_deployments)
  moreover have "filter (\<lambda>r. po_tenant r = t') (policies (publish_db f digest env c g db)) =
      filter (\<lambda>r. po_tenant r = t') (policies db)"
    unfolding publish_db_tables(4) by (rule filter_map_other) (use assms(3) in auto)
  ultimately show ?thesis using assms(3) by (simp add: view_def publish_db_tables)
qed

lemma view_update_app:
  assumes "t \<noteq> t'"
  shows "view t' (snd (update_app_tx u env t a req v current db)) = view t' db"
proof (rule update_app_tx_cases [OF surjective_pairing, of u env t a req v current db])
  assume "snd (update_app_tx u env t a req v current db) = patch_apps env t a req current db"
  then show ?thesis using assms by (simp add: view_patch_apps)
next
  fix o' m
  assume "insertOrigin u env (pg_id env 0) t a o' (delete_origins env t a (patch_apps env t a req current db)) =
    Inr (m, snd (update_app_tx u env t a req v current db))"
  from view_insertOrigin [OF this assms] show ?thesis using assms by (simp add: view_patch_apps view_delete_origins)
qed simp

lemma run_call_isolated:
  assumes "db_ok f db" "call_tenant c \<noteq> Some t"
  shows "view t (run_call u f digest c db) = view t db"
proof (cases c)
  case (NewTenant env req)
  show ?thesis unfolding NewTenant run_call.simps
    by (rule CreateTenant_cases [OF surjective_pairing, of env req db]) (auto simp: view_def)
next
  case (NewApp env req v)
  show ?thesis unfolding NewApp run_call.simps
    by (rule CreateApp_cases [OF surjective_pairing, of u env req v db]) (use assms NewApp in \<open>auto simp: view_def\<close>)
next
  case (PatchApp env t' a req v current)
  then show ?thesis using assms(2) by (simp add: view_update_app)
next
  case (NewPolicy env t' a req)
  show ?thesis unfolding NewPolicy run_call.simps
    by (rule CreatePolicy_cases [OF surjective_pairing, of env t' a req db]) (use assms NewPolicy in \<open>auto simp: view_def\<close>)
next
  case (PatchPolicy env t' i req)
  show ?thesis unfolding PatchPolicy run_call.simps
  proof (rule UpdatePolicy_cases [OF surjective_pairing, of env t' i req db])
    fix p
    assume p: "pg_uuid env t' = Some (po_tenant p)"
      "snd (UpdatePolicy env t' i req db) = put_policy (patch_policy env req p) db"
    then have "po_tenant p \<noteq> t" using assms(2) PatchPolicy by simp
    then have "filter (\<lambda>r. po_tenant r = t) (policies (put_policy (patch_policy env req p) db)) =
        filter (\<lambda>r. po_tenant r = t) (policies db)"
      unfolding put_policy_def by simp (rule filter_map_other, auto simp: policy_where_def)
    then show "view t (snd (UpdatePolicy env t' i req db)) = view t db"
      unfolding p(2) by (simp add: view_def) (simp add: put_policy_def)
  qed simp
next
  case (Publish env t' i)
  show ?thesis unfolding Publish run_call.simps
  proof (rule PublishPolicy_cases [OF surjective_pairing, of u f digest env t' i db])
    fix p g
    assume p: "p \<in> set (policies db)" "pg_uuid env t' = Some (po_tenant p)"
      "snd (PublishPolicy u f digest env t' i db) = publish_db f digest env p (g\<lparr>gm_PublishedAt := pg_now env\<rparr>) db"
    then have "po_tenant p \<noteq> t" using assms(2) Publish by simp
    then show "view t (snd (PublishPolicy u f digest env t' i db)) = view t db"
      unfolding p(3) by (rule view_publish [OF assms(1) p(1)])
  qed simp
qed

lemma db_run_isolated:
  "db_run u f digest cs db db' \<Longrightarrow> db_ok f db \<Longrightarrow> (\<And>c. c \<in> set cs \<Longrightarrow> call_tenant c \<noteq> Some t) \<Longrightarrow>
   view t db' = view t db"
  by (induction rule: db_run.induct) (auto simp: run_call_isolated dest: db_run_ok)

end
