(* ===== verification/Control_Db_History.thy ===== *)
theory Control_Db_History
  imports Control_Db_Facts
begin

text \<open>
  What sequences of calls do to the database: a policy changed since a client read it refuses that
  client's update, versions are only ever added, and what has been published is what is served.
\<close>

section \<open>Optimistic locking\<close>

text \<open>The policy exists, and it has been changed after time \<open>e\<close>.\<close>

definition changed_after :: "int \<Rightarrow> string \<Rightarrow> string \<Rightarrow> database \<Rightarrow> bool" where
  "changed_after e t i db \<longleftrightarrow>
     (\<exists>p \<in> set (policies db). po_tenant p = t \<and> po_id p = i \<and> po_deleted p = None) \<and>
     (\<forall>p \<in> set (policies db). po_id p = i \<longrightarrow> e < po_updated p)"

lemma changed_after_map:
  assumes "changed_after e t i db" "policies db' = map g (policies db)"
    and g: "\<And>p. p \<in> set (policies db) \<Longrightarrow> g p = p \<or> po_tenant (g p) = po_tenant p \<and> po_id (g p) = po_id p \<and>
      po_deleted (g p) = po_deleted p \<and> e < po_updated (g p)"
  shows "changed_after e t i db'"
proof -
  obtain p where p: "p \<in> set (policies db)" "po_tenant p = t" "po_id p = i" "po_deleted p = None"
    using assms(1) unfolding changed_after_def by blast
  have set: "set (policies db') = g ` set (policies db)" using assms(2) by simp
  have same: "po_tenant (g q) = po_tenant q \<and> po_id (g q) = po_id q \<and> po_deleted (g q) = po_deleted q"
    if "q \<in> set (policies db)" for q
    using g [OF that] by (elim disjE) simp_all
  have "e < po_updated (g q)" if "q \<in> set (policies db)" "po_id (g q) = i" for q
  proof -
    have "e < po_updated q" using assms(1) that same [OF that(1)] unfolding changed_after_def by simp
    then show ?thesis using g [OF that(1)] by (elim disjE) simp_all
  qed
  moreover have "po_tenant (g p) = t \<and> po_id (g p) = i \<and> po_deleted (g p) = None" using same [OF p(1)] p by simp
  ultimately show ?thesis unfolding changed_after_def set using p(1) by blast
qed

lemma changed_after_image:
  assumes "policies db' = map g (policies db)" "c \<in> set (policies db)"
    and "po_tenant (g c) = t" "po_id (g c) = i" "po_deleted (g c) = None"
    and "\<And>p. p \<in> set (policies db) \<Longrightarrow> po_id (g p) = i \<Longrightarrow> e < po_updated (g p)"
  shows "changed_after e t i db'"
  unfolding changed_after_def assms(1) set_map using assms(2-) by blast

lemma put_policy_changed:
  assumes "keys_ok db" "c \<in> set (policies db)" "po_deleted c = None" "e < pg_now env"
    and "changed_after e t i db \<or> po_tenant c = t \<and> po_id c = i"
  shows "changed_after e t i (put_policy (patch_policy env req c) db)"
proof -
  let ?g = "\<lambda>x. if policy_where (po_tenant c) (po_id c) x then patch_policy env req c else x"
  have m: "policies (put_policy (patch_policy env req c) db) = map ?g (policies db)"
    by (simp add: put_policy_def)
  have g: "?g p = p \<or> po_tenant (?g p) = po_tenant p \<and> po_id (?g p) = po_id p \<and> po_deleted (?g p) = po_deleted p \<and>
      e < po_updated (?g p)" if "p \<in> set (policies db)" for p
    using assms(3,4) by (auto simp: policy_where_def)
  show ?thesis
  proof (cases "changed_after e t i db")
    case True
    then show ?thesis using m g by (rule changed_after_map)
  next
    case False
    then have ti: "po_tenant c = t" "po_id c = i" using assms(5) by auto
    have "e < po_updated (?g p)" if "p \<in> set (policies db)" "po_id (?g p) = i" for p
    proof -
      have "po_id p = i" using that(2) ti(2) by (simp add: policy_where_def split: if_splits)
      then have "p = c" using policy_key_eq [OF assms(1,2) that(1)] ti by simp
      then show ?thesis using assms(3,4) by (simp add: policy_where_def)
    qed
    moreover have "?g c = patch_policy env req c" using assms(3) by (simp add: policy_where_def)
    ultimately show ?thesis using ti assms(3) by (intro changed_after_image [OF m assms(2)]) simp_all
  qed
qed

lemma run_call_changed:
  assumes "db_ok f db" "changed_after e t i db" "e < pg_now (call_env c)"
  shows "changed_after e t i (run_call u f digest c db)"
proof (cases c)
  case (NewTenant env req)
  show ?thesis unfolding NewTenant run_call.simps
    by (rule CreateTenant_cases [OF surjective_pairing, of env req db]) (use assms(2) in \<open>auto simp: changed_after_def\<close>)
next
  case (NewApp env req v)
  show ?thesis unfolding NewApp run_call.simps
    by (rule CreateApp_cases [OF surjective_pairing, of u env req v db]) (use assms(2) in \<open>auto simp: changed_after_def\<close>)
next
  case (PatchApp env t' a req v current)
  have "policies (run_call u f digest c db) = policies db" unfolding PatchApp run_call.simps
    by (rule update_app_tx_cases [OF surjective_pairing, of u env t' a req v current db])
      (auto simp: patch_apps_def delete_origins_def elim!: insertOrigin_Inr)
  then show ?thesis using assms(2) by (simp add: changed_after_def)
next
  case (NewPolicy env t' a req)
  show ?thesis unfolding NewPolicy run_call.simps
    by (rule CreatePolicy_cases [OF surjective_pairing, of env t' a req db])
      (use assms(2,3) NewPolicy in \<open>auto simp: changed_after_def\<close>)
next
  case (PatchPolicy env t' j req)
  show ?thesis unfolding PatchPolicy run_call.simps
  proof (rule UpdatePolicy_cases [OF surjective_pairing, of env t' j req db])
    fix p
    assume p: "p \<in> set (policies db)" "po_deleted p = None"
      "snd (UpdatePolicy env t' j req db) = put_policy (patch_policy env req p) db"
    show "changed_after e t i (snd (UpdatePolicy env t' j req db))" unfolding p(3)
      by (rule put_policy_changed) (use assms p PatchPolicy in \<open>auto simp: db_ok_def\<close>)
  qed (use assms(2) in simp)
next
  case (Publish env t' j)
  show ?thesis unfolding Publish run_call.simps
  proof (rule PublishPolicy_cases [OF surjective_pairing, of u f digest env t' j db])
    fix p g
    assume p: "snd (PublishPolicy u f digest env t' j db) = publish_db f digest env p (g\<lparr>gm_PublishedAt := pg_now env\<rparr>) db"
    show "changed_after e t i (snd (PublishPolicy u f digest env t' j db))" unfolding p
      by (rule changed_after_map [OF assms(2) publish_db_tables(4)]) (use assms(3) Publish in auto)
  qed (use assms(2) in simp)
qed

lemma db_run_changed:
  "db_run u f digest cs db db' \<Longrightarrow> db_ok f db \<Longrightarrow> changed_after e t i db \<Longrightarrow>
   (\<And>c. c \<in> set cs \<Longrightarrow> e < pg_now (call_env c)) \<Longrightarrow> changed_after e t i db'"
  by (induction rule: db_run.induct) (auto intro!: run_call_changed dest: db_run_ok)

lemma UpdatePolicy_conflict:
  assumes "changed_after e t i db" "pg_uuid env tenantID = Some t" "pg_uuid env policyID = Some i"
    "upr_ExpectedUpdatedAt req = e"
  shows "UpdatePolicy env tenantID policyID req db = (Inl (if pg_up env 0 \<and> pg_up env 1 then Conflict else DbFailed), db)"
proof (cases "pg_up env 0 \<and> pg_up env 1")
  case True
  obtain p where p: "p \<in> set (policies db)" "policy_where t i p"
    using assms(1) by (auto simp: changed_after_def policy_where_def)
  then obtain q where q: "find (policy_where t i) (policies db) = Some q"
    by (metis find_None_iff not_Some_eq)
  then have "q \<in> set (policies db)" "policy_where t i q" using find_row by fast+
  then have "e < po_updated q" using assms(1) by (auto simp: changed_after_def policy_where_def)
  then show ?thesis using True q assms by (simp add: UpdatePolicy_def getPolicyForUpdate_def)
next
  case False
  then show ?thesis using assms by (auto simp: UpdatePolicy_def getPolicyForUpdate_def)
qed

section \<open>Published versions\<close>

lemma run_call_versions:
  "\<exists>vs. versions (run_call u f digest c db) = versions db @ vs \<and>
     (\<forall>v \<in> set vs. \<forall>w \<in> set (versions db). ve_policy w = ve_policy v \<longrightarrow> ve_version w < ve_version v) \<and> length vs \<le> 1"
proof (cases c)
  case (NewTenant env req)
  show ?thesis unfolding NewTenant run_call.simps
    by (rule CreateTenant_cases [OF surjective_pairing, of env req db]) auto
next
  case (NewApp env req v)
  show ?thesis unfolding NewApp run_call.simps
    by (rule CreateApp_cases [OF surjective_pairing, of u env req v db]) auto
next
  case (PatchApp env t' a req v current)
  show ?thesis unfolding PatchApp run_call.simps
    by (rule update_app_tx_cases [OF surjective_pairing, of u env t' a req v current db])
      (auto simp: patch_apps_def delete_origins_def elim!: insertOrigin_Inr)
next
  case (NewPolicy env t' a req)
  show ?thesis unfolding NewPolicy run_call.simps
    by (rule CreatePolicy_cases [OF surjective_pairing, of env t' a req db]) auto
next
  case (PatchPolicy env t' i req)
  show ?thesis unfolding PatchPolicy run_call.simps
    by (rule UpdatePolicy_cases [OF surjective_pairing, of env t' i req db]) (auto simp: put_policy_def)
next
  case (Publish env t' i)
  show ?thesis unfolding Publish run_call.simps
    by (rule PublishPolicy_cases [OF surjective_pairing, of u f digest env t' i db])
      (auto simp: publish_db_tables(5) next_version_new)
qed

definition versions_ordered :: "version_row list \<Rightarrow> bool" where
  "versions_ordered = sorted_wrt (\<lambda>v w. ve_policy v = ve_policy w \<longrightarrow> ve_version v < ve_version w)"

lemma db_run_versions:
  "db_run u f digest cs db db' \<Longrightarrow>
   (\<exists>vs. versions db' = versions db @ vs) \<and> (versions_ordered (versions db) \<longrightarrow> versions_ordered (versions db'))"
proof (induction rule: db_run.induct)
  case (step cs db db' c)
  obtain vs where vs: "versions (run_call u f digest c db') = versions db' @ vs"
    "\<forall>v \<in> set vs. \<forall>w \<in> set (versions db'). ve_policy w = ve_policy v \<longrightarrow> ve_version w < ve_version v" "length vs \<le> 1"
    using run_call_versions by metis
  have "sorted_wrt R vs" for R using vs(3) by (cases vs) auto
  with vs step.IH show ?case by (auto simp: versions_ordered_def sorted_wrt_append)
qed auto

section \<open>What is published is served\<close>

lemma into_struct_member:
  assumes "map_of fs k = Some dec"
  shows "into_struct u strict fs (JObj ((k, v) # kvs)) a =
     (case dec v a of None \<Rightarrow> None | Some a' \<Rightarrow> into_struct u strict fs (JObj kvs) a')"
proof -
  have "field_for u (map fst fs) k = Some k" using map_of_SomeD [OF assms] by (force simp: field_for_def)
  then show ?thesis using assms
    by (simp add: into_struct_def into_object_def json_members_def split: option.split)
qed

lemma into_struct_empty: "into_struct u strict fs (JObj []) a = Some a"
  by (simp add: into_struct_def into_object_def json_members_def)

lemmas into_struct_eval = into_struct_member into_struct_empty at_field_def

lemma into_origin_json:
  assumes "0 \<le> or_Port r" "or_Port r \<le> 65535"
  shows "into_origin u (json_of_origin r) zero_origin = Some r"
proof -
  have "go_ParseInt64 (go_Itoa (or_Port r)) = Some (or_Port r)" by (rule ParseInt64_Itoa) (use assms in auto)
  then show ?thesis
    by (simp add: json_of_origin_def into_origin_def omit_empty_def into_struct_eval zero_origin_def)
qed

lemma decode_json_of_policy:
  assumes "0 \<le> or_Port (gm_Origin g)" "or_Port (gm_Origin g) \<le> 65535"
    and "parse_time (fmt_time (gm_PublishedAt g)) = Some (gm_PublishedAt g)"
  shows "decodeGatewayPolicy u parse_time (json_of_gateway_policy fmt_time g) = Inr g"
  using assms
  by (simp add: decodeGatewayPolicy_def json_of_gateway_policy_def into_gateway_policy_def into_struct_eval
      zero_gateway_policy_def into_origin_json into_value_def into_time_def)

lemma newest_snapshot_eq:
  assumes "d \<in> set (deployments db)" "cond d" "default_active d" "policy_live db d" "deployed_snapshot db d = Some s"
    and others: "\<And>x. x \<in> set (deployments db) \<Longrightarrow> deployed_snapshot db x = Some s \<or> dp_deployed x < dp_deployed d"
  shows "newest_snapshot db cond = Some s"
proof -
  define rows where "rows = filter (\<lambda>d. cond d \<and> default_active d \<and> policy_live db d \<and> deployed_snapshot db d \<noteq> None)
    (deployments db)"
  have d: "d \<in> set rows" using assms by (simp add: rows_def)
  then obtain r rs where r: "newest_first dp_deployed rows = r # rs"
    by (cases "newest_first dp_deployed rows") (auto simp: newest_first_def dest: arg_cong [of _ _ set])
  have set: "set (r # rs) = set rows" unfolding r [symmetric] by (simp add: newest_first_def)
  have "sorted (map (\<lambda>r. - dp_deployed r) (r # rs))" unfolding r [symmetric] newest_first_def by (rule sorted_sort_key)
  then have "\<forall>x \<in> set rows. dp_deployed x \<le> dp_deployed r" unfolding set [symmetric] by simp
  then have "dp_deployed d \<le> dp_deployed r" using d by blast
  moreover have "r \<in> set (deployments db)" using set by (auto simp: rows_def)
  ultimately have "deployed_snapshot db r = Some s" using others [of r] by auto
  then show ?thesis unfolding newest_snapshot_def rows_def [symmetric] r by (simp add: limit_1_def)
qed

lemma find_snoc: "find P xs = None \<Longrightarrow> find P (xs @ [x]) = (if P x then Some x else None)"
  by (induction xs) (auto split: if_splits)

lemma publish_snapshot:
  assumes ok: "db_ok f db" and c: "c \<in> set (policies db)" "po_deleted c = None" "po_enabled c"
    and fresh: "pg_id env 0 \<notin> ve_id ` set (versions db)"
    and older: "\<And>x. x \<in> set (deployments db) \<Longrightarrow> dp_deployed x < pg_now env"
    and cond: "\<And>d. dp_tenant d = po_tenant c \<Longrightarrow> dp_app d = po_app c \<Longrightarrow> cond d"
  shows "newest_snapshot (publish_db f digest env c g db) cond = Some (json_of_gateway_policy f g)"
proof -
  let ?db = "publish_db f digest env c g db"
  have k: "keys_ok db" and r: "refs_ok db" using ok by (simp_all add: db_ok_def)
  have snap: "deployed_snapshot ?db d = Some (json_of_gateway_policy f g)" if "dp_version d = pg_id env 0" for d
  proof -
    have "find (\<lambda>v. ve_id v = pg_id env 0) (versions db) = None" using fresh by (force simp: find_None_iff)
    then show ?thesis using that by (simp add: deployed_snapshot_def publish_db_tables find_snoc)
  qed
  have "\<exists>d \<in> set (deployments ?db). dp_policy d = po_id c"
  proof (cases "\<exists>d \<in> set (deployments db). dp_policy d = po_id c \<and> dp_node d = ''default''")
    case True
    then obtain d where "d \<in> set (deployments db)" "dp_policy d = po_id c" "dp_node d = ''default''" by blast
    then have "redeploy env d \<in> set (deployments ?db)" "dp_policy (redeploy env d) = po_id c"
      by (auto simp: publish_db_deployments redeploy_def)
    then show ?thesis by blast
  qed (auto simp: publish_db_deployments)
  then obtain d where d: "d \<in> set (deployments ?db)" "dp_policy d = po_id c" by blast
  from r k c(1) d(1) show ?thesis
  proof (cases rule: published_deployment)
    case new
    let ?c = "c\<lparr>po_active := Some (pg_id env 0), po_updated := pg_now env\<rparr>"
    have "?c \<in> set (policies ?db)" using c(1) by (auto simp: publish_db_tables)
    then have live: "policy_live ?db d"
      unfolding policy_live_def list_ex_iff by (rule bexI [rotated]) (use new c in simp)
    show ?thesis
    proof (rule newest_snapshot_eq [OF d(1) _ _ live])
      fix x assume x: "x \<in> set (deployments ?db)"
      from r k c(1) x show "deployed_snapshot ?db x = Some (json_of_gateway_policy f g) \<or> dp_deployed x < dp_deployed d"
        by (cases rule: published_deployment) (use snap older new in auto)
    qed (use new snap cond in \<open>auto simp: default_active_def\<close>)
  qed (use d in simp)
qed

lemma limit_1_set: "limit_1 xs = Some r \<Longrightarrow> r \<in> set xs"
  by (cases xs) (simp_all add: limit_1_def)

lemma compile_port:
  assumes "db_ok f db" "compileGatewayPolicy u c v db = Inr g"
  shows "1 \<le> or_Port (gm_Origin g) \<and> or_Port (gm_Origin g) \<le> 65535"
proof -
  obtain m where m: "getPrimaryOrigin (po_app c) db = Some m" "gm_Origin g = m"
    using assms(2) by (auto simp: compileGatewayPolicy_def split: option.splits)
  then obtain r where "r \<in> set (origins db)" "m = origin_of r (origin_url_of r)"
    by (auto simp: getPrimaryOrigin_def dest!: limit_1_set)
  then show ?thesis using assms(1) m(2) by (auto simp: db_ok_def values_ok_def origin_of_def)
qed

section \<open>Every app keeps its first origin row\<close>

definition primary_apps :: "database \<Rightarrow> string set" where
  "primary_apps db = {a. (a, ''primary'') \<in> (\<lambda>r. (og_app r, og_name r)) ` set (origins db)}"

definition apps_have_primary :: "database \<Rightarrow> bool" where
  "apps_have_primary db \<longleftrightarrow> ap_id ` set (apps db) \<subseteq> primary_apps db"

lemma primary_apps_delete [simp]: "primary_apps (delete_origins env t a db) = primary_apps db"
proof -
  have "(\<lambda>r. (og_app r, og_name r)) ` set (map (\<lambda>r. if P r then r\<lparr>og_deleted := d, og_updated := n\<rparr> else r) xs) =
      (\<lambda>r. (og_app r, og_name r)) ` set xs" for P d n and xs :: "origin_row list"
    unfolding set_map image_image by (rule image_cong) auto
  then show ?thesis by (simp add: primary_apps_def delete_origins_def del: set_map)
qed

lemma primary_apps_patch [simp]:
  "primary_apps (patch_apps env t a req current db) = primary_apps db"
  by (simp add: primary_apps_def patch_apps_def)

lemma apps_patch_ids [simp]:
  "ap_id ` set (apps (patch_apps env t a req current db)) = ap_id ` set (apps db)"
proof -
  have "ap_id ` set (map (\<lambda>x. if P x then patch_app env req current x else x) xs) = ap_id ` set xs" for P xs
    unfolding set_map image_image by (rule image_cong) auto
  then show ?thesis by (simp add: patch_apps_def del: set_map)
qed

lemma insertOrigin_primary:
  "a \<in> primary_apps db \<Longrightarrow> \<exists>e. insertOrigin u env n t a v db = Inl e"
  by (auto simp: insertOrigin_def primary_apps_def Let_def split: option.splits)

lemma run_call_primary:
  assumes "apps_have_primary db"
  shows "apps_have_primary (run_call u f digest c db)"
proof (cases c)
  case (NewTenant env req)
  show ?thesis unfolding NewTenant run_call.simps
    by (rule CreateTenant_cases [OF surjective_pairing, of env req db])
      (use assms in \<open>auto simp: apps_have_primary_def primary_apps_def\<close>)
next
  case (NewApp env req v)
  show ?thesis unfolding NewApp run_call.simps
    by (rule CreateApp_cases [OF surjective_pairing, of u env req v db])
      (use assms in \<open>auto simp: apps_have_primary_def primary_apps_def\<close>)
next
  case (PatchApp env t a req v current)
  show ?thesis unfolding PatchApp run_call.simps
  proof (rule update_app_tx_cases [OF surjective_pairing, of u env t a req v current db])
    fix r v' m
    assume r: "r \<in> set (apps db)" "app_where t a r"
      "insertOrigin u env (pg_id env 0) t a v' (delete_origins env t a (patch_apps env t a req current db)) =
        Inr (m, snd (update_app_tx u env t a req v current db))"
    have "a \<in> primary_apps db" using assms r(1,2) by (auto simp: apps_have_primary_def app_where_def)
    then show "apps_have_primary (snd (update_app_tx u env t a req v current db))"
      using r(3) insertOrigin_primary [of a "delete_origins env t a (patch_apps env t a req current db)" u env "pg_id env 0" t v']
      by auto
  qed (use assms in \<open>simp_all add: apps_have_primary_def\<close>)
next
  case (NewPolicy env t a req)
  show ?thesis unfolding NewPolicy run_call.simps
    by (rule CreatePolicy_cases [OF surjective_pairing, of env t a req db])
      (use assms in \<open>auto simp: apps_have_primary_def primary_apps_def\<close>)
next
  case (PatchPolicy env t i req)
  show ?thesis unfolding PatchPolicy run_call.simps
    by (rule UpdatePolicy_cases [OF surjective_pairing, of env t i req db])
      (use assms in \<open>auto simp: apps_have_primary_def primary_apps_def put_policy_def\<close>)
next
  case (Publish env t i)
  show ?thesis unfolding Publish run_call.simps
    by (rule PublishPolicy_cases [OF surjective_pairing, of u f digest env t i db])
      (use assms in \<open>auto simp: apps_have_primary_def primary_apps_def publish_db_tables\<close>)
qed

lemma db_run_primary: "db_run u f digest cs db db' \<Longrightarrow> apps_have_primary db \<Longrightarrow> apps_have_primary db'"
  by (induction rule: db_run.induct) (auto intro: run_call_primary)

lemma UpdateApp_origin_fails:
  assumes "apps_have_primary db"
  shows "\<exists>e. UpdateApp u env tenantID i req (Some v) db = (Inl e, db)"
proof (cases "GetApp env tenantID i db")
  case (Inr current)
  let ?t = "am_TenantID current" and ?a = "am_ID current"
  show ?thesis
  proof (rule update_app_tx_cases [OF surjective_pairing, of u env ?t ?a req "Some v" current db])
    fix e assume "snd (update_app_tx u env ?t ?a req (Some v) current db) = db"
      "fst (update_app_tx u env ?t ?a req (Some v) current db) = Inl e"
    then show ?thesis using Inr by (simp add: UpdateApp_def prod_eq_iff)
  next
    fix r v' m
    assume r: "r \<in> set (apps db)" "app_where ?t ?a r"
      "insertOrigin u env (pg_id env 0) ?t ?a v' (delete_origins env ?t ?a (patch_apps env ?t ?a req current db)) =
        Inr (m, snd (update_app_tx u env ?t ?a req (Some v) current db))"
    have "?a \<in> primary_apps db" using assms r(1,2) by (auto simp: apps_have_primary_def app_where_def)
    then show ?thesis
      using r(3) insertOrigin_primary [of ?a "delete_origins env ?t ?a (patch_apps env ?t ?a req current db)" u env "pg_id env 0" ?t v']
      by auto
  qed simp
qed (simp add: UpdateApp_def)

end
