(* ===== verification/Control_Server_Facts.thy ===== *)
theory Control_Server_Facts
  imports Control_Server Control_Db_History
begin

text \<open>
  Facts about the HTTP layer of the control API. The locale \<open>state_law\<close> states what a relation
  between the states before and after a request needs from the handlers that write, and derives it
  for the whole server; its instances show that a request amounts to at most one call of the
  repository, made for the tenant of the request, and that what is stored has been validated.
\<close>

section \<open>Handlers that only read\<close>

lemma read_only [simp]:
  "snd (healthz cx r h st) = st" "snd (readyz e cx r h st) = st" "snd (listTenants e cx r h st) = st"
  "snd (listApps e cx r h st) = st" "snd (getApp e i cx r h st) = st" "snd (listPolicies e i cx r h st) = st"
  "snd (getPolicy e i cx r h st) = st" "snd (getActivePolicy e i cx r h st) = st"
  "snd (getGatewayPolicy e i cx r h st) = st" "snd (listManagedRuleSets e cx r h st) = st"
  "snd (listManagedRuleVersions e i cx r h st) = st" "snd (activateManagedRuleVersion e i j cx r h st) = st"
  by (simp_all add: healthz_def readyz_def listTenants_def listApps_def getApp_def listPolicies_def getPolicy_def
      getActivePolicy_def getGatewayPolicy_def listManagedRuleSets_def listManagedRuleVersions_def
      activateManagedRuleVersion_def Let_def split: sum.split option.split)

lemma store_only:
  "\<exists>w. snd (getPolicySimulationSummary e i cx r h st) = st\<lparr>ws_world := w\<rparr>"
  "\<exists>w. snd (listEvents e cx r h st) = st\<lparr>ws_world := w\<rparr>"
  "\<exists>w. snd (getEvent e i cx r h st) = st\<lparr>ws_world := w\<rparr>"
proof -
  have same: "\<exists>w. st = st\<lparr>ws_world := w\<rparr>" by (rule exI [of _ "ws_world st"]) simp
  show "\<exists>w. snd (getPolicySimulationSummary e i cx r h st) = st\<lparr>ws_world := w\<rparr>"
    "\<exists>w. snd (listEvents e cx r h st) = st\<lparr>ws_world := w\<rparr>"
    using same by (auto simp: getPolicySimulationSummary_def listEvents_def split: sum.split prod.split)
  show "\<exists>w. snd (getEvent e i cx r h st) = st\<lparr>ws_world := w\<rparr>"
    by (auto simp: getEvent_def split: sum.split prod.split event_store_error.split)
qed

section \<open>Guards\<close>

definition request_tenant :: "api_request \<Rightarrow> string" where
  "request_tenant r =
     (let given = go_TrimSpace (header_Get (rq_Header r) ''X-Bedem-Tenant-ID'') in
      if given = [] then go_TrimSpace (query_Get (rq_Query r) ''tenant_id'') else given)"

lemma request_tenant_trim [simp]: "go_TrimSpace (request_tenant r) = request_tenant r"
  by (simp add: request_tenant_def Let_def)

lemma request_tenant_body [simp]: "request_tenant (r\<lparr>rq_Body := b\<rparr>) = request_tenant r"
  by (simp add: request_tenant_def Let_def)

lemma requireTenant_snd:
  "snd (requireTenant f cx r h st) = st \<or>
   snd (requireTenant f cx r h st) = snd (f (cx\<lparr>cx_TenantID := request_tenant r\<rparr>) r h st)"
  by (auto simp: requireTenant_def request_tenant_def Let_def)

lemma requireAuth_snd:
  "snd (requireAuth s f cx r h st) = (if Authorized (as_adminAuth s) (rq_Header r) then snd (f cx r h st) else st)"
  by (simp add: requireAuth_def)

lemma requireGatewayAuth_snd:
  "snd (requireGatewayAuth s f cx r h st) = (if Authorized (as_gatewayAuth s) (rq_Header r) then snd (f cx r h st) else st)"
  by (simp add: requireGatewayAuth_def)

section \<open>Laws about the state\<close>

locale state_law =
  fixes e :: "'w api_env" and s :: api_server
    and law :: "string \<Rightarrow> 'w api_state \<Rightarrow> 'w api_state \<Rightarrow> bool"
  assumes same: "law t st st"
    and store: "law t st (st\<lparr>ws_world := w\<rparr>)"
    and observe: "law t st st' \<Longrightarrow> law t st (st'\<lparr>ws_metrics := m\<rparr>)"
    and create_tenant: "law t st (snd (createTenant e cx r h st))"
    and create_app: "go_TrimSpace (cx_TenantID cx) = cx_TenantID cx \<Longrightarrow> law (cx_TenantID cx) st (snd (createApp e cx r h st))"
    and patch_app: "law (cx_TenantID cx) st (snd (patchApp e i cx r h st))"
    and create_policy: "law (cx_TenantID cx) st (snd (createPolicy e i cx r h st))"
    and patch_policy: "law (cx_TenantID cx) st (snd (patchPolicy e i cx r h st))"
    and publish_policy: "law (cx_TenantID cx) st (snd (publishPolicy e i cx r h st))"
begin

lemma admin_global: "law t st (snd (f cx r h st)) \<Longrightarrow> law t st (snd (adminGlobal s f cx r h st))"
  by (simp add: adminGlobal_def requireAuth_snd same)

lemma admin_tenant:
  assumes "\<And>cx. go_TrimSpace (cx_TenantID cx) = cx_TenantID cx \<Longrightarrow> law (cx_TenantID cx) st (snd (f cx r h st))"
  shows "law (request_tenant r) st (snd (adminTenant s f cx r h st))"
proof -
  have "law (request_tenant r) st (snd (requireTenant f cx r h st))"
    using requireTenant_snd [of f cx r h st] same assms [of "cx\<lparr>cx_TenantID := request_tenant r\<rparr>"] by auto
  then show ?thesis by (simp add: adminTenant_def requireAuth_snd same)
qed

lemma store_law:
  "law t st (snd (getPolicySimulationSummary e i cx r h st))" "law t st (snd (listEvents e cx r h st))"
  "law t st (snd (getEvent e i cx r h st))"
  by (metis store store_only(1), metis store store_only(2), metis store store_only(3))

lemma endpoint_law: "law (request_tenant r) st (snd (endpoint_handler e s ep vs cx r h st))"
  by (cases ep)
    (auto simp: endpoint_handler_def same requireGatewayAuth_snd
      intro!: admin_global admin_tenant create_tenant create_app patch_app create_policy patch_policy publish_policy store_law)

lemma mux_law: "law (request_tenant r) st (snd (mux e s cx r h st))"
  by (auto simp: mux_def same endpoint_law split: option.split)

lemma limited_law: "law (request_tenant r) st (snd (requestSizeLimitMiddleware limit (mux e s) cx r h st))"
  using mux_law [of "r\<lparr>rq_Body := b\<rparr>" for b] mux_law [of r] by (simp add: requestSizeLimitMiddleware_def)

lemma Routes_law: "law (request_tenant r) st (snd (Routes e s r st))"
proof -
  have "law (request_tenant r) st (snd (corsMiddleware s (secureHeaders (requestSizeLimitMiddleware limit (mux e s))) cx r h st))" for cx h limit
    by (simp add: corsMiddleware_def secureHeaders_def same limited_law Let_def)
  then show ?thesis
    by (simp add: Routes_def requestIDMiddleware_def loggingMiddleware_def observe Let_def split: prod.split)
      (metis observe snd_conv)
qed

end

section \<open>One call for the tenant of the request\<close>

definition call_law :: "'w api_env \<Rightarrow> string \<Rightarrow> 'w api_state \<Rightarrow> 'w api_state \<Rightarrow> bool" where
  "call_law e t st st' \<longleftrightarrow>
     ws_db st' = ws_db st \<or>
     (\<exists>c k. ws_db st' = run_call (ae_unicode e) (ae_fmt_time e) (ae_digest e) c (ws_db st) \<and> call_env c = ae_pg e k \<and>
        (call_tenant c = None \<or> call_tenant c = pg_uuid (ae_pg e k) t))"

lemma call_lawI:
  assumes "ws_db st' = run_call (ae_unicode e) (ae_fmt_time e) (ae_digest e) c (ws_db st)" "call_env c = ae_pg e k"
    "call_tenant c = None \<or> call_tenant c = pg_uuid (ae_pg e k) t"
  shows "call_law e t st st'"
  using assms unfolding call_law_def by blast

lemma validateCreateApp_tenant:
  assumes "validateCreateApp e req0 = Inr (req, v)"
  shows "car_TenantID req = go_TrimSpace (car_TenantID req0)"
  using assms by (auto simp: validateCreateApp_def Let_def split: if_splits option.splits sum.splits)

text \<open>What each writing handler does to the tables.\<close>

lemma createTenant_db:
  "ws_db (snd (createTenant e cx r h st)) = ws_db st \<or>
   (\<exists>req. ws_db (snd (createTenant e cx r h st)) = snd (CreateTenant (ae_pg e 0) req (ws_db st)))"
  by (auto simp: createTenant_def Let_def split: sum.split option.split prod.split) (metis snd_conv)+

lemma createApp_db:
  "ws_db (snd (createApp e cx r h st)) = ws_db st \<or>
   (\<exists>req0 req v. validateCreateApp e req0 = Inr (req, v) \<and>
      (go_TrimSpace (cx_TenantID cx) = cx_TenantID cx \<longrightarrow> go_TrimSpace (car_TenantID req0) = cx_TenantID cx) \<and>
      ws_db (snd (createApp e cx r h st)) = snd (CreateApp (ae_unicode e) (ae_pg e 0) req v (ws_db st)))"
proof (cases "decodeJSON e (\<lambda>j. into_create_app (ae_unicode e) j zero_create_app) r")
  case (Inr req1)
  let ?given = "go_TrimSpace (car_TenantID req1)"
  let ?req = "req1\<lparr>car_TenantID := (if ?given = [] then cx_TenantID cx else ?given)\<rparr>"
  show ?thesis
  proof (cases "?given \<noteq> [] \<and> ?given \<noteq> cx_TenantID cx \<or> (\<exists>m. validateCreateApp e ?req = Inl m)")
    case True
    then show ?thesis using Inr by (auto simp: createApp_def Let_def)
  next
    case False
    then obtain req v where v: "validateCreateApp e ?req = Inr (req, v)" by (metis sum.exhaust_sel surj_pair)
    then have "ws_db (snd (createApp e cx r h st)) = snd (CreateApp (ae_unicode e) (ae_pg e 0) req v (ws_db st))"
      using Inr False by (auto simp: createApp_def Let_def split: prod.split sum.split)
    moreover have "go_TrimSpace (car_TenantID ?req) = cx_TenantID cx" if "go_TrimSpace (cx_TenantID cx) = cx_TenantID cx"
      using that False by auto
    ultimately show ?thesis using v by blast
  qed
qed (simp add: createApp_def)

lemma patchApp_db:
  "ws_db (snd (patchApp e i cx r h st)) = ws_db st \<or>
   (\<exists>req0 req v. validatePatchApp e req0 = Inr (req, v) \<and>
      ws_db (snd (patchApp e i cx r h st)) = snd (UpdateApp (ae_unicode e) (ae_pg e 0) (cx_TenantID cx) i req v (ws_db st)))"
  by (auto simp: patchApp_def split: sum.split prod.split) (metis snd_conv)+

lemma createPolicy_db:
  "ws_db (snd (createPolicy e i cx r h st)) = ws_db st \<or>
   (\<exists>req. validatePolicySnapshot (ae_unicode e) (cpr_Snapshot req) = None \<and>
      ws_db (snd (createPolicy e i cx r h st)) = snd (CreatePolicy (ae_pg e 0) (cx_TenantID cx) i req (ws_db st)))"
proof (cases "decodeJSON e (\<lambda>j. into_create_policy (ae_unicode e) j zero_create_policy) r")
  case (Inr req0)
  let ?req = "req0\<lparr>cpr_Name := go_TrimSpace (cpr_Name req0), cpr_Mode := (if cpr_Mode req0 = [] then ''count'' else cpr_Mode req0)\<rparr>"
  let ?checks = "checks [validateMode (cpr_Mode ?req), validatePolicySnapshot (ae_unicode e) (cpr_Snapshot ?req)]"
  show ?thesis
  proof (cases "cpr_Name ?req = [] \<or> ?checks \<noteq> None")
    case True
    then show ?thesis using Inr by (auto simp: createPolicy_def Let_def split: option.split)
  next
    case False
    then have "ws_db (snd (createPolicy e i cx r h st)) = snd (CreatePolicy (ae_pg e 0) (cx_TenantID cx) i ?req (ws_db st))"
      using Inr by (auto simp: createPolicy_def Let_def split: prod.split sum.split)
    moreover have "validatePolicySnapshot (ae_unicode e) (cpr_Snapshot ?req) = None"
      using False by (auto split: option.splits)
    ultimately show ?thesis by blast
  qed
qed (simp add: createPolicy_def)

lemma validateUpdatePolicy_Inr:
  "validateUpdatePolicy e req0 = Inr req \<Longrightarrow> validatePolicySnapshot (ae_unicode e) (upr_Snapshot req) = None"
  by (auto simp: validateUpdatePolicy_def Let_def split: if_splits option.splits)

lemma patchPolicy_db:
  "ws_db (snd (patchPolicy e i cx r h st)) = ws_db st \<or>
   (\<exists>req. validatePolicySnapshot (ae_unicode e) (upr_Snapshot req) = None \<and>
      ws_db (snd (patchPolicy e i cx r h st)) = snd (UpdatePolicy (ae_pg e 0) (cx_TenantID cx) i req (ws_db st)))"
  by (auto simp: patchPolicy_def split: sum.split prod.split dest!: validateUpdatePolicy_Inr)

lemma publishPolicy_db:
  "ws_db (snd (publishPolicy e i cx r h st)) = ws_db st \<or>
   ws_db (snd (publishPolicy e i cx r h st)) =
     snd (PublishPolicy (ae_unicode e) (ae_fmt_time e) (ae_digest e) (ae_pg e 1) (cx_TenantID cx) i (ws_db st))"
  by (auto simp: publishPolicy_def split: sum.split option.split prod.split)

lemma UpdateApp_call:
  "snd (UpdateApp u env tenantID i req v db) = db \<or>
   (\<exists>c. snd (UpdateApp u env tenantID i req v db) = run_call u f digest c db \<and> call_env c = env \<and>
      call_tenant c = pg_uuid env tenantID)"
proof (cases "GetApp env tenantID i db")
  case (Inr current)
  then obtain a where "pg_uuid env tenantID = Some (ap_tenant a)" "current = app_of a (listOrigins (ap_id a) db)"
    by (rule GetApp_Inr)
  then show ?thesis
    using Inr UpdateApp_run [of u env tenantID i req v db f digest]
    by (intro disjI2 exI [of _ "PatchApp env (am_TenantID current) (am_ID current) req v current"]) (simp add: app_of_def)
qed (simp add: UpdateApp_def)

interpretation calls: state_law e s "call_law e" for e :: "'w api_env" and s :: api_server
proof
  fix t and st st' :: "'w api_state" and m w cx r h i
  show "call_law e t st st" "call_law e t st (st\<lparr>ws_world := w\<rparr>)" by (simp_all add: call_law_def)
  show "call_law e t st st' \<Longrightarrow> call_law e t st (st'\<lparr>ws_metrics := m\<rparr>)" by (simp add: call_law_def)
  show "call_law e t st (snd (createTenant e cx r h st))"
    using createTenant_db [of e cx r h st]
    by (elim disjE exE) (simp add: call_law_def, rule call_lawI [where c = "NewTenant (ae_pg e 0) _"], auto)
  show "call_law e (cx_TenantID cx) st (snd (createApp e cx r h st))" if "go_TrimSpace (cx_TenantID cx) = cx_TenantID cx"
    using createApp_db [of e cx r h st] that
    by (elim disjE exE conjE)
      (simp add: call_law_def, rule call_lawI [where c = "NewApp (ae_pg e 0) _ _"], auto dest: validateCreateApp_tenant)
  show "call_law e (cx_TenantID cx) st (snd (patchApp e i cx r h st))"
    using patchApp_db [of e i cx r h st] UpdateApp_call [of "ae_unicode e" "ae_pg e 0" "cx_TenantID cx" i _ _ "ws_db st"]
    unfolding call_law_def by metis
  show "call_law e (cx_TenantID cx) st (snd (createPolicy e i cx r h st))"
    using createPolicy_db [of e i cx r h st]
    by (elim disjE exE conjE) (simp add: call_law_def, rule call_lawI [where c = "NewPolicy (ae_pg e 0) (cx_TenantID cx) i _"], auto)
  show "call_law e (cx_TenantID cx) st (snd (patchPolicy e i cx r h st))"
    using patchPolicy_db [of e i cx r h st]
    by (elim disjE exE conjE) (simp add: call_law_def, rule call_lawI [where c = "PatchPolicy (ae_pg e 0) (cx_TenantID cx) i _"], auto)
  show "call_law e (cx_TenantID cx) st (snd (publishPolicy e i cx r h st))"
    using publishPolicy_db [of e i cx r h st]
    by (elim disjE) (simp add: call_law_def, rule call_lawI [where c = "Publish (ae_pg e 1) (cx_TenantID cx) i"], auto)
qed

section \<open>What is stored has been validated\<close>

definition app_valid :: "unicode \<Rightarrow> app_row \<Rightarrow> bool" where
  "app_valid u a \<longleftrightarrow> validateHostnames u (ap_hostnames a) = None \<and> slugPattern (ap_slug a)"

definition policy_valid :: "unicode \<Rightarrow> policy_row \<Rightarrow> bool" where
  "policy_valid u p \<longleftrightarrow> validatePolicySnapshot u (Some (snapshot_column (po_metadata p))) = None"

definition stored_valid :: "unicode \<Rightarrow> database \<Rightarrow> bool" where
  "stored_valid u db \<longleftrightarrow> (\<forall>a \<in> set (apps db). app_valid u a) \<and> (\<forall>p \<in> set (policies db). policy_valid u p)"

lemma empty_snapshot_valid: "validatePolicySnapshot u (Some (JObj [])) = None"
  by (simp add: validatePolicySnapshot_def into_snapshot_def into_struct_empty check_snapshot_def zero_snapshot_def)

lemma null_snapshot_valid:
  "validatePolicySnapshot u snapshot = None \<Longrightarrow> validatePolicySnapshot u (Some (defaultRaw snapshot (JObj []))) = None"
  by (cases snapshot) (auto simp: defaultRaw_def empty_snapshot_valid)

lemma CreateTenant_valid: "stored_valid u db \<Longrightarrow> stored_valid u (snd (CreateTenant env req db))"
  by (rule CreateTenant_cases [OF surjective_pairing, of env req db]) (simp_all add: stored_valid_def)

lemma CreateApp_valid:
  assumes "stored_valid u db" "validateCreateApp e req0 = Inr (req, v)" "ae_unicode e = u"
  shows "stored_valid u (snd (CreateApp u' env req v db))"
proof -
  have "validateHostnames u (car_Hostnames req) = None" "slugPattern (car_Slug req)"
    using assms(2,3) by (auto simp: validateCreateApp_def validateSlug_def Let_def split: if_splits option.splits sum.splits)
  then show ?thesis
    by - (rule CreateApp_cases [OF surjective_pairing, of u' env req v db],
        use assms(1) in \<open>auto simp: stored_valid_def app_valid_def\<close>)
qed

lemma patch_apps_valid:
  assumes "stored_valid u db" "uar_Hostnames req = [] \<or> validateHostnames u (uar_Hostnames req) = None"
    and "validateHostnames u (am_Hostnames current) = None"
  shows "stored_valid u (patch_apps env t a req current db)"
  using assms by (auto simp: stored_valid_def app_valid_def patch_apps_def patch_app_def)

lemma UpdateApp_valid:
  assumes "stored_valid u db" "validatePatchApp e req0 = Inr (req, v)" "ae_unicode e = u"
  shows "stored_valid u (snd (UpdateApp u' env tenantID i req v db))"
proof (cases "GetApp env tenantID i db")
  case (Inr current)
  then obtain a where "a \<in> set (apps db)" "am_Hostnames current = ap_hostnames a"
    by (rule GetApp_Inr) (simp add: app_of_def)
  then have c: "validateHostnames u (am_Hostnames current) = None" using assms(1) by (simp add: stored_valid_def app_valid_def)
  have h: "uar_Hostnames req = [] \<or> validateHostnames u (uar_Hostnames req) = None"
    using assms(2,3) by (auto simp: validatePatchApp_def Let_def split: if_splits option.splits sum.splits)
  let ?t = "am_TenantID current" and ?a = "am_ID current"
  note p = patch_apps_valid [OF assms(1) h c, of env ?t ?a]
  have "stored_valid u (snd (update_app_tx u' env ?t ?a req v current db))"
  proof (rule update_app_tx_cases [OF surjective_pairing, of u' env ?t ?a req v current db])
    fix o' m
    assume "insertOrigin u' env (pg_id env 0) ?t ?a o' (delete_origins env ?t ?a (patch_apps env ?t ?a req current db)) =
      Inr (m, snd (update_app_tx u' env ?t ?a req v current db))"
    then show ?thesis
      by (rule insertOrigin_Inr) (use p in \<open>simp add: stored_valid_def delete_origins_def\<close>)
  qed (use assms(1) p in simp_all)
  then show ?thesis using Inr by (simp add: UpdateApp_def)
qed (simp add: UpdateApp_def assms(1))

lemma CreatePolicy_valid:
  assumes "stored_valid u db" "validatePolicySnapshot u (cpr_Snapshot req) = None"
  shows "stored_valid u (snd (CreatePolicy env t i req db))"
  by (rule CreatePolicy_cases [OF surjective_pairing, of env t i req db])
    (use assms null_snapshot_valid [OF assms(2)] in \<open>auto simp: stored_valid_def policy_valid_def\<close>)

lemma patch_policy_snapshot:
  "snapshot_column (po_metadata (patch_policy env req c)) =
     defaultRaw (Some (case upr_Snapshot req of Some s \<Rightarrow> s | None \<Rightarrow> snapshot_column (po_metadata c))) (JObj [])"
  by (simp add: patch_policy_def snapshot_column_def metadataWithSnapshot_def)

lemma UpdatePolicy_valid:
  assumes "stored_valid u db" "validatePolicySnapshot u (upr_Snapshot req) = None"
  shows "stored_valid u (snd (UpdatePolicy env t i req db))"
proof (rule UpdatePolicy_cases [OF surjective_pairing, of env t i req db])
  fix c
  assume c: "c \<in> set (policies db)" "snd (UpdatePolicy env t i req db) = put_policy (patch_policy env req c) db"
  have "validatePolicySnapshot u (Some (case upr_Snapshot req of Some s \<Rightarrow> s | None \<Rightarrow> snapshot_column (po_metadata c))) = None"
    using assms c(1) by (auto simp: stored_valid_def policy_valid_def split: option.split)
  then have "policy_valid u (patch_policy env req c)"
    unfolding policy_valid_def patch_policy_snapshot by (rule null_snapshot_valid)
  then show ?thesis unfolding c(2) using assms(1) by (auto simp: stored_valid_def put_policy_def)
qed (use assms in simp)

lemma PublishPolicy_valid: "stored_valid u db \<Longrightarrow> stored_valid u (snd (PublishPolicy u' f digest env t i db))"
  by (rule PublishPolicy_cases [OF surjective_pairing, of u' f digest env t i db])
    (auto simp: stored_valid_def policy_valid_def publish_db_tables)

definition valid_law :: "unicode \<Rightarrow> string \<Rightarrow> 'w api_state \<Rightarrow> 'w api_state \<Rightarrow> bool" where
  "valid_law u t st st' \<longleftrightarrow> (stored_valid u (ws_db st) \<longrightarrow> stored_valid u (ws_db st'))"

interpretation valid: state_law e s "valid_law (ae_unicode e)" for e :: "'w api_env" and s :: api_server
proof
  fix t and st st' :: "'w api_state" and m w cx r h i
  show "valid_law (ae_unicode e) t st st" "valid_law (ae_unicode e) t st (st\<lparr>ws_world := w\<rparr>)" by (simp_all add: valid_law_def)
  show "valid_law (ae_unicode e) t st st' \<Longrightarrow> valid_law (ae_unicode e) t st (st'\<lparr>ws_metrics := m\<rparr>)" by (simp add: valid_law_def)
  show "valid_law (ae_unicode e) t st (snd (createTenant e cx r h st))"
    using createTenant_db [of e cx r h st] by (auto simp: valid_law_def CreateTenant_valid)
  show "valid_law (ae_unicode e) (cx_TenantID cx) st (snd (createApp e cx r h st))"
    using createApp_db [of e cx r h st] by (auto simp: valid_law_def CreateApp_valid)
  show "valid_law (ae_unicode e) (cx_TenantID cx) st (snd (patchApp e i cx r h st))"
    using patchApp_db [of e i cx r h st] by (auto simp: valid_law_def UpdateApp_valid)
  show "valid_law (ae_unicode e) (cx_TenantID cx) st (snd (createPolicy e i cx r h st))"
    using createPolicy_db [of e i cx r h st] by (auto simp: valid_law_def CreatePolicy_valid)
  show "valid_law (ae_unicode e) (cx_TenantID cx) st (snd (patchPolicy e i cx r h st))"
    using patchPolicy_db [of e i cx r h st] by (auto simp: valid_law_def UpdatePolicy_valid)
  show "valid_law (ae_unicode e) (cx_TenantID cx) st (snd (publishPolicy e i cx r h st))"
    using publishPolicy_db [of e i cx r h st] by (auto simp: valid_law_def PublishPolicy_valid)
qed

end
