(* ===== verification/Control_Db_Properties.thy ===== *)
theory Control_Db_Properties
  imports Control_Db_History
begin

text \<open>
  The properties of the repository, each with a run of the calls that create a tenant, an app and
  a policy and publish the policy.
\<close>

section \<open>A run of the calls\<close>

definition demo_env :: "string \<Rightarrow> string \<Rightarrow> int \<Rightarrow> pg_env" where
  "demo_env i j now = \<lparr>pg_now = now, pg_id = (\<lambda>n. if n = 0 then i else j), pg_uuid = Some, pg_lower = id,
     pg_up = (\<lambda>_. True)\<rparr>"

definition demo_url :: url where
  "demo_url = \<lparr>url_Scheme = ''http'', url_Host = ''shop:8080'', url_Path = [], url_RawQuery = [], url_Fragment = []\<rparr>"

definition demo_calls :: "call list" where
  "demo_calls =
     [NewTenant (demo_env ''t1'' ''x1'' 1) \<lparr>ctr_Name = ''Acme'', ctr_Slug = ''acme'', ctr_Metadata = None\<rparr>,
      NewApp (demo_env ''a1'' ''o1'' 2)
        \<lparr>car_TenantID = ''t1'', car_Name = ''Shop'', car_Slug = ''shop'', car_Hostnames = [''shop.example''],
         car_OriginURL = ''http://shop:8080'', car_Metadata = None\<rparr> demo_url,
      NewPolicy (demo_env ''p1'' ''x3'' 3) ''t1'' ''a1''
        \<lparr>cpr_Name = ''main'', cpr_Mode = ''block'', cpr_Snapshot = None\<rparr>]"

definition demo_tenant :: tenant_row where
  "demo_tenant = \<lparr>tn_ID = ''t1'', tn_Name = ''Acme'', tn_Slug = ''acme'', tn_Status = ''active'',
     tn_Metadata = JObj [], tn_CreatedAt = 1, tn_UpdatedAt = 1, tn_deleted = None\<rparr>"

definition demo_app :: app_row where
  "demo_app = \<lparr>ap_id = ''a1'', ap_tenant = ''t1'', ap_name = ''Shop'', ap_slug = ''shop'',
     ap_hostnames = [''shop.example''], ap_status = ''active'', ap_metadata = JObj [], ap_created = 2,
     ap_updated = 2, ap_deleted = None\<rparr>"

definition demo_origin :: origin_row where
  "demo_origin = \<lparr>og_id = ''o1'', og_tenant = ''t1'', og_app = ''a1'', og_name = ''primary'', og_scheme = ''http'',
     og_host = ''shop'', og_port = 8080, og_enabled = True, og_created = 2, og_updated = 2, og_deleted = None\<rparr>"

definition demo_policy :: policy_row where
  "demo_policy = \<lparr>po_id = ''p1'', po_tenant = ''t1'', po_app = ''a1'', po_name = ''main'', po_mode = ''block'',
     po_active = None, po_enabled = True, po_metadata = JObj [(''snapshot'', JObj [])], po_created = 3,
     po_updated = 3, po_deleted = None\<rparr>"

definition demo_db :: database where
  "demo_db = empty_db\<lparr>tenants := [demo_tenant], apps := [demo_app], origins := [demo_origin], policies := [demo_policy]\<rparr>"

lemmas demo_defs = demo_env_def demo_url_def demo_tenant_def demo_app_def demo_origin_def demo_policy_def empty_db_def

lemma demo_url_parts: "url_hostport demo_url = (''shop'', ''8080'')"
  by (simp add: url_hostport_def demo_url_def last_index_of_def is_digit_def go_eval Let_def)

lemma demo_insertOrigin:
  "insertOrigin ascii_tables (demo_env ''a1'' ''o1'' 2) ''o1'' ''t1'' ''a1'' demo_url db =
     (if \<exists>x \<in> set (origins db). og_app x = ''a1'' \<and> og_name x = ''primary'' then Inl DbFailed
      else Inr (origin_of demo_origin (origin_url_of demo_origin), db\<lparr>origins := origins db @ [demo_origin]\<rparr>))"
proof -
  have "go_ParseInt64 ''8080'' = Some 8080" by (simp add: go_eval)
  moreover have "go_ToLower ascii_tables ''shop'' = ''shop''" by (simp add: go_eval)
  moreover have "url_Scheme demo_url = ''http''" by (simp add: demo_url_def)
  ultimately show ?thesis
    by (simp add: insertOrigin_def origin_port_def url_Port_def url_Hostname_def demo_url_parts demo_origin_def
        demo_env_def Let_def)
qed

lemma demo_steps:
  "run_call ascii_tables f digest (demo_calls ! 0) empty_db = empty_db\<lparr>tenants := [demo_tenant]\<rparr>"
  "run_call ascii_tables f digest (demo_calls ! 1) (empty_db\<lparr>tenants := [demo_tenant]\<rparr>) =
     empty_db\<lparr>tenants := [demo_tenant], apps := [demo_app], origins := [demo_origin]\<rparr>"
  "run_call ascii_tables f digest (demo_calls ! 2)
     (empty_db\<lparr>tenants := [demo_tenant], apps := [demo_app], origins := [demo_origin]\<rparr>) = demo_db"
proof -
  show "run_call ascii_tables f digest (demo_calls ! 0) empty_db = empty_db\<lparr>tenants := [demo_tenant]\<rparr>"
    by (simp add: demo_calls_def demo_defs CreateTenant_def metadata_or_empty_def Let_def)
  have "pg_id (demo_env ''a1'' ''o1'' 2) 1 = ''o1''" "pg_id (demo_env ''a1'' ''o1'' 2) 0 = ''a1''"
    "pg_uuid (demo_env ''a1'' ''o1'' 2) = Some" "pg_up (demo_env ''a1'' ''o1'' 2) = (\<lambda>_. True)"
    "pg_now (demo_env ''a1'' ''o1'' 2) = 2"
    by (simp_all add: demo_env_def)
  then show "run_call ascii_tables f digest (demo_calls ! 1) (empty_db\<lparr>tenants := [demo_tenant]\<rparr>) =
     empty_db\<lparr>tenants := [demo_tenant], apps := [demo_app], origins := [demo_origin]\<rparr>"
    by (simp add: demo_calls_def CreateApp_def demo_insertOrigin demo_tenant_def demo_app_def empty_db_def
        metadata_or_empty_def Let_def)
  show "run_call ascii_tables f digest (demo_calls ! 2)
     (empty_db\<lparr>tenants := [demo_tenant], apps := [demo_app], origins := [demo_origin]\<rparr>) = demo_db"
    by (simp add: demo_calls_def demo_defs demo_db_def CreatePolicy_def GetApp_def GetApp_at_def app_where_def
        metadataWithSnapshot_def defaultRaw_def app_of_def metadata_or_empty_def Let_def)
qed

lemma demo_fresh:
  "fresh_ids (call_env (demo_calls ! 0)) empty_db"
  "fresh_ids (call_env (demo_calls ! 1)) (empty_db\<lparr>tenants := [demo_tenant]\<rparr>)"
  "fresh_ids (call_env (demo_calls ! 2)) (empty_db\<lparr>tenants := [demo_tenant], apps := [demo_app], origins := [demo_origin]\<rparr>)"
  by (simp_all add: demo_calls_def demo_defs fresh_ids_def row_ids_def)

lemma demo_run: "db_run ascii_tables f digest demo_calls empty_db demo_db"
proof -
  have "db_run ascii_tables f digest [demo_calls ! 0] empty_db (empty_db\<lparr>tenants := [demo_tenant]\<rparr>)"
    using db_run.step [OF db_run.start demo_fresh(1), of ascii_tables f digest] unfolding demo_steps by simp
  from db_run.step [OF this demo_fresh(2)]
  have "db_run ascii_tables f digest [demo_calls ! 0, demo_calls ! 1] empty_db
      (empty_db\<lparr>tenants := [demo_tenant], apps := [demo_app], origins := [demo_origin]\<rparr>)"
    unfolding demo_steps by simp
  from db_run.step [OF this demo_fresh(3)]
  have "db_run ascii_tables f digest [demo_calls ! 0, demo_calls ! 1, demo_calls ! 2] empty_db demo_db"
    unfolding demo_steps by simp
  then show ?thesis by (simp add: demo_calls_def)
qed

section \<open>Properties\<close>

text \<open>
  Whatever sequence of calls the control API makes, starting from an empty database, the keys of
  the schema hold, every app, origin, policy, version and deployment belongs to the tenant of the
  row it refers to, every deployed version is the active version of its policy, and every version
  stores a compiled policy that carries the ids of its own row.
\<close>

theorem database_stays_consistent:
  assumes "db_run u fmt_time digest cs empty_db db"
  shows "keys_ok db \<and> refs_ok db \<and> values_ok fmt_time db"
  using db_run_ok [OF assms db_ok_empty] by (simp add: db_ok_def)

theorem database_stays_consistent_example:
  "keys_ok demo_db \<and> refs_ok demo_db \<and> values_ok go_Itoa demo_db"
  using database_stays_consistent [OF demo_run] by blast

text \<open>
  A sequence of calls none of which acts for tenant t leaves every row of tenant t as it was,
  in all tables, whatever ids the calls name.
\<close>

theorem tenants_isolated:
  assumes "db_run u fmt_time digest before empty_db db" "db_run u fmt_time digest cs db db'"
    and "\<forall>c \<in> set cs. call_tenant c \<noteq> Some t"
  shows "view t db' = view t db"
  using db_run_isolated [OF assms(2) db_run_ok [OF assms(1) db_ok_empty]] assms(3) by blast

theorem tenants_isolated_example:
  "view ''t1'' (run_call ascii_tables go_Itoa (\<lambda>_. []) (Publish (demo_env ''v9'' ''x9'' 9) ''t2'' ''p1'') demo_db) =
   view ''t1'' demo_db"
proof -
  let ?c = "Publish (demo_env ''v9'' ''x9'' 9) ''t2'' ''p1''"
  have "fresh_ids (call_env ?c) demo_db" by (simp add: demo_db_def demo_defs fresh_ids_def row_ids_def)
  from db_run.step [OF db_run.start this]
  have "db_run ascii_tables go_Itoa (\<lambda>_. []) [?c] demo_db (run_call ascii_tables go_Itoa (\<lambda>_. []) ?c demo_db)" by simp
  from tenants_isolated [OF demo_run this, of "''t1''"] show ?thesis by (simp add: demo_env_def)
qed

text \<open>
  C14: Two clients that read a policy with the same update time cannot both change it: once an
  update of the policy has succeeded at a later time, an update that still expects the old
  time is refused as a conflict, whatever calls have run in between.
\<close>

theorem stale_update_rejected:
  assumes "db_run u fmt_time digest before empty_db db"
    and "UpdatePolicy env tenantID policyID req db = (Inr p, db1)" "seen < pg_now env"
    and "db_run u fmt_time digest cs db1 db2" "\<forall>c \<in> set cs. seen < pg_now (call_env c)"
    and "pg_uuid env2 tenantID2 = Some (pm_TenantID p)" "pg_uuid env2 policyID2 = Some (pm_ID p)"
    and "upr_ExpectedUpdatedAt req2 = seen" "pg_up env2 0" "pg_up env2 1"
  shows "UpdatePolicy env2 tenantID2 policyID2 req2 db2 = (Inl Conflict, db2)"
proof -
  have ok: "db_ok fmt_time db" by (rule db_run_ok [OF assms(1) db_ok_empty])
  obtain c where c: "c \<in> set (policies db)" "po_deleted c = None"
    "db1 = put_policy (patch_policy env req c) db" "pm_TenantID p = po_tenant c" "pm_ID p = po_id c"
    by (rule UpdatePolicy_cases [OF assms(2)]) (auto simp: policy_of_def)
  have "changed_after seen (pm_TenantID p) (pm_ID p) db1"
    unfolding c by (rule put_policy_changed) (use ok c assms(3) in \<open>auto simp: db_ok_def\<close>)
  moreover have "db_ok fmt_time db1" using UpdatePolicy_ok [OF ok, of env tenantID policyID req] assms(2) by simp
  ultimately have "changed_after seen (pm_TenantID p) (pm_ID p) db2"
    using db_run_changed [OF assms(4)] assms(5) by blast
  from UpdatePolicy_conflict [OF this assms(6-8)] show ?thesis using assms(9,10) by simp
qed

definition demo_update :: update_policy_request where
  "demo_update = \<lparr>upr_Name = None, upr_Mode = Some ''count'', upr_Enabled = None, upr_Snapshot = None,
     upr_ExpectedUpdatedAt = 3\<rparr>"

theorem stale_update_rejected_witness:
  "fst (UpdatePolicy (demo_env ''x'' ''y'' 8) ''t1'' ''p1'' demo_update
     (snd (UpdatePolicy (demo_env ''x'' ''y'' 7) ''t1'' ''p1'' demo_update demo_db))) = Inl Conflict"
proof -
  obtain p where p: "fst (UpdatePolicy (demo_env ''x'' ''y'' 7) ''t1'' ''p1'' demo_update demo_db) = Inr p"
    "pm_TenantID p = ''t1''" "pm_ID p = ''p1''"
    by (simp add: UpdatePolicy_def getPolicyForUpdate_def demo_db_def demo_defs demo_update_def policy_where_def
        patch_policy_def policy_of_def Let_def)
  let ?u = "UpdatePolicy (demo_env ''x'' ''y'' 7) ''t1'' ''p1'' demo_update demo_db"
  have "?u = (Inr p, snd ?u)" using p(1) by (simp add: prod_eq_iff)
  from stale_update_rejected [OF demo_run this _ db_run.start, of 3 "demo_env ''x'' ''y'' 8" "''t1''" "''p1''" demo_update]
  show ?thesis using p by (simp add: demo_env_def demo_update_def)
qed





text \<open>
  C20: The origin of an app cannot be changed: an update that carries an origin URL always fails,
  because the key on app and origin name also counts the rows that the update has just marked
  deleted.
\<close>

theorem origin_update_always_fails:
  assumes "db_run u fmt_time digest cs empty_db db"
  shows "\<exists>e. UpdateApp u env tenantID appID req (Some originURL) db = (Inl e, db)"
  by (rule UpdateApp_origin_fails [OF db_run_primary [OF assms]]) (simp add: apps_have_primary_def empty_db_def)

theorem origin_update_always_fails_witness:
  "\<exists>e. UpdateApp ascii_tables (demo_env ''o2'' ''x'' 9) ''t1'' ''a1''
     \<lparr>uar_Name = None, uar_Hostnames = [], uar_OriginURL = Some ''http://shop:8080'', uar_Status = None,
      uar_Metadata = None\<rparr> (Some demo_url) demo_db = (Inl e, demo_db)"
  by (rule origin_update_always_fails [OF demo_run])

end
