(* ===== verification/Control_Server_Properties.thy ===== *)
theory Control_Server_Properties
  imports Control_Server_Facts Control_Db_Properties
begin

text \<open>
  The properties of the control API as a whole, over sequences of HTTP requests: who may change or
  see what, that tenants stay apart, and that the stored data stays consistent and validated.
\<close>

section \<open>Sequences of requests\<close>

text \<open>
  Requests served one after the other from a state. The tables of case and time are the same
  throughout, and the database generates fresh identifiers.
\<close>

inductive api_run ::
  "unicode \<Rightarrow> (int \<Rightarrow> string) \<Rightarrow> (json \<Rightarrow> string) \<Rightarrow> api_server \<Rightarrow> ('w api_env \<times> api_request) list
   \<Rightarrow> 'w api_state \<Rightarrow> 'w api_state \<Rightarrow> bool"
  for u fmt_time digest s where
  start: "api_run u fmt_time digest s [] st st"
| step: "api_run u fmt_time digest s rs st st' \<Longrightarrow> ae_unicode e = u \<Longrightarrow> ae_fmt_time e = fmt_time \<Longrightarrow>
    ae_digest e = digest \<Longrightarrow> (\<And>k. fresh_ids (ae_pg e k) (ws_db st')) \<Longrightarrow>
    api_run u fmt_time digest s (rs @ [(e, r)]) st (snd (Routes e s r st'))"

definition acts_for :: "call \<Rightarrow> 'w api_env \<times> api_request \<Rightarrow> bool" where
  "acts_for c er \<longleftrightarrow> (\<exists>k. call_tenant c = pg_uuid (ae_pg (fst er) k) (request_tenant (snd er)))"

lemma api_run_calls:
  "api_run u f digest s rs st st' \<Longrightarrow>
   \<exists>cs. db_run u f digest cs (ws_db st) (ws_db st') \<and> (\<forall>c \<in> set cs. call_tenant c = None \<or> (\<exists>er \<in> set rs. acts_for c er))"
proof (induction rule: api_run.induct)
  case (step rs st st' e r)
  then obtain cs where cs: "db_run u f digest cs (ws_db st) (ws_db st')"
    "\<forall>c \<in> set cs. call_tenant c = None \<or> (\<exists>er \<in> set rs. acts_for c er)" by blast
  have "call_law e (request_tenant r) st' (snd (Routes e s r st'))" by (rule calls.Routes_law)
  then consider (same) "ws_db (snd (Routes e s r st')) = ws_db st'"
    | (call) c k where "ws_db (snd (Routes e s r st')) = run_call u f digest c (ws_db st')" "call_env c = ae_pg e k"
      "call_tenant c = None \<or> call_tenant c = pg_uuid (ae_pg e k) (request_tenant r)"
    unfolding call_law_def using step.hyps by metis
  then show ?case
  proof cases
    case same
    then show ?thesis using cs by auto
  next
    case call
    have "fresh_ids (call_env c) (ws_db st')" using step.hyps(5) [of k] call(2) by simp
    from db_run.step [OF cs(1) this]
    have "db_run u f digest (cs @ [c]) (ws_db st) (ws_db (snd (Routes e s r st')))" using call(1) by simp
    moreover have "call_tenant c = None \<or> acts_for c (e, r)" using call(3) by (auto simp: acts_for_def)
    ultimately show ?thesis using cs(2) by (intro exI [of _ "cs @ [c]"]) auto
  qed
qed (auto intro: db_run.start)


section \<open>What a response reveals\<close>

fun public_reply :: "reply option \<Rightarrow> bool" where
  "public_reply None = True"
| "public_reply (Some (ErrorReply code m i)) = True"
| "public_reply (Some (StatusReply status)) = True"
| "public_reply (Some MetricsReply) = True"
| "public_reply (Some _) = False"

lemma public_errors [simp]:
  "public_reply (rp_Body (writeError cx h n c m))" "public_reply (rp_Body (internalError cx h))"
  "public_reply (rp_Body (badRequest cx h m))" "public_reply (rp_Body (handleReadError cx h err))"
  by (simp_all add: writeError_def writeJSON_def internalError_def badRequest_def handleReadError_def split: db_error.split)

lemma gateway_reply:
  "public_reply (rp_Body (fst (getGatewayPolicy e i cx r h st))) \<or>
   (\<exists>p. rp_Body (fst (getGatewayPolicy e i cx r h st)) = Some (GatewayPolicyReply p))"
  by (auto simp: getGatewayPolicy_def writeJSON_def Let_def split: option.split sum.split)

definition harmless :: "api_server \<Rightarrow> api_request \<Rightarrow> 'w api_state \<Rightarrow> api_response \<times> 'w api_state \<Rightarrow> bool" where
  "harmless s r st out \<longleftrightarrow> snd out = st \<and>
     (public_reply (rp_Body (fst out)) \<or>
      Authorized (as_gatewayAuth s) (rq_Header r) \<and> (\<exists>p. rp_Body (fst out) = Some (GatewayPolicyReply p)))"

lemma endpoint_without_admin:
  assumes "\<not> Authorized (as_adminAuth s) (rq_Header r)"
  shows "harmless s r st (endpoint_handler e s ep vs cx r h st)"
proof -
  have guarded: "adminGlobal s f cx r h st = (writeError cx h 401 ''unauthorized'' (Text ''missing or invalid bearer token''), st)"
    "adminTenant s f cx r h st = (writeError cx h 401 ''unauthorized'' (Text ''missing or invalid bearer token''), st)" for f
    using assms by (simp_all add: adminGlobal_def adminTenant_def requireAuth_def)
  show ?thesis
  proof (cases ep)
    case RGatewayPolicy
    then show ?thesis using gateway_reply [of e "vs ! 0" cx r h st]
      by (auto simp: harmless_def endpoint_handler_def requireGatewayAuth_def)
  next
    case RReadyz
    then show ?thesis by (simp add: harmless_def endpoint_handler_def readyz_def writeJSON_def split: sum.split)
  qed (simp_all add: harmless_def endpoint_handler_def guarded healthz_def writeJSON_def)
qed

lemma mux_without_admin:
  assumes "\<not> Authorized (as_adminAuth s) (rq_Header r)"
  shows "harmless s r st (mux e s cx r h st)"
proof (cases "find_route routes (rq_Method r) (rq_Segments r)")
  case (Some found)
  then show ?thesis using endpoint_without_admin [OF assms] by (cases found) (simp add: mux_def)
qed (simp add: mux_def harmless_def)

abbreviation limited_mux :: "'w api_env \<Rightarrow> api_server \<Rightarrow> 'w handler" where
  "limited_mux e s \<equiv> requestSizeLimitMiddleware (as_requestBodyLimitBytes s) (mux e s)"

lemma harmless_body [simp]: "harmless s (r\<lparr>rq_Body := b\<rparr>) st out = harmless s r st out"
  by (simp add: harmless_def)

lemma limited_without_admin:
  assumes "\<not> Authorized (as_adminAuth s) (rq_Header r)"
  shows "harmless s r st (limited_mux e s cx r h st)"
proof -
  have "harmless s r st (mux e s cx (r\<lparr>rq_Body := b\<rparr>) h st)" for b
    using mux_without_admin [of s "r\<lparr>rq_Body := b\<rparr>" st e cx h] assms by simp
  then show ?thesis using mux_without_admin [OF assms, of st e cx h] by (simp add: requestSizeLimitMiddleware_def)
qed

lemma cors_without_admin:
  assumes "\<not> Authorized (as_adminAuth s) (rq_Header r)"
  shows "harmless s r st (corsMiddleware s (secureHeaders (limited_mux e s)) cx r h st)"
proof (cases "rq_Method r = ''OPTIONS''")
  case True
  then show ?thesis by (simp add: corsMiddleware_def harmless_def Let_def)
next
  case False
  then show ?thesis using assms by (simp add: corsMiddleware_def secureHeaders_def limited_without_admin Let_def)
qed

lemma Routes_without_admin:
  assumes "\<not> Authorized (as_adminAuth s) (rq_Header r)"
  shows "ws_db (snd (Routes e s r st)) = ws_db st \<and> ws_world (snd (Routes e s r st)) = ws_world st \<and>
    (public_reply (rp_Body (fst (Routes e s r st))) \<or>
     Authorized (as_gatewayAuth s) (rq_Header r) \<and> (\<exists>p. rp_Body (fst (Routes e s r st)) = Some (GatewayPolicyReply p)))"
proof -
  obtain cx h where R: "Routes e s r st = loggingMiddleware e (corsMiddleware s (secureHeaders (limited_mux e s))) cx r h st"
    by (simp add: Routes_def requestIDMiddleware_def Let_def)
  obtain resp st' where c: "corsMiddleware s (secureHeaders (limited_mux e s)) cx r h st = (resp, st')" by (metis surj_pair)
  show ?thesis using cors_without_admin [OF assms, of st e cx h] c
    by (simp add: R loggingMiddleware_def harmless_def)
qed

section \<open>A server and two requests\<close>

definition demo_server :: api_server where
  "demo_server = NewServer (NewStaticBearer ''admin'') (NewStaticBearer ''edge'')"

definition demo_api :: "unit api_env" where
  "demo_api = \<lparr>ae_unicode = ascii_tables, ae_pg = (\<lambda>_. demo_env ''t1'' ''x1'' 1), ae_collate = length,
     ae_first_value = (\<lambda>_ body. Some (JObj [(''name'', JStr body), (''slug'', JStr body)], [])),
     ae_parse_time = go_ParseInt64, ae_parse_rfc3339 = go_ParseInt64, ae_fmt_time = go_Itoa, ae_digest = (\<lambda>_. []),
     ae_url = (\<lambda>_. Some demo_url), ae_rand = Some ''r1'', ae_now_text = [],
     ae_store_env = \<lparr>sv_unicode = ascii_tables, sv_parse_time = go_ParseInt64, sv_fmt_nano = go_Itoa,
       sv_parse_json = (\<lambda>_. None), sv_http = (\<lambda>_ w. (None, w))\<rparr>,
     ae_store = \<lparr>hs_endpoint = [], hs_database = [], hs_username = [], hs_password = []\<rparr>,
     ae_visit_rules = id, ae_visit_paths = id, ae_elapsed = 1\<rparr>"

definition demo_post :: "values_map \<Rightarrow> api_request" where
  "demo_post h = \<lparr>rq_Method = ''POST'', rq_Path = ''/v1/tenants'', rq_RawQuery = [], rq_Query = [], rq_RequestURI = ''/v1/tenants'',
     rq_Proto = ''HTTP/1.1'', rq_Host = ''control'', rq_Header = h, rq_RemoteAddr = [], rq_TLS = False,
     rq_Body = Some \<lparr>body_data = ''acme'', body_err = False, body_close_err = False\<rparr>, rq_Segments = [''v1'', ''tenants'']\<rparr>"

definition demo_state :: "unit api_state" where
  "demo_state = \<lparr>ws_db = empty_db, ws_world = (),
     ws_metrics = \<lparr>cm_requestsTotal = (\<lambda>_. 0), cm_requestDuration = [], cm_errorsTotal = (\<lambda>_. 0)\<rparr>\<rparr>"

lemma demo_api_run:
  "api_run ascii_tables go_Itoa (\<lambda>_. []) demo_server [(demo_api, demo_post h)] demo_state
     (snd (Routes demo_api demo_server (demo_post h) demo_state))"
proof -
  have "fresh_ids (ae_pg demo_api k) (ws_db demo_state)" for k
    by (simp add: demo_api_def demo_state_def demo_env_def fresh_ids_def row_ids_def empty_db_def)
  then have "api_run ascii_tables go_Itoa (\<lambda>_. []) demo_server ([] @ [(demo_api, demo_post h)]) demo_state
     (snd (Routes demo_api demo_server (demo_post h) demo_state))"
    by (intro api_run.step api_run.start) (simp_all add: demo_api_def)
  then show ?thesis by simp
qed

section \<open>Properties\<close>

text \<open>
  C9: A request without the administrator's token changes nothing in the database and asks the
  event store nothing; its response carries only a status, metrics or an error, or, when the
  request has the gateways' token, the policy deployed for a host name.
\<close>

theorem no_admin_token_no_effect:
  assumes "\<not> Authorized (as_adminAuth s) (rq_Header r)" "Routes e s r st = (resp, st')"
  shows "ws_db st' = ws_db st \<and> ws_world st' = ws_world st \<and>
    (public_reply (rp_Body resp) \<or>
     Authorized (as_gatewayAuth s) (rq_Header r) \<and> (\<exists>p. rp_Body resp = Some (GatewayPolicyReply p)))"
  using Routes_without_admin [OF assms(1), of e st] assms(2) by simp

theorem no_admin_token_no_effect_witness:
  "ws_db (snd (Routes demo_api demo_server (demo_post []) demo_state)) = empty_db"
proof -
  have "\<not> Authorized (as_adminAuth demo_server) (rq_Header (demo_post []))"
    by (simp add: demo_server_def NewServer_def ConfigureSecurity_def NewStaticBearer_def Authorized_def demo_post_def go_eval Let_def)
  from no_admin_token_no_effect [OF this surjective_pairing, of demo_api demo_state]
  have "ws_db (snd (Routes demo_api demo_server (demo_post []) demo_state)) = ws_db demo_state" by blast
  then show ?thesis by (simp only: demo_state_def api_state.simps)
qed

text \<open>
  C10: However many requests the control API serves, those that do not name tenant t as their tenant
  leave every app, origin, policy, version and deployment of tenant t as it was.
\<close>

theorem requests_keep_tenants_apart:
  assumes "api_run u fmt_time digest s before st0 st" "ws_db st0 = empty_db"
    and "api_run u fmt_time digest s rs st st'"
    and "\<forall>(e, r) \<in> set rs. \<forall>k. pg_uuid (ae_pg e k) (request_tenant r) \<noteq> Some t"
  shows "view t (ws_db st') = view t (ws_db st)"
proof -
  obtain cs where "db_run u fmt_time digest cs empty_db (ws_db st)" using api_run_calls [OF assms(1)] assms(2) by auto
  then have ok: "db_ok fmt_time (ws_db st)" using db_run_ok db_ok_empty by blast
  obtain cs' where cs': "db_run u fmt_time digest cs' (ws_db st) (ws_db st')"
    "\<forall>c \<in> set cs'. call_tenant c = None \<or> (\<exists>er \<in> set rs. acts_for c er)"
    using api_run_calls [OF assms(3)] by blast
  have "call_tenant c \<noteq> Some t" if "c \<in> set cs'" for c
    using cs'(2) that assms(4) by (fastforce simp: acts_for_def)
  then show ?thesis by (rule db_run_isolated [OF cs'(1) ok])
qed

theorem requests_keep_tenants_apart_witness:
  "view ''t9'' (ws_db (snd (Routes demo_api demo_server (demo_post [(''Authorization'', [''Bearer admin''])]) demo_state))) =
   view ''t9'' empty_db"
proof -
  let ?h = "[(''Authorization'', [''Bearer admin''])]"
  have "go_CanonicalHeaderKey ''X-Bedem-Tenant-ID'' = ''X-Bedem-Tenant-Id''" by code_simp
  then have "request_tenant (demo_post ?h) = []"
    by (simp add: request_tenant_def demo_post_def header_Get_def values_of_def query_Get_def)
  moreover have "pg_uuid (ae_pg demo_api k) = Some" for k by (simp add: demo_api_def demo_env_def)
  ultimately have "\<forall>(e, r) \<in> set [(demo_api, demo_post ?h)]. \<forall>k. pg_uuid (ae_pg e k) (request_tenant r) \<noteq> Some ''t9''"
    by simp
  from requests_keep_tenants_apart [OF api_run.start _ demo_api_run this]
  show ?thesis by (simp add: demo_state_def)
qed



end
