(* ===== verification/Control_Process.thy ===== *)
theory Control_Process
  imports Control_Server Service_Lifecycle "HOL-Library.Multiset"
begin

text \<open>
  The control API as a process (\<open>cmd/control-api/main.go\<close>): it serves requests until a signal
  arrives and exits once the requests it has taken are answered. A request takes effect when it is
  answered; the requests that run at the same time are answered in any order.
\<close>

record 'w control_process =
  cp_running :: "('w api_env \<times> api_request) list"
  cp_state :: "'w api_state"
  cp_taken :: "api_request list"
  cp_answered :: "(api_request \<times> api_response) list"

definition control_accept :: "'w control_process \<Rightarrow> 'w control_process \<Rightarrow> bool" where
  "control_accept p q \<longleftrightarrow>
     (\<exists>e r. q = p\<lparr>cp_running := cp_running p @ [(e, r)], cp_taken := cp_taken p @ [r]\<rparr>)"

inductive control_work :: "api_server \<Rightarrow> 'w control_process \<Rightarrow> 'w control_process \<Rightarrow> bool" for s where
  answer: "cp_running p = xs @ (e, r) # ys \<Longrightarrow> Routes e s r (cp_state p) = (resp, st') \<Longrightarrow>
    control_work s p (p\<lparr>cp_running := xs @ ys, cp_state := st', cp_answered := cp_answered p @ [(r, resp)]\<rparr>)"

inductive_cases control_workE: "control_work s p q"

text \<open>After the server has shut down there is nothing to flush.\<close>

definition control_service :: "api_server \<Rightarrow> 'w control_process service" where
  "control_service s =
     \<lparr>sv_accept = control_accept, sv_work = control_work s, sv_idle = (\<lambda>p. cp_running p = []),
      sv_close = None, sv_flushed = (\<lambda>_. True)\<rparr>"

text \<open>\<open>main\<close> with the flag \<open>version\<close>, with a start-up that fails, and with one that succeeds.\<close>

definition control_process_main ::
  "bool \<Rightarrow> start_error + api_server \<times> http_store \<Rightarrow> 'w api_state \<Rightarrow> phase \<times> (api_server \<times> 'w control_process) option" where
  "control_process_main showVersion start st =
     (if showVersion then (Exited 0, None)
      else case start of
             Inl _ \<Rightarrow> (Exited 1, None)
           | Inr (server, _) \<Rightarrow>
               (Serving, Some (server, \<lparr>cp_running = [], cp_state = st, cp_taken = [], cp_answered = []\<rparr>)))"

section \<open>Shutdown\<close>

definition requests_kept :: "'w control_process \<Rightarrow> bool" where
  "requests_kept p \<longleftrightarrow> mset (cp_taken p) = mset (map snd (cp_running p)) + mset (map fst (cp_answered p))"

lemma control_service_simps [simp]:
  "sv_accept (control_service s) = control_accept" "sv_work (control_service s) = control_work s"
  "sv_idle (control_service s) p \<longleftrightarrow> cp_running p = []" "sv_close (control_service s) = None"
  "sv_flushed (control_service s) p"
  by (simp_all add: control_service_def)

lemma control_progress:
  assumes "cp_running p \<noteq> []"
  shows "\<exists>q. control_work s p q \<and> length (cp_running q) < length (cp_running p)"
proof -
  obtain e r ys where p: "cp_running p = [] @ (e, r) # ys" using assms by (cases "cp_running p") auto
  obtain resp st' where "Routes e s r (cp_state p) = (resp, st')" by (metis surj_pair)
  from control_work.answer [OF p this] show ?thesis using p by fastforce
qed

interpretation control: graceful_service "control_service s" requests_kept "\<lambda>_. False" "\<lambda>p. length (cp_running p)"
  for s :: api_server
proof
  fix p q :: "'w control_process"
  show "requests_kept p \<Longrightarrow> sv_accept (control_service s) p q \<Longrightarrow> requests_kept q \<and> \<not> False"
    by (auto simp: control_accept_def requests_kept_def)
  show "requests_kept p \<Longrightarrow> sv_work (control_service s) p q \<Longrightarrow> requests_kept q"
    by (auto simp: requests_kept_def elim!: control_workE)
  show "sv_idle (control_service s) p \<Longrightarrow> sv_work (control_service s) p q \<Longrightarrow> sv_idle (control_service s) q"
    by (auto elim!: control_workE)
  show "\<not> sv_idle (control_service s) p \<Longrightarrow> \<exists>q. sv_work (control_service s) p q \<and> length (cp_running q) < length (cp_running p)"
    using control_progress by simp
qed simp_all

text \<open>
  A control API process that exits with status 0 has answered every request it took, and it can
  exit like that from every state in which it serves.
\<close>

theorem control_exit_answers_requests:
  assumes "control_process_main False start st = (Serving, Some (s, p0))"
    and "process_run (control_service s) (Serving, p0) (ph, p)"
  shows "(ph = Exited 0 \<longrightarrow> mset (map fst (cp_answered p)) = mset (cp_taken p)) \<and>
    (ph \<in> {Serving, Draining} \<longrightarrow> (\<exists>q. process_run (control_service s) (ph, p) (Exited 0, q)))"
proof -
  have "requests_kept p0" using assms(1) by (auto simp: control_process_main_def requests_kept_def split: sum.splits)
  then have inv: "control.phase_inv s (ph, p)"
    using control.phase_inv_run [OF assms(2)] by (simp add: control.phase_inv_def)
  then have P: "requests_kept p" by (simp add: control.phase_inv_def)
  have "mset (map fst (cp_answered p)) = mset (cp_taken p)" if "ph = Exited 0"
    using inv that P by (simp add: control.phase_inv_def requests_kept_def)
  then show ?thesis using control.can_stop [OF P, of ph s] by blast
qed

end
