(* ===== verification/Control_Events_Facts.thy ===== *)
theory Control_Events_Facts
  imports Control_Events "HOL-Library.Multiset"
begin

text \<open>
  Facts about the event search and the simulation summary: no filter value reaches the text of a
  query, and the summary equals a definition that counts over the list of events directly,
  whatever order Go visits its maps in.
\<close>

section \<open>The summary of the events of one rule\<close>

definition would_block_of :: "stored_event list \<Rightarrow> string \<Rightarrow> stored_event list" where
  "would_block_of input i = filter (\<lambda>e. se_WouldBlock e \<and> summary_rule_id e = i) input"

definition path_count :: "stored_event list \<Rightarrow> string \<Rightarrow> int" where
  "path_count es p = int (length (filter (\<lambda>e. se_Path e = p) es))"

definition rule_report :: "stored_event list \<Rightarrow> string \<Rightarrow> simulation_rule_summary" where
  "rule_report input i =
     (let es = would_block_of input i in
      \<lparr>ss_RuleID = i, ss_RuleName = se_MatchedRuleName (hd es), ss_WouldBlockCount = int (length es),
       ss_UniqueIPs = int (card (se_ClientIP ` set es - {[]})),
       ss_TopPaths = take 5 (sort_key (\<lambda>p. (- path_count es p, p)) (remdups (filter (\<lambda>p. p \<noteq> []) (map se_Path es)))),
       ss_SampleRequestIDs = take 5 (filter (\<lambda>r. r \<noteq> []) (map se_RequestID es))\<rparr>)"

definition simulation_report :: "stored_event list \<Rightarrow> simulation_rule_summary list" where
  "simulation_report input =
     sort_key (\<lambda>s. (- ss_WouldBlockCount s, ss_RuleID s))
       (map (rule_report input) (remdups (map summary_rule_id (filter se_WouldBlock input))))"

section \<open>Accumulators\<close>

definition acc_of :: "stored_event list \<Rightarrow> accumulator" where
  "acc_of es = fold accumulate es (new_accumulator (hd es))"

lemma acc_of_snoc: "acc_of (es @ [e]) = accumulate e (if es = [] then new_accumulator e else acc_of es)"
  by (simp add: acc_of_def)

lemma acc_of_single: "acc_of [e] = accumulate e (new_accumulator e)"
  by (simp add: acc_of_def)

lemma would_block_snoc:
  "would_block_of (es @ [e]) i =
     (if se_WouldBlock e \<and> summary_rule_id e = i then would_block_of es i @ [e] else would_block_of es i)"
  by (simp add: would_block_of_def)

lemma summary_fold:
  "distinct (map fst (fold summary_step es [])) \<and>
   (\<forall>i. map_of (fold summary_step es []) i =
      (if would_block_of es i = [] then None else Some (acc_of (would_block_of es i))))"
proof (induction es rule: rev_induct)
  case Nil
  then show ?case by (simp add: would_block_of_def)
next
  case (snoc e es)
  then show ?case
    by (auto simp: summary_step_def would_block_snoc acc_of_snoc acc_of_single Let_def update_conv distinct_update)
qed

lemma acc_ruleName: "es \<noteq> [] \<Longrightarrow> ac_ruleName (acc_of es) = se_MatchedRuleName (hd es)"
proof (induction es rule: rev_induct)
  case (snoc e es)
  then show ?case by (cases es) (auto simp: acc_of_snoc accumulate_def new_accumulator_def acc_of_def)
qed simp

lemma acc_count: "es \<noteq> [] \<Longrightarrow> ac_count (acc_of es) = int (length es)"
proof (induction es rule: rev_induct)
  case (snoc e es)
  then show ?case by (auto simp: acc_of_snoc acc_of_single accumulate_def new_accumulator_def)
qed simp

lemma acc_ips: "es \<noteq> [] \<Longrightarrow> distinct (ac_ips (acc_of es)) \<and> set (ac_ips (acc_of es)) = se_ClientIP ` set es - {[]}"
proof (induction es rule: rev_induct)
  case (snoc e es)
  then show ?case
    by (cases "es = []") (auto simp: acc_of_snoc acc_of_single accumulate_def new_accumulator_def)
qed simp

lemma acc_samples: "es \<noteq> [] \<Longrightarrow> ac_samples (acc_of es) = take 5 (filter (\<lambda>r. r \<noteq> []) (map se_RequestID es))"
proof (induction es rule: rev_induct)
  case (snoc e es)
  then show ?case
    by (cases "es = []") (auto simp: acc_of_snoc acc_of_single accumulate_def new_accumulator_def min_def)
qed simp

lemma acc_paths:
  "es \<noteq> [] \<Longrightarrow> distinct (map fst (ac_paths (acc_of es))) \<and>
   (\<forall>p. map_of (ac_paths (acc_of es)) p = (if p = [] \<or> p \<notin> se_Path ` set es then None else Some (path_count es p)))"
proof (induction es rule: rev_induct)
  case (snoc e es)
  have zero: "path_count es p = 0" if "p \<notin> se_Path ` set es" for p
    using that by (force simp: path_count_def filter_empty_conv)
  show ?case
  proof (cases "es = []")
    case True
    then show ?thesis
      by (auto simp: acc_of_single accumulate_def new_accumulator_def count_path_def path_count_def)
  next
    case False
    then show ?thesis using snoc zero
      by (auto simp: acc_of_snoc accumulate_def count_path_def path_count_def update_conv distinct_update)
  qed
qed simp

section \<open>Orders of visiting a map do not matter\<close>

lemma top_paths_report:
  assumes "es \<noteq> []" and visit: "mset (visit (ac_paths (acc_of es))) = mset (ac_paths (acc_of es))"
  shows "topPaths visit (ac_paths (acc_of es)) n =
    take n (sort_key (\<lambda>p. (- path_count es p, p)) (remdups (filter (\<lambda>p. p \<noteq> []) (map se_Path es))))"
proof -
  let ?ps = "ac_paths (acc_of es)" and ?K = "\<lambda>(path, count). (- count :: int, path :: string)"
  let ?s = "sort_key ?K (visit ?ps)" and ?k = "\<lambda>p. (- path_count es p, p)"
  note paths = acc_paths [OF assms(1)]
  have cnt: "c = path_count es p \<and> p \<noteq> [] \<and> p \<in> se_Path ` set es" if "(p, c) \<in> set ?ps" for p c
    using paths that by (metis map_of_eq_Some_iff option.distinct(1) option.inject)
  have set: "fst ` set ?ps = se_Path ` set es - {[]}"
    using paths by (auto simp: dom_map_of_conv_image_fst [symmetric] dom_def split: if_splits)
  have ms: "mset ?s = mset ?ps" using visit by simp
  then have sset: "set ?s = set ?ps" by (metis set_mset_mset)
  have "mset (map fst ?s) = mset (map fst ?ps)" using ms by (metis mset_map)
  also have "mset (map fst ?ps) = mset (remdups (filter (\<lambda>p. p \<noteq> []) (map se_Path es)))"
    using paths set by (subst set_eq_iff_mset_eq_distinct [symmetric]) auto
  finally have ms': "mset (remdups (filter (\<lambda>p. p \<noteq> []) (map se_Path es))) = mset (map fst ?s)" by (rule sym)
  have "map ?k (map fst ?s) = map ?K ?s" using cnt sset by auto
  then have sorted: "sorted (map ?k (map fst ?s))" by (simp only: sorted_sort_key)
  have "inj_on ?k X" for X by (simp add: inj_on_def)
  from sort_key_inj_key_eq [OF ms' this sorted]
  have "sort_key ?k (remdups (filter (\<lambda>p. p \<noteq> []) (map se_Path es))) = map fst ?s" .
  then show ?thesis by (simp add: topPaths_def take_map)
qed

lemma summary_report:
  assumes "would_block_of input i \<noteq> []" "\<And>ps. mset (visit ps) = mset ps"
  shows "summary_of visit (i, acc_of (would_block_of input i)) = rule_report input i"
  using assms acc_ips [OF assms(1)]
  by (simp add: summary_of_def rule_report_def acc_ruleName acc_count acc_samples top_paths_report
      distinct_card [symmetric] Let_def)

lemma summary_equals_report:
  assumes "\<And>rs. mset (visit_rules rs) = mset rs" "\<And>ps. mset (visit_paths ps) = mset ps"
  shows "BuildSimulationSummary visit_rules visit_paths input = simulation_report input"
proof -
  let ?rs = "fold summary_step input []" and ?ids = "remdups (map summary_rule_id (filter se_WouldBlock input))"
  let ?K = "\<lambda>s. (- ss_WouldBlockCount s, ss_RuleID s)"
  note inv = summary_fold [of input]
  have ids: "set (map fst ?rs) = set ?ids"
    using inv by (auto simp: dom_map_of_conv_image_fst [symmetric] dom_def would_block_of_def filter_empty_conv split: if_splits)
  have "map (summary_of visit_paths) ?rs = map (rule_report input) (map fst ?rs)"
  proof -
    have "summary_of visit_paths (i, a) = rule_report input i" if "(i, a) \<in> set ?rs" for i a
      using inv that summary_report [of input i visit_paths] assms(2)
      by (metis map_of_eq_Some_iff option.distinct(1) option.inject)
    then show ?thesis by auto
  qed
  then have "mset (map (summary_of visit_paths) (visit_rules ?rs)) = mset (map (rule_report input) (map fst ?rs))"
    using assms(1) [of ?rs] by (metis mset_map)
  also have "\<dots> = mset (map (rule_report input) ?ids)"
    using inv ids by (metis distinct_remdups mset_map set_eq_iff_mset_eq_distinct)
  finally have ms: "mset (map (summary_of visit_paths) (visit_rules ?rs)) = mset (map (rule_report input) ?ids)" .
  moreover have "inj_on ?K (set (map (summary_of visit_paths) (visit_rules ?rs)))"
  proof -
    have "set (map (summary_of visit_paths) (visit_rules ?rs)) = rule_report input ` set ?ids"
      using ms by (metis set_map set_mset_mset)
    then show ?thesis by (auto simp: inj_on_def rule_report_def Let_def)
  qed
  ultimately have "sort_key ?K (map (summary_of visit_paths) (visit_rules ?rs)) =
      sort_key ?K (map (rule_report input) ?ids)"
    by (intro sort_key_inj_key_eq) simp_all
  then show ?thesis by (simp add: BuildSimulationSummary_def simulation_report_def)
qed

section \<open>The text of a query\<close>

text \<open>Which filters are in use, and the clauses they stand for.\<close>

definition filters_used :: "search_filters \<Rightarrow> bool list" where
  "filters_used f =
     map (\<lambda>s. go_TrimSpace s \<noteq> []) [sf_TenantID f, sf_AppID f, sf_PolicyID f, sf_Host f, sf_Action f, sf_ClientIP f, sf_MatchedRuleID f] @
     [sf_From f \<noteq> zero_time, sf_To f \<noteq> zero_time]"

definition fixed_clauses :: "string list" where
  "fixed_clauses =
     map (\<lambda>n. n @ '' = {'' @ n @ '':String}'')
       [''tenant_id'', ''app_id'', ''policy_id'', ''host'', ''action'', ''client_ip'', ''matched_rule_id''] @
     [''timestamp >= parseDateTime64BestEffort({from:String}, 3)'',
      ''timestamp <= parseDateTime64BestEffort({to:String}, 3)'']"

definition clause_if :: "bool \<Rightarrow> string \<Rightarrow> string list" where
  "clause_if b c = (if b then [c] else [])"

lemma fst_addStringFilter:
  "fst (addStringFilter n v parts) = fst parts @ clause_if (go_TrimSpace v \<noteq> []) (n @ '' = {'' @ n @ '':String}'')"
  by (simp add: addStringFilter_def clause_if_def Let_def split: prod.splits)

lemma fst_addTimeFilter:
  "fst (addTimeFilter fmt op n t parts) = fst parts @
     clause_if (t \<noteq> zero_time) (''timestamp '' @ op @ '' parseDateTime64BestEffort({'' @ n @ '':String}, 3)'')"
  by (simp add: addTimeFilter_def clause_if_def Let_def split: prod.splits)

lemma chosen_clauses: "map fst (filter snd (zip (c # cs) (b # bs))) = clause_if b c @ map fst (filter snd (zip cs bs))"
  by (simp add: clause_if_def)

lemma search_clauses:
  "fst (search_parts fmt f) = ''1 = 1'' # map fst (filter snd (zip fixed_clauses (filters_used f)))"
  unfolding search_parts_def fixed_clauses_def filters_used_def list.map append.simps chosen_clauses
  by (simp add: fst_addStringFilter fst_addTimeFilter)

lemma snd_addStringFilter:
  "map_of (snd (addStringFilter n v parts)) =
     (if go_TrimSpace v \<noteq> [] then (map_of (snd parts))(n \<mapsto> go_TrimSpace v) else map_of (snd parts))"
  by (simp add: addStringFilter_def Let_def update_conv' split: prod.splits)

lemma snd_addTimeFilter:
  "map_of (snd (addTimeFilter fmt op n t parts)) =
     (if t \<noteq> zero_time then (map_of (snd parts))(n \<mapsto> fmt t) else map_of (snd parts))"
  by (simp add: addTimeFilter_def Let_def update_conv' split: prod.splits)

lemma search_params:
  "map_of (snd (search_parts fmt f)) ''limit'' = Some (go_Itoa (sf_Limit f))"
  "map_of (snd (search_parts fmt f)) ''tenant_id'' =
     (if go_TrimSpace (sf_TenantID f) = [] then None else Some (go_TrimSpace (sf_TenantID f)))"
  by (simp_all add: search_parts_def snd_addStringFilter snd_addTimeFilter)

lemma BuildSearchQuery_Inr:
  assumes "BuildSearchQuery fmt f = Inr (q, ps)"
  obtains n where "1 \<le> n" "n \<le> 1000" "map_of ps ''limit'' = Some (go_Itoa n)"
    "q = search_text (''1 = 1'' # map fst (filter snd (zip fixed_clauses (filters_used f))))"
    "map_of ps ''tenant_id'' = (if go_TrimSpace (sf_TenantID f) = [] then None else Some (go_TrimSpace (sf_TenantID f)))"
proof -
  let ?f = "if sf_Limit f = 0 then f\<lparr>sf_Limit := DefaultLimit\<rparr> else f"
  have b: "1 \<le> sf_Limit ?f" "sf_Limit ?f \<le> 1000" and p: "(q, ps) = (search_text (fst (search_parts fmt ?f)), snd (search_parts fmt ?f))"
    using assms by (auto simp: BuildSearchQuery_def MaxLimit_def Let_def split: if_splits prod.splits)
  have used: "filters_used ?f = filters_used f" by (simp add: filters_used_def)
  show thesis
    by (rule that [OF b]) (use p search_params [of fmt ?f] in \<open>auto simp: search_clauses used\<close>)
qed

section \<open>Properties\<close>

text \<open>
  C16: No value of a filter reaches the text of a search query: the text is put together from the
  fixed clauses of the filters in use, so two searches that use the same filters send the same
  text, and the values travel as parameters; a search for a tenant is restricted to that tenant,
  and its limit is between 1 and 1000.
\<close>

theorem search_query_text_fixed:
  assumes "BuildSearchQuery fmt_nano f = Inr (query, params)" "BuildSearchQuery fmt_nano g = Inr (query', params')"
    and "filters_used f = filters_used g"
  shows "\<exists>cs n. query = search_text cs \<and> query' = query \<and> set cs \<subseteq> {''1 = 1''} \<union> set fixed_clauses \<and>
    1 \<le> n \<and> n \<le> 1000 \<and> map_of params ''limit'' = Some (go_Itoa n) \<and>
    (go_TrimSpace (sf_TenantID f) \<noteq> [] \<longrightarrow>
      ''tenant_id = {tenant_id:String}'' \<in> set cs \<and> map_of params ''tenant_id'' = Some (go_TrimSpace (sf_TenantID f)))"
proof -
  let ?cs = "''1 = 1'' # map fst (filter snd (zip fixed_clauses (filters_used f)))"
  have sub: "set ?cs \<subseteq> {''1 = 1''} \<union> set fixed_clauses" by (auto dest: set_zip_leftD)
  have tenant: "''tenant_id = {tenant_id:String}'' \<in> set ?cs" if "go_TrimSpace (sf_TenantID f) \<noteq> []"
    using that by (simp add: fixed_clauses_def filters_used_def)
  obtain n where n: "1 \<le> n" "n \<le> 1000" "map_of params ''limit'' = Some (go_Itoa n)" "query = search_text ?cs"
    "map_of params ''tenant_id'' = (if go_TrimSpace (sf_TenantID f) = [] then None else Some (go_TrimSpace (sf_TenantID f)))"
    by (rule BuildSearchQuery_Inr [OF assms(1)])
  have "query' = query"
    by (rule BuildSearchQuery_Inr [OF assms(2)]) (simp add: n(4) assms(3))
  then show ?thesis using n sub tenant by (intro exI [of _ ?cs] exI [of _ n]) auto
qed

theorem search_query_text_fixed_witness:
  "\<exists>q ps ps'. BuildSearchQuery go_Itoa (zero_filters\<lparr>sf_TenantID := ''t1''\<rparr>) = Inr (q, ps) \<and>
     BuildSearchQuery go_Itoa (zero_filters\<lparr>sf_TenantID := ''1 OR 1 = 1''\<rparr>) = Inr (q, ps') \<and>
     map_of ps' ''tenant_id'' = Some ''1 OR 1 = 1''"
proof -
  let ?f = "zero_filters\<lparr>sf_TenantID := ''1 OR 1 = 1''\<rparr>" and ?g = "zero_filters\<lparr>sf_TenantID := ''t1''\<rparr>"
  have "\<exists>q ps. BuildSearchQuery go_Itoa (zero_filters\<lparr>sf_TenantID := t\<rparr>) = Inr (q, ps)" for t
    by (simp add: BuildSearchQuery_def zero_filters_def DefaultLimit_def MaxLimit_def Let_def split: prod.split)
  then obtain q ps q' ps' where f: "BuildSearchQuery go_Itoa ?f = Inr (q, ps)" and g: "BuildSearchQuery go_Itoa ?g = Inr (q', ps')"
    by meson
  have t: "go_TrimSpace ''1 OR 1 = 1'' = ''1 OR 1 = 1''" "go_TrimSpace ''t1'' = ''t1''"
    by (rule TrimSpace_ascii_id; simp add: ascii_text_def is_ascii_def ascii_spaces_def)+
  then have "filters_used ?f = filters_used ?g" by (simp add: filters_used_def zero_filters_def)
  from search_query_text_fixed [OF f g this] f g t show ?thesis by auto
qed

text \<open>
  C17: The simulation summary does not depend on the order in which Go visits its maps, and it is the
  report computed from the list of events directly: for every rule with an event that would have
  blocked, the number of such events, of distinct client addresses, the five most frequent paths
  and the first five request ids, the most frequent rule first and ties in the order of rule ids.
\<close>

theorem simulation_summary_correct:
  assumes "\<forall>rs. mset (visit_rules rs) = mset rs" "\<forall>ps. mset (visit_paths ps) = mset ps"
  shows "BuildSimulationSummary visit_rules visit_paths input = simulation_report input"
  by (rule summary_equals_report) (use assms in blast)+

definition demo_blocked :: "string \<Rightarrow> string \<Rightarrow> stored_event" where
  "demo_blocked rule ip = zero_stored_event\<lparr>se_WouldBlock := True, se_MatchedRuleID := rule, se_ClientIP := ip\<rparr>"

theorem simulation_summary_correct_witness:
  "map ss_RuleID (BuildSimulationSummary rev id [demo_blocked ''b'' ''1'', demo_blocked ''a'' ''1'', demo_blocked ''a'' ''2'']) =
   [''a'', ''b'']"
proof -
  have "go_TrimSpace ''a'' = ''a''" "go_TrimSpace ''b'' = ''b''"
    by (rule TrimSpace_ascii_id; simp add: ascii_text_def is_ascii_def ascii_spaces_def)+
  moreover have "BuildSimulationSummary rev id es = simulation_report es" for es
    by (rule simulation_summary_correct) simp_all
  ultimately show ?thesis
    by (simp add: simulation_report_def demo_blocked_def zero_stored_event_def summary_rule_id_def
        rule_report_def would_block_of_def Let_def)
qed

end
