(* ===== verification/Worker_Rules.thy ===== *)
theory Worker_Rules
  imports Control_Publish Gateway_Metrics "HOL-Library.List_Lexorder" "HOL-Library.Char_ord"
begin

text \<open>
  The worker: scanning a directory of managed rule sets (package \<open>rules\<close>), recording what was found
  in PostgreSQL, and the job around it (\<open>cmd/worker\<close>, package \<open>metrics\<close>). The file system is a
  record of the four calls the scan makes; an error of a call is \<open>None\<close>. Path arithmetic
  (\<open>filepath.Join\<close>, \<open>ToSlash\<close>), SHA-256 and the text of the time are parameters. The recorder works
  on the tables of \<open>Control_Db\<close>, which both services share.
\<close>

record file_system =
  fs_stat :: "string \<Rightarrow> bool option"
  fs_readdir :: "string \<Rightarrow> (string \<times> bool) list option"
  fs_walk :: "string \<Rightarrow> (string \<times> bool) list option"
  fs_read :: "string \<Rightarrow> string option"

text \<open>\<open>fs_stat\<close> tells whether the path is a directory; the lists hold names with that flag, and \<open>fs_walk\<close>
gives the entries below a directory by their path relative to it, with slashes.\<close>

record worker_env =
  we_fs :: file_system
  we_join :: "string \<Rightarrow> string \<Rightarrow> string"
  we_to_slash :: "string \<Rightarrow> string"
  we_sha256 :: "string \<Rightarrow> string"
  we_now :: string
  we_parse_json :: "string \<Rightarrow> json option"
  we_unicode :: unicode

definition MetadataFile :: string where "MetadataFile = ''ruleset.json''"

record rule_metadata =
  rm_Name :: string
  rm_Provider :: string
  rm_Source :: string
  rm_Version :: string
  rm_Description :: string
  rm_Enabled :: bool
  rm_Extra :: "json option"

definition zero_metadata :: rule_metadata where
  "zero_metadata = \<lparr>rm_Name = [], rm_Provider = [], rm_Source = [], rm_Version = [], rm_Description = [],
     rm_Enabled = False, rm_Extra = None\<rparr>"

record managed_version =
  wv_Version :: string
  wv_SourceURI :: string
  wv_LocalPath :: string
  wv_ChecksumSHA256 :: string
  wv_RulesetSnapshot :: json

record scanned_rule_set =
  ws_Name :: string
  ws_Provider :: string
  ws_Source :: string
  ws_Description :: string
  ws_LocalPath :: string
  ws_Enabled :: bool
  ws_Metadata :: json
  ws_Version :: managed_version

datatype scan_error =
    RulesDirRequired | RulesDirMissing | RulesDirNotDirectory | ReadDirFailed | MetadataUnreadable
  | MetadataUndecodable | SetNameRequired | SetVersionRequired | WalkFailed | RuleFileUnreadable
  | RecordFailed db_error | PoolFailed

definition into_metadata :: "unicode \<Rightarrow> rule_metadata into" where
  "into_metadata u = into_struct u False
     [(''name'', at_field rm_Name rm_Name_update into_string),
      (''provider'', at_field rm_Provider rm_Provider_update into_string),
      (''source'', at_field rm_Source rm_Source_update into_string),
      (''version'', at_field rm_Version rm_Version_update into_string),
      (''description'', at_field rm_Description rm_Description_update into_string),
      (''enabled'', at_field rm_Enabled rm_Enabled_update into_bool),
      (''metadata'', at_field rm_Extra rm_Extra_update into_raw)]"

section \<open>Scanning\<close>

definition readMetadata :: "worker_env \<Rightarrow> string \<Rightarrow> scan_error + rule_metadata" where
  "readMetadata w dir =
     (case fs_read (we_fs w) (we_join w dir MetadataFile) of
        None \<Rightarrow> Inl MetadataUnreadable
      | Some data \<Rightarrow>
          (case Option.bind (we_parse_json w data) (\<lambda>j. into_metadata (we_unicode w) j zero_metadata) of
             None \<Rightarrow> Inl MetadataUndecodable
           | Some m0 \<Rightarrow>
               let m = m0\<lparr>rm_Name := go_TrimSpace (rm_Name m0), rm_Provider := go_TrimSpace (rm_Provider m0),
                          rm_Source := go_TrimSpace (rm_Source m0), rm_Version := go_TrimSpace (rm_Version m0)\<rparr>
               in if rm_Name m = [] then Inl SetNameRequired
                  else if rm_Version m = [] then Inl SetVersionRequired
                  else Inr (m\<lparr>rm_Provider := (if rm_Provider m = [] then ''local'' else rm_Provider m),
                               rm_Source := (if rm_Source m = [] then ''local'' else rm_Source m)\<rparr>)))"

definition rule_file :: "string \<times> bool \<Rightarrow> bool" where
  "rule_file entry \<longleftrightarrow>
     (let (rel, is_dir) = entry in
      \<not> is_dir \<and> rel \<noteq> MetadataFile \<and>
      (go_HasSuffix rel ''.conf'' \<or> go_HasSuffix rel ''.data'' \<or> go_HasSuffix rel ''.txt''))"

text \<open>The bytes written to the hash: each name and each content is followed by a zero byte.\<close>

fun hash_files :: "worker_env \<Rightarrow> string \<Rightarrow> string list \<Rightarrow> string option" where
  "hash_files w dir [] = Some []"
| "hash_files w dir (rel # rels) =
     (case fs_read (we_fs w) (we_join w dir rel) of
        None \<Rightarrow> None
      | Some content \<Rightarrow>
          map_option (\<lambda>rest. rel @ [CHR 0x00] @ content @ [CHR 0x00] @ rest) (hash_files w dir rels))"

definition checksumDirectory :: "worker_env \<Rightarrow> string \<Rightarrow> scan_error + string list \<times> string" where
  "checksumDirectory w dir =
     (case fs_walk (we_fs w) dir of
        None \<Rightarrow> Inl WalkFailed
      | Some entries \<Rightarrow>
          let files = sort (map fst (filter rule_file entries)) in
          (case hash_files w dir files of
             None \<Rightarrow> Inl RuleFileUnreadable
           | Some bytes \<Rightarrow> Inr (files, go_HexEncode (we_sha256 w bytes))))"

definition worker_defaultRaw :: "json option \<Rightarrow> json \<Rightarrow> json" where
  "worker_defaultRaw v fallback = (case v of None \<Rightarrow> fallback | Some j \<Rightarrow> j)"

text \<open>A nil slice of files is printed as \<open>null\<close>.\<close>

definition scanRuleSet :: "worker_env \<Rightarrow> string \<Rightarrow> scan_error + scanned_rule_set" where
  "scanRuleSet w dir =
     (case readMetadata w dir of
        Inl err \<Rightarrow> Inl err
      | Inr m \<Rightarrow>
          (case checksumDirectory w dir of
             Inl err \<Rightarrow> Inl err
           | Inr (files, checksum) \<Rightarrow>
               Inr \<lparr>ws_Name = rm_Name m, ws_Provider = rm_Provider m, ws_Source = rm_Source m,
                    ws_Description = rm_Description m, ws_LocalPath = dir, ws_Enabled = rm_Enabled m,
                    ws_Metadata = worker_defaultRaw (rm_Extra m) (JObj []),
                    ws_Version =
                      \<lparr>wv_Version = rm_Version m, wv_SourceURI = ''local://'' @ we_to_slash w dir, wv_LocalPath = dir,
                       wv_ChecksumSHA256 = checksum,
                       wv_RulesetSnapshot =
                         JObj [(''files'', if files = [] then JNull else JArr (map JStr files)),
                               (''scanned_at'', JStr (we_now w))]\<rparr>\<rparr>))"

fun scan_all :: "worker_env \<Rightarrow> string list \<Rightarrow> scan_error + scanned_rule_set list" where
  "scan_all w [] = Inr []"
| "scan_all w (dir # dirs) =
     (case scanRuleSet w dir of
        Inl err \<Rightarrow> Inl err
      | Inr found \<Rightarrow> (case scan_all w dirs of Inl err \<Rightarrow> Inl err | Inr rest \<Rightarrow> Inr (found # rest)))"

definition ScanLocalDirectory :: "worker_env \<Rightarrow> string \<Rightarrow> scan_error + scanned_rule_set list" where
  "ScanLocalDirectory w root0 =
     (let root = go_TrimSpace root0 in
      if root = [] then Inl RulesDirRequired
      else
        (case fs_stat (we_fs w) root of
           None \<Rightarrow> Inl RulesDirMissing
         | Some is_dir \<Rightarrow>
             if \<not> is_dir then Inl RulesDirNotDirectory
             else if fs_stat (we_fs w) (we_join w root MetadataFile) \<noteq> None then scan_all w [root]
             else
               (case fs_readdir (we_fs w) root of
                  None \<Rightarrow> Inl ReadDirFailed
                | Some entries \<Rightarrow>
                    scan_all w (sort (map (\<lambda>entry. we_join w root (fst entry)) (filter snd entries))))))"

section \<open>Recording\<close>

text \<open>
  The two upserts of \<open>RecordManagedRuleSet\<close>: on a conflict the columns named in the statement are
  replaced. The schema allows three values of \<open>source\<close>.
\<close>

definition set_columns :: "pg_env \<Rightarrow> scanned_rule_set \<Rightarrow> rule_set_row \<Rightarrow> rule_set_row" where
  "set_columns env found r =
     r\<lparr>rs_provider := ws_Provider found, rs_source := ws_Source found, rs_description := Some (ws_Description found),
       rs_local_path := Some (ws_LocalPath found), rs_enabled := ws_Enabled found, rs_metadata := ws_Metadata found,
       rs_updated := pg_now env\<rparr>"

definition new_rule_set :: "pg_env \<Rightarrow> scanned_rule_set \<Rightarrow> rule_set_row" where
  "new_rule_set env found =
     \<lparr>rs_id = pg_id env 0, rs_name = ws_Name found, rs_provider = ws_Provider found, rs_source = ws_Source found,
      rs_description = Some (ws_Description found), rs_local_path = Some (ws_LocalPath found),
      rs_enabled = ws_Enabled found, rs_metadata = ws_Metadata found, rs_created = pg_now env,
      rs_updated = pg_now env, rs_deleted = None\<rparr>"

definition upsert_rule_set :: "pg_env \<Rightarrow> scanned_rule_set \<Rightarrow> database \<Rightarrow> string \<times> database" where
  "upsert_rule_set env found db =
     (case find (\<lambda>r. rs_name r = ws_Name found) (rule_sets db) of
        Some r \<Rightarrow>
          (rs_id r, db\<lparr>rule_sets := map (\<lambda>x. if rs_name x = ws_Name found then set_columns env found x else x) (rule_sets db)\<rparr>)
      | None \<Rightarrow> (pg_id env 0, db\<lparr>rule_sets := rule_sets db @ [new_rule_set env found]\<rparr>))"

definition version_columns :: "managed_version \<Rightarrow> rule_version_row \<Rightarrow> rule_version_row" where
  "version_columns v r =
     r\<lparr>rv_source_uri := Some (wv_SourceURI v), rv_local_path := Some (wv_LocalPath v),
       rv_checksum := Some (wv_ChecksumSHA256 v), rv_snapshot := wv_RulesetSnapshot v\<rparr>"

definition new_rule_version :: "pg_env \<Rightarrow> string \<Rightarrow> managed_version \<Rightarrow> rule_version_row" where
  "new_rule_version env setID v =
     \<lparr>rv_id = pg_id env 1, rv_set = setID, rv_version = wv_Version v, rv_source_uri = Some (wv_SourceURI v),
      rv_local_path = Some (wv_LocalPath v), rv_checksum = Some (wv_ChecksumSHA256 v),
      rv_snapshot = wv_RulesetSnapshot v, rv_released = None, rv_created = pg_now env\<rparr>"

definition upsert_rule_version :: "pg_env \<Rightarrow> string \<Rightarrow> managed_version \<Rightarrow> database \<Rightarrow> database" where
  "upsert_rule_version env setID v db =
     (let same = (\<lambda>r. rv_set r = setID \<and> rv_version r = wv_Version v) in
      if list_ex same (rule_versions db)
      then db\<lparr>rule_versions := map (\<lambda>r. if same r then version_columns v r else r) (rule_versions db)\<rparr>
      else db\<lparr>rule_versions := rule_versions db @ [new_rule_version env setID v]\<rparr>)"

text \<open>Statements: begin, the two upserts, the commit.\<close>

definition RecordManagedRuleSet :: "pg_env \<Rightarrow> scanned_rule_set \<Rightarrow> database \<Rightarrow> (db_error + unit) \<times> database" where
  "RecordManagedRuleSet env found db =
     (if \<not> (pg_up env 0 \<and> pg_up env 1 \<and> pg_up env 2 \<and> pg_up env 3)
         \<or> ws_Source found \<notin> {''local'', ''manual'', ''remote_placeholder''}
      then (Inl DbFailed, db)
      else
        let (setID, db1) = upsert_rule_set env found db
        in (Inr (), upsert_rule_version env setID (ws_Version found) db1))"

text \<open>Without a recorder nothing is written; with one, the sets recorded before an error stay recorded.\<close>

fun record_all :: "(nat \<Rightarrow> pg_env) \<Rightarrow> nat \<Rightarrow> scanned_rule_set list \<Rightarrow> database \<Rightarrow> (scan_error + unit) \<times> database" where
  "record_all envs k [] db = (Inr (), db)"
| "record_all envs k (found # rest) db =
     (case RecordManagedRuleSet (envs k) found db of
        (Inl err, db') \<Rightarrow> (Inl (RecordFailed err), db')
      | (Inr _, db') \<Rightarrow> record_all envs (Suc k) rest db')"

definition ScanAndRecord ::
  "worker_env \<Rightarrow> string \<Rightarrow> (nat \<Rightarrow> pg_env) option \<Rightarrow> database \<Rightarrow> (scan_error + scanned_rule_set list) \<times> database" where
  "ScanAndRecord w root recorder db =
     (case ScanLocalDirectory w root of
        Inl err \<Rightarrow> (Inl err, db)
      | Inr found \<Rightarrow>
          (case recorder of
             None \<Rightarrow> (Inr found, db)
           | Some envs \<Rightarrow>
               (case record_all envs 0 found db of
                  (Inl err, db') \<Rightarrow> (Inl err, db')
                | (Inr _, db') \<Rightarrow> (Inr found, db'))))"

section \<open>The job\<close>

record worker_metrics =
  wm_jobsTotal :: "string \<Rightarrow> nat"
  wm_jobErrorsTotal :: "string \<Rightarrow> nat"

definition IncJob :: "string \<Rightarrow> worker_metrics \<Rightarrow> worker_metrics" where
  "IncJob job m = m\<lparr>wm_jobsTotal := bump (metric_label job) (wm_jobsTotal m)\<rparr>"

definition IncJobError :: "string \<Rightarrow> worker_metrics \<Rightarrow> worker_metrics" where
  "IncJobError job m = m\<lparr>wm_jobErrorsTotal := bump (metric_label job) (wm_jobErrorsTotal m)\<rparr>"

text \<open>
  \<open>connect\<close> opens and pings the pool for a database URL; an error there returns before the error
  counter is reached.
\<close>

definition scanManagedRules ::
  "worker_env \<Rightarrow> string \<Rightarrow> (string \<Rightarrow> (nat \<Rightarrow> pg_env) option) \<Rightarrow> string \<Rightarrow> database \<Rightarrow> worker_metrics
   \<Rightarrow> scan_error option \<times> database \<times> worker_metrics" where
  "scanManagedRules w databaseURL connect rulesDir db m0 =
     (let job = ''managed_rules_scan''; m = IncJob job m0 in
      if databaseURL \<noteq> [] \<and> connect databaseURL = None then (Some PoolFailed, db, m)
      else
        let recorder = (if databaseURL \<noteq> [] then connect databaseURL else None) in
        (case ScanAndRecord w rulesDir recorder db of
           (Inl err, db') \<Rightarrow> (Some err, db', IncJobError job m)
         | (Inr _, db') \<Rightarrow> (None, db', m)))"

end
