(* ===== verification/Worker_Process.thy ===== *)
theory Worker_Process
  imports Worker_Facts Service_Lifecycle
begin

text \<open>
  The worker as a process (\<open>cmd/worker/main.go\<close>): it starts the metrics server, scans the managed
  rules once when a directory is configured, and waits for a signal. The metrics server answers
  requests and changes nothing; \<open>getenv\<close> is the process environment, where a variable that is not
  set is empty. A failure of the metrics server that ends the process during the scan is not
  told apart from one after it.
\<close>

definition worker_metrics_addr :: "(string \<Rightarrow> string) \<Rightarrow> string" where
  "worker_metrics_addr getenv =
     (let addr = getenv ''BEDEMWAF_WORKER_METRICS_ADDR'' in if addr = [] then '':9092'' else addr)"

definition worker_main ::
  "worker_env \<Rightarrow> (string \<Rightarrow> string) \<Rightarrow> (string \<Rightarrow> (nat \<Rightarrow> pg_env) option) \<Rightarrow> database \<Rightarrow> worker_metrics
   \<Rightarrow> phase \<times> database \<times> worker_metrics" where
  "worker_main w getenv connect db m =
     (let rulesDir = getenv ''BEDEMWAF_RULES_DIR'' in
      if rulesDir = [] then (Serving, db, m)
      else case scanManagedRules w (getenv ''BEDEMWAF_DATABASE_URL'') connect rulesDir db m of
             (Some err, db', m') \<Rightarrow> (Exited 1, db', m')
           | (None, db', m') \<Rightarrow> (Serving, db', m'))"

text \<open>The state of the serving process: the number of running requests for the metrics.\<close>

definition worker_service :: "nat service" where
  "worker_service =
     \<lparr>sv_accept = (\<lambda>n n'. n' = Suc n), sv_work = (\<lambda>n n'. n = Suc n'), sv_idle = (\<lambda>n. n = 0),
      sv_close = None, sv_flushed = (\<lambda>_. True)\<rparr>"

lemma worker_service_simps [simp]:
  "sv_accept worker_service n n' \<longleftrightarrow> n' = Suc n" "sv_work worker_service n n' \<longleftrightarrow> n = Suc n'"
  "sv_idle worker_service n \<longleftrightarrow> n = 0" "sv_close worker_service = None" "sv_flushed worker_service n"
  by (simp_all add: worker_service_def)

interpretation worker: graceful_service worker_service "\<lambda>_. True" "\<lambda>_. False" id
  by unfold_locales (auto dest!: gr0_implies_Suc)

text \<open>
  A worker that reaches its serving phase has recorded what the scan found, or had nothing to
  scan; and from there it can always exit with status 0.
\<close>

theorem serving_worker_has_scanned:
  assumes "worker_main w getenv connect db m = (Serving, db', m')"
  shows "(getenv ''BEDEMWAF_RULES_DIR'' = [] \<and> db' = db \<and> m' = m \<or>
      scanManagedRules w (getenv ''BEDEMWAF_DATABASE_URL'') connect (getenv ''BEDEMWAF_RULES_DIR'') db m = (None, db', m')) \<and>
    (\<exists>n. process_run worker_service (Serving, 0) (Exited 0, n))"
  using assms worker.can_stop [of Serving 0]
  by (auto simp: worker_main_def Let_def split: if_splits prod.splits option.splits)

end
