(* ===== verification/Policy_Wire.thy ===== *)
theory Policy_Wire
  imports Policy_Client_Facts Control_Snapshot
begin

text \<open>
  The format in which policies travel from the control API to the gateways: the JSON decoders of
  package \<open>policyclient\<close>, by the tags of its structs. They instantiate the codec that
  \<open>Policy_Client\<close> takes as a parameter; what remains a parameter is the text of JSON values, a
  parser and a printer.
\<close>

section \<open>Decoding on the gateway\<close>

definition zero_remote_custom_rule :: remote_custom_rule where
  "zero_remote_custom_rule =
     \<lparr>rcr_ID = [], rcr_Name = [], rcr_Priority = 0, rcr_Enabled = False, rcr_Action = [], rcr_StatusCode = 0,
      rcr_TerminalAllow = False, rcr_When = empty_condition_config\<rparr>"

definition into_remote_custom_rule :: "unicode \<Rightarrow> remote_custom_rule into" where
  "into_remote_custom_rule u = into_struct u False
     [(''id'', at_field rcr_ID rcr_ID_update into_string),
      (''name'', at_field rcr_Name rcr_Name_update into_string),
      (''priority'', at_field rcr_Priority rcr_Priority_update into_int),
      (''enabled'', at_field rcr_Enabled rcr_Enabled_update into_bool),
      (''action'', at_field rcr_Action rcr_Action_update into_string),
      (''status_code'', at_field rcr_StatusCode rcr_StatusCode_update into_int),
      (''terminal_allow'', at_field rcr_TerminalAllow rcr_TerminalAllow_update into_bool),
      (''when'', at_field rcr_When rcr_When_update (into_condition u))]"

definition zero_remote_rate_limit :: remote_rate_limit where
  "zero_remote_rate_limit =
     \<lparr>rrl_ID = [], rrl_Name = [], rrl_Enabled = False, rrl_Priority = 0, rrl_Match = empty_condition_config,
      rrl_KeyType = [], rrl_KeyHeader = [], rrl_Limit = 0, rrl_WindowSeconds = 0, rrl_Action = [],
      rrl_StatusCode = 0\<rparr>"

definition into_remote_rate_limit :: "unicode \<Rightarrow> remote_rate_limit into" where
  "into_remote_rate_limit u = into_struct u False
     [(''id'', at_field rrl_ID rrl_ID_update into_string),
      (''name'', at_field rrl_Name rrl_Name_update into_string),
      (''enabled'', at_field rrl_Enabled rrl_Enabled_update into_bool),
      (''priority'', at_field rrl_Priority rrl_Priority_update into_int),
      (''match'', at_field rrl_Match rrl_Match_update (into_condition u)),
      (''key_type'', at_field rrl_KeyType rrl_KeyType_update into_string),
      (''key_header'', at_field rrl_KeyHeader rrl_KeyHeader_update into_string),
      (''limit'', at_field rrl_Limit rrl_Limit_update into_int),
      (''window_seconds'', at_field rrl_WindowSeconds rrl_WindowSeconds_update into_int),
      (''action'', at_field rrl_Action rrl_Action_update into_string),
      (''status_code'', at_field rrl_StatusCode rrl_StatusCode_update into_int)]"

definition into_remote_origin :: "unicode \<Rightarrow> remote_origin into" where
  "into_remote_origin u = into_struct u False
     [(''url'', at_field ro_URL ro_URL_update into_string),
      (''scheme'', at_field ro_Scheme ro_Scheme_update into_string),
      (''host'', at_field ro_Host ro_Host_update into_string),
      (''port'', at_field ro_Port ro_Port_update into_int)]"

text \<open>A raw message keeps the text of its value.\<close>

definition into_raw_text :: "(json \<Rightarrow> string) \<Rightarrow> string into" where
  "into_raw_text print v old = Some (print v)"

definition into_remote_policy :: "unicode \<Rightarrow> (json \<Rightarrow> string) \<Rightarrow> gateway_policy into" where
  "into_remote_policy u print = into_struct u False
     [(''tenant_id'', at_field gp_TenantID gp_TenantID_update into_string),
      (''app_id'', at_field gp_AppID gp_AppID_update into_string),
      (''policy_id'', at_field gp_PolicyID gp_PolicyID_update into_string),
      (''policy_version_id'', at_field gp_PolicyVersionID gp_PolicyVersionID_update into_string),
      (''mode'', at_field gp_Mode gp_Mode_update into_string),
      (''origin'', at_field gp_Origin gp_Origin_update (into_remote_origin u)),
      (''ip_sets'', at_field gp_IPSets gp_IPSets_update (into_raw_text print)),
      (''custom_rules'', at_field gp_CustomRules gp_CustomRules_update (into_raw_text print)),
      (''rate_limits'', at_field gp_RateLimits gp_RateLimits_update (into_raw_text print)),
      (''waf'', at_field gp_WAF gp_WAF_update (into_raw_text print)),
      (''published_at'', at_field gp_PublishedAt gp_PublishedAt_update into_string)]"

definition zero_remote_policy :: gateway_policy where
  "zero_remote_policy =
     \<lparr>gp_TenantID = [], gp_AppID = [], gp_PolicyID = [], gp_PolicyVersionID = [], gp_Mode = [],
      gp_Origin = \<lparr>ro_URL = [], ro_Scheme = [], ro_Host = [], ro_Port = 0\<rparr>, gp_IPSets = [], gp_CustomRules = [],
      gp_RateLimits = [], gp_WAF = [], gp_PublishedAt = []\<rparr>"

text \<open>The codec of the client, from a parser and a printer of JSON text.\<close>

definition wire_codec :: "unicode \<Rightarrow> (string \<Rightarrow> json option) \<Rightarrow> (json \<Rightarrow> string) \<Rightarrow> json_codec" where
  "wire_codec u parse print =
     \<lparr>unmarshal_ip_sets = (\<lambda>s. Option.bind (parse s) (\<lambda>v. into_ip_sets v [])),
      unmarshal_custom_rules =
        (\<lambda>s. Option.bind (parse s) (\<lambda>v. into_slice zero_remote_custom_rule (into_remote_custom_rule u) v [])),
      unmarshal_rate_limits =
        (\<lambda>s. Option.bind (parse s) (\<lambda>v. into_slice zero_remote_rate_limit (into_remote_rate_limit u) v [])),
      decode_policy = (\<lambda>s. Option.bind (parse s) (\<lambda>v. into_remote_policy u print v zero_remote_policy))\<rparr>"

end
