(* ===== verification/Policy_Wire_Facts.thy ===== *)
theory Policy_Wire_Facts
  imports Policy_Wire Control_Server_Facts
begin

text \<open>
  Facts that relate the two ends of the wire. The control API checks a draft through structs that
  have only some of the fields of a rule, and publishes the raw values; the gateway decodes those
  values into structs with all fields. Both read the same values for the fields they share, and
  what the control API has checked of them is what the gateway asks of them.
\<close>

section \<open>Two structs decoded from one value\<close>

text \<open>
  \<open>strings.EqualFold\<close> is an equivalence: two names that fold to a third fold to each other. The
  tags of the structs are lower-case ASCII, so a member name selects the same tag in every struct
  that has it.
\<close>

definition fold_law :: "unicode \<Rightarrow> bool" where
  "fold_law u \<longleftrightarrow> (\<forall>a b c. go_EqualFold u a c \<longrightarrow> go_EqualFold u b c \<longrightarrow> go_EqualFold u a b)"

definition plain_tags :: "string list \<Rightarrow> bool" where
  "plain_tags ts \<longleftrightarrow> list_all (\<lambda>t. ascii_text t \<and> map ascii_lower t = t) ts"

lemma fold_law_ascii: "fold_law ascii_tables"
  by (auto simp: fold_law_def go_EqualFold_def ascii_tables_def)

lemma field_for_fold:
  assumes "plain_tags ts" "field_for u ts k = Some t"
  shows "t \<in> set ts \<and> go_EqualFold u t k"
  using assms by (auto simp: field_for_def plain_tags_def list_all_iff find_Some_iff EqualFold_refl_ascii split: if_splits)

lemma field_for_unique:
  assumes "fold_law u" "plain_tags ts" "plain_tags ts'" "field_for u ts k = Some t" "field_for u ts' k = Some t'"
  shows "t = t'"
proof -
  note f = field_for_fold [OF assms(2,4)] and f' = field_for_fold [OF assms(3,5)]
  then have "go_EqualFold u t t'" using assms(1) unfolding fold_law_def by blast
  then show ?thesis using f f' assms(2,3) by (simp add: go_EqualFold_def plain_tags_def list_all_iff split: if_splits)
qed

lemma field_for_total: "t \<in> set ts \<Longrightarrow> go_EqualFold u t k \<Longrightarrow> field_for u ts k \<noteq> None"
  using find_None_iff [of "\<lambda>t. go_EqualFold u t k" ts] by (auto simp: field_for_def)

lemma field_for_shared:
  assumes "fold_law u" "plain_tags ts" "plain_tags ts'" "field_for u ts k = Some t" "t \<in> set ts'"
  shows "field_for u ts' k = Some t"
  using field_for_total [OF assms(5)] field_for_fold [OF assms(2,4)] field_for_unique [OF assms(1-4)] by fastforce

text \<open>
  A relation between two structs, which may also speak of the members still to come, survives
  decoding when every field keeps it.
\<close>

definition member_step :: "unicode \<Rightarrow> (string \<times> 'a into) list \<Rightarrow> string \<Rightarrow> 'a into" where
  "member_step u fs k v a =
     (case field_for u (map fst fs) k of
        None \<Rightarrow> Some a
      | Some t \<Rightarrow> (case map_of fs t of None \<Rightarrow> Some a | Some dec \<Rightarrow> dec v a))"

lemma into_struct_steps: "into_struct u False fs = into_object (member_step u fs)"
  by (simp add: into_struct_def member_step_def [abs_def] cong: option.case_cong)

text \<open>A member goes to no field, to a field that one of the structs has, or to one that both have.\<close>

lemma member_cases:
  assumes "fold_law u" "plain_tags (map fst fs)" "plain_tags (map fst gs)"
  obtains (neither) "field_for u (map fst fs) k = None" "field_for u (map fst gs) k = None"
    | (left) t d where "field_for u (map fst fs) k = Some t" "map_of fs t = Some d"
        "field_for u (map fst gs) k = None" "map_of gs t = None"
    | (right) t d where "field_for u (map fst fs) k = None" "map_of fs t = None"
        "field_for u (map fst gs) k = Some t" "map_of gs t = Some d"
    | (both) t d d' where "field_for u (map fst fs) k = Some t" "map_of fs t = Some d"
        "field_for u (map fst gs) k = Some t" "map_of gs t = Some d'"
proof -
  have known: "map_of hs t \<noteq> None" if "field_for u (map fst hs) k = Some t" "plain_tags (map fst hs)" for hs :: "(string \<times> 'c) list" and t
    using field_for_fold [OF that(2,1)] map_of_eq_None_iff [of hs t] by auto
  have l: "map_of gs t = None" if "field_for u (map fst fs) k = Some t" "field_for u (map fst gs) k = None" for t
    using field_for_shared [OF assms that(1)] that(2) by (auto simp: map_of_eq_None_iff)
  have r: "map_of fs t = None" if "field_for u (map fst gs) k = Some t" "field_for u (map fst fs) k = None" for t
    using field_for_shared [OF assms(1,3,2) that(1)] that(2) by (auto simp: map_of_eq_None_iff)
  show ?thesis
  proof (cases "field_for u (map fst fs) k")
    case None
    then show ?thesis
      using neither right r known [OF _ assms(3)] by (cases "field_for u (map fst gs) k") blast+
  next
    case (Some t)
    then obtain d where d: "map_of fs t = Some d" using known [OF _ assms(2)] by blast
    show ?thesis
    proof (cases "field_for u (map fst gs) k")
      case None
      then show ?thesis using left Some d l by blast
    next
      case (Some t')
      then show ?thesis
        using both \<open>field_for u (map fst fs) k = Some t\<close> d known [OF Some assms(3)]
          field_for_unique [OF assms \<open>field_for u (map fst fs) k = Some t\<close> Some] by blast
    qed
  qed
qed

lemma into_members_agree:
  assumes "\<And>k v kvs a b a' b'. R ((k, v) # kvs) a b \<Longrightarrow> f k v a = Some a' \<Longrightarrow> g k v b = Some b' \<Longrightarrow> R kvs a' b'"
  shows "R kvs a b \<Longrightarrow> into_members f kvs a = Some a' \<Longrightarrow> into_members g kvs b = Some b' \<Longrightarrow> R [] a' b'"
proof (induction kvs arbitrary: a b)
  case (Cons kv kvs)
  obtain k v where kv: "kv = (k, v)" by force
  obtain x y where "f k v a = Some x" "g k v b = Some y" "into_members f kvs x = Some a'" "into_members g kvs y = Some b'"
    using Cons.prems(2,3) kv by (cases "f k v a"; cases "g k v b") auto
  with Cons.IH [OF assms] Cons.prems(1) kv show ?case by blast
qed simp

lemma into_struct_agree:
  assumes law: "fold_law u" "plain_tags (map fst fs)" "plain_tags (map fst gs)"
    and both: "\<And>k t d1 d2 v kvs a b a' b'. field_for u (map fst fs) k = Some t \<Longrightarrow> map_of fs t = Some d1 \<Longrightarrow>
      map_of gs t = Some d2 \<Longrightarrow> R ((k, v) # kvs) a b \<Longrightarrow> d1 v a = Some a' \<Longrightarrow> d2 v b = Some b' \<Longrightarrow> R kvs a' b'"
    and left: "\<And>k t d v kvs a b a'. map_of fs t = Some d \<Longrightarrow> map_of gs t = None \<Longrightarrow> R ((k, v) # kvs) a b \<Longrightarrow>
      d v a = Some a' \<Longrightarrow> R kvs a' b"
    and right: "\<And>k t d v kvs a b b'. map_of fs t = None \<Longrightarrow> map_of gs t = Some d \<Longrightarrow> R ((k, v) # kvs) a b \<Longrightarrow>
      d v b = Some b' \<Longrightarrow> R kvs a b'"
    and neither: "\<And>kv kvs a b. R (kv # kvs) a b \<Longrightarrow> R kvs a b"
    and start: "R (json_members j) a b" "into_struct u False fs j a = Some a'" "into_struct u False gs j b = Some b'"
  shows "R [] a' b'"
proof -
  have step: "R kvs x' y'" if "R ((k, v) # kvs) x y" "member_step u fs k v x = Some x'" "member_step u gs k v y = Some y'"
    for k v kvs x y x' y'
    by (rule member_cases [OF law, of k])
      (use that in \<open>auto simp: member_step_def intro: neither left right both\<close>)
  show ?thesis using into_members_agree [of R "member_step u fs" "member_step u gs", OF step] start
    by (cases j) (auto simp: into_struct_steps into_object_def json_members_def)
qed

section \<open>What both services read from a rule\<close>

text \<open>The same as a check of the two lists of fields.\<close>

lemma into_struct_related:
  assumes "fold_law u" "plain_tags (map fst fs)" "plain_tags (map fst gs)"
    and l: "list_all (\<lambda>(t, d). case map_of gs t of
        None \<Rightarrow> (\<forall>k v kvs a b a'. R ((k, v) # kvs) a b \<longrightarrow> d v a = Some a' \<longrightarrow> R kvs a' b)
      | Some d' \<Rightarrow> (\<forall>k v kvs a b a' b'. field_for u (map fst fs) k = Some t \<longrightarrow> R ((k, v) # kvs) a b \<longrightarrow>
          d v a = Some a' \<longrightarrow> d' v b = Some b' \<longrightarrow> R kvs a' b')) fs"
    and r: "list_all (\<lambda>(t, d). map_of fs t = None \<longrightarrow>
      (\<forall>k v kvs a b b'. R ((k, v) # kvs) a b \<longrightarrow> d v b = Some b' \<longrightarrow> R kvs a b')) gs"
    and "\<And>kv kvs a b. R (kv # kvs) a b \<Longrightarrow> R kvs a b"
    and "R (json_members j) a b" "into_struct u False fs j a = Some a'" "into_struct u False gs j b = Some b'"
  shows "R [] a' b'"
proof (rule into_struct_agree [where R = R, OF assms(1-3) _ _ _ assms(6-9)])
  fix k t d1 d2 v kvs and a a' :: 'a and b b' :: 'b
  show "R kvs a' b'" if "field_for u (map fst fs) k = Some t" "map_of fs t = Some d1" "map_of gs t = Some d2"
    "R ((k, v) # kvs) a b" "d1 v a = Some a'" "d2 v b = Some b'"
    using bspec [OF l [unfolded list_all_iff] map_of_SomeD [OF that(2)]] that by simp
  show "R kvs a' b" if "map_of fs t = Some d1" "map_of gs t = None" "R ((k, v) # kvs) a b" "d1 v a = Some a'"
    using bspec [OF l [unfolded list_all_iff] map_of_SomeD [OF that(1)]] that by simp
  show "R kvs a b'" if "map_of fs t = None" "map_of gs t = Some d2" "R ((k, v) # kvs) a b" "d2 v b = Some b'"
    using bspec [OF r [unfolded list_all_iff] map_of_SomeD [OF that(2)]] that by simp
qed

lemma struct_tags:
  "plain_tags [''id'', ''name'', ''action'', ''when'']"
  "plain_tags [''id'', ''name'', ''priority'', ''enabled'', ''action'', ''status_code'', ''terminal_allow'', ''when'']"
  "plain_tags [''id'', ''name'', ''match'', ''key_type'', ''key_header'', ''limit'', ''window_seconds'', ''action'']"
  "plain_tags [''id'', ''name'', ''enabled'', ''priority'', ''match'', ''key_type'', ''key_header'', ''limit'',
     ''window_seconds'', ''action'', ''status_code'']"
  "plain_tags [''mode'', ''rules'', ''ip_blocklist'', ''ip_sets'', ''custom_rules'', ''rate_limits'']"
  "plain_tags [''mode'', ''ip_sets'', ''custom_rules'', ''rate_limits'', ''waf'']"
  by (simp_all add: plain_tags_def go_eval)

definition same_custom_rule :: "policy_custom_rule_snapshot \<Rightarrow> remote_custom_rule \<Rightarrow> bool" where
  "same_custom_rule a b \<longleftrightarrow> pcs_ID a = rcr_ID b \<and> pcs_Name a = rcr_Name b \<and> pcs_Action a = rcr_Action b \<and> pcs_When a = rcr_When b"

definition same_rate_limit :: "policy_rate_limit_snapshot \<Rightarrow> remote_rate_limit \<Rightarrow> bool" where
  "same_rate_limit a b \<longleftrightarrow> prs_ID a = rrl_ID b \<and> prs_Name a = rrl_Name b \<and> prs_Match a = rrl_Match b \<and>
     prs_KeyType a = rrl_KeyType b \<and> prs_KeyHeader a = rrl_KeyHeader b \<and> prs_Limit a = rrl_Limit b \<and>
     prs_WindowSeconds a = rrl_WindowSeconds b \<and> prs_Action a = rrl_Action b"

lemma custom_rule_agree:
  assumes "fold_law u" "into_custom_rule_snapshot u v zero_custom_rule_snapshot = Some a"
    "into_remote_custom_rule u v zero_remote_custom_rule = Some b"
  shows "same_custom_rule a b"
  by (rule into_struct_related [where R = "\<lambda>_. same_custom_rule", OF assms(1) _ _ _ _ _ _
      assms(2) [unfolded into_custom_rule_snapshot_def] assms(3) [unfolded into_remote_custom_rule_def]])
    (auto simp: struct_tags same_custom_rule_def zero_custom_rule_snapshot_def
      zero_remote_custom_rule_def at_field_def)

lemma rate_limit_agree:
  assumes "fold_law u" "into_rate_limit_snapshot u v zero_rate_limit_snapshot = Some a"
    "into_remote_rate_limit u v zero_remote_rate_limit = Some b"
  shows "same_rate_limit a b"
  by (rule into_struct_related [where R = "\<lambda>_. same_rate_limit", OF assms(1) _ _ _ _ _ _
      assms(2) [unfolded into_rate_limit_snapshot_def] assms(3) [unfolded into_remote_rate_limit_def]])
    (auto simp: struct_tags same_rate_limit_def zero_rate_limit_snapshot_def
      zero_remote_rate_limit_def at_field_def)

lemma slice_agree:
  assumes "\<And>x a b. f x z = Some a \<Longrightarrow> g x z' = Some b \<Longrightarrow> R a b"
    and "into_slice z f v o1 = Some xs" "into_slice z' g v o2 = Some ys"
  shows "list_all2 R xs ys"
  using assms(2,3)
  by (auto simp: into_slice_def json_elems_def those_map_Some_iff list_all2_conv_all_nth assms(1) split: json.splits)

section \<open>The draft that is validated and the draft that is published\<close>

text \<open>The members of a snapshot that decode into its IP sets; a second one would be merged by one
decoder and replace the first for the other.\<close>

definition ip_set_members :: "unicode \<Rightarrow> (string \<times> json) list \<Rightarrow> nat" where
  "ip_set_members u kvs =
     length (filter (\<lambda>(k, v). field_for u [''mode'', ''rules'', ''ip_blocklist'', ''ip_sets'', ''custom_rules'', ''rate_limits''] k
       = Some ''ip_sets'') kvs)"

abbreviation snapshot_custom_rules :: "unicode \<Rightarrow> json \<Rightarrow> policy_custom_rule_snapshot list option" where
  "snapshot_custom_rules u v \<equiv> into_slice zero_custom_rule_snapshot (into_custom_rule_snapshot u) v []"

abbreviation snapshot_rate_limits :: "unicode \<Rightarrow> json \<Rightarrow> policy_rate_limit_snapshot list option" where
  "snapshot_rate_limits u v \<equiv> into_slice zero_rate_limit_snapshot (into_rate_limit_snapshot u) v []"

definition draft_matches :: "unicode \<Rightarrow> (string \<times> json) list \<Rightarrow> policy_snapshot \<Rightarrow> policy_draft \<Rightarrow> bool" where
  "draft_matches u kvs a b \<longleftrightarrow> ps_Mode a = pd_Mode b \<and>
     snapshot_custom_rules u (defaultRaw (pd_CustomRules b) (JArr [])) = Some (ps_CustomRules a) \<and>
     snapshot_rate_limits u (defaultRaw (pd_RateLimits b) (JArr [])) = Some (ps_RateLimits a) \<and>
     into_ip_sets (defaultRaw (pd_IPSets b) (JObj [])) [] = Some (ps_IPSets a) \<and>
     ip_set_members u kvs \<le> (if pd_IPSets b = None then 1 else 0)"

lemma into_slice_default:
  "into_slice z f v old = Some xs \<Longrightarrow> into_slice z f (defaultRaw (Some v) (JArr [])) [] = Some xs"
  by (cases "v = JNull") (auto simp: into_slice_def defaultRaw_def json_elems_def split: json.splits)

lemma into_ip_sets_none: "into_ip_sets (defaultRaw None (JObj [])) [] = Some []"
  by (simp add: into_ip_sets_def into_map_def defaultRaw_def json_members_def)

lemma into_ip_sets_default:
  "into_ip_sets v [] = Some xs \<Longrightarrow> into_ip_sets (defaultRaw (Some v) (JObj [])) [] = Some xs"
  by (cases "v = JNull") (auto simp: into_ip_sets_def into_map_def defaultRaw_def json_members_def split: json.splits)

lemma draft_agree:
  assumes "fold_law u" "into_snapshot u v zero_snapshot = Some a" "into_draft u v zero_draft = Some b"
    and "ip_set_members u (json_members v) \<le> 1"
  shows "draft_matches u [] a b"
proof (rule into_struct_related [where R = "draft_matches u", OF assms(1) _ _ _ _ _ _
      assms(2) [unfolded into_snapshot_def] assms(3) [unfolded into_draft_def]])
  show "draft_matches u (json_members v) zero_snapshot zero_draft"
    using assms(4) into_ip_sets_none by (simp add: draft_matches_def zero_snapshot_def zero_draft_def into_slice_def defaultRaw_def json_elems_def)
  show "draft_matches u (kv # kvs) a b \<Longrightarrow> draft_matches u kvs a b" for kv kvs a b
    by (auto simp: draft_matches_def ip_set_members_def split: if_splits prod.splits)
qed (simp_all add: struct_tags at_field_def, auto simp: draft_matches_def into_raw_def ip_set_members_def into_slice_default into_ip_sets_none into_ip_sets_default
    split: if_splits)

section \<open>What the gateway accepts of a checked policy\<close>

lemma blank_imp: "incomplete_header m \<Longrightarrow> blank_header m" "incomplete_query q \<Longrightarrow> blank_query q"
  by (auto simp: incomplete_header_def blank_header_def incomplete_query_def blank_query_def split: option.splits)

definition sets_cover :: "(string \<times> string list) list \<Rightarrow> ip_sets \<Rightarrow> bool" where
  "sets_cover ips sets \<longleftrightarrow> (\<forall>n. map_of ips n \<noteq> None \<longrightarrow> sets n \<noteq> None)"

lemma condition_accepted:
  assumes known: "sets_cover ips sets"
  shows "validatePolicyCondition ips c = None \<Longrightarrow> \<exists>c'. parseCondition sets c = Inr c'"
proof (induction c)
  case (ConditionConfig all any meth path pathPrefix host hdrContains hdrEquals query inSet notInSet)
  let ?c = "ConditionConfig all any meth path pathPrefix host hdrContains hdrEquals query inSet notInSet"
  have children: "operator_count ?c = 1" "first_error (validatePolicyCondition ips) all = None"
    "first_error (validatePolicyCondition ips) any = None" and leaf: "condition_leaf_error ips ?c = None"
    using ConditionConfig.prems by (auto simp: Let_def split: if_splits option.splits)
  have "\<not> incomplete_header hdrContains" "\<not> incomplete_header hdrEquals" "\<not> incomplete_query query"
    using leaf blank_imp by (auto simp: condition_leaf_error_def split: if_splits)
  moreover have "inSet = [] \<or> sets inSet \<noteq> None" "notInSet = [] \<or> sets notInSet \<noteq> None"
    using leaf known unfolding sets_cover_def condition_leaf_error_def by (simp_all split: if_splits) blast+
  ultimately have "validateCondition ?c sets = None" using children(1) by (simp add: validateCondition_def)
  moreover obtain all' where "traverse (parseCondition sets) all = Inr all'"
    using traverse_total [of all "parseCondition sets"] ConditionConfig.IH(1) children(2) by (auto simp: first_error_None)
  moreover obtain any' where "traverse (parseCondition sets) any = Inr any'"
    using traverse_total [of any "parseCondition sets"] ConditionConfig.IH(2) children(3) by (auto simp: first_error_None)
  ultimately show ?case by simp
qed

lemma prefixes_accepted: "first_error validateCIDR cs = None \<Longrightarrow> \<exists>ps. parsePrefixes cs = Inr ps"
  unfolding parsePrefixes_def
  by (rule traverse_total) (auto simp: first_error_None validateCIDR_def ParsePrefix_trimmed split: if_splits)

lemma ip_sets_accepted:
  assumes "\<forall>(n, cs) \<in> set ips. first_error validateCIDR cs = None"
  shows "(\<exists>sets'. parseIPSets_loop sets ips = Inr sets') \<longleftrightarrow> (\<forall>(n, cs) \<in> set ips. go_TrimSpace n \<noteq> [])"
  using assms
proof (induction ips arbitrary: sets)
  case (Cons entry ips)
  obtain name cs where entry: "entry = (name, cs)" by force
  obtain ps where ps: "parsePrefixes cs = Inr ps" using prefixes_accepted [of cs] Cons.prems entry by auto
  show ?case using Cons.IH [of "sets(name \<mapsto> ps)"] Cons.prems by (simp add: entry ps del: fun_upd_apply)
qed simp

lemma parseIPSets_loop_cover:
  "parseIPSets_loop sets ips = Inr sets' \<Longrightarrow> n \<in> dom sets \<union> fst ` set ips \<Longrightarrow> sets' n \<noteq> None"
proof (induction ips arbitrary: sets)
  case (Cons entry ips)
  then obtain name cs ps where "entry = (name, cs)" "parseIPSets_loop (sets(name \<mapsto> ps)) ips = Inr sets'"
    by (cases entry) (auto split: if_splits sum.splits)
  then show ?case using Cons.IH [of "sets(name \<mapsto> ps)"] Cons.prems(2) by (auto simp del: fun_upd_apply)
qed auto

lemma parseIPSets_cover: "parseIPSets ips = Inr sets \<Longrightarrow> sets_cover ips sets"
  using parseIPSets_loop_cover by (fastforce simp: sets_cover_def parseIPSets_def dest: map_of_SomeD)

lemma custom_rule_accepted:
  assumes "sets_cover ips sets" "validate_custom_rule ips a = None" "same_custom_rule a b"
  shows "(\<exists>r. parse_custom_rule sets seen (custom_rule_config_of b) = Inr r) \<longleftrightarrow>
    rcr_ID b \<notin> seen \<and> 0 \<le> rcr_StatusCode b \<and> rcr_StatusCode b \<le> 999"
proof -
  have v: "go_TrimSpace (rcr_ID b) \<noteq> []" "go_TrimSpace (rcr_Name b) \<noteq> []" "rcr_Action b \<in> {''allow'', ''count'', ''block''}"
    "validatePolicyCondition ips (rcr_When b) = None"
    using assms(2,3) by (auto simp: validate_custom_rule_def same_custom_rule_def split: if_splits)
  obtain c where "parseCondition sets (rcr_When b) = Inr c" using condition_accepted [OF assms(1) v(4)] by blast
  moreover have "rcr_Name b \<noteq> []" using v(2) by auto
  ultimately show ?thesis using v(1,3)
    by (auto simp: parse_custom_rule_def custom_rule_config_of_def action_defs)
qed

lemma custom_rules_accepted:
  assumes "sets_cover ips sets" "list_all2 same_custom_rule as bs"
    and "\<forall>a \<in> set as. validate_custom_rule ips a = None"
  shows "(\<exists>rs. parse_custom_rules_loop sets seen (map custom_rule_config_of bs) = Inr rs) \<longleftrightarrow>
    distinct (map rcr_ID bs) \<and> set (map rcr_ID bs) \<inter> seen = {} \<and>
    (\<forall>b \<in> set bs. 0 \<le> rcr_StatusCode b \<and> rcr_StatusCode b \<le> 999)"
  using assms(2,3)
proof (induction as bs arbitrary: seen rule: list_all2_induct)
  case (Cons a as b bs)
  have id: "crc_ID (custom_rule_config_of b) = rcr_ID b" by (simp add: custom_rule_config_of_def)
  have one: "(\<exists>r. parse_custom_rule sets seen (custom_rule_config_of b) = Inr r) \<longleftrightarrow>
      rcr_ID b \<notin> seen \<and> 0 \<le> rcr_StatusCode b \<and> rcr_StatusCode b \<le> 999"
    using custom_rule_accepted [OF assms(1) _ Cons.hyps(1), where seen = seen] Cons.prems by simp
  have "(\<exists>rs. parse_custom_rules_loop sets seen (map custom_rule_config_of (b # bs)) = Inr rs) \<longleftrightarrow>
      (\<exists>r. parse_custom_rule sets seen (custom_rule_config_of b) = Inr r) \<and>
      (\<exists>rs. parse_custom_rules_loop sets (insert (rcr_ID b) seen) (map custom_rule_config_of bs) = Inr rs)"
    by (auto simp: id split: sum.splits)
  then show ?case using one Cons.IH [of "insert (rcr_ID b) seen"] Cons.prems by auto
qed simp

lemma rate_limit_accepted:
  assumes "sets_cover ips sets" "validate_rate_limit ips a = None" "same_rate_limit a b"
  shows "(\<exists>r. parse_rate_limit sets seen (rate_limit_config_of b) = Inr r) \<longleftrightarrow>
    rrl_ID b \<notin> seen \<and> 0 \<le> rrl_StatusCode b \<and> rrl_StatusCode b \<le> 999"
proof -
  have v: "go_TrimSpace (rrl_ID b) \<noteq> []" "go_TrimSpace (rrl_Name b) \<noteq> []" "rrl_Action b \<in> {''count'', ''block''}"
    "0 < rrl_Limit b" "0 < rrl_WindowSeconds b" "rrl_KeyType b \<in> rate_key_types"
    "rrl_KeyType b = ''header'' \<longrightarrow> go_TrimSpace (rrl_KeyHeader b) \<noteq> []"
    "hasCondition (rrl_Match b) \<Longrightarrow> validatePolicyCondition ips (rrl_Match b) = None"
    using assms(2,3)
    by (auto simp: validate_rate_limit_def same_rate_limit_def rate_key_types_def hasPolicyCondition_def hasCondition_def split: if_splits)
  have "\<exists>m. parse_match_expression sets (rrl_Match b) = Inr m"
    using condition_accepted [OF assms(1) v(8)] by (auto simp: parse_match_expression_def)
  moreover have "rrl_Name b \<noteq> []" "rrl_KeyType b = ''header'' \<longrightarrow> rrl_KeyHeader b \<noteq> []" using v(2,7) by auto
  ultimately show ?thesis using v(1,3-6)
    by (auto simp: parse_rate_limit_def rate_limit_config_of_def action_defs)
qed

lemma rate_limits_accepted:
  assumes "sets_cover ips sets" "list_all2 same_rate_limit as bs"
    and "\<forall>a \<in> set as. validate_rate_limit ips a = None"
  shows "(\<exists>rs. parse_rate_limits_loop sets seen (map rate_limit_config_of bs) = Inr rs) \<longleftrightarrow>
    distinct (map rrl_ID bs) \<and> set (map rrl_ID bs) \<inter> seen = {} \<and>
    (\<forall>b \<in> set bs. 0 \<le> rrl_StatusCode b \<and> rrl_StatusCode b \<le> 999)"
  using assms(2,3)
proof (induction as bs arbitrary: seen rule: list_all2_induct)
  case (Cons a as b bs)
  have id: "rlc_ID (rate_limit_config_of b) = rrl_ID b" by (simp add: rate_limit_config_of_def)
  have one: "(\<exists>r. parse_rate_limit sets seen (rate_limit_config_of b) = Inr r) \<longleftrightarrow>
      rrl_ID b \<notin> seen \<and> 0 \<le> rrl_StatusCode b \<and> rrl_StatusCode b \<le> 999"
    using rate_limit_accepted [OF assms(1) _ Cons.hyps(1), where seen = seen] Cons.prems by simp
  have "(\<exists>rs. parse_rate_limits_loop sets seen (map rate_limit_config_of (b # bs)) = Inr rs) \<longleftrightarrow>
      (\<exists>r. parse_rate_limit sets seen (rate_limit_config_of b) = Inr r) \<and>
      (\<exists>rs. parse_rate_limits_loop sets (insert (rrl_ID b) seen) (map rate_limit_config_of bs) = Inr rs)"
    by (auto simp: id split: sum.splits)
  then show ?case using one Cons.IH [of "insert (rrl_ID b) seen"] Cons.prems by auto
qed simp

end
