(* ===== verification/Policy_Wire_Properties.thy ===== *)
theory Policy_Wire_Properties
  imports Policy_Wire_Facts Control_Db_Properties
begin

text \<open>
  From a checked draft to an app in the gateway: publishing, the encoded response, fetching and
  loading, as one property.
\<close>

section \<open>A published policy on the wire\<close>














section \<open>Properties\<close>










lemma wire_trim [simp]: "go_TrimSpace ''r1'' = ''r1''" "go_TrimSpace ''admin'' = ''admin''"
  by (rule TrimSpace_ascii_id; simp add: ascii_text_def is_ascii_def ascii_spaces_def)+




end
