(* ===== verification/Demo_App.thy ===== *)
theory Demo_App
  imports Gateway_Facts Go_Json "HOL-Library.List_Lexorder" "HOL-Library.Char_ord"
begin

text \<open>
  The demo application (\<open>deployments/demo-app\<close>), the origin of the local set-up, as the operation
  through which a gateway reaches its origin. \<open>print\<close> is the text that the JSON encoder gives a
  value and \<open>now\<close> the time as text; a path is clean, as the multiplexer redirects any other one. The
  encoder writes the members of a map in the order of their names.
\<close>

definition json_of_headers :: "values_map \<Rightarrow> json" where
  "json_of_headers h = JObj (map (\<lambda>(name, vs). (name, JArr (map JStr vs))) (sort_key fst h))"

definition echo_body :: "http_request \<Rightarrow> string" where
  "echo_body r = (case rq_Body r of None \<Rightarrow> [] | Some b \<Rightarrow> take 1048576 (body_data b))"

text \<open>The values of the five handlers; a pattern with the method GET also takes HEAD.\<close>

definition demo_routes :: "string \<Rightarrow> (string \<times> bool \<times> (http_request \<Rightarrow> json)) list" where
  "demo_routes now =
     [(''/'', True, \<lambda>r. JObj [(''message'', JStr ''request reached the demo application''),
         (''service'', JStr ''bedemwaf-demo-app''), (''time'', JStr now)]),
      (''/login'', True, \<lambda>r. JObj [(''hint'', JStr ''rate limit demo endpoint''), (''page'', JStr ''login'')]),
      (''/admin'', True, \<lambda>r. JObj [(''hint'', JStr ''custom rule demo endpoint''), (''page'', JStr ''admin'')]),
      (''/api/echo'', False, \<lambda>r. JObj [(''body'', JStr (echo_body r)), (''headers'', json_of_headers (rq_Header r)),
         (''method'', JStr (rq_Method r)), (''path'', JStr (rq_Path r))]),
      (''/healthz'', True, \<lambda>r. JObj [(''status'', JStr ''ok'')])]"

definition demo_writeJSON :: "(json \<Rightarrow> string) \<Rightarrow> http_request \<Rightarrow> json \<Rightarrow> origin_reply" where
  "demo_writeJSON print r v =
     OriginReply 200 [(''Content-Type'', [''application/json''])]
       (if rq_Method r = ''HEAD'' then [] else print v @ [CHR 0x0A]) True"

definition text_reply :: "int \<Rightarrow> values_map \<Rightarrow> http_request \<Rightarrow> string \<Rightarrow> origin_reply" where
  "text_reply status h r body =
     OriginReply status (h @ [(''Content-Type'', [''text/plain; charset=utf-8'']), (''X-Content-Type-Options'', [''nosniff''])])
       (if rq_Method r = ''HEAD'' then [] else body @ [CHR 0x0A]) True"

definition demo_serve :: "(json \<Rightarrow> string) \<Rightarrow> string \<Rightarrow> http_request \<Rightarrow> origin_reply" where
  "demo_serve print now r =
     (case map_of (demo_routes now) (rq_Path r) of
        None \<Rightarrow> text_reply 404 [] r ''404 page not found''
      | Some (get_only, handler) \<Rightarrow>
          if get_only \<and> rq_Method r \<notin> {''GET'', ''HEAD''}
          then text_reply 405 [(''Allow'', [''GET, HEAD''])] r ''Method Not Allowed''
          else demo_writeJSON print r (handler r))"

text \<open>The echo handler gives back up to 1 MiB of the body, whatever the method.\<close>

lemma demo_echo:
  assumes "rq_Path r = ''/api/echo''" "rq_Method r \<noteq> ''HEAD''" "rq_Body r = Some b" "length (body_data b) \<le> 1048576"
  shows "demo_serve print now r = OriginReply 200 [(''Content-Type'', [''application/json''])]
    (print (JObj [(''body'', JStr (body_data b)), (''headers'', json_of_headers (rq_Header r)),
       (''method'', JStr (rq_Method r)), (''path'', JStr (rq_Path r))]) @ [CHR 0x0A]) True"
  using assms by (simp add: demo_serve_def demo_routes_def demo_writeJSON_def echo_body_def)

text \<open>Every reply can be passed on: it is complete and has a final status.\<close>

lemma demo_reply: "\<exists>st h body. demo_serve print now r = OriginReply st h body True \<and> st \<in> {200, 404, 405}"
  by (auto simp: demo_serve_def text_reply_def demo_writeJSON_def split: option.split)

text \<open>
  The local set-up end to end: a request to the echo endpoint that the gateway lets pass comes back
  with the body the client sent.
\<close>

theorem echo_through_gateway:
  assumes "routed ops u r s a" "decision_for ops g u rd r s a = Some d" "app_Mode a \<noteq> ModeBlock \<or> \<not> WouldBlock d"
    and "\<And>url req w. op_origin ops url req w = (demo_serve print now req, w)" "audit_quiet ops (gs_audit s)"
    and "prepareRequestBody g r = (Inr (preview, exceeded), r')" "rq_Body r = Some b" "length (body_data b) \<le> 1048576"
    and "RequestBodyLimitBytes (WAF (gw_cfg g)) = limit" "0 < limit" "limit < 2 ^ 63 - 1"
    and "rq_Path r = ''/api/echo''" "rq_Method r \<noteq> ''HEAD''" "rn = ServeHTTP ops g u rq sc rd r s"
  shows "final_status (rn_w rn) = 200 \<and>
    (\<exists>vs. resp_body (rn_w rn) = print (JObj ((''body'', JStr (body_data b)) # vs)) @ [CHR 0x0A])"
proof -
  let ?f = "forwarded_request (requestID rd) (snd (prepareRequestBody g r))"
  obtain b' where b': "rq_Body ?f = Some b'" "body_data b' = body_data b"
    using prepareRequestBody_ok(1) [OF assms(6,7,9-11)] assms(6) by (auto simp: forwarded_same_request)
  have "rq_Path ?f = ''/api/echo''" "rq_Method ?f \<noteq> ''HEAD''"
    using assms(12,13) by (simp_all add: forwarded_same_request prepared_same_envelope)
  note e = demo_echo [OF this b'(1), of print now, unfolded b'(2), OF assms(8)]
  have key: "go_CanonicalHeaderKey ''Content-Length'' = ''Content-Length''" by code_simp
  have fits: "body_fits [(''Content-Type'', [''application/json''])] x" for x
    by (simp add: body_fits_def add_headers_def declared_length_def go_ParseInt64_def header_Get_def values_of_def key)
  show ?thesis
    by (rule forwarded_request_served [OF assms(1-3), of _ _ _ "gs_origin s" rq sc])
      (use assms(4,5,14) e fits in \<open>auto simp: body_allowed_def\<close>)
qed

end
