(* ===== verification/Spec2Isabelle.thy ===== *)
theory Spec2Isabelle
  imports Gateway_Process Control_Server_Properties Control_Process Control_Events_Facts Worker_Process
    Policy_Wire_Properties Demo_App
begin

text \<open>
  BedemWAF is a web application firewall made of three Go services and a demo origin. Gateways stand
  in front of applications: for every request a gateway finds the app by host name, evaluates its
  policy (IP lists, rate limits, body size, custom rules, a WAF engine), blocks the request or passes
  it to the origin, and writes an audit event. The control API keeps tenants, apps and policies in
  PostgreSQL, publishes policies to the gateways and searches the audit events in ClickHouse. The
  worker scans directories of managed rules and records them in the same database. This library
  models the services from their source under \<open>src/\<close> and proves what makes them correct; every
  definition keeps the name of the Go function it translates where that is possible.

  \<^bold>\<open>Conventions.\<close> A struct is a record, an enumeration or an error value a datatype, a Go string a list of
  8-bit characters. Functions that return an error return a sum with the error on the left (or an
  option when only the fact of the error matters), and calls that may panic return an
  \<open>outcome\<close>. Integers are mathematical where the code bounds them, \<open>wrap64\<close> or a word where it does
  not. Methods with an effect take and return their state. All definitions that witnesses evaluate are
  executable.

  \<^bold>\<open>Language and library\<close> (no source under \<open>src/\<close>; modelled from the documented behaviour).
  \<^item> \<open>Go_Prelude\<close>, \<open>Go_Numbers\<close>: text functions of \<open>strings\<close> and \<open>unicode\<close>, decimal and hexadecimal text,
    wrap-around, panics.
  \<^item> \<open>Go_Http\<close>: headers, queries, requests, bodies and responses of \<open>net/http\<close>, with informational and
    invalid statuses.
  \<^item> \<open>Go_Json\<close>: decoding of JSON values into variables by struct tags, including the merging of repeated
    members and case-insensitive names.
  \<^item> \<open>Netip\<close>: addresses and prefixes of \<open>net/netip\<close>; \<open>Contains\<close> is membership in the CIDR block.
  \<^item> \<open>Service_Lifecycle\<close>: a server process from serving to its exit as a step relation, and the locale
    \<open>graceful_service\<close>, which three interpretations instantiate with the services.

  \<^bold>\<open>Gateway\<close> (\<open>services/gateway\<close>).
  \<^item> \<open>Gateway_Config\<close>: \<open>internal/config\<close>; defaults, validation, \<open>LoadFile\<close>.
  \<^item> \<open>Decision\<close>, \<open>Redaction\<close>, \<open>Gateway_Metrics\<close>: \<open>internal/decision\<close>, \<open>internal/audit/redaction\<close>,
    \<open>internal/metrics\<close>. Redaction is shown to hide sensitive query values and headers.
  \<^item> \<open>Policy\<close>, \<open>Policy_Facts\<close>: \<open>internal/policy/store.go\<close>. Parsed apps are well formed (\<open>wf_app\<close>); rules,
    conditions and IP lists evaluate as their configuration says (refinement of \<open>custom_rules_spec\<close> and
    \<open>config_holds\<close>); the host table is exact. Locale \<open>policy_provider\<close>.
  \<^item> \<open>Rate_Limit\<close>, \<open>Rate_Limit_Facts\<close>: \<open>internal/ratelimit\<close>; memory, failing and Redis stores behind the
    locale of a fixed-window counter, with the Lua script and the RESP codec.
  \<^item> \<open>Audit_Log\<close>, \<open>Audit_Log_Facts\<close>: \<open>internal/audit\<close>; sinks and the queueing dispatcher as a state machine of
    request goroutines, worker and shutdown in any interleaving (\<open>audit_step\<close>). Locale \<open>event_logger\<close>.
  \<^item> \<open>Policy_Client\<close>, \<open>Policy_Client_Facts\<close>: \<open>internal/policyclient\<close>; fetching, the cache with one lock per host,
    and the fallback when a fetch fails, with concurrent look-ups as an interleaving of their stages.
  \<^item> \<open>Waf\<close>: \<open>internal/waf\<close> and \<open>internal/waf/coraza\<close>; the locale \<open>waf_engine\<close> with the allow-all engine and
    Coraza, whose library is a record of operations.
  \<^item> \<open>Gateway\<close>, \<open>Gateway_Facts\<close>, \<open>Gateway_Safety\<close>, \<open>Gateway_Properties\<close>: \<open>internal/proxy/gateway.go\<close>, the whole
    \<open>ServeHTTP\<close> over a record of operations for its collaborators; the locale \<open>gateway_env\<close> collects the
    contracts above and is interpreted for two complete gateways.
  \<^item> \<open>Gateway_Main\<close>, \<open>Gateway_Process\<close>: \<open>cmd/gateway/main.go\<close>; start-up, the running process and its
    shutdown.

  \<^bold>\<open>Control API\<close> (\<open>services/control-api\<close>).
  \<^item> \<open>Control_Models\<close>, \<open>Control_Validation\<close>, \<open>Control_Snapshot\<close>: \<open>internal/models\<close>,
    \<open>internal/httpapi/validation.go\<close> and the checks on policy snapshots of \<open>server.go\<close>.
  \<^item> \<open>Control_Db\<close>, \<open>Control_Publish\<close>: \<open>internal/db\<close>; every method of the repository on tables with the keys
    and checks of the migration. A statement of a transaction fails when the environment says so, and the
    tables are then as before.
  \<^item> \<open>Control_Db_Facts\<close>, \<open>Control_Db_History\<close>, \<open>Control_Db_Properties\<close>: the invariant \<open>db_ok\<close> of the tables, runs of
    repository calls (\<open>db_run\<close>), isolation of tenants, optimistic locking, append-only versions and the
    visibility of what is published.
  \<^item> \<open>Control_Config\<close>: \<open>internal/config\<close> and \<open>internal/auth\<close>.
  \<^item> \<open>Control_Events\<close>, \<open>Control_Events_Facts\<close>: \<open>internal/events\<close>; the parametrised search query, the store and
    the simulation summary against its specification.
  \<^item> \<open>Control_Server\<close>, \<open>Control_Server_Facts\<close>, \<open>Control_Server_Properties\<close>: \<open>internal/httpapi\<close>; handlers, guards,
    routes and middlewares. The locale \<open>state_law\<close> lifts a law about the writing handlers to the server;
    sequences of requests are \<open>api_run\<close>.
  \<^item> \<open>Control_Process\<close>: \<open>cmd/control-api/main.go\<close>.

  \<^bold>\<open>Worker\<close> (\<open>services/worker\<close>): \<open>Worker_Rules\<close> and \<open>Worker_Facts\<close> for \<open>internal/rules\<close> and the scan job,
  \<open>Worker_Process\<close> for \<open>cmd/worker/main.go\<close>. \<^bold>\<open>Demo origin\<close> (\<open>deployments/demo-app\<close>): \<open>Demo_App\<close>.

  \<^bold>\<open>Between the services.\<close> \<open>Policy_Wire\<close> has the decoders of the gateway's client by their struct tags;
  \<open>Policy_Wire_Facts\<close> shows that both ends read the same values from a published policy although they
  decode it into different structs, and \<open>Policy_Wire_Properties\<close> that a gateway loads a published policy
  exactly when it meets the few requirements that only the gateway checks. The worker records into the
  tables of \<open>Control_Db\<close>, and \<open>Demo_App\<close> is an origin that a gateway forwards to.

  \<^bold>\<open>Parameters and hypotheses.\<close> The Unicode tables, \<open>url.Parse\<close>, the query codec of \<open>net/url\<close>, SHA-256, the text
  of JSON and of times, YAML decoding, the file system, the HTTP exchanges, the Coraza library and the
  state of PostgreSQL at each statement (clock, generated ids, UUID syntax, whether it answers) are
  arguments of the definitions that use them. Theorems that need something of them say so: generated
  ids are fresh (\<open>fresh_ids\<close>), case folding is an equivalence (\<open>fold_law\<close>), printed JSON reads back
  (\<open>text_reads_back\<close>), printed times parse back.

  \<^bold>\<open>Termination, bounds and fuel.\<close> All loops are structural recursions or have a termination proof; there is no
  fuel. The worker of the dispatcher runs for ever only while events arrive (its steps are well founded
  otherwise); processes are step relations, and that they can always stop is proved with a rank.
  \<open>ipv6_groups\<close> is bounded by the eight groups of an address. Counters of events are natural numbers.

  \<^bold>\<open>Not modelled.\<close> Log lines, timeouts of contexts as times (an expiry is a step or a flag), the bytes of the
  Prometheus exposition, TCP and TLS, and \<open>recoveryMiddleware\<close> of the control API, since no handler of the
  model panics there. Handlers of the control API run one after the other: a request is one repository
  call or two, and each call is one transaction. A failure of the worker's metrics server during its scan
  is not told apart from one after it. The struct of the worker's package \<open>events\<close> is used by no code. The
  dashboard (TypeScript), the container and database set-up and the scripts are outside the Go services.
\<close>

end
